(* ===== verification/Prelude.thy ===== *)
theory Prelude
  imports Main "HOL-Library.Word" "HOL-Library.Multiset"
begin

text \<open>
  Shared vocabulary of the development: names for the machine integers and byte strings of
  the Go sources, the functions of Go's \<^verbatim>\<open>strings\<close>, \<^verbatim>\<open>strconv\<close>, \<^verbatim>\<open>encoding/hex\<close> and
  \<^verbatim>\<open>encoding/binary\<close> packages that the program calls, and the generic lemmas the component
  theories build on. A Go string is a sequence of bytes and is modelled by
  \<^typ>\<open>string\<close> (a list of 8-bit characters).
\<close>

unbundle bit_operations_syntax

section \<open>Types and lemma collections\<close>

type_synonym u8 = "8 word"
type_synonym u16 = "16 word"
type_synonym u32 = "32 word"
type_synonym u64 = "64 word"
type_synonym i64 = "64 word"
type_synonym bytes = "u8 list"

named_theorems go_simps \<open>equations of the modelled Go library functions\<close>
named_theorems inv_intros \<open>preservation lemmas of component invariants\<close>

section \<open>Histories\<close>

text \<open>A sequence of operations that change a state; \<^const>\<open>None\<close> ends it.\<close>

fun runSteps :: "('o \<Rightarrow> 's \<Rightarrow> 's option) \<Rightarrow> 'o list \<Rightarrow> 's \<Rightarrow> 's option" where
  "runSteps step [] s = Some s"
| "runSteps step (op # ops) s = (case step op s of None \<Rightarrow> None | Some s \<Rightarrow> runSteps step ops s)"

text \<open>The contract between the operations of a component and those who reason about histories of them: an invariant that
  every operation keeps. What no operation changes is such an invariant, for each of its values.\<close>

locale invariant_run =
  fixes step :: "'o \<Rightarrow> 's \<Rightarrow> 's option" and inv :: "'s \<Rightarrow> bool"
  assumes step_inv: "inv s \<Longrightarrow> step op s = Some s' \<Longrightarrow> inv s'"
begin

lemma run_inv: "inv s \<Longrightarrow> runSteps step ops s = Some s' \<Longrightarrow> inv s'"
  by (induction ops arbitrary: s) (auto split: option.splits dest: step_inv)

lemma run_inv_prefix:
  "inv s \<Longrightarrow> runSteps step (ops @ ops') s = Some s' \<Longrightarrow>
   \<exists>s1. runSteps step ops s = Some s1 \<and> inv s1 \<and> runSteps step ops' s1 = Some s'"
  by (induction ops arbitrary: s) (auto split: option.splits dest: step_inv)

end

locale framed_run =
  fixes step :: "'o \<Rightarrow> 's \<Rightarrow> 's option" and view :: "'s \<Rightarrow> 'v"
  assumes step_view: "step op s = Some s' \<Longrightarrow> view s' = view s"

sublocale framed_run < kept: invariant_run step "\<lambda>s. view s = v" for v
  by unfold_locales (simp add: step_view)

context framed_run
begin

lemma run_view: "runSteps step ops s = Some s' \<Longrightarrow> view s' = view s"
  by (rule kept.run_inv) simp

end

section \<open>Bytes and characters\<close>

definition byte_of_char :: "char \<Rightarrow> u8" where
  "byte_of_char c = of_nat (of_char c)"

definition char_of_byte :: "u8 \<Rightarrow> char" where
  "char_of_byte b = char_of (unat b)"

text \<open>The Go conversions \<open>[]byte(s)\<close> and \<open>string(b)\<close>.\<close>

definition bytes_of_string :: "string \<Rightarrow> bytes" where
  "bytes_of_string s = map byte_of_char s"

definition string_of_bytes :: "bytes \<Rightarrow> string" where
  "string_of_bytes b = map char_of_byte b"

lemma of_char_less_256 [simp]: "(of_char c :: nat) < 256"
proof -
  have "(of_char c :: nat) \<in> range of_char" by simp
  then show ?thesis unfolding range_nat_of_char by auto
qed

lemma unat_byte_of_char [simp]: "unat (byte_of_char c) = of_char c"
  by (simp add: byte_of_char_def unat_of_nat)

lemma char_of_byte_of_char [simp]: "char_of_byte (byte_of_char c) = c"
  by (simp add: char_of_byte_def)

lemma unat_u8_less [simp]: "unat (b :: u8) < 256"
  using unsigned_less [of b] by simp

lemma byte_of_char_of_byte [simp]: "byte_of_char (char_of_byte b) = b"
  by (simp add: byte_of_char_def char_of_byte_def)

lemma string_of_bytes_of_string [simp]: "string_of_bytes (bytes_of_string s) = s"
  by (simp add: string_of_bytes_def bytes_of_string_def comp_def)

lemma bytes_of_string_of_bytes [simp]: "bytes_of_string (string_of_bytes b) = b"
  by (simp add: string_of_bytes_def bytes_of_string_def comp_def)

lemma length_bytes_of_string [simp]: "length (bytes_of_string s) = length s"
  by (simp add: bytes_of_string_def)

lemma length_string_of_bytes [simp]: "length (string_of_bytes s) = length s"
  by (simp add: string_of_bytes_def)

section \<open>Big-endian 16-bit integers (encoding/binary)\<close>

definition putUint16 :: "u16 \<Rightarrow> bytes" where
  "putUint16 v = [ucast (drop_bit 8 v), ucast v]"

definition getUint16 :: "u8 \<Rightarrow> u8 \<Rightarrow> u16" where
  "getUint16 hi lo = push_bit 8 (ucast hi) OR ucast lo"

lemma length_putUint16 [simp]: "length (putUint16 v) = 2"
  by (simp add: putUint16_def)

lemma getUint16_putUint16 [simp]:
  "getUint16 (ucast (drop_bit 8 v)) (ucast v) = v"
  unfolding getUint16_def
  by (rule bit_word_eqI)
    (auto simp: bit_simps)

lemma bit_u8_high: "bit (b :: u8) n \<Longrightarrow> n < 8"
  using bit_imp_le_length [of b n] by simp

lemma unat_ucast_u16 [simp]: "unat (ucast (b :: u8) :: u16) = unat b"
proof -
  have "unat b < 2 ^ 16" by (rule less_le_trans [OF unat_u8_less]) simp
  then show ?thesis by (simp add: unsigned_ucast_eq take_bit_nat_eq_self)
qed

lemma putUint16_getUint16 [simp]: "putUint16 (getUint16 hi lo) = [hi, lo]"
  unfolding putUint16_def getUint16_def
  by (auto intro!: bit_word_eqI simp: bit_simps dest: bit_u8_high)

lemma unat_getUint16: "unat (getUint16 hi lo) = 256 * unat hi + unat lo"
proof -
  have disj: "push_bit 8 (ucast hi) AND (ucast lo :: u16) = 0"
    by (rule bit_word_eqI) (auto simp: bit_simps dest: bit_u8_high)
  have hi: "unat (push_bit 8 (ucast hi :: u16)) = 256 * unat hi"
  proof -
    have "push_bit 8 (ucast hi :: u16) = ucast hi * 256"
      by (simp add: push_bit_eq_mult)
    moreover have "unat hi * 256 < 65536" using unat_u8_less [of hi] by linarith
    ultimately show ?thesis
      by (simp add: unat_word_ariths)
  qed
  have "unat (getUint16 hi lo) = unat (push_bit 8 (ucast hi :: u16) + ucast lo)"
    unfolding getUint16_def using disj by (simp add: disjunctive_add_eq_or)
  also have "\<dots> = (256 * unat hi + unat lo) mod 65536"
    by (simp add: unat_word_ariths hi)
  also have "\<dots> = 256 * unat hi + unat lo"
    using unat_u8_less [of hi] unat_u8_less [of lo] by (intro mod_less) linarith
  finally show ?thesis .
qed

section \<open>Strings (strings package)\<close>

text \<open>\<open>strings.Split(s, sep)\<close> for a one-byte separator.\<close>

fun splitOn :: "'a \<Rightarrow> 'a list \<Rightarrow> 'a list list" where
  "splitOn c [] = [[]]"
| "splitOn c (x # xs) =
     (if x = c then [] # splitOn c xs
      else (case splitOn c xs of [] \<Rightarrow> [[x]] | y # ys \<Rightarrow> (x # y) # ys))"

text \<open>\<open>strings.Join(xs, sep)\<close> for a one-byte separator.\<close>

fun joinWith :: "'a \<Rightarrow> 'a list list \<Rightarrow> 'a list" where
  "joinWith c [] = []"
| "joinWith c [x] = x"
| "joinWith c (x # y # ys) = x @ c # joinWith c (y # ys)"

lemma splitOn_not_Nil [simp]: "splitOn c s \<noteq> []"
  by (induction s) (auto split: list.splits)

lemma splitOn_clean [simp]: "c \<notin> set x \<Longrightarrow> splitOn c x = [x]"
  by (induction x) auto

lemma splitOn_append: "c \<notin> set x \<Longrightarrow> splitOn c (x @ c # s) = x # splitOn c s"
  by (induction x) auto

lemma splitOn_joinWith:
  "xs \<noteq> [] \<Longrightarrow> (\<And>x. x \<in> set xs \<Longrightarrow> c \<notin> set x) \<Longrightarrow> splitOn c (joinWith c xs) = xs"
  by (induction c xs rule: joinWith.induct) (auto simp: splitOn_append)

lemma joinWith_splitOn: "joinWith c (splitOn c s) = s"
proof (induction s)
  case (Cons x xs)
  then show ?case
    by (cases "splitOn c xs"; cases "tl (splitOn c xs)") auto
qed simp

lemma set_joinWith_subset: "set (joinWith c xs) \<subseteq> insert c (\<Union> (set ` set xs))"
  by (induction c xs rule: joinWith.induct) auto

lemma splitOn_sep_free: "x \<in> set (splitOn c s) \<Longrightarrow> c \<notin> set x"
  by (induction s arbitrary: x) (auto split: if_splits list.splits)

text \<open>
  \<open>strings.ToLower\<close> on its ASCII part: the letters \<open>A\<close> to \<open>Z\<close> become lower case, every other
  byte is kept (header names, URL schemes and hosts are ASCII).
\<close>

definition lowerChar :: "char \<Rightarrow> char" where
  "lowerChar c = (let n = of_char c :: nat in
     if 65 \<le> n \<and> n \<le> 90 then char_of (n + 32) else c)"

definition toLower :: "string \<Rightarrow> string" where
  "toLower s = map lowerChar s"

lemma lowerChar_idem [simp]: "lowerChar (lowerChar c) = lowerChar c"
  by (auto simp: lowerChar_def Let_def)

lemma toLower_idem [simp]: "toLower (toLower s) = toLower s"
  by (simp add: toLower_def comp_def)

lemma length_toLower [simp]: "length (toLower s) = length s"
  by (simp add: toLower_def)

text \<open>\<open>strings.HasPrefix\<close>, \<open>strings.Contains\<close> and \<open>strings.ReplaceAll(s, old, "")\<close>.\<close>

fun hasPrefix :: "'a list \<Rightarrow> 'a list \<Rightarrow> bool" where
  "hasPrefix s [] = True"
| "hasPrefix [] (p # ps) = False"
| "hasPrefix (x # xs) (p # ps) = (x = p \<and> hasPrefix xs ps)"

fun containsStr :: "'a list \<Rightarrow> 'a list \<Rightarrow> bool" where
  "containsStr [] p = (p = [])"
| "containsStr (x # xs) p = (hasPrefix (x # xs) p \<or> containsStr xs p)"

function removeAll_sub :: "'a list \<Rightarrow> 'a list \<Rightarrow> 'a list" where
  "removeAll_sub p s =
     (case s of [] \<Rightarrow> []
      | x # xs \<Rightarrow> if p \<noteq> [] \<and> hasPrefix s p then removeAll_sub p (drop (length p) s)
                  else x # removeAll_sub p xs)"
  by pat_completeness auto
termination
  by (relation "measure (length \<circ> snd)") (auto simp: comp_def)

declare removeAll_sub.simps [simp del]

lemma hasPrefix_iff: "hasPrefix s p \<longleftrightarrow> (\<exists>t. s = p @ t)"
  by (induction s p rule: hasPrefix.induct) auto

lemma containsStr_iff: "containsStr s p \<longleftrightarrow> (\<exists>a b. s = a @ p @ b)"
proof (induction s)
  case Nil
  then show ?case by simp
next
  case (Cons x xs)
  show ?case
  proof
    assume "containsStr (x # xs) p"
    then consider "hasPrefix (x # xs) p" | "containsStr xs p" by auto
    then show "\<exists>a b. x # xs = a @ p @ b"
      using Cons.IH by cases (force simp: hasPrefix_iff, metis Cons_eq_append_conv)
  next
    assume "\<exists>a b. x # xs = a @ p @ b"
    then obtain a b where ab: "x # xs = a @ p @ b" by blast
    then have "hasPrefix (x # xs) p \<or> (\<exists>a b. xs = a @ p @ b)"
      by (cases a) (auto simp: hasPrefix_iff)
    then show "containsStr (x # xs) p" using Cons.IH by auto
  qed
qed

lemma removeAll_sub_absent: "\<not> containsStr s p \<Longrightarrow> removeAll_sub p s = s"
  by (induction s) (auto simp: removeAll_sub.simps [of p] split: list.splits)

section \<open>Numbers (strconv and fmt)\<close>

datatype num_error = ErrSyntax | ErrRange

definition digit_val :: "char \<Rightarrow> nat option" where
  "digit_val c = (let n = of_char c :: nat in
     if 48 \<le> n \<and> n \<le> 57 then Some (n - 48)
     else if 97 \<le> n \<and> n \<le> 122 then Some (n - 87)
     else if 65 \<le> n \<and> n \<le> 90 then Some (n - 55)
     else None)"

fun parseUintLoop :: "nat \<Rightarrow> nat \<Rightarrow> nat \<Rightarrow> string \<Rightarrow> num_error + nat" where
  "parseUintLoop base maxVal n [] = Inr n"
| "parseUintLoop base maxVal n (c # cs) =
     (case digit_val c of
        None \<Rightarrow> Inl ErrSyntax
      | Some d \<Rightarrow>
          if d \<ge> base then Inl ErrSyntax
          else if n * base + d > maxVal then Inl ErrRange
          else parseUintLoop base maxVal (n * base + d) cs)"

text \<open>\<open>strconv.ParseUint(s, base, bitSize)\<close> for an explicit base and a bit size of 8 or 16.\<close>

definition parseUint :: "string \<Rightarrow> nat \<Rightarrow> nat \<Rightarrow> num_error + nat" where
  "parseUint s base bitSize =
     (if s = [] then Inl ErrSyntax else parseUintLoop base (2 ^ bitSize - 1) 0 s)"

definition digitChar :: "nat \<Rightarrow> char" where
  "digitChar d = char_of (48 + d)"

text \<open>\<open>fmt.Sprintf("%d", n)\<close> for an unsigned \<open>n\<close>.\<close>

fun utoa :: "nat \<Rightarrow> string" where
  "utoa n = (if n < 10 then [digitChar n] else utoa (n div 10) @ [digitChar (n mod 10)])"

declare utoa.simps [simp del]

lemma utoa_not_Nil [simp]: "utoa n \<noteq> []"
  by (subst utoa.simps) simp

lemma of_char_digitChar: "d < 10 \<Longrightarrow> (of_char (digitChar d) :: nat) = 48 + d"
  by (simp add: digitChar_def)

lemma digit_val_digitChar [simp]: "d < 10 \<Longrightarrow> digit_val (digitChar d) = Some d"
  by (simp add: digit_val_def of_char_digitChar Let_def)

lemma utoa_digits: "c \<in> set (utoa n) \<Longrightarrow> \<exists>d<10. c = digitChar d"
proof (induction n rule: utoa.induct)
  case (1 n)
  show ?case
  proof (cases "n < 10")
    case True
    with "1.prems" show ?thesis by (simp add: utoa.simps [of n]) blast
  next
    case False
    with "1.prems" consider "c \<in> set (utoa (n div 10))" | "c = digitChar (n mod 10)"
      by (auto simp: utoa.simps [of n])
    then show ?thesis
      using False "1.IH" by cases (blast, metis mod_less_divisor zero_less_numeral)
  qed
qed

lemma utoa_no_char:
  assumes "(of_char c :: nat) < 48 \<or> 57 < (of_char c :: nat)"
  shows "c \<notin> set (utoa n)"
proof
  assume "c \<in> set (utoa n)"
  then obtain d where "d < 10" "c = digitChar d" using utoa_digits by blast
  with assms show False by (simp add: of_char_digitChar)
qed

lemma parseUintLoop_append:
  "parseUintLoop base m n (s @ t) =
     (case parseUintLoop base m n s of Inl e \<Rightarrow> Inl e | Inr k \<Rightarrow> parseUintLoop base m k t)"
  by (induction base m n s rule: parseUintLoop.induct) (auto split: option.splits)

lemma parseUintLoop_utoa: "n \<le> m \<Longrightarrow> parseUintLoop 10 m 0 (utoa n) = Inr n"
proof (induction n rule: utoa.induct)
  case (1 n)
  show ?case
  proof (cases "n < 10")
    case True
    with "1.prems" show ?thesis by (simp add: utoa.simps [of n])
  next
    case False
    with "1" have "parseUintLoop 10 m 0 (utoa (n div 10)) = Inr (n div 10)" by simp
    with False "1.prems" show ?thesis
      by (simp add: utoa.simps [of n] parseUintLoop_append)
  qed
qed

lemma parseUint_utoa [simp]: "n < 2 ^ b \<Longrightarrow> parseUint (utoa n) 10 b = Inr n"
  by (simp add: parseUint_def parseUintLoop_utoa Suc_leI le_diff_conv2)

lemma parseUintLoop_bound: "n \<le> m \<Longrightarrow> parseUintLoop base m n s = Inr k \<Longrightarrow> k \<le> m"
  by (induction base m n s rule: parseUintLoop.induct) (auto split: option.splits if_splits)

lemma parseUint_bound: "parseUint s base b = Inr k \<Longrightarrow> k < 2 ^ b"
  by (auto simp: parseUint_def split: if_splits dest!: parseUintLoop_bound [rotated])
    (metis Suc_pred less_Suc_eq_le zero_less_numeral zero_less_power)

section \<open>Hexadecimal (encoding/hex)\<close>

datatype hex_error = InvalidByteError char | ErrLength

definition fromHexChar :: "char \<Rightarrow> nat option" where
  "fromHexChar c = (case digit_val c of Some d \<Rightarrow> if d < 16 then Some d else None | None \<Rightarrow> None)"

fun hexDecode :: "string \<Rightarrow> hex_error + bytes" where
  "hexDecode [] = Inr []"
| "hexDecode [p] = (case fromHexChar p of None \<Rightarrow> Inl (InvalidByteError p) | Some _ \<Rightarrow> Inl ErrLength)"
| "hexDecode (p # q # s) =
     (case fromHexChar p of
        None \<Rightarrow> Inl (InvalidByteError p)
      | Some a \<Rightarrow> (case fromHexChar q of
          None \<Rightarrow> Inl (InvalidByteError q)
        | Some b \<Rightarrow> (case hexDecode s of
            Inl e \<Rightarrow> Inl e
          | Inr bs \<Rightarrow> Inr (of_nat (16 * a + b) # bs))))"

end
