(* ===== verification/ExtData.thy ===== *)
theory ExtData
  imports Prelude
begin

text \<open>
  Generated fingerprint data: the number helpers of \<^verbatim>\<open>utils.go\<close>, the GREASE signature scheme of
  \<^verbatim>\<open>profiles/grease.go\<close> and the \<^verbatim>\<open>trust_anchors\<close> payloads of \<^verbatim>\<open>profiles/extension_data.go\<close>.
  Random values are arguments: what \<^verbatim>\<open>rand.Int\<close> or \<^verbatim>\<open>rand.Read\<close> returned, with
  \<^const>\<open>None\<close> for a failing source, on which the code panics (result \<^const>\<open>None\<close>).
\<close>

section \<open>utils.go\<close>

text \<open>\<open>intSize\<close> is the width of Go's \<open>int\<close> on the platform (32 or 64).\<close>

definition Int64ToInt :: "nat \<Rightarrow> i64 \<Rightarrow> string + int" where
  "Int64ToInt intSize x =
     (if sint x < - (2 ^ (intSize - 1)) \<or> sint x > 2 ^ (intSize - 1) - 1
      then Inl ''int64 value out of int range'' else Inr (sint x))"

definition generateGREASESettingID :: "nat \<Rightarrow> u64" where
  "generateGREASESettingID nBig = (let n = 1000000000 + of_nat nBig in 0x1f * n + 0x21)"

definition getUint32 :: "u8 \<Rightarrow> u8 \<Rightarrow> u8 \<Rightarrow> u8 \<Rightarrow> u32" where
  "getUint32 a b c d =
     push_bit 24 (ucast a) OR push_bit 16 (ucast b) OR push_bit 8 (ucast c) OR ucast d"

definition generateGREASESettingValue :: "u8 \<Rightarrow> u8 \<Rightarrow> u8 \<Rightarrow> u8 \<Rightarrow> u64" where
  "generateGREASESettingValue a b c d =
     (let val = getUint32 a b c d; val = (if val = 0 then 1 else val) in ucast val)"

section \<open>profiles/grease.go\<close>

definition randomGREASESignatureScheme :: "(u8 \<times> u8) option \<Rightarrow> u16 option" where
  "randomGREASESignatureScheme seed =
     (case seed of None \<Rightarrow> None
      | Some (s0, s1) \<Rightarrow>
          (let value = getUint16 s1 s0;
               value = (value AND 0xf0) OR 0x0a;
               value = value OR push_bit 8 value
           in Some value))"

section \<open>profiles/extension\_data.go\<close>

datatype ta_error = NotHex hex_error | ShorterThanLengthField | LengthMismatch | AnchorPastEnd

definition chrome152TrustAnchorsCapture :: string where
  "chrome152TrustAnchorsCapture = ''00b80582df13020108839a648c9b2d010c08839a648c9b2d010704d679090c08839a648c9b2d010a04d679090b08839a648c9b2d010d0582df13020e08839a648c9b2d010b04d67909050582df13020d0582df13021404d679090404d679090804d679090d04d679090a04d679090708839a648c9b2d011204d67909010582df13020608839a648c9b2d01080582df13021208839a648c9b2d011304d679090f0582df13021308839a648c9b2d01090582df13020f04d6790906''"

definition mustDecodeHex :: "string \<Rightarrow> bytes option" where
  "mustDecodeHex s = (case hexDecode s of Inl _ \<Rightarrow> None | Inr data \<Rightarrow> Some data)"

text \<open>
  The loop of \<open>splitTrustAnchors\<close>, on the bytes from position \<open>i\<close> on: a record is the
  length byte with the identifier that follows it.
\<close>

fun splitRecords :: "bytes \<Rightarrow> ta_error + bytes list" where
  "splitRecords [] = Inr []"
| "splitRecords (b # bs) =
     (if unat b > length bs then Inl AnchorPastEnd
      else (case splitRecords (drop (unat b) bs) of
              Inl e \<Rightarrow> Inl e
            | Inr rs \<Rightarrow> Inr ((b # take (unat b) bs) # rs)))"

definition splitPayload :: "bytes \<Rightarrow> ta_error + bytes list" where
  "splitPayload payload =
     (case payload of
        p0 # p1 # lst \<Rightarrow>
          if 256 * unat p0 + unat p1 \<noteq> length lst then Inl LengthMismatch else splitRecords lst
      | _ \<Rightarrow> Inl ShorterThanLengthField)"

definition splitTrustAnchors :: "string \<Rightarrow> ta_error + bytes list" where
  "splitTrustAnchors capture =
     (case hexDecode capture of Inl e \<Rightarrow> Inl (NotHex e) | Inr payload \<Rightarrow> splitPayload payload)"

definition mustSplitTrustAnchors :: "string \<Rightarrow> bytes list option" where
  "mustSplitTrustAnchors capture =
     (case splitTrustAnchors capture of Inl _ \<Rightarrow> None | Inr records \<Rightarrow> Some records)"

definition swapAt :: "'a list \<Rightarrow> nat \<Rightarrow> nat \<Rightarrow> 'a list" where
  "swapAt xs i j = xs[i := xs ! j, j := xs ! i]"

text \<open>
  The Fisher-Yates loop \<open>for i := len(records) - 1; i > 0; i--\<close>. \<open>draw i\<close> is what
  \<open>rand.Int(rand.Reader, i + 1)\<close> returned in the iteration for \<open>i\<close>.
\<close>

fun shuffleLoop :: "(nat \<Rightarrow> nat option) \<Rightarrow> nat \<Rightarrow> 'a list \<Rightarrow> 'a list option" where
  "shuffleLoop draw 0 records = Some records"
| "shuffleLoop draw (Suc i) records =
     (case draw (Suc i) of
        None \<Rightarrow> None
      | Some j \<Rightarrow> shuffleLoop draw i (swapAt records (Suc i) j))"

definition shuffleTrustAnchors :: "(nat \<Rightarrow> nat option) \<Rightarrow> bytes list \<Rightarrow> bytes option" where
  "shuffleTrustAnchors draw anchors =
     (case shuffleLoop draw (length anchors - 1) anchors of
        None \<Rightarrow> None
      | Some records \<Rightarrow>
          (let size = sum_list (map length records)
           in Some (putUint16 (of_nat size) @ concat records)))"

datatype ta_result = TAError ta_error | TAPanic | TAPayload bytes

definition BuildTrustAnchorsPayload :: "(nat \<Rightarrow> nat option) \<Rightarrow> string \<Rightarrow> ta_result" where
  "BuildTrustAnchorsPayload draw capture =
     (case splitTrustAnchors capture of
        Inl e \<Rightarrow> TAError e
      | Inr records \<Rightarrow>
          (case shuffleTrustAnchors draw records of None \<Rightarrow> TAPanic | Some p \<Rightarrow> TAPayload p))"

definition chrome152TrustAnchors :: "(nat \<Rightarrow> nat option) \<Rightarrow> bytes option" where
  "chrome152TrustAnchors draw =
     (case mustSplitTrustAnchors chrome152TrustAnchorsCapture of
        None \<Rightarrow> None | Some records \<Rightarrow> shuffleTrustAnchors draw records)"

section \<open>Lemmas\<close>

text \<open>A record is well formed when its length byte counts the bytes that follow.\<close>

definition anchor_record :: "bytes \<Rightarrow> bool" where
  "anchor_record r = (case r of [] \<Rightarrow> False | b # bs \<Rightarrow> unat b = length bs)"

text \<open>The documented contract of \<open>rand.Int\<close>: a value in \<open>[0, max)\<close>, and no failure.\<close>

definition draws_ok :: "(nat \<Rightarrow> nat option) \<Rightarrow> bool" where
  "draws_ok draw \<longleftrightarrow> (\<forall>i. \<exists>j\<le>i. draw i = Some j)"

lemma splitRecords_sound:
  "splitRecords bs = Inr rs \<Longrightarrow> concat rs = bs \<and> list_all anchor_record rs"
  by (induction bs arbitrary: rs rule: splitRecords.induct)
    (fastforce simp: anchor_record_def split: if_splits sum.splits)+

lemma splitRecords_complete:
  "list_all anchor_record rs \<Longrightarrow> splitRecords (concat rs) = Inr rs"
proof (induction rs)
  case (Cons r rs)
  then obtain b bs where "r = b # bs" "unat b = length bs"
    by (cases r) (auto simp: anchor_record_def)
  with Cons show ?case by simp
qed simp

lemma length_swapAt [simp]: "length (swapAt xs i j) = length xs"
  by (simp add: swapAt_def)

lemma mset_swapAt: "i < length xs \<Longrightarrow> j < length xs \<Longrightarrow> mset (swapAt xs i j) = mset xs"
  unfolding swapAt_def by (rule mset_swap)

lemma shuffleLoop_mset:
  assumes "draws_ok draw"
  shows "i = 0 \<or> i < length xs \<Longrightarrow> \<exists>ys. shuffleLoop draw i xs = Some ys \<and> mset ys = mset xs"
proof (induction i arbitrary: xs)
  case (Suc i)
  obtain j where j: "draw (Suc i) = Some j" "j \<le> Suc i"
    using assms by (auto simp: draws_ok_def)
  have len: "Suc i < length xs" using Suc.prems by simp
  with Suc.IH [of "swapAt xs (Suc i) j"] obtain ys where
    "shuffleLoop draw i (swapAt xs (Suc i) j) = Some ys" "mset ys = mset (swapAt xs (Suc i) j)"
    by auto
  with j len show ?case by (auto simp: mset_swapAt)
qed simp

lemma sum_list_length_mset:
  "mset xs = mset ys \<Longrightarrow> sum_list (map length xs) = sum_list (map length ys)"
  by (metis mset_map sum_mset_sum_list)

lemma list_all_mset: "mset xs = mset ys \<Longrightarrow> list_all P xs \<longleftrightarrow> list_all P ys"
  by (metis list_all_iff set_mset_mset)

lemma splitPayload_putUint16:
  assumes "list_all anchor_record rs" and "sum_list (map length rs) < 65536"
  shows "splitPayload (putUint16 (of_nat (sum_list (map length rs))) @ concat rs) = Inr rs"
proof -
  let ?n = "sum_list (map length rs)"
  obtain hi lo where hl: "putUint16 (of_nat ?n) = [hi, lo]"
    by (simp add: putUint16_def)
  have "getUint16 hi lo = of_nat ?n"
    using hl getUint16_putUint16 [of "of_nat ?n"] by (simp add: putUint16_def)
  then have "256 * unat hi + unat lo = unat (of_nat ?n :: u16)"
    by (simp flip: unat_getUint16)
  also have "\<dots> = ?n" using assms(2) by (simp add: unat_of_nat)
  finally show ?thesis
    using hl by (simp add: splitPayload_def splitRecords_complete [OF assms(1)] length_concat)
qed

lemma splitPayload_sound:
  assumes "splitPayload p = Inr rs"
  shows "p = putUint16 (of_nat (sum_list (map length rs))) @ concat rs"
    and "list_all anchor_record rs" and "sum_list (map length rs) < 65536"
proof -
  from assms obtain p0 p1 lst where p: "p = p0 # p1 # lst"
    and n: "256 * unat p0 + unat p1 = length lst" and r: "splitRecords lst = Inr rs"
    by (auto simp: splitPayload_def split: list.splits if_splits)
  from splitRecords_sound [OF r] have c: "concat rs = lst" and w: "list_all anchor_record rs" by auto
  have len: "sum_list (map length rs) = length lst" by (simp add: c flip: length_concat)
  have "unat (getUint16 p0 p1) = length lst" using n by (simp add: unat_getUint16)
  then have "of_nat (length lst) = getUint16 p0 p1" by (simp flip: \<open>unat (getUint16 p0 p1) = length lst\<close>)
  then show "p = putUint16 (of_nat (sum_list (map length rs))) @ concat rs"
    by (simp add: p len c)
  show "list_all anchor_record rs" by (rule w)
  show "sum_list (map length rs) < 65536"
    using len n unat_u8_less [of p0] unat_u8_less [of p1] by linarith
qed

lemma shuffleTrustAnchors_split:
  assumes "draws_ok draw" and "list_all anchor_record rs" and "sum_list (map length rs) < 65536"
  shows "\<exists>p rs'. shuffleTrustAnchors draw rs = Some p \<and> splitPayload p = Inr rs' \<and> mset rs' = mset rs
           \<and> length p = sum_list (map length rs) + 2"
proof -
  have "length rs - 1 = 0 \<or> length rs - 1 < length rs" by auto
  from shuffleLoop_mset [OF assms(1) this] obtain ys where
    ys: "shuffleLoop draw (length rs - 1) rs = Some ys" "mset ys = mset rs" by blast
  have s: "sum_list (map length ys) = sum_list (map length rs)"
    by (rule sum_list_length_mset [OF ys(2)])
  have "splitPayload (putUint16 (of_nat (sum_list (map length ys))) @ concat ys) = Inr ys"
    using assms ys(2) s by (intro splitPayload_putUint16) (simp_all add: list_all_mset [OF ys(2)])
  with ys s show ?thesis
    by (auto simp: shuffleTrustAnchors_def Let_def length_concat)
qed

section \<open>Properties\<close>

text \<open>C39: \<open>BuildTrustAnchorsPayload\<close> is lossless. For every capture that \<open>splitTrustAnchors\<close>
  accepts, and whatever values the random source draws, the built extension data is again a
  well-formed payload: it splits into exactly the captured anchor records in some order, and it
  has the length of the captured payload.\<close>

theorem BuildTrustAnchorsPayload_permutes:
  assumes "draws_ok draw" and "splitTrustAnchors capture = Inr rs"
  shows "\<exists>p rs'. BuildTrustAnchorsPayload draw capture = TAPayload p \<and> splitPayload p = Inr rs'
           \<and> mset rs' = mset rs \<and> Inr (length p) = map_sum id length (hexDecode capture)"
proof -
  from assms(2) obtain payload where hd: "hexDecode capture = Inr payload"
    and sp: "splitPayload payload = Inr rs"
    by (auto simp: splitTrustAnchors_def split: sum.splits)
  note sound = splitPayload_sound [OF sp]
  have len: "length payload = sum_list (map length rs) + 2"
    by (subst sound(1)) (simp add: length_concat)
  from shuffleTrustAnchors_split [OF assms(1) sound(2,3)] obtain p rs' where
    "shuffleTrustAnchors draw rs = Some p" "splitPayload p = Inr rs'" "mset rs' = mset rs"
    "length p = sum_list (map length rs) + 2" by blast
  with assms(2) hd len show ?thesis
    by (auto simp: BuildTrustAnchorsPayload_def)
qed

text \<open>The capture shipped with the Chrome 152 profiles decodes to 28 records in 184 bytes.\<close>

lemma chrome152_capture_records:
  "\<exists>rs. splitTrustAnchors chrome152TrustAnchorsCapture = Inr rs \<and> length rs = 28
     \<and> sum_list (map length rs) = 184 \<and> list_all (\<lambda>r. length r \<in> {5, 6, 9}) rs"
proof -
  have "case splitTrustAnchors chrome152TrustAnchorsCapture of Inl _ \<Rightarrow> False
     | Inr rs \<Rightarrow> length rs = 28 \<and> sum_list (map length rs) = 184
         \<and> list_all (\<lambda>r. length r = 5 \<or> length r = 6 \<or> length r = 9) rs"
    by code_simp
  then show ?thesis by (auto split: sum.splits)
qed

theorem BuildTrustAnchorsPayload_permutes_witness:
  "\<exists>rs p rs'. draws_ok Some
     \<and> splitTrustAnchors chrome152TrustAnchorsCapture = Inr rs
     \<and> BuildTrustAnchorsPayload Some chrome152TrustAnchorsCapture = TAPayload p
     \<and> splitPayload p = Inr rs' \<and> mset rs' = mset rs"
proof -
  obtain rs where rs: "splitTrustAnchors chrome152TrustAnchorsCapture = Inr rs"
    using chrome152_capture_records by blast
  have d: "draws_ok Some" by (simp add: draws_ok_def)
  show ?thesis using d rs BuildTrustAnchorsPayload_permutes [OF d rs] by blast
qed

text \<open>Loading the package never panics on the Chrome 152 capture: the profile's
  \<open>trust_anchors\<close> data is 186 bytes long and holds 28 anchor identifiers, as its comment says.\<close>

theorem chrome152TrustAnchors_loads:
  assumes "draws_ok draw"
  shows "\<exists>p rs. chrome152TrustAnchors draw = Some p \<and> length p = 186
     \<and> splitPayload p = Inr rs \<and> length rs = 28"
proof -
  obtain rs where rs: "splitTrustAnchors chrome152TrustAnchorsCapture = Inr rs" "length rs = 28"
    "sum_list (map length rs) = 184"
    using chrome152_capture_records by blast
  then obtain payload where sp: "splitPayload payload = Inr rs"
    by (auto simp: splitTrustAnchors_def split: sum.splits)
  from shuffleTrustAnchors_split [OF assms splitPayload_sound(2,3) [OF sp]] rs obtain p rs' where
    p: "shuffleTrustAnchors draw rs = Some p" "splitPayload p = Inr rs'" "mset rs' = mset rs"
    "length p = 186" by auto
  moreover from p(3) rs(2) have "length rs' = 28" by (metis size_mset)
  ultimately show ?thesis
    using rs by (auto simp: chrome152TrustAnchors_def mustSplitTrustAnchors_def)
qed

theorem chrome152TrustAnchors_loads_witness:
  "draws_ok Some \<and> (\<exists>p. chrome152TrustAnchors Some = Some p \<and> length p = 186)"
proof -
  have d: "draws_ok Some" by (simp add: draws_ok_def)
  then show ?thesis using chrome152TrustAnchors_loads [OF d] by blast
qed

text \<open>A GREASE signature scheme always has BoringSSL's form \<open>0xWaWa\<close>: both bytes are equal
  and end in the nibble \<open>a\<close>, with \<open>W\<close> taken from the first random byte alone.\<close>

theorem randomGREASESignatureScheme_form:
  "\<exists>b. randomGREASESignatureScheme (Some (s0, s1)) = Some (getUint16 b b)
     \<and> b AND 0x0f = 0x0a \<and> b AND 0xf0 = s0 AND 0xf0"
proof (intro exI conjI)
  let ?b = "(s0 AND 0xf0) OR 0x0a :: u8"
  have "getUint16 s1 s0 AND mask 8 = ucast s0"
    unfolding getUint16_def by (rule bit_word_eqI) (auto simp: bit_simps dest: bit_u8_high)
  then have low: "getUint16 s1 s0 AND 0xff = ucast s0" by (simp add: mask_eq_exp_minus_1)
  have "getUint16 s1 s0 AND 0xf0 = (getUint16 s1 s0 AND 0xff) AND 0xf0"
    by (simp add: and.assoc)
  then have v: "(getUint16 s1 s0 AND 0xf0) OR 0x0a = ucast ?b"
    by (simp only: low) (simp add: unsigned_or_eq unsigned_and_eq)
  have "randomGREASESignatureScheme (Some (s0, s1)) = Some (ucast ?b OR push_bit 8 (ucast ?b))"
    by (simp only: randomGREASESignatureScheme_def option.case prod.case Let_def v)
  then show "randomGREASESignatureScheme (Some (s0, s1)) = Some (getUint16 ?b ?b)"
    by (simp only: getUint16_def or.commute)
  show "?b AND 0x0f = 0x0a"
    by (rule bit_word_eqI) (auto simp: bit_simps numeral_eq_Suc less_Suc_eq)
  show "?b AND 0xf0 = s0 AND 0xf0"
    by (rule bit_word_eqI) (auto simp: bit_simps numeral_eq_Suc less_Suc_eq)
qed

lemma unat_generateGREASESettingID:
  assumes "nBig < 9000000000"
  shows "unat (generateGREASESettingID nBig) = 31 * (1000000000 + nBig) + 33"
proof -
  have "generateGREASESettingID nBig = of_nat (31 * (1000000000 + nBig) + 33)"
    by (simp add: generateGREASESettingID_def Let_def)
  moreover have "unat (of_nat k :: u64) = k" if "k < 2 ^ 64" for k
    using that by (simp add: unat_of_nat)
  moreover have "31 * (1000000000 + nBig) + 33 < 2 ^ 64" using assms by simp
  ultimately show ?thesis by (simp only:)
qed

text \<open>C40: an HTTP/3 GREASE setting identifier is of the reserved form \<open>0x1f * N + 0x21\<close>, computed
  without wrap-around for every value \<open>rand.Int\<close> can return, and has 11 or 12 decimal digits
  (the comment in the source promises 10 or 11).\<close>

theorem generateGREASESettingID_form:
  assumes "nBig < 9000000000"
  shows "unat (generateGREASESettingID nBig) = 31 * (1000000000 + nBig) + 33
    \<and> 31000000033 \<le> unat (generateGREASESettingID nBig)
    \<and> unat (generateGREASESettingID nBig) \<le> 310000000002"
  using assms by (simp add: unat_generateGREASESettingID)

theorem generateGREASESettingID_form_witness:
  "(8999999999 :: nat) < 9000000000 \<and> unat (generateGREASESettingID 8999999999) = 310000000002"
proof -
  have h: "(8999999999 :: nat) < 9000000000" by simp
  show ?thesis using h generateGREASESettingID_form [OF h] by simp
qed

end
