(* ===== verification/Profiles.thy ===== *)
theory Profiles
  imports ExtData
begin

text \<open>
  The data model of a browser fingerprint: the constants and structures of \<^verbatim>\<open>utls\<close> and \<^verbatim>\<open>fhttp\<close>
  that the sources name, and \<^verbatim>\<open>ClientProfile\<close> of \<^verbatim>\<open>profiles/profiles.go\<close>. Those packages are not
  part of the repository: their numeric constants are the fields of a record \<open>utls\<close> that every
  definition naming them takes as an argument, and their extension structures are the
  constructors of a datatype, with the fields the sources fill in.
\<close>

section \<open>Constants of utls, dicttls and fhttp/http2\<close>

datatype cipherConst =
    TLS_AES_128_GCM_SHA256 | TLS_AES_256_GCM_SHA384 | TLS_CHACHA20_POLY1305_SHA256
  | TLS_ECDHE_ECDSA_WITH_3DES_EDE_CBC_SHA | TLS_ECDHE_ECDSA_WITH_AES_128_CBC_SHA
  | TLS_ECDHE_ECDSA_WITH_AES_128_CBC_SHA256 | TLS_ECDHE_ECDSA_WITH_AES_128_GCM_SHA256
  | TLS_ECDHE_ECDSA_WITH_AES_256_CBC_SHA | TLS_ECDHE_ECDSA_WITH_AES_256_GCM_SHA384
  | TLS_ECDHE_ECDSA_WITH_CHACHA20_POLY1305 | TLS_ECDHE_ECDSA_WITH_CHACHA20_POLY1305_SHA256
  | TLS_ECDHE_RSA_WITH_3DES_EDE_CBC_SHA | TLS_ECDHE_RSA_WITH_AES_128_CBC_SHA
  | TLS_ECDHE_RSA_WITH_AES_128_CBC_SHA256 | TLS_ECDHE_RSA_WITH_AES_128_GCM_SHA256
  | TLS_ECDHE_RSA_WITH_AES_256_CBC_SHA | TLS_ECDHE_RSA_WITH_AES_256_GCM_SHA384
  | TLS_ECDHE_RSA_WITH_CHACHA20_POLY1305 | TLS_ECDHE_RSA_WITH_CHACHA20_POLY1305_SHA256
  | TLS_RSA_WITH_3DES_EDE_CBC_SHA | TLS_RSA_WITH_AES_128_CBC_SHA | TLS_RSA_WITH_AES_128_GCM_SHA256
  | TLS_RSA_WITH_AES_256_CBC_SHA | TLS_RSA_WITH_AES_256_GCM_SHA384
  | DISABLED_TLS_ECDHE_ECDSA_WITH_AES_256_CBC_SHA384 | DISABLED_TLS_ECDHE_RSA_WITH_AES_256_CBC_SHA384
  | FAKE_TLS_EMPTY_RENEGOTIATION_INFO_SCSV

datatype sigConst =
    ECDSAWithP256AndSHA256 | ECDSAWithP384AndSHA384 | ECDSAWithP521AndSHA512 | ECDSAWithSHA1
  | Ed25519 | MLDSA44 | MLDSA65 | MLDSA87 | PKCS1WithSHA1 | PKCS1WithSHA256 | PKCS1WithSHA384
  | PKCS1WithSHA512 | PSSWithSHA256 | PSSWithSHA384 | PSSWithSHA512 | SHA224_ECDSA | SHA224_RSA

datatype groupConst =
    CurveP256 | CurveP384 | CurveP521 | X25519 | P256Kyber768Draft00 | X25519Kyber512Draft00
  | X25519Kyber768Draft00 | X25519Kyber768Draft00Old | X25519MLKEM768 | FAKEFFDHE2048 | FAKEFFDHE3072

datatype extConst =
    ExtensionALPN | ExtensionALPS | ExtensionALPSOld | ExtensionCompressCertificate | ExtensionCookie
  | ExtensionDelegatedCredentials | ExtensionECH | ExtensionEarlyData | ExtensionExtendedMasterSecret
  | ExtensionKeyShare | ExtensionNextProtoNeg | ExtensionPSKModes | ExtensionPadding
  | ExtensionPreSharedKey | ExtensionRecordSizeLimit | ExtensionRenegotiationInfo | ExtensionSCT
  | ExtensionServerName | ExtensionSessionTicket | ExtensionSignatureAlgorithms
  | ExtensionStatusRequest | ExtensionSupportedCurves | ExtensionSupportedPoints
  | ExtensionSupportedVersions

datatype settingConst =
    SettingHeaderTableSize | SettingEnablePush | SettingMaxConcurrentStreams
  | SettingInitialWindowSize | SettingMaxFrameSize | SettingMaxHeaderListSize
  | SettingNoRFC7540Priorities

datatype versionConst = VersionTLS10 | VersionTLS11 | VersionTLS12 | VersionTLS13

datatype certConst = CertCompressionZlib | CertCompressionBrotli | CertCompressionZstd

datatype hpkeConst =
    HKDF_SHA256 | HKDF_SHA384 | HKDF_SHA512
  | AEAD_AES_128_GCM | AEAD_AES_256_GCM | AEAD_CHACHA20_POLY1305

record utls =
  cipherVal :: "cipherConst \<Rightarrow> u16"
  sigVal :: "sigConst \<Rightarrow> u16"
  groupVal :: "groupConst \<Rightarrow> u16"
  extVal :: "extConst \<Rightarrow> u16"
  settingVal :: "settingConst \<Rightarrow> u16"
  versionVal :: "versionConst \<Rightarrow> u16"
  certVal :: "certConst \<Rightarrow> u16"
  hpkeVal :: "hpkeConst \<Rightarrow> u16"
  GREASE_PLACEHOLDER :: u16
  PskModeDHE :: u8
  PointFormatUncompressed :: u8
  CompressionNone :: u8

text \<open>
  The values registered with IANA (and, where a constant stands for a draft, those of the draft),
  on which the statements below are evaluated.
\<close>

fun ianaExt :: "extConst \<Rightarrow> u16" where
  "ianaExt ExtensionServerName = 0" | "ianaExt ExtensionStatusRequest = 5"
| "ianaExt ExtensionSupportedCurves = 10" | "ianaExt ExtensionSupportedPoints = 11"
| "ianaExt ExtensionSignatureAlgorithms = 13" | "ianaExt ExtensionALPN = 16"
| "ianaExt ExtensionSCT = 18" | "ianaExt ExtensionPadding = 21"
| "ianaExt ExtensionExtendedMasterSecret = 23" | "ianaExt ExtensionCompressCertificate = 27"
| "ianaExt ExtensionRecordSizeLimit = 28" | "ianaExt ExtensionDelegatedCredentials = 34"
| "ianaExt ExtensionSessionTicket = 35" | "ianaExt ExtensionPreSharedKey = 41"
| "ianaExt ExtensionEarlyData = 42" | "ianaExt ExtensionSupportedVersions = 43"
| "ianaExt ExtensionCookie = 44" | "ianaExt ExtensionPSKModes = 45"
| "ianaExt ExtensionKeyShare = 51" | "ianaExt ExtensionNextProtoNeg = 13172"
| "ianaExt ExtensionALPSOld = 17513" | "ianaExt ExtensionALPS = 17613"
| "ianaExt ExtensionECH = 0xfe0d" | "ianaExt ExtensionRenegotiationInfo = 0xff01"

fun ianaGroup :: "groupConst \<Rightarrow> u16" where
  "ianaGroup CurveP256 = 23" | "ianaGroup CurveP384 = 24" | "ianaGroup CurveP521 = 25"
| "ianaGroup X25519 = 29" | "ianaGroup FAKEFFDHE2048 = 256" | "ianaGroup FAKEFFDHE3072 = 257"
| "ianaGroup X25519MLKEM768 = 0x11ec" | "ianaGroup P256Kyber768Draft00 = 0xfe32"
| "ianaGroup X25519Kyber512Draft00 = 0xfe30" | "ianaGroup X25519Kyber768Draft00 = 0x6399"
| "ianaGroup X25519Kyber768Draft00Old = 0xfe31"

fun ianaSetting :: "settingConst \<Rightarrow> u16" where
  "ianaSetting SettingHeaderTableSize = 1" | "ianaSetting SettingEnablePush = 2"
| "ianaSetting SettingMaxConcurrentStreams = 3" | "ianaSetting SettingInitialWindowSize = 4"
| "ianaSetting SettingMaxFrameSize = 5" | "ianaSetting SettingMaxHeaderListSize = 6"
| "ianaSetting SettingNoRFC7540Priorities = 9"

fun ianaVersion :: "versionConst \<Rightarrow> u16" where
  "ianaVersion VersionTLS10 = 0x0301" | "ianaVersion VersionTLS11 = 0x0302"
| "ianaVersion VersionTLS12 = 0x0303" | "ianaVersion VersionTLS13 = 0x0304"

fun ianaHpke :: "hpkeConst \<Rightarrow> u16" where
  "ianaHpke HKDF_SHA256 = 1" | "ianaHpke HKDF_SHA384 = 2" | "ianaHpke HKDF_SHA512 = 3"
| "ianaHpke AEAD_AES_128_GCM = 1" | "ianaHpke AEAD_AES_256_GCM = 2"
| "ianaHpke AEAD_CHACHA20_POLY1305 = 3"

fun ianaCert :: "certConst \<Rightarrow> u16" where
  "ianaCert CertCompressionZlib = 1" | "ianaCert CertCompressionBrotli = 2"
| "ianaCert CertCompressionZstd = 3"

fun ianaCipher :: "cipherConst \<Rightarrow> u16" where
  "ianaCipher TLS_AES_128_GCM_SHA256 = 0x1301"
| "ianaCipher TLS_AES_256_GCM_SHA384 = 0x1302"
| "ianaCipher TLS_CHACHA20_POLY1305_SHA256 = 0x1303"
| "ianaCipher TLS_ECDHE_ECDSA_WITH_3DES_EDE_CBC_SHA = 0xc008"
| "ianaCipher TLS_ECDHE_ECDSA_WITH_AES_128_CBC_SHA = 0xc009"
| "ianaCipher TLS_ECDHE_ECDSA_WITH_AES_128_CBC_SHA256 = 0xc023"
| "ianaCipher TLS_ECDHE_ECDSA_WITH_AES_128_GCM_SHA256 = 0xc02b"
| "ianaCipher TLS_ECDHE_ECDSA_WITH_AES_256_CBC_SHA = 0xc00a"
| "ianaCipher TLS_ECDHE_ECDSA_WITH_AES_256_GCM_SHA384 = 0xc02c"
| "ianaCipher TLS_ECDHE_ECDSA_WITH_CHACHA20_POLY1305 = 0xcca9"
| "ianaCipher TLS_ECDHE_ECDSA_WITH_CHACHA20_POLY1305_SHA256 = 0xcca9"
| "ianaCipher TLS_ECDHE_RSA_WITH_3DES_EDE_CBC_SHA = 0xc012"
| "ianaCipher TLS_ECDHE_RSA_WITH_AES_128_CBC_SHA = 0xc013"
| "ianaCipher TLS_ECDHE_RSA_WITH_AES_128_CBC_SHA256 = 0xc027"
| "ianaCipher TLS_ECDHE_RSA_WITH_AES_128_GCM_SHA256 = 0xc02f"
| "ianaCipher TLS_ECDHE_RSA_WITH_AES_256_CBC_SHA = 0xc014"
| "ianaCipher TLS_ECDHE_RSA_WITH_AES_256_GCM_SHA384 = 0xc030"
| "ianaCipher TLS_ECDHE_RSA_WITH_CHACHA20_POLY1305 = 0xcca8"
| "ianaCipher TLS_ECDHE_RSA_WITH_CHACHA20_POLY1305_SHA256 = 0xcca8"
| "ianaCipher TLS_RSA_WITH_3DES_EDE_CBC_SHA = 0x000a"
| "ianaCipher TLS_RSA_WITH_AES_128_CBC_SHA = 0x002f"
| "ianaCipher TLS_RSA_WITH_AES_128_GCM_SHA256 = 0x009c"
| "ianaCipher TLS_RSA_WITH_AES_256_CBC_SHA = 0x0035"
| "ianaCipher TLS_RSA_WITH_AES_256_GCM_SHA384 = 0x009d"
| "ianaCipher DISABLED_TLS_ECDHE_ECDSA_WITH_AES_256_CBC_SHA384 = 0xc024"
| "ianaCipher DISABLED_TLS_ECDHE_RSA_WITH_AES_256_CBC_SHA384 = 0xc028"
| "ianaCipher FAKE_TLS_EMPTY_RENEGOTIATION_INFO_SCSV = 0x00ff"

fun ianaSig :: "sigConst \<Rightarrow> u16" where
  "ianaSig ECDSAWithP256AndSHA256 = 0x0403"
| "ianaSig ECDSAWithP384AndSHA384 = 0x0503"
| "ianaSig ECDSAWithP521AndSHA512 = 0x0603"
| "ianaSig ECDSAWithSHA1 = 0x0203"
| "ianaSig Ed25519 = 0x0807"
| "ianaSig MLDSA44 = 0x0904"
| "ianaSig MLDSA65 = 0x0905"
| "ianaSig MLDSA87 = 0x0906"
| "ianaSig PKCS1WithSHA1 = 0x0201"
| "ianaSig PKCS1WithSHA256 = 0x0401"
| "ianaSig PKCS1WithSHA384 = 0x0501"
| "ianaSig PKCS1WithSHA512 = 0x0601"
| "ianaSig PSSWithSHA256 = 0x0804"
| "ianaSig PSSWithSHA384 = 0x0805"
| "ianaSig PSSWithSHA512 = 0x0806"
| "ianaSig SHA224_ECDSA = 0x0303"
| "ianaSig SHA224_RSA = 0x0301"

definition ianaUtls :: utls where
  "ianaUtls = \<lparr>cipherVal = ianaCipher, sigVal = ianaSig,
     groupVal = ianaGroup, extVal = ianaExt, settingVal = ianaSetting, versionVal = ianaVersion,
     certVal = ianaCert, hpkeVal = ianaHpke, GREASE_PLACEHOLDER = 0x0a0a, PskModeDHE = 1,
     PointFormatUncompressed = 0, CompressionNone = 0\<rparr>"

section \<open>Structures of utls\<close>

record KeyShare =
  Group :: u16
  KSData :: bytes

datatype renegotiation = RenegotiateNever | RenegotiateOnceAsClient

datatype paddingStyle = BoringPaddingStyle

record HPKESymmetricCipherSuite =
  KdfId :: u16
  AeadId :: u16

datatype TLSExtension =
    UtlsGREASEExtension
  | SNIExtension
  | StatusRequestExtension
  | SCTExtension
  | ExtendedMasterSecretExtension
  | SessionTicketExtension
  | CookieExtension
  | NPNExtension
  | UtlsPreSharedKeyExtension bool
  | BoringGREASEECH
  | UtlsPaddingExtension paddingStyle bool
  | RenegotiationInfoExtension renegotiation
  | PSKKeyExchangeModesExtension "u8 list"
  | SupportedPointsExtension "u8 list"
  | SupportedCurvesExtension "u16 list"
  | SupportedVersionsExtension "u16 list"
  | SignatureAlgorithmsExtension "u16 list"
  | DelegatedCredentialsExtension "u16 list"
  | KeyShareExtension "KeyShare list"
  | ALPNExtension "string list"
  | ApplicationSettingsExtension "string list"
  | ApplicationSettingsExtensionNew "string list"
  | UtlsCompressCertExtension "u16 list"
  | FakeRecordSizeLimitExtension u16
  | GenericExtension u16 bytes
  | GREASEEncryptedClientHelloExtension "HPKESymmetricCipherSuite list" "u16 list"

datatype sessionIdHash = Sha256Sum256

record ClientHelloSpec =
  CipherSuites :: "u16 list"
  CompressionMethods :: "u8 list"
  Extensions :: "TLSExtension list"
  GetSessionID :: "sessionIdHash option"

text \<open>
  Why a \<open>SpecFactory\<close> does not return a specification: an error value, or a Go panic (an index
  out of range, or a failing random source).
\<close>

datatype spec_error =
    BadSignatureAlgorithm string | BadDelegatedAlgorithm string | BadKdfId string | BadAeadId string
  | BadNumber num_error | TrustAnchorsMissing | UnknownExtension string
  | BadTrustAnchors ta_error | SpecPanic

text \<open>A factory runs once per ClientHello; its argument is what \<open>rand.Read\<close> delivers to it.\<close>

type_synonym specFactory = "(u8 \<times> u8) option \<Rightarrow> spec_error + ClientHelloSpec"

text \<open>The identifiers of \<open>utls\<close> that profiles name; their specifications are built inside \<open>utls\<close>.\<close>

datatype helloConst =
    HelloChrome_103 | HelloChrome_104 | HelloChrome_105 | HelloChrome_106 | HelloChrome_107
  | HelloChrome_108 | HelloChrome_109 | HelloChrome_110 | HelloChrome_111 | HelloChrome_112
  | HelloChrome_112_PSK | HelloChrome_115_PQ_PSK | HelloFirefox_102 | HelloFirefox_104
  | HelloFirefox_105 | HelloFirefox_106 | HelloFirefox_108 | HelloFirefox_110 | HelloIOS_15_5
  | HelloIOS_15_6 | HelloIOS_16_0 | HelloIPad_15_6 | HelloOpera_89 | HelloOpera_90 | HelloOpera_91
  | HelloSafari_15_6_1 | HelloSafari_16_0

record ClientHelloIDFields =
  Client :: string
  RandomExtensionOrder :: bool
  Version :: string
  SpecFactory :: specFactory

datatype ClientHelloID = BuiltinHello helloConst | FactoryHello ClientHelloIDFields

section \<open>Structures of fhttp/http2\<close>

record PriorityParam =
  StreamDep :: u32
  Exclusive :: bool
  Weight :: u8

record Priority =
  StreamID :: u32
  PrioParam :: PriorityParam

text \<open>
  A Go map with its entries in some order (the keys are distinct and the order means nothing);
  \<^const>\<open>None\<close> is the nil map.
\<close>

type_synonym ('k, 'v) gomap = "('k \<times> 'v) list option"

definition entries :: "('k, 'v) gomap \<Rightarrow> ('k \<times> 'v) list" where
  "entries m = (case m of None \<Rightarrow> [] | Some es \<Rightarrow> es)"

definition mapGet :: "('k, 'v) gomap \<Rightarrow> 'k \<Rightarrow> 'v option" where
  "mapGet m k = map_of (entries m) k"

text \<open>\<open>m[k] = v\<close> on a non-nil map.\<close>

fun mapPut :: "'k \<Rightarrow> 'v \<Rightarrow> ('k \<times> 'v) list \<Rightarrow> ('k \<times> 'v) list" where
  "mapPut k v [] = [(k, v)]"
| "mapPut k v ((a, b) # es) = (if a = k then (k, v) # es else (a, b) # mapPut k v es)"

lemma map_of_mapPut [simp]: "map_of (mapPut k v es) = (map_of es)(k \<mapsto> v)"
  by (induction k v es rule: mapPut.induct) auto

lemma fst_set_mapPut [simp]: "fst ` set (mapPut k v es) = insert k (fst ` set es)"
  by (induction k v es rule: mapPut.induct) auto

lemma distinct_mapPut: "distinct (map fst es) \<Longrightarrow> distinct (map fst (mapPut k v es))"
  by (induction k v es rule: mapPut.induct) auto

section \<open>profiles/profiles.go\<close>

text \<open>\<open>ToSpec\<close> and \<open>Str\<close> of an identifier are code of \<open>utls\<close>: arguments.\<close>

record ClientProfile =
  clientHelloId :: ClientHelloID
  headerPriority :: "PriorityParam option"
  settings :: "(u16, u32) gomap"
  settingsOrder :: "u16 list"
  priorities :: "Priority list"
  pseudoHeaderOrder :: "string list"
  connectionFlow :: u32
  streamID :: u32
  allowHTTP :: bool
  http3Settings :: "(u64, u64) gomap"
  http3SettingsOrder :: "u64 list"
  http3PriorityParam :: u32
  http3PseudoHeaderOrder :: "string list"
  http3SendGreaseFrames :: bool

definition NewClientProfile ::
  "ClientHelloID \<Rightarrow> (u16, u32) gomap \<Rightarrow> u16 list \<Rightarrow> string list \<Rightarrow> u32 \<Rightarrow> Priority list
   \<Rightarrow> PriorityParam option \<Rightarrow> u32 \<Rightarrow> bool \<Rightarrow> (u64, u64) gomap \<Rightarrow> u64 list \<Rightarrow> u32 \<Rightarrow> string list \<Rightarrow> bool
   \<Rightarrow> ClientProfile" where
  "NewClientProfile helloId sets setsOrder pseudo flow prios hdrPrio sid allow h3s h3o h3p h3ps h3g =
     \<lparr>clientHelloId = helloId, headerPriority = hdrPrio, settings = sets, settingsOrder = setsOrder,
      priorities = prios, pseudoHeaderOrder = pseudo, connectionFlow = flow, streamID = sid,
      allowHTTP = allow, http3Settings = h3s, http3SettingsOrder = h3o, http3PriorityParam = h3p,
      http3PseudoHeaderOrder = h3ps, http3SendGreaseFrames = h3g\<rparr>"

definition GetClientHelloId :: "ClientProfile \<Rightarrow> ClientHelloID" where "GetClientHelloId c = clientHelloId c"
definition GetClientHelloSpec :: "(ClientHelloID \<Rightarrow> 'r) \<Rightarrow> ClientProfile \<Rightarrow> 'r" where
  "GetClientHelloSpec ToSpec c = ToSpec (clientHelloId c)"
definition GetClientHelloStr :: "(ClientHelloID \<Rightarrow> string) \<Rightarrow> ClientProfile \<Rightarrow> string" where
  "GetClientHelloStr Str c = Str (clientHelloId c)"
definition GetSettings :: "ClientProfile \<Rightarrow> (u16, u32) gomap" where "GetSettings c = settings c"
definition GetSettingsOrder :: "ClientProfile \<Rightarrow> u16 list" where "GetSettingsOrder c = settingsOrder c"
definition GetConnectionFlow :: "ClientProfile \<Rightarrow> u32" where "GetConnectionFlow c = connectionFlow c"
definition GetPseudoHeaderOrder :: "ClientProfile \<Rightarrow> string list" where
  "GetPseudoHeaderOrder c = pseudoHeaderOrder c"
definition GetHeaderPriority :: "ClientProfile \<Rightarrow> PriorityParam option" where
  "GetHeaderPriority c = headerPriority c"
definition GetPriorities :: "ClientProfile \<Rightarrow> Priority list" where "GetPriorities c = priorities c"
definition GetStreamID :: "ClientProfile \<Rightarrow> u32" where "GetStreamID c = streamID c"
definition GetAllowHTTP :: "ClientProfile \<Rightarrow> bool" where "GetAllowHTTP c = allowHTTP c"
definition GetHttp3Settings :: "ClientProfile \<Rightarrow> (u64, u64) gomap" where "GetHttp3Settings c = http3Settings c"
definition GetHttp3SettingsOrder :: "ClientProfile \<Rightarrow> u64 list" where
  "GetHttp3SettingsOrder c = http3SettingsOrder c"
definition GetHttp3PriorityParam :: "ClientProfile \<Rightarrow> u32" where
  "GetHttp3PriorityParam c = http3PriorityParam c"
definition GetHttp3PseudoHeaderOrder :: "ClientProfile \<Rightarrow> string list" where
  "GetHttp3PseudoHeaderOrder c = http3PseudoHeaderOrder c"
definition GetHttp3SendGreaseFrames :: "ClientProfile \<Rightarrow> bool" where
  "GetHttp3SendGreaseFrames c = http3SendGreaseFrames c"

lemmas profile_getters = GetClientHelloId_def GetSettings_def GetSettingsOrder_def
  GetConnectionFlow_def GetPseudoHeaderOrder_def GetHeaderPriority_def GetPriorities_def
  GetStreamID_def GetAllowHTTP_def GetHttp3Settings_def GetHttp3SettingsOrder_def
  GetHttp3PriorityParam_def GetHttp3PseudoHeaderOrder_def GetHttp3SendGreaseFrames_def

end
