(* ===== verification/GoNet.thy ===== *)
theory GoNet
  imports Prelude
begin

text \<open>
  The parts of Go's \<^verbatim>\<open>net\<close> and \<^verbatim>\<open>net/url\<close> packages that the program relies on (Go 1.24):
  IP addresses in their 4 and 16 byte forms, UDP addresses, splitting and joining of
  \<^verbatim>\<open>host:port\<close>, and \<^verbatim>\<open>url.Parse\<close> with \<^verbatim>\<open>Hostname\<close>, \<^verbatim>\<open>Port\<close> and the user information. These
  are library functions, so they carry no entry in the source map; every component that
  parses a proxy URL, dials an address or encodes a datagram uses them.
\<close>

section \<open>net.IP\<close>

type_synonym ip = bytes

definition v4InV6Prefix :: bytes where
  "v4InV6Prefix = replicate 10 0 @ [0xff, 0xff]"

definition ip_To4 :: "ip \<Rightarrow> ip option" where
  "ip_To4 a = (if length a = 4 then Some a
     else if length a = 16 \<and> take 12 a = v4InV6Prefix then Some (drop 12 a)
     else None)"

definition ip_To16 :: "ip \<Rightarrow> ip option" where
  "ip_To16 a = (if length a = 4 then Some (v4InV6Prefix @ a)
     else if length a = 16 then Some a
     else None)"

definition ip_Equal :: "ip \<Rightarrow> ip \<Rightarrow> bool" where
  "ip_Equal a b =
     (if length a = length b then a = b
      else if length a = 4 \<and> length b = 16 then take 12 b = v4InV6Prefix \<and> a = drop 12 b
      else if length a = 16 \<and> length b = 4 then take 12 a = v4InV6Prefix \<and> drop 12 a = b
      else False)"

definition IPv4zero :: ip where
  "IPv4zero = v4InV6Prefix @ [0, 0, 0, 0]"

definition IPv6unspecified :: ip where
  "IPv6unspecified = replicate 16 0"

definition ip_IsUnspecified :: "ip \<Rightarrow> bool" where
  "ip_IsUnspecified a \<longleftrightarrow> ip_Equal a IPv4zero \<or> ip_Equal a IPv6unspecified"

record UDPAddr =
  IP :: ip
  Port :: int
  Zone :: string

lemma length_v4InV6Prefix [simp]: "length v4InV6Prefix = 12"
  by (simp add: v4InV6Prefix_def)

lemma ip_To4_length: "ip_To4 a = Some b \<Longrightarrow> length b = 4"
  by (auto simp: ip_To4_def split: if_splits)

lemma ip_To16_length: "ip_To16 a = Some b \<Longrightarrow> length b = 16"
  by (auto simp: ip_To16_def split: if_splits)

lemma ip_Equal_refl [simp]: "ip_Equal a a"
  by (simp add: ip_Equal_def)

lemma ip_Equal_sym: "ip_Equal a b \<longleftrightarrow> ip_Equal b a"
  by (auto simp: ip_Equal_def)

lemma ip_To4_Equal: "ip_To4 a = Some b \<Longrightarrow> ip_Equal b a"
  by (auto simp: ip_To4_def ip_Equal_def split: if_splits)

lemma ip_To16_Equal: "ip_To16 a = Some b \<Longrightarrow> ip_Equal b a"
  by (auto simp: ip_To16_def ip_Equal_def split: if_splits)

lemma ip_To4_None_To16:
  "ip_To4 a = None \<Longrightarrow> length a = 4 \<or> length a = 16 \<Longrightarrow> ip_To16 a = Some a"
  by (auto simp: ip_To4_def ip_To16_def split: if_splits)

section \<open>Searching strings\<close>

fun indexOf :: "'a \<Rightarrow> 'a list \<Rightarrow> nat option" where
  "indexOf c [] = None"
| "indexOf c (x # xs) = (if x = c then Some 0 else map_option Suc (indexOf c xs))"

fun lastIndexOf :: "'a \<Rightarrow> 'a list \<Rightarrow> nat option" where
  "lastIndexOf c [] = None"
| "lastIndexOf c (x # xs) =
     (case lastIndexOf c xs of Some i \<Rightarrow> Some (Suc i)
      | None \<Rightarrow> if x = c then Some 0 else None)"

fun indexOfStr :: "'a list \<Rightarrow> 'a list \<Rightarrow> nat option" where
  "indexOfStr p [] = (if p = [] then Some 0 else None)"
| "indexOfStr p (x # xs) =
     (if hasPrefix (x # xs) p then Some 0 else map_option Suc (indexOfStr p xs))"

text \<open>\<open>strings.Cut\<close> with a one-byte separator.\<close>

definition cutAt :: "'a \<Rightarrow> 'a list \<Rightarrow> 'a list \<times> 'a list" where
  "cutAt c s = (case indexOf c s of
     None \<Rightarrow> (s, []) | Some i \<Rightarrow> (take i s, drop (Suc i) s))"

lemma indexOf_None [simp]: "indexOf c s = None \<longleftrightarrow> c \<notin> set s"
  by (induction s) auto

lemma lastIndexOf_None [simp]: "lastIndexOf c s = None \<longleftrightarrow> c \<notin> set s"
  by (induction s) (auto split: option.splits)

lemma lastIndexOf_append [simp]:
  "c \<notin> set t \<Longrightarrow> lastIndexOf c (s @ c # t) = Some (length s)"
  by (induction s) (auto simp flip: lastIndexOf_None)

lemma indexOf_append [simp]:
  "c \<notin> set s \<Longrightarrow> indexOf c (s @ c # t) = Some (length s)"
  by (induction s) auto

lemma lastIndexOf_bound: "lastIndexOf c s = Some i \<Longrightarrow> i < length s"
  by (induction s arbitrary: i) (auto split: option.splits if_splits)

section \<open>host:port\<close>

datatype addr_error = MissingPort | TooManyColons | MissingBracket | UnexpectedBracket

definition JoinHostPort :: "string \<Rightarrow> string \<Rightarrow> string" where
  "JoinHostPort host port =
     (if CHR '':'' \<in> set host then ''['' @ host @ '']:'' @ port else host @ '':'' @ port)"

definition SplitHostPort :: "string \<Rightarrow> addr_error + (string \<times> string)" where
  "SplitHostPort hp =
     (case lastIndexOf (CHR '':'') hp of
        None \<Rightarrow> Inl MissingPort
      | Some i \<Rightarrow>
          if take 1 hp = ''['' then
            (case indexOf (CHR '']'') hp of
               None \<Rightarrow> Inl MissingBracket
             | Some e \<Rightarrow>
                 if e + 1 = length hp then Inl MissingPort
                 else if e + 1 \<noteq> i then
                   (if hp ! (e + 1) = CHR '':'' then Inl TooManyColons else Inl MissingPort)
                 else if CHR ''['' \<in> set (drop 1 hp) \<or> CHR '']'' \<in> set (drop (e + 1) hp)
                   then Inl UnexpectedBracket
                 else Inr (drop 1 (take e hp), drop (i + 1) hp))
          else if CHR '':'' \<in> set (take i hp) then Inl TooManyColons
          else if CHR ''['' \<in> set hp \<or> CHR '']'' \<in> set hp then Inl UnexpectedBracket
          else Inr (take i hp, drop (i + 1) hp))"

definition addr_clean :: "string \<Rightarrow> bool" where
  "addr_clean s \<longleftrightarrow> CHR ''['' \<notin> set s \<and> CHR '']'' \<notin> set s"

lemma SplitHostPort_JoinHostPort:
  assumes "addr_clean host" and "addr_clean port" and "CHR '':'' \<notin> set port"
  shows "SplitHostPort (JoinHostPort host port) = Inr (host, port)"
proof (cases "CHR '':'' \<in> set host")
  case False
  have h: "take 1 (host @ CHR '':'' # port) \<noteq> ''[''"
    using assms(1) by (cases host) (auto simp: addr_clean_def)
  show ?thesis
    using False assms h by (simp add: JoinHostPort_def SplitHostPort_def addr_clean_def)
next
  case True
  have i: "lastIndexOf (CHR '':'') (CHR ''['' # host @ CHR '']'' # CHR '':'' # port) =
      Some (length host + 2)"
    using lastIndexOf_append [of "CHR '':''" port "CHR ''['' # host @ '']''"] assms(3) by simp
  have e: "indexOf (CHR '']'') (CHR ''['' # host @ CHR '']'' # CHR '':'' # port) =
      Some (length host + 1)"
    using indexOf_append [of "CHR '']''" "CHR ''['' # host" "CHR '':'' # port"] assms(1)
    by (simp add: addr_clean_def)
  show ?thesis
    using True assms i e by (simp add: JoinHostPort_def SplitHostPort_def addr_clean_def)
qed

section \<open>net/url\<close>

datatype url_error =
    InvalidControlChar | MissingScheme | ColonInFirstSegment | InvalidUserinfo
  | UrlMissingBracket | InvalidPort | EscapeError | InvalidHostError

datatype encode_mode = encodePath | encodeHost | encodeZone | encodeUserPassword | encodeFragment

record userinfo =
  username :: string
  password :: "string option"

text \<open>The fields of \<open>url.URL\<close> that the program reads, with the path and query kept.\<close>

record URL =
  Scheme :: string
  Opaque :: string
  User :: "userinfo option"
  Host :: string
  Path :: string
  RawQuery :: string
  Fragment :: string

definition emptyURL :: URL where
  "emptyURL = \<lparr>Scheme = [], Opaque = [], User = None, Host = [], Path = [], RawQuery = [], Fragment = []\<rparr>"

definition isAlpha :: "char \<Rightarrow> bool" where
  "isAlpha c = (let n = of_char c :: nat in 65 \<le> n \<and> n \<le> 90 \<or> 97 \<le> n \<and> n \<le> 122)"

definition isDigit :: "char \<Rightarrow> bool" where
  "isDigit c = (let n = of_char c :: nat in 48 \<le> n \<and> n \<le> 57)"

text \<open>\<open>shouldEscape\<close> in the two host modes, the only ones that reject a byte.\<close>

definition shouldEscapeHost :: "char \<Rightarrow> bool" where
  "shouldEscapeHost c \<longleftrightarrow>
     \<not> (isAlpha c \<or> isDigit c \<or> c \<in> set ''!$&()*+,;=:[]<>-_.~'' \<or> c = CHR 0x27 \<or> c = CHR 0x22)"

definition unhexPair :: "char \<Rightarrow> char \<Rightarrow> nat option" where
  "unhexPair h l = (case (fromHexChar h, fromHexChar l) of
     (Some a, Some b) \<Rightarrow> Some (16 * a + b) | _ \<Rightarrow> None)"

fun unescape :: "encode_mode \<Rightarrow> string \<Rightarrow> url_error + string" where
  "unescape m [] = Inr []"
| "unescape m (c # s) =
     (if c = CHR ''%'' then
        (case s of
           h # l # rest \<Rightarrow>
             (case unhexPair h l of
                None \<Rightarrow> Inl EscapeError
              | Some v \<Rightarrow>
                  if m = encodeHost \<and> v < 128 \<and> v \<noteq> 37 then Inl EscapeError
                  else if m = encodeZone \<and> v \<noteq> 37 \<and> v \<noteq> 32 \<and> shouldEscapeHost (char_of v)
                    then Inl EscapeError
                  else (case unescape m rest of Inl e \<Rightarrow> Inl e | Inr t \<Rightarrow> Inr (char_of v # t)))
         | _ \<Rightarrow> Inl EscapeError)
      else if (m = encodeHost \<or> m = encodeZone) \<and> (of_char c :: nat) < 128 \<and> shouldEscapeHost c
        then Inl InvalidHostError
      else (case unescape m s of Inl e \<Rightarrow> Inl e | Inr t \<Rightarrow> Inr (c # t)))"

fun getSchemeLoop :: "nat \<Rightarrow> string \<Rightarrow> string \<Rightarrow> url_error + (string \<times> string)" where
  "getSchemeLoop i raw [] = Inr ([], raw)"
| "getSchemeLoop i raw (c # cs) =
     (if isAlpha c then getSchemeLoop (Suc i) raw cs
      else if isDigit c \<or> c \<in> set ''+-.'' then
        (if i = 0 then Inr ([], raw) else getSchemeLoop (Suc i) raw cs)
      else if c = CHR '':'' then
        (if i = 0 then Inl MissingScheme else Inr (take i raw, drop (Suc i) raw))
      else Inr ([], raw))"

definition getScheme :: "string \<Rightarrow> url_error + (string \<times> string)" where
  "getScheme raw = getSchemeLoop 0 raw raw"

definition validOptionalPort :: "string \<Rightarrow> bool" where
  "validOptionalPort port = (case port of [] \<Rightarrow> True
     | c # cs \<Rightarrow> c = CHR '':'' \<and> list_all isDigit cs)"

definition validUserinfo :: "string \<Rightarrow> bool" where
  "validUserinfo s = list_all (\<lambda>c. isAlpha c \<or> isDigit c \<or> c \<in> set ''-._:~!$&()*+,;=%@'' \<or> c = CHR 0x27) s"

definition parseHost :: "string \<Rightarrow> url_error + string" where
  "parseHost host =
     (if take 1 host = ''['' then
        (case lastIndexOf (CHR '']'') host of
           None \<Rightarrow> Inl UrlMissingBracket
         | Some i \<Rightarrow>
             if \<not> validOptionalPort (drop (i + 1) host) then Inl InvalidPort
             else (case indexOfStr ''%25'' (take i host) of
                None \<Rightarrow> unescape encodeHost host
              | Some z \<Rightarrow>
                  (case unescape encodeHost (take z host) of Inl e \<Rightarrow> Inl e | Inr h1 \<Rightarrow>
                   (case unescape encodeZone (drop z (take i host)) of Inl e \<Rightarrow> Inl e | Inr h2 \<Rightarrow>
                    (case unescape encodeHost (drop i host) of Inl e \<Rightarrow> Inl e | Inr h3 \<Rightarrow>
                       Inr (h1 @ h2 @ h3))))))
      else (case lastIndexOf (CHR '':'') host of
         None \<Rightarrow> unescape encodeHost host
       | Some i \<Rightarrow> if \<not> validOptionalPort (drop i host) then Inl InvalidPort
                   else unescape encodeHost host))"

definition parseAuthority :: "string \<Rightarrow> url_error + (userinfo option \<times> string)" where
  "parseAuthority authority =
     (case lastIndexOf (CHR ''@'') authority of
        None \<Rightarrow> (case parseHost authority of Inl e \<Rightarrow> Inl e | Inr h \<Rightarrow> Inr (None, h))
      | Some i \<Rightarrow>
          (case parseHost (drop (i + 1) authority) of Inl e \<Rightarrow> Inl e | Inr h \<Rightarrow>
             (let ui = take i authority in
              if \<not> validUserinfo ui then Inl InvalidUserinfo
              else if CHR '':'' \<notin> set ui then
                (case unescape encodeUserPassword ui of Inl e \<Rightarrow> Inl e
                 | Inr u \<Rightarrow> Inr (Some \<lparr>username = u, password = None\<rparr>, h))
              else
                (case unescape encodeUserPassword (fst (cutAt (CHR '':'') ui)) of Inl e \<Rightarrow> Inl e
                 | Inr u \<Rightarrow>
                   (case unescape encodeUserPassword (snd (cutAt (CHR '':'') ui)) of Inl e \<Rightarrow> Inl e
                    | Inr p \<Rightarrow> Inr (Some \<lparr>username = u, password = Some p\<rparr>, h))))))"

definition setPath :: "URL \<Rightarrow> string \<Rightarrow> url_error + URL" where
  "setPath u p = (case unescape encodePath p of Inl e \<Rightarrow> Inl e | Inr q \<Rightarrow> Inr (u\<lparr>Path := q\<rparr>))"

definition cutQuery :: "string \<Rightarrow> string \<times> string" where
  "cutQuery rest = (if rest \<noteq> [] \<and> last rest = CHR ''?'' \<and> count_list rest (CHR ''?'') = 1
     then (butlast rest, []) else cutAt (CHR ''?'') rest)"

text \<open>The part of \<open>parse\<close> after the scheme and the query were split off.\<close>

definition parseRest :: "URL \<Rightarrow> string \<Rightarrow> url_error + URL" where
  "parseRest u rest =
     (if take 1 rest \<noteq> ''/'' \<and> Scheme u \<noteq> [] then Inr (u\<lparr>Opaque := rest\<rparr>)
      else if take 1 rest \<noteq> ''/'' \<and> CHR '':'' \<in> set (fst (cutAt (CHR ''/'') rest))
        then Inl ColonInFirstSegment
      else if (Scheme u \<noteq> [] \<or> take 3 rest \<noteq> ''///'') \<and> take 2 rest = ''//'' then
        (let a = drop 2 rest;
             (authority, path) = (case indexOf (CHR ''/'') a of None \<Rightarrow> (a, []) | Some i \<Rightarrow> (take i a, drop i a))
         in case parseAuthority authority of Inl e \<Rightarrow> Inl e
            | Inr (user, host) \<Rightarrow> setPath (u\<lparr>User := user, Host := host\<rparr>) path)
      else setPath u rest)"

definition url_Parse :: "string \<Rightarrow> url_error + URL" where
  "url_Parse raw =
     (let (u, frag) = cutAt (CHR ''#'') raw in
      if list_ex (\<lambda>c. (of_char c :: nat) < 32 \<or> (of_char c :: nat) = 127) u then Inl InvalidControlChar
      else if u = ''*'' then
        (case unescape encodeFragment frag of Inl e \<Rightarrow> Inl e
         | Inr f \<Rightarrow> Inr (emptyURL\<lparr>Path := ''*'', Fragment := f\<rparr>))
      else (case getScheme u of Inl e \<Rightarrow> Inl e
       | Inr (scheme, rest0) \<Rightarrow>
         (let (rest, query) = cutQuery rest0 in
          case parseRest (emptyURL\<lparr>Scheme := toLower scheme, RawQuery := query\<rparr>) rest of Inl e \<Rightarrow> Inl e
          | Inr url \<Rightarrow>
             (case unescape encodeFragment frag of Inl e \<Rightarrow> Inl e
              | Inr f \<Rightarrow> Inr (url\<lparr>Fragment := f\<rparr>)))))"

text \<open>\<open>URL.Hostname()\<close> and \<open>URL.Port()\<close>.\<close>

definition url_splitHostPort :: "string \<Rightarrow> string \<times> string" where
  "url_splitHostPort hp =
     (let (host, port) =
        (case lastIndexOf (CHR '':'') hp of
           Some i \<Rightarrow> if validOptionalPort (drop i hp) then (take i hp, drop (i + 1) hp) else (hp, [])
         | None \<Rightarrow> (hp, []))
      in (if take 1 host = ''['' \<and> last host = CHR '']'' \<and> length host \<ge> 2
          then butlast (drop 1 host) else host, port))"

definition url_Hostname :: "URL \<Rightarrow> string" where
  "url_Hostname u = fst (url_splitHostPort (Host u))"

definition url_Port :: "URL \<Rightarrow> string" where
  "url_Port u = snd (url_splitHostPort (Host u))"

text \<open>\<open>Userinfo.Password()\<close> with the ignored second result: the empty string if not set.\<close>

definition passwordOr :: "userinfo \<Rightarrow> string" where
  "passwordOr ui = (case password ui of None \<Rightarrow> [] | Some p \<Rightarrow> p)"

lemma url_Parse_scheme_lower:
  assumes "url_Parse raw = Inr u"
  shows "toLower (Scheme u) = Scheme u"
proof -
  have rest: "parseRest v r = Inr w \<Longrightarrow> Scheme w = Scheme v" for v r w
    by (auto simp: parseRest_def setPath_def Let_def split: if_splits sum.splits prod.splits option.splits)
  have empty: "toLower (Scheme emptyURL) = Scheme emptyURL"
    by (simp add: emptyURL_def toLower_def)
  show ?thesis
    using assms rest empty
    by (fastforce simp: url_Parse_def Let_def split: if_splits sum.splits prod.splits)
qed

end
