(* ===== verification/Pinner.thy ===== *)
theory Pinner
  imports Prelude
begin

text \<open>
  Certificate pinning, \<^verbatim>\<open>pinner.go\<close>. The package \<^verbatim>\<open>hpkp\<close>, which stores the pins of a host and
  fingerprints certificates, is not part of the repository: its functions are the fields of a
  record argument, and \<open>hpkp_ok\<close> states what its documentation says of them.
\<close>

section \<open>The package hpkp\<close>

record Header =
  Permanent :: bool
  Sha256Pins :: "string list"
  IncludeSubDomains :: bool

record ('s, 'c) hpkp =
  hLookup :: "'s \<Rightarrow> string \<Rightarrow> Header option"
  hAdd :: "string \<Rightarrow> Header \<Rightarrow> 's \<Rightarrow> 's"
  hMatches :: "Header \<Rightarrow> string \<Rightarrow> bool"
  hFingerprint :: "'c \<Rightarrow> string"

text \<open>
  The storage keeps one header per host: a lookup of the host just added finds that header, adding
  a host does not change the lookup of a host that is neither it nor one of its subdomains, and a
  header matches the pins it lists.
\<close>

definition subdomainOf :: "string \<Rightarrow> string \<Rightarrow> bool" where
  "subdomainOf sub host \<longleftrightarrow> (\<exists>l. sub = l @ CHR ''.'' # host)"

definition hpkp_ok :: "('s, 'c) hpkp \<Rightarrow> bool" where
  "hpkp_ok H \<longleftrightarrow>
     (\<forall>s h hdr. hLookup H (hAdd H h hdr s) h = Some hdr) \<and>
     (\<forall>s h hdr h'. h' \<noteq> h \<and> \<not> subdomainOf h' h \<longrightarrow> hLookup H (hAdd H h hdr s) h' = hLookup H s h') \<and>
     (\<forall>hdr p. hMatches H hdr p \<longleftrightarrow> p \<in> set (Sha256Pins hdr))"

text \<open>
  A header that includes subdomains is found for every subdomain with non-empty labels for which nothing was found
  before.
\<close>

definition belowHost :: "string \<Rightarrow> string \<Rightarrow> bool" where
  "belowHost sub host \<longleftrightarrow> (\<exists>l. sub = l @ CHR ''.'' # host \<and> [] \<notin> set (splitOn (CHR ''.'') l))"

definition hpkp_subdomains :: "('s, 'c) hpkp \<Rightarrow> bool" where
  "hpkp_subdomains H \<longleftrightarrow>
     (\<forall>s h hdr sub. IncludeSubDomains hdr \<and> belowHost sub h \<and> hLookup H s sub = None \<longrightarrow>
        hLookup H (hAdd H h hdr s) sub = Some hdr)"

section \<open>pinner.go\<close>

text \<open>A map of pins, in the order in which \<open>range\<close> visits it.\<close>

record certificatePinner =
  certificatePins :: "(string \<times> string list) list"

datatype pin_error = ErrBadPinDetected "string list"

text \<open>\<open>*.\<close> anywhere in the host asks for its subdomains too, and is removed from the name.\<close>

definition includeSubdomains :: "string \<Rightarrow> bool" where
  "includeSubdomains host = containsStr host ''*.''"

definition pinnedName :: "string \<Rightarrow> string" where
  "pinnedName host = (if includeSubdomains host then removeAll_sub ''*.'' host else host)"

text \<open>One iteration of \<open>init\<close>, and the loop.\<close>

definition init_host :: "('s, 'c) hpkp \<Rightarrow> string \<times> string list \<Rightarrow> 's \<Rightarrow> 's" where
  "init_host H entry storage =
     (let (host, pinsByHost) = entry; name = pinnedName host in
      case hLookup H storage name of
        Some pinnedHost \<Rightarrow>
          if Sha256Pins pinnedHost = pinsByHost then storage
          else hAdd H name \<lparr>Permanent = True, Sha256Pins = pinsByHost,
                            IncludeSubDomains = includeSubdomains host\<rparr> storage
      | None \<Rightarrow> hAdd H name \<lparr>Permanent = True, Sha256Pins = pinsByHost,
                              IncludeSubDomains = includeSubdomains host\<rparr> storage)"

definition init :: "('s, 'c) hpkp \<Rightarrow> certificatePinner \<Rightarrow> 's \<Rightarrow> 's" where
  "init H cp storage =
     (if certificatePins cp = [] then storage
      else fold (init_host H) (certificatePins cp) storage)"

text \<open>The pinner with the storage it leaves; \<open>init\<close> never fails.\<close>

definition NewCertificatePinner ::
  "('s, 'c) hpkp \<Rightarrow> (string \<times> string list) list \<Rightarrow> 's \<Rightarrow> certificatePinner \<times> 's" where
  "NewCertificatePinner H pins storage =
     (let pinner = \<lparr>certificatePins = pins\<rparr> in (pinner, init H pinner storage))"

definition Pin ::
  "('s, 'c) hpkp \<Rightarrow> 's \<Rightarrow> certificatePinner \<Rightarrow> 'c list \<Rightarrow> string \<Rightarrow> pin_error + unit" where
  "Pin H storage cp peerCertificates host =
     (if certificatePins cp = [] then Inr ()
      else (case hLookup H storage host of
              None \<Rightarrow> Inr ()
            | Some pinnedHost \<Rightarrow>
                (let actualPins = map (hFingerprint H) peerCertificates in
                 if \<exists>p \<in> set actualPins. hMatches H pinnedHost p then Inr ()
                 else Inl (ErrBadPinDetected actualPins))))"

section \<open>Lemmas\<close>

lemma hpkp_ok_lookup: "hpkp_ok H \<Longrightarrow> hLookup H (hAdd H h hdr s) h = Some hdr"
  by (simp add: hpkp_ok_def)

lemma hpkp_ok_other:
  "hpkp_ok H \<Longrightarrow> h' \<noteq> h \<Longrightarrow> \<not> subdomainOf h' h \<Longrightarrow> hLookup H (hAdd H h hdr s) h' = hLookup H s h'"
  by (simp add: hpkp_ok_def)

lemma hpkp_ok_matches: "hpkp_ok H \<Longrightarrow> hMatches H hdr p \<longleftrightarrow> p \<in> set (Sha256Pins hdr)"
  by (simp add: hpkp_ok_def)

text \<open>After the iteration for a host, the pins on record are the ones asked for.\<close>

lemma init_host_pins:
  assumes "hpkp_ok H"
  shows "\<exists>hdr. hLookup H (init_host H (host, pins) s) (pinnedName host) = Some hdr \<and> Sha256Pins hdr = pins"
  using assms by (auto simp: init_host_def Let_def hpkp_ok_lookup split: option.splits)

lemma init_host_other:
  assumes "hpkp_ok H" "h \<noteq> pinnedName (fst e)" "\<not> subdomainOf h (pinnedName (fst e))"
  shows "hLookup H (init_host H e s) h = hLookup H s h"
  using assms by (auto simp: init_host_def Let_def hpkp_ok_other split: option.splits prod.splits)

lemma fold_init_other:
  assumes "hpkp_ok H" "\<And>e. e \<in> set es \<Longrightarrow> h \<noteq> pinnedName (fst e) \<and> \<not> subdomainOf h (pinnedName (fst e))"
  shows "hLookup H (fold (init_host H) es s) h = hLookup H s h"
  using assms by (induction es arbitrary: s) (auto simp: init_host_other)

text \<open>The names of a configuration are independent when no two entries name the same host or a
  host below another.\<close>

definition independent :: "(string \<times> string list) list \<Rightarrow> bool" where
  "independent es \<longleftrightarrow> (\<forall>i < length es. \<forall>j < length es. i \<noteq> j \<longrightarrow>
     (let a = pinnedName (fst (es ! i)); b = pinnedName (fst (es ! j)) in a \<noteq> b \<and> \<not> subdomainOf a b))"

lemma independent_split:
  assumes "independent (xs @ (host, pins) # ys)" and "e \<in> set ys"
  shows "pinnedName host \<noteq> pinnedName (fst e) \<and> \<not> subdomainOf (pinnedName host) (pinnedName (fst e))"
proof -
  from assms(2) obtain k where k: "k < length ys" "ys ! k = e" by (auto simp: in_set_conv_nth)
  let ?l = "xs @ (host, pins) # ys"
  have "length xs < length ?l" "length xs + Suc k < length ?l" "length xs \<noteq> length xs + Suc k"
    using k by simp_all
  moreover have "?l ! length xs = (host, pins)" "?l ! (length xs + Suc k) = e"
    using k by (simp_all add: nth_append)
  ultimately show ?thesis using assms(1) unfolding independent_def Let_def by fastforce
qed

lemma init_pins:
  assumes "hpkp_ok H" "independent es" "(host, pins) \<in> set es"
  shows "\<exists>hdr. hLookup H (fold (init_host H) es s) (pinnedName host) = Some hdr \<and> Sha256Pins hdr = pins"
proof -
  from split_list [OF assms(3)] obtain xs ys where es: "es = xs @ (host, pins) # ys" by blast
  have "hLookup H (fold (init_host H) es s) (pinnedName host) =
      hLookup H (init_host H (host, pins) (fold (init_host H) xs s)) (pinnedName host)"
    using assms(1,2) by (simp add: es fold_init_other independent_split)
  then show ?thesis using init_host_pins [OF assms(1), of host pins "fold (init_host H) xs s"] by simp
qed

text \<open>
  The subdomains of a wildcard entry. Two names above one host are the same or one is below the other, so no
  other entry of an independent configuration is about them.
\<close>

lemma belowHost_subdomain: "belowHost sub h \<Longrightarrow> subdomainOf sub h"
  by (auto simp: belowHost_def subdomainOf_def)

lemma subdomainOf_linear:
  assumes "subdomainOf sub a" "subdomainOf sub b"
  shows "a = b \<or> subdomainOf a b \<or> subdomainOf b a"
proof -
  obtain l k where "l @ CHR ''.'' # a = k @ CHR ''.'' # b" using assms by (metis subdomainOf_def)
  then consider us where "us @ CHR ''.'' # a = CHR ''.'' # b" | us where "CHR ''.'' # a = us @ CHR ''.'' # b"
    by (auto simp: append_eq_append_conv2)
  then show ?thesis by cases (auto simp: append_eq_Cons_conv Cons_eq_append_conv subdomainOf_def)
qed

lemma independent_others:
  assumes "independent (xs @ (host, pins) # ys)" and "e \<in> set xs \<union> set ys"
  shows "pinnedName host \<noteq> pinnedName (fst e) \<and> \<not> subdomainOf (pinnedName host) (pinnedName (fst e)) \<and>
    \<not> subdomainOf (pinnedName (fst e)) (pinnedName host)"
proof -
  let ?l = "xs @ (host, pins) # ys"
  have n: "length xs < length ?l" "?l ! length xs = (host, pins)" by simp_all
  have "\<exists>k < length ?l. k \<noteq> length xs \<and> ?l ! k = e"
  proof (cases "e \<in> set xs")
    case True
    then obtain k where "k < length xs" "xs ! k = e" by (auto simp: in_set_conv_nth)
    then show ?thesis by (intro exI [of _ k]) (simp add: nth_append)
  next
    case False
    then obtain k where "k < length ys" "ys ! k = e" using assms(2) by (auto simp: in_set_conv_nth)
    then show ?thesis by (intro exI [of _ "length xs + Suc k"]) (simp add: nth_append)
  qed
  then obtain k where k: "k < length ?l" "k \<noteq> length xs" "?l ! k = e" by blast
  from assms(1) n k show ?thesis unfolding independent_def Let_def by (metis fst_conv)
qed

lemma init_subdomain_pins:
  assumes H: "hpkp_ok H" "hpkp_subdomains H" and ind: "independent es" and e: "(host, pins) \<in> set es"
    and wild: "includeSubdomains host" "belowHost name (pinnedName host)"
    and new: "hLookup H s (pinnedName host) = None" "hLookup H s name = None"
  shows "\<exists>hdr. hLookup H (fold (init_host H) es s) name = Some hdr \<and> Sha256Pins hdr = pins"
proof -
  from split_list [OF e] obtain xs ys where es: "es = xs @ (host, pins) # ys" by blast
  have other: "name \<noteq> pinnedName (fst x) \<and> \<not> subdomainOf name (pinnedName (fst x))" if "x \<in> set xs \<union> set ys" for x
    using independent_others [OF ind [unfolded es] that] belowHost_subdomain [OF wild(2)] subdomainOf_linear by blast
  let ?s1 = "fold (init_host H) xs s"
  have "hLookup H ?s1 (pinnedName host) = None"
    using new(1) fold_init_other [OF H(1), of xs "pinnedName host" s] independent_others [OF ind [unfolded es]] by simp
  then have "init_host H (host, pins) ?s1 =
      hAdd H (pinnedName host) \<lparr>Permanent = True, Sha256Pins = pins, IncludeSubDomains = True\<rparr> ?s1"
    using wild(1) by (simp add: init_host_def Let_def)
  moreover have "hLookup H ?s1 name = None" using new(2) fold_init_other [OF H(1), of xs name s] other by simp
  ultimately have "hLookup H (init_host H (host, pins) ?s1) name =
      Some \<lparr>Permanent = True, Sha256Pins = pins, IncludeSubDomains = True\<rparr>"
    using H(2) wild(2) by (simp add: hpkp_subdomains_def)
  moreover have "hLookup H (fold (init_host H) es s) name = hLookup H (init_host H (host, pins) ?s1) name"
    using fold_init_other [OF H(1), of ys name] other by (simp add: es)
  ultimately show ?thesis by simp
qed

text \<open>A storage for the witnesses: the last header added for the host itself, else for the nearest
  domain above it whose header includes subdomains.\<close>

fun memWalk :: "(string \<times> Header) list \<Rightarrow> string \<Rightarrow> Header option" where
  "memWalk s [] = None"
| "memWalk s (c # cs) =
     (case map_of s cs of
        Some hdr \<Rightarrow> if c = CHR ''.'' \<and> IncludeSubDomains hdr then Some hdr else memWalk s cs
      | None \<Rightarrow> memWalk s cs)"

definition memLookup :: "(string \<times> Header) list \<Rightarrow> string \<Rightarrow> Header option" where
  "memLookup s h = (case map_of s h of Some hdr \<Rightarrow> Some hdr | None \<Rightarrow> memWalk s h)"

definition memHpkp :: "((string \<times> Header) list, string) hpkp" where
  "memHpkp = \<lparr>hLookup = memLookup, hAdd = (\<lambda>h hdr s. (h, hdr) # s),
     hMatches = (\<lambda>hdr p. p \<in> set (Sha256Pins hdr)), hFingerprint = (\<lambda>c. c)\<rparr>"

lemma subdomainOf_Cons: "subdomainOf (c # cs) h \<longleftrightarrow> c = CHR ''.'' \<and> cs = h \<or> subdomainOf cs h"
  by (auto simp: subdomainOf_def Cons_eq_append_conv)

lemma subdomainOf_Nil [simp]: "\<not> subdomainOf [] h"
  by (simp add: subdomainOf_def)

lemma memWalk_other: "\<not> subdomainOf h' h \<Longrightarrow> memWalk ((h, hdr) # s) h' = memWalk s h'"
  by (induction h') (auto simp: subdomainOf_Cons split: option.splits)

lemma memWalk_below:
  "subdomainOf sub h \<Longrightarrow> IncludeSubDomains hdr \<Longrightarrow> memWalk s sub = None \<Longrightarrow> memWalk ((h, hdr) # s) sub = Some hdr"
  by (induction sub) (auto simp: subdomainOf_Cons split: option.splits if_splits)

lemma memHpkp_ok: "hpkp_ok memHpkp"
  by (auto simp: hpkp_ok_def memHpkp_def memLookup_def memWalk_other split: option.split)

lemma memHpkp_subdomains: "hpkp_subdomains memHpkp"
proof -
  have "memLookup ((h, hdr) # s) sub = Some hdr"
    if "IncludeSubDomains hdr" "subdomainOf sub h" "memLookup s sub = None" for h sub hdr s
    using that by (auto simp: memLookup_def memWalk_below split: option.splits)
  then show ?thesis unfolding hpkp_subdomains_def memHpkp_def using belowHost_subdomain by fastforce
qed

section \<open>Properties\<close>

text \<open>C6: pinning is enforced. Let a client be built with pins of which no two entries name the same host or a
  host below another (for others the order in which the map is visited matters). Then a connection to the name of an
  entry is accepted exactly when one of the certificates the peer presents has one of the pins of that
  entry, whatever the storage held before; and so is a connection to any host below the name of a
  wildcard entry, if the storage found nothing for the two names before. Every entry counts, in
  whatever order the map is visited.\<close>

theorem Pin_enforced:
  assumes "hpkp_ok H" and "hpkp_subdomains H" and "independent pins" and "(host, ps) \<in> set pins"
    and "NewCertificatePinner H pins storage = (cp, storage')"
    and "name = pinnedName host \<or> (includeSubdomains host \<and> belowHost name (pinnedName host) \<and>
      hLookup H storage (pinnedName host) = None \<and> hLookup H storage name = None)"
  shows "Pin H storage' cp certs name =
    (if \<exists>c \<in> set certs. hFingerprint H c \<in> set ps then Inr ()
     else Inl (ErrBadPinDetected (map (hFingerprint H) certs)))"
proof -
  have ne: "pins \<noteq> []" and cp: "cp = \<lparr>certificatePins = pins\<rparr>"
    and st: "storage' = fold (init_host H) pins storage"
    using assms(4,5) by (auto simp: NewCertificatePinner_def init_def Let_def)
  from assms(6) init_pins [OF assms(1,3,4), of storage]
    init_subdomain_pins [OF assms(1-4), of name storage]
  obtain hdr where "hLookup H storage' name = Some hdr" "Sha256Pins hdr = ps" unfolding st by blast
  then show ?thesis using ne by (simp add: Pin_def cp hpkp_ok_matches [OF assms(1)])
qed

theorem Pin_enforced_witness:
  "Pin memHpkp (snd (NewCertificatePinner memHpkp [(''b.com'', [''q'']), (''*.a.com'', [''p''])] []))
     (fst (NewCertificatePinner memHpkp [(''b.com'', [''q'']), (''*.a.com'', [''p''])] [])) [''q''] ''x.www.a.com''
   = Inl (ErrBadPinDetected [''q''])"
proof -
  let ?pins = "[(''b.com'', [''q'']), (''*.a.com'', [''p''])]"
  have n: "pinnedName ''*.a.com'' = ''a.com''" "pinnedName ''b.com'' = ''b.com''" "includeSubdomains ''*.a.com''" by code_simp+
  have i: "independent ?pins"
    by (auto simp: independent_def less_Suc_eq numeral_2_eq_2 Let_def n subdomainOf_Cons)
  have b: "belowHost ''x.www.a.com'' ''a.com''"
    unfolding belowHost_def by (intro exI [of _ "''x.www''"]) code_simp
  have c: "''x.www.a.com'' = pinnedName ''*.a.com'' \<or> (includeSubdomains ''*.a.com'' \<and>
      belowHost ''x.www.a.com'' (pinnedName ''*.a.com'') \<and> hLookup memHpkp [] (pinnedName ''*.a.com'') = None \<and>
      hLookup memHpkp [] ''x.www.a.com'' = None)"
    by (simp add: n b memHpkp_def memLookup_def)
  have m: "(''*.a.com'', [''p'']) \<in> set ?pins" by simp
  show ?thesis
    by (subst Pin_enforced [OF memHpkp_ok memHpkp_subdomains i m prod.collapse [symmetric] c]) (simp add: memHpkp_def)
qed

text \<open>C32: pins are process-wide, not per client. A second client with other pins for a host
  replaces the pins that the first client enforces: afterwards the first client refuses the
  certificate it was built to accept.\<close>

theorem second_client_replaces_pins:
  assumes "hpkp_ok H" and "\<not> includeSubdomains host" and "ps' \<noteq> ps"
    and "NewCertificatePinner H [(host, ps)] storage = (first, storage1)"
    and "NewCertificatePinner H [(host, ps')] storage1 = (second, storage2)"
  shows "Pin H storage2 first certs host =
    (if \<exists>c \<in> set certs. hFingerprint H c \<in> set ps' then Inr ()
     else Inl (ErrBadPinDetected (map (hFingerprint H) certs)))"
proof -
  have st: "storage2 = init_host H (host, ps') storage1" and f: "first = \<lparr>certificatePins = [(host, ps)]\<rparr>"
    using assms(4,5) by (auto simp: NewCertificatePinner_def init_def Let_def)
  have "pinnedName host = host" using assms(2) by (simp add: pinnedName_def)
  with init_host_pins [OF assms(1), of host ps' storage1] obtain hdr
    where "hLookup H storage2 host = Some hdr" "Sha256Pins hdr = ps'" unfolding st by auto
  then show ?thesis by (simp add: Pin_def f hpkp_ok_matches [OF assms(1)])
qed

theorem second_client_replaces_pins_witness:
  "Pin memHpkp (snd (NewCertificatePinner memHpkp [(''a.com'', [''q''])]
      (snd (NewCertificatePinner memHpkp [(''a.com'', [''p''])] []))))
     (fst (NewCertificatePinner memHpkp [(''a.com'', [''p''])] [])) [''p''] ''a.com''
   = Inl (ErrBadPinDetected [''p''])"
proof -
  have s: "\<not> includeSubdomains ''a.com''" "[''q''] \<noteq> [''p'']" by (simp_all add: includeSubdomains_def)
  show ?thesis
    by (subst second_client_replaces_pins
        [OF memHpkp_ok s prod.collapse [symmetric] prod.collapse [symmetric]]) (simp add: memHpkp_def)
qed

end
