(* ===== verification/Transports.thy ===== *)
theory Transports
  imports Profiles GoNet Pinner
begin

text \<open>
  The transports a round tripper builds, from \<^verbatim>\<open>roundtripper.go\<close>, with the options of
  \<^verbatim>\<open>client_options.go\<close> they are built from. The structures of \<^verbatim>\<open>fhttp\<close>, \<^verbatim>\<open>http2\<close>, \<^verbatim>\<open>http3\<close> and
  \<^verbatim>\<open>utls\<close> have the fields the sources set; certificates, key logs and caches are tokens.
\<close>

section \<open>Options and configurations\<close>

record TransportOptions =
  KeyLogWriter :: "nat option"
  IdleConnTimeout :: "i64 option"
  RootCAs :: "nat option"
  Certificates :: "nat list"
  MaxIdleConns :: int
  MaxIdleConnsPerHost :: int
  MaxConnsPerHost :: int
  MaxResponseHeaderBytes :: i64
  WriteBufferSize :: int
  ReadBufferSize :: int
  DisableKeepAlives :: bool
  DisableCompression :: bool

record tlsConfig =
  ClientSessionCache :: "nat option"
  ServerName :: string
  InsecureSkipVerify :: bool
  OmitEmptyPsk :: bool
  cfgRootCAs :: "nat option"
  cfgKeyLogWriter :: "nat option"
  cfgCertificates :: "nat list"

text \<open>\<open>http.Transport\<close>, \<open>http2.Transport\<close> and \<open>http3.Transport\<close>; \<open>t3_Dial\<close> is the proxy URL whose
  SOCKS5 dialer the transport uses, \<^const>\<open>None\<close> for the direct dialer of the package.\<close>

record httpTransport =
  t1_TLSClientConfig :: tlsConfig
  t1_ConnectionFlow :: u32
  t1_IdleConnTimeout :: i64
  t1_DisableKeepAlives :: bool
  t1_DisableCompression :: bool
  t1_MaxIdleConns :: int
  t1_MaxIdleConnsPerHost :: int
  t1_MaxConnsPerHost :: int
  t1_MaxResponseHeaderBytes :: i64
  t1_WriteBufferSize :: int
  t1_ReadBufferSize :: int

record http2Transport =
  t2_TLSClientConfig :: tlsConfig
  t2_ConnectionFlow :: u32
  t2_HeaderPriority :: "PriorityParam option"
  t2_IdleConnTimeout :: i64
  t2_InitialStreamID :: u32
  t2_AllowHTTP :: bool
  t2_DisableCompression :: bool
  t2_T1 :: "httpTransport option"
  t2_PseudoHeaderOrder :: "string list"
  t2_Settings :: "(u16, u32) gomap"
  t2_SettingsOrder :: "u16 list"
  t2_Priorities :: "Priority list"

record http3Transport =
  t3_TLSClientConfig :: tlsConfig
  t3_EnableDatagrams :: bool
  t3_Dial :: "string option"
  t3_AdditionalSettings :: "(u64, u64) gomap"
  t3_AdditionalSettingsOrder :: "u64 list"
  t3_PseudoHeaderOrder :: "string list"
  t3_SendGreaseFrames :: bool
  t3_PriorityParam :: u32
  t3_DisableCompression :: bool
  t3_MaxResponseHeaderBytes :: int

datatype transport = HTTP1 httpTransport | HTTP2 http2Transport | HTTP3 http3Transport

record http3Config =
  c3_clientSessionCache :: "nat option"
  c3_insecureSkipVerify :: bool
  c3_serverNameOverwrite :: string
  c3_transportOptions :: "TransportOptions option"
  c3_http3Settings :: "(u64, u64) gomap"
  c3_http3SettingsOrder :: "u64 list"
  c3_http3PriorityParam :: u32
  c3_http3PseudoHeaderOrder :: "string list"
  c3_http3SendGreaseFrames :: bool
  c3_proxyURL :: string

definition defaultIdleConnectionTimeout :: i64 where
  "defaultIdleConnectionTimeout = 90 * 1000000000"

definition CHROME_MAX_FIELD_SECTION_SIZE :: int where
  "CHROME_MAX_FIELD_SECTION_SIZE = 262144"

datatype transportKind = transportHTTP1 | transportHTTP2 | transportHTTP3

definition kindForProtocol :: "string \<Rightarrow> transportKind" where
  "kindForProtocol protocol =
     (if protocol = ''h2'' then transportHTTP2
      else if protocol = ''h3'' then transportHTTP3
      else transportHTTP1)"

fun kindOf :: "transport \<Rightarrow> transportKind" where
  "kindOf (HTTP1 _) = transportHTTP1"
| "kindOf (HTTP2 _) = transportHTTP2"
| "kindOf (HTTP3 _) = transportHTTP3"

section \<open>HTTP/3\<close>

datatype h3_error = H3InvalidProxyURL url_error | H3ProxyScheme string | H3MaxResponseHeaderBytes

text \<open>What the platform and its random source give: the width of \<open>int\<close>, the number drawn for a
  GREASE identifier and the four bytes of its value.\<close>

record platform =
  intSize :: nat
  greaseN :: nat
  greaseVal :: "u8 \<times> u8 \<times> u8 \<times> u8"

definition profileDefaultMaxResponseHeaderBytes :: "http3Config \<Rightarrow> int" where
  "profileDefaultMaxResponseHeaderBytes cfg =
     (if c3_http3PriorityParam cfg > 0 then CHROME_MAX_FIELD_SECTION_SIZE else -1)"

definition h3TLSConfig :: "http3Config \<Rightarrow> tlsConfig" where
  "h3TLSConfig cfg =
     \<lparr>ClientSessionCache = c3_clientSessionCache cfg, ServerName = c3_serverNameOverwrite cfg,
      InsecureSkipVerify = c3_insecureSkipVerify cfg, OmitEmptyPsk = True,
      cfgRootCAs = (case c3_transportOptions cfg of None \<Rightarrow> None | Some opts \<Rightarrow> RootCAs opts),
      cfgKeyLogWriter = None,
      cfgCertificates = (case c3_transportOptions cfg of None \<Rightarrow> [] | Some opts \<Rightarrow> Certificates opts)\<rparr>"

text \<open>The proxy: the dialer of a SOCKS5 proxy, the default without a proxy, an error otherwise.\<close>

definition h3Dial :: "string \<Rightarrow> h3_error + string option" where
  "h3Dial proxyURL =
     (if proxyURL \<noteq> [] then
        (case url_Parse proxyURL of
           Inl parseErr \<Rightarrow> Inl (H3InvalidProxyURL parseErr)
         | Inr parsedURL \<Rightarrow>
             if Scheme parsedURL \<noteq> ''socks5'' \<and> Scheme parsedURL \<noteq> ''socks5h''
             then Inl (H3ProxyScheme (Scheme parsedURL)) else Inr (Some proxyURL))
      else Inr None)"

text \<open>The settings and their order, with the GREASE setting for profiles with a priority.\<close>

definition h3Settings :: "platform \<Rightarrow> http3Config \<Rightarrow> (u64, u64) gomap \<times> u64 list" where
  "h3Settings pf cfg =
     (if c3_http3PriorityParam cfg > 0 then
        (let greaseID = generateGREASESettingID (greaseN pf);
             greaseValue = (case greaseVal pf of (a, b, c, d) \<Rightarrow> generateGREASESettingValue a b c d)
         in (Some (mapPut greaseID greaseValue (entries (c3_http3Settings cfg))),
             if c3_http3SettingsOrder cfg \<noteq> [] then c3_http3SettingsOrder cfg @ [greaseID] else []))
      else (c3_http3Settings cfg, c3_http3SettingsOrder cfg))"

definition h3MaxResponseHeaderBytes :: "platform \<Rightarrow> http3Config \<Rightarrow> h3_error + int" where
  "h3MaxResponseHeaderBytes pf cfg =
     (case c3_transportOptions cfg of
        None \<Rightarrow> Inr (profileDefaultMaxResponseHeaderBytes cfg)
      | Some opts \<Rightarrow>
          (case Int64ToInt (intSize pf) (MaxResponseHeaderBytes opts) of
             Inl _ \<Rightarrow> Inl H3MaxResponseHeaderBytes
           | Inr n \<Rightarrow> Inr (if n > 0 then n else if n < 0 then -1
                           else profileDefaultMaxResponseHeaderBytes cfg)))"

definition buildHTTP3Transport :: "platform \<Rightarrow> http3Config \<Rightarrow> h3_error + http3Transport" where
  "buildHTTP3Transport pf cfg =
     (case h3Dial (c3_proxyURL cfg) of
        Inl e \<Rightarrow> Inl e
      | Inr dial \<Rightarrow>
          (let (sets, order) = h3Settings pf cfg in
           case h3MaxResponseHeaderBytes pf cfg of
             Inl e \<Rightarrow> Inl e
           | Inr maxBytes \<Rightarrow>
               Inr \<lparr>t3_TLSClientConfig = h3TLSConfig cfg, t3_EnableDatagrams = True, t3_Dial = dial,
                    t3_AdditionalSettings = sets, t3_AdditionalSettingsOrder = order,
                    t3_PseudoHeaderOrder = c3_http3PseudoHeaderOrder cfg,
                    t3_SendGreaseFrames = c3_http3SendGreaseFrames cfg,
                    t3_PriorityParam = c3_http3PriorityParam cfg,
                    t3_DisableCompression =
                      (case c3_transportOptions cfg of None \<Rightarrow> False | Some opts \<Rightarrow> DisableCompression opts),
                    t3_MaxResponseHeaderBytes = maxBytes\<rparr>))"

section \<open>Lemmas\<close>

lemma h3Dial_cases:
  assumes "h3Dial proxyURL = Inr d"
  shows "proxyURL = [] \<and> d = None \<or>
    proxyURL \<noteq> [] \<and> d = Some proxyURL \<and>
    (\<exists>u. url_Parse proxyURL = Inr u \<and> (Scheme u = ''socks5'' \<or> Scheme u = ''socks5h''))"
  using assms by (auto simp: h3Dial_def split: if_splits sum.splits)

lemma buildHTTP3Transport_Dial:
  "buildHTTP3Transport pf cfg = Inr t \<Longrightarrow> h3Dial (c3_proxyURL cfg) = Inr (t3_Dial t)"
  by (auto simp: buildHTTP3Transport_def Let_def split: sum.splits prod.splits)

lemma buildHTTP3Transport_settings:
  "buildHTTP3Transport pf cfg = Inr t \<Longrightarrow>
   (t3_AdditionalSettings t, t3_AdditionalSettingsOrder t) = h3Settings pf cfg"
  by (auto simp: buildHTTP3Transport_def Let_def split: sum.splits prod.splits)

lemma h3_order_complete:
  assumes "(sets, order) = h3Settings pf cfg" and "c3_http3PriorityParam cfg > 0"
    and "greaseN pf < 9000000000"
    and "c3_http3SettingsOrder cfg \<noteq> []" and "distinct (c3_http3SettingsOrder cfg)"
    and "fst ` set (entries (c3_http3Settings cfg)) \<subseteq> set (c3_http3SettingsOrder cfg)"
    and "\<forall>k \<in> set (c3_http3SettingsOrder cfg). unat k < 2 ^ 32"
  shows "distinct order \<and> fst ` set (entries sets) \<subseteq> set order \<and>
    (\<exists>g. order = c3_http3SettingsOrder cfg @ [g] \<and> mapGet sets g \<noteq> None) \<and>
    (\<forall>k \<in> set (c3_http3SettingsOrder cfg). mapGet sets k = mapGet (c3_http3Settings cfg) k)"
proof -
  let ?g = "generateGREASESettingID (greaseN pf)"
  have "unat ?g \<ge> 2 ^ 32" using assms(3) by (simp add: unat_generateGREASESettingID)
  then have new: "?g \<notin> set (c3_http3SettingsOrder cfg)" using assms(7) by fastforce
  obtain v where s: "sets = Some (mapPut ?g v (entries (c3_http3Settings cfg)))"
    and o: "order = c3_http3SettingsOrder cfg @ [?g]"
    using assms(1,2,4) by (auto simp: h3Settings_def Let_def)
  have "mapGet sets k = mapGet (c3_http3Settings cfg) k" if "k \<in> set (c3_http3SettingsOrder cfg)" for k
    using that new by (auto simp: s mapGet_def entries_def)
  moreover have "mapGet sets ?g = Some v" by (simp add: s mapGet_def entries_def)
  moreover have "fst ` set (entries sets) = insert ?g (fst ` set (entries (c3_http3Settings cfg)))"
    by (simp add: s entries_def)
  ultimately show ?thesis using new assms(5,6) by (simp add: o) blast
qed

section \<open>Properties\<close>

text \<open>C3: HTTP/3 never leaves the proxy. A transport is only built when there is no proxy, in which
  case it dials directly, or when the proxy URL has a SOCKS5 scheme, in which case every dial
  goes through the SOCKS5 dialer of that URL; with any other proxy URL the transport is refused.\<close>

theorem http3_proxied_or_refused:
  assumes "buildHTTP3Transport pf cfg = Inr t"
  shows "if c3_proxyURL cfg = [] then t3_Dial t = None
    else t3_Dial t = Some (c3_proxyURL cfg) \<and>
      (\<exists>u. url_Parse (c3_proxyURL cfg) = Inr u \<and> (Scheme u = ''socks5'' \<or> Scheme u = ''socks5h''))"
  using h3Dial_cases [OF buildHTTP3Transport_Dial [OF assms]] by auto

text \<open>The settings frame of an HTTP/3 transport is complete. For a profile with a priority whose
  order names each of its settings, none twice, the transport's order is the profile's with the GREASE setting
  last, it names every setting of the transport, none twice, and the settings of the profile keep their values;
  the random identifier never collides with a setting of the profile below \<open>2^32\<close>.\<close>

theorem http3_settings_complete:
  assumes "buildHTTP3Transport pf cfg = Inr t" and "c3_http3PriorityParam cfg > 0"
    and "greaseN pf < 9000000000"
    and "c3_http3SettingsOrder cfg \<noteq> []" and "distinct (c3_http3SettingsOrder cfg)"
    and "fst ` set (entries (c3_http3Settings cfg)) \<subseteq> set (c3_http3SettingsOrder cfg)"
    and "\<forall>k \<in> set (c3_http3SettingsOrder cfg). unat k < 2 ^ 32"
  shows "distinct (t3_AdditionalSettingsOrder t) \<and>
    fst ` set (entries (t3_AdditionalSettings t)) \<subseteq> set (t3_AdditionalSettingsOrder t) \<and>
    (\<exists>g. t3_AdditionalSettingsOrder t = c3_http3SettingsOrder cfg @ [g] \<and> mapGet (t3_AdditionalSettings t) g \<noteq> None) \<and>
    (\<forall>k \<in> set (c3_http3SettingsOrder cfg). mapGet (t3_AdditionalSettings t) k = mapGet (c3_http3Settings cfg) k)"
  by (rule h3_order_complete [OF buildHTTP3Transport_settings [OF assms(1)] assms(2-7)])

definition sampleH3Config :: "string \<Rightarrow> http3Config" where
  "sampleH3Config proxy =
     \<lparr>c3_clientSessionCache = None, c3_insecureSkipVerify = False, c3_serverNameOverwrite = [],
      c3_transportOptions = None, c3_http3Settings = Some [(1, 65536), (6, 262144)],
      c3_http3SettingsOrder = [1, 6], c3_http3PriorityParam = 984832, c3_http3PseudoHeaderOrder = [],
      c3_http3SendGreaseFrames = True, c3_proxyURL = proxy\<rparr>"

definition samplePlatform :: platform where
  "samplePlatform = \<lparr>intSize = 64, greaseN = 5, greaseVal = (0, 0, 0, 1)\<rparr>"

lemma sampleH3_builds: "\<exists>t. buildHTTP3Transport samplePlatform (sampleH3Config ''socks5://p:1080'') = Inr t"
proof -
  have "h3Dial ''socks5://p:1080'' = Inr (Some ''socks5://p:1080'')" by code_simp
  then show ?thesis
    by (simp add: buildHTTP3Transport_def sampleH3Config_def h3MaxResponseHeaderBytes_def Let_def
        split: prod.splits)
qed

theorem http3_proxied_or_refused_witness:
  "\<exists>t. buildHTTP3Transport samplePlatform (sampleH3Config ''socks5://p:1080'') = Inr t \<and>
     t3_Dial t = Some ''socks5://p:1080''"
proof -
  from sampleH3_builds obtain t
    where t: "buildHTTP3Transport samplePlatform (sampleH3Config ''socks5://p:1080'') = Inr t" by blast
  have "c3_proxyURL (sampleH3Config ''socks5://p:1080'') = ''socks5://p:1080''" by (simp add: sampleH3Config_def)
  with http3_proxied_or_refused [OF t] t show ?thesis by auto
qed

theorem http3_settings_complete_witness:
  "\<exists>t g. buildHTTP3Transport samplePlatform (sampleH3Config ''socks5://p:1080'') = Inr t \<and>
     t3_AdditionalSettingsOrder t = [1, 6, g]"
proof -
  from sampleH3_builds obtain t
    where t: "buildHTTP3Transport samplePlatform (sampleH3Config ''socks5://p:1080'') = Inr t" by blast
  have h: "c3_http3PriorityParam (sampleH3Config ''socks5://p:1080'') > 0" "greaseN samplePlatform < 9000000000"
    "c3_http3SettingsOrder (sampleH3Config ''socks5://p:1080'') \<noteq> []"
    "distinct (c3_http3SettingsOrder (sampleH3Config ''socks5://p:1080''))"
    "fst ` set (entries (c3_http3Settings (sampleH3Config ''socks5://p:1080''))) \<subseteq>
       set (c3_http3SettingsOrder (sampleH3Config ''socks5://p:1080''))"
    "\<forall>k \<in> set (c3_http3SettingsOrder (sampleH3Config ''socks5://p:1080'')). unat k < 2 ^ 32"
    by (simp_all add: sampleH3Config_def samplePlatform_def entries_def)
  from http3_settings_complete [OF t h] t show ?thesis by (auto simp: sampleH3Config_def)
qed

end
