(* ===== verification/ConnectDialer.thy ===== *)
theory ConnectDialer
  imports GoNet
begin

text \<open>
  The dialers of \<^verbatim>\<open>connect.go\<close>: direct, through a SOCKS proxy, and through an HTTP(S) proxy with CONNECT,
  over HTTP/1.1 or over a shared HTTP/2 connection. A raw connection is a number; the dialer
  records the numbers it handed out and the ones it closed. What the network and the proxy do in one call is
  the argument \<open>proxyRun\<close>, with the instants at which a write and a read complete.
\<close>

section \<open>Headers\<close>

text \<open>\<open>http.Header\<close>: \<^const>\<open>None\<close> is the nil map. Assigning to a nil map panics.\<close>

type_synonym httpHeader = "(string \<times> string list) list option"

fun headerPut :: "string \<Rightarrow> string list \<Rightarrow> (string \<times> string list) list \<Rightarrow> (string \<times> string list) list" where
  "headerPut k v [] = [(k, v)]"
| "headerPut k v ((a, b) # es) = (if a = k then (k, v) # es else (a, b) # headerPut k v es)"

definition headerEntries :: "httpHeader \<Rightarrow> (string \<times> string list) list" where
  "headerEntries h = (case h of None \<Rightarrow> [] | Some es \<Rightarrow> es)"

definition headerAssign :: "string \<Rightarrow> string list \<Rightarrow> httpHeader \<Rightarrow> httpHeader option" where
  "headerAssign k v h = (case h of None \<Rightarrow> None | Some es \<Rightarrow> Some (Some (headerPut k v es)))"

text \<open>\<open>for k, v := range h { dst[k] = v }\<close> for a non-nil destination.\<close>

definition headerCopy :: "httpHeader \<Rightarrow> (string \<times> string list) list \<Rightarrow> (string \<times> string list) list" where
  "headerCopy h dst = fold (\<lambda>(k, v) m. headerPut k v m) (headerEntries h) dst"

lemma map_of_headerPut [simp]: "map_of (headerPut k v es) = (map_of es)(k \<mapsto> v)"
  by (induction k v es rule: headerPut.induct) auto

lemma map_of_headerCopy_fold:
  "map_of (fold (\<lambda>(k, v) m. headerPut k v m) es dst) k =
     (case map_of (rev es) k of Some v \<Rightarrow> Some v | None \<Rightarrow> map_of dst k)"
proof (induction es arbitrary: dst)
  case (Cons e es)
  then show ?case by (cases e) (auto simp: map_add_def split: option.splits)
qed simp

lemma map_of_headerCopy:
  assumes "distinct (map fst (headerEntries h))"
  shows "map_of (headerCopy h dst) k = (case map_of (headerEntries h) k of Some v \<Rightarrow> Some v | None \<Rightarrow> map_of dst k)"
proof -
  have "map_of (rev (headerEntries h)) = map_of (headerEntries h)"
    using assms by (subst map_of_inject_set) (simp_all add: rev_map [symmetric])
  then show ?thesis by (simp add: headerCopy_def map_of_headerCopy_fold)
qed

section \<open>Base64 (encoding/base64)\<close>

definition b64Char :: "nat \<Rightarrow> char" where
  "b64Char n =
     (if n < 26 then char_of (65 + n) else if n < 52 then char_of (97 + (n - 26))
      else if n < 62 then char_of (48 + (n - 52)) else if n = 62 then CHR ''+'' else CHR ''/'')"

fun b64Encode :: "bytes \<Rightarrow> string" where
  "b64Encode [] = []"
| "b64Encode [a] =
     (let v = unat a * 65536 in [b64Char (v div 262144), b64Char (v div 4096 mod 64), CHR ''='', CHR ''=''])"
| "b64Encode [a, b] =
     (let v = unat a * 65536 + unat b * 256
      in [b64Char (v div 262144), b64Char (v div 4096 mod 64), b64Char (v div 64 mod 64), CHR ''=''])"
| "b64Encode (a # b # c # s) =
     (let v = unat a * 65536 + unat b * 256 + unat c
      in [b64Char (v div 262144), b64Char (v div 4096 mod 64), b64Char (v div 64 mod 64), b64Char (v mod 64)]
         @ b64Encode s)"

section \<open>Dialers\<close>

text \<open>\<open>net.Dialer\<close>: its own configuration is a token, with the two fields the code assigns. Times
  are in nanoseconds.\<close>

record netDialer =
  dialerToken :: nat
  DialTimeout :: int
  LocalAddr :: "string option"

record proxyAuth =
  paUser :: string
  paPassword :: string

record connectDialer =
  ProxyUrl :: URL
  DefaultHeader :: httpHeader
  Dialer :: netDialer
  cdTimeout :: int
  cachedH2RawConn :: "nat option"
  EnableH2ConnReuse :: bool
  cdOpened :: nat
  cdClosed :: "nat list"

datatype contextDialer =
    DirectDialer netDialer
  | Socks5Dialer string "proxyAuth option" netDialer
  | Socks4Dialer URL netDialer
  | ConnectDialer connectDialer
  | CustomDialer nat
  | FactoryDialer nat
  | ProxyDirect

datatype cd_error =
    CDBadURL url_error
  | CDNoHost string
  | CDNoScheme
  | CDUnsupportedScheme string
  | CDSocks4
  | CDDial
  | CDHandshake
  | CDSetDeadline
  | CDDeadlineExceeded
  | CDWrite
  | CDRead
  | CDH2
  | CDNon200 nat
  | CDUnsupportedProtocol string
  | CDPanic

definition withTimeout :: "int \<Rightarrow> string option \<Rightarrow> netDialer \<Rightarrow> netDialer" where
  "withTimeout timeout localAddr d =
     (let d = d\<lparr>DialTimeout := timeout\<rparr> in
      case localAddr of None \<Rightarrow> d | Some a \<Rightarrow> d\<lparr>LocalAddr := Some a\<rparr>)"

definition newDirectDialer :: "int \<Rightarrow> string option \<Rightarrow> netDialer \<Rightarrow> contextDialer" where
  "newDirectDialer timeout localAddr d = DirectDialer (withTimeout timeout localAddr d)"

definition handleSocks5ProxyDialer :: "URL \<Rightarrow> netDialer \<Rightarrow> cd_error + contextDialer" where
  "handleSocks5ProxyDialer proxyUrl d =
     Inr (Socks5Dialer (Host proxyUrl)
       (case User proxyUrl of
          None \<Rightarrow> None
        | Some u \<Rightarrow> Some \<lparr>paUser = username u, paPassword = passwordOr u\<rparr>) d)"

text \<open>\<open>proxy.FromURL\<close> knows SOCKS4 URLs through the package \<open>go-socks4\<close>: an argument.\<close>

definition handleSocks4ProxyDialer :: "(URL \<Rightarrow> bool) \<Rightarrow> URL \<Rightarrow> netDialer \<Rightarrow> cd_error + contextDialer" where
  "handleSocks4ProxyDialer fromURL proxyUrl d =
     (if fromURL proxyUrl then Inr (Socks4Dialer proxyUrl d) else Inl CDSocks4)"

definition defaultPort :: "string \<Rightarrow> URL \<Rightarrow> URL" where
  "defaultPort port u = (if url_Port u = [] then u\<lparr>Host := JoinHostPort (Host u) port\<rparr> else u)"

definition basicAuth :: "userinfo \<Rightarrow> string" where
  "basicAuth u = ''Basic '' @ b64Encode (bytes_of_string (username u @ '':'' @ passwordOr u))"

definition newHTTPDialer :: "URL \<Rightarrow> int \<Rightarrow> netDialer \<Rightarrow> httpHeader \<Rightarrow> cd_error + contextDialer" where
  "newHTTPDialer proxyUrl timeout d connectHeaders =
     (let dialer = \<lparr>ProxyUrl = proxyUrl, DefaultHeader = connectHeaders, Dialer = d, cdTimeout = timeout,
        cachedH2RawConn = None, EnableH2ConnReuse = True, cdOpened = 0, cdClosed = []\<rparr>
      in case User proxyUrl of
           None \<Rightarrow> Inr (ConnectDialer dialer)
         | Some u \<Rightarrow>
             if username u \<noteq> [] then
               (case headerAssign ''Proxy-Authorization'' [basicAuth u] connectHeaders of
                  None \<Rightarrow> Inl CDPanic
                | Some h \<Rightarrow> Inr (ConnectDialer (dialer\<lparr>DefaultHeader := h\<rparr>)))
             else Inr (ConnectDialer dialer))"

definition newConnectDialer ::
  "(URL \<Rightarrow> bool) \<Rightarrow> string \<Rightarrow> int \<Rightarrow> string option \<Rightarrow> netDialer \<Rightarrow> httpHeader \<Rightarrow> cd_error + contextDialer" where
  "newConnectDialer fromURL proxyUrlStr timeout localAddr configDialer connectHeaders =
     (case url_Parse proxyUrlStr of
        Inl e \<Rightarrow> Inl (CDBadURL e)
      | Inr proxyUrl \<Rightarrow>
          if Host proxyUrl = [] then Inl (CDNoHost proxyUrlStr)
          else
            (let d = withTimeout timeout localAddr configDialer; s = Scheme proxyUrl in
             if s = ''http'' then newHTTPDialer (defaultPort ''80'' proxyUrl) timeout d connectHeaders
             else if s = ''https'' then newHTTPDialer (defaultPort ''443'' proxyUrl) timeout d connectHeaders
             else if s = ''socks4'' \<or> s = ''socks4a'' then handleSocks4ProxyDialer fromURL proxyUrl d
             else if s = ''socks5'' \<or> s = ''socks5h'' then handleSocks5ProxyDialer proxyUrl d
             else if s = [] then Inl CDNoScheme
             else Inl (CDUnsupportedScheme s)))"

section \<open>CONNECT\<close>

text \<open>The request: the address to reach, the header (the dialer's, overridden by the context's)
  and the protocol it is written in.\<close>

record connectRequest =
  crHost :: string
  crHeader :: "(string \<times> string list) list"
  crProto :: string

definition connectHeader :: "connectDialer \<Rightarrow> httpHeader \<Rightarrow> (string \<times> string list) list" where
  "connectHeader c ctxHeader = headerCopy ctxHeader (headerCopy (DefaultHeader c) [])"

text \<open>One call of \<open>DialContext\<close>: does the proxy accept a connection on a network, does TLS complete and
  what is negotiated there, does the shared HTTP/2 connection take a request, what are the answers
  to CONNECT (\<^const>\<open>None\<close> is an I/O error), and when are the deadline set and a write and a read attempted.\<close>

record proxyRun =
  connects :: "string \<Rightarrow> string \<Rightarrow> bool"
  tlsHandshake :: bool
  negotiated :: string
  canTakeNewRequest :: bool
  cachedAnswer :: "connectRequest \<Rightarrow> nat option"
  newClientConn :: bool
  answer :: "connectRequest \<Rightarrow> nat option"
  setDeadlineOk :: bool
  writeOk :: bool
  timeNow :: int
  timeWrite :: int
  timeRead :: int

datatype proxyConn = RawTunnel nat | Http2Tunnel nat

definition closeRaw :: "nat \<Rightarrow> connectDialer \<Rightarrow> connectDialer" where
  "closeRaw n c = c\<lparr>cdClosed := n # cdClosed c\<rparr>"

definition connectHttp2 ::
  "(connectRequest \<Rightarrow> nat option) \<Rightarrow> connectRequest \<Rightarrow> nat \<Rightarrow> connectDialer \<Rightarrow> (cd_error + proxyConn) \<times> connectDialer" where
  "connectHttp2 ans req rawConn c =
     (case ans (req\<lparr>crProto := ''HTTP/2.0''\<rparr>) of
        None \<Rightarrow> (Inl CDH2, closeRaw rawConn c)
      | Some status \<Rightarrow> if status \<noteq> 200 then (Inl (CDNon200 status), closeRaw rawConn c)
                       else (Inr (Http2Tunnel rawConn), c))"

text \<open>An operation on a connection fails once the deadline has passed.\<close>

definition connectHttp1 ::
  "proxyRun \<Rightarrow> connectRequest \<Rightarrow> nat \<Rightarrow> connectDialer \<Rightarrow> (cd_error + proxyConn) \<times> connectDialer" where
  "connectHttp1 run req rawConn c =
     (let deadline = timeNow run + cdTimeout c in
      if \<not> setDeadlineOk run then (Inl CDSetDeadline, closeRaw rawConn c)
      else if deadline \<le> timeWrite run then (Inl CDDeadlineExceeded, closeRaw rawConn c)
      else if \<not> writeOk run then (Inl CDWrite, closeRaw rawConn c)
      else if deadline \<le> timeRead run then (Inl CDDeadlineExceeded, closeRaw rawConn c)
      else (case answer run (req\<lparr>crProto := ''HTTP/1.1''\<rparr>) of
              None \<Rightarrow> (Inl CDRead, closeRaw rawConn c)
            | Some status \<Rightarrow> if status \<noteq> 200 then (Inl (CDNon200 status), closeRaw rawConn c)
                             else (Inr (RawTunnel rawConn), c)))"

definition tryCachedH2 :: "proxyRun \<Rightarrow> connectRequest \<Rightarrow> connectDialer \<Rightarrow> proxyConn option \<times> connectDialer" where
  "tryCachedH2 run req c =
     (case cachedH2RawConn c of
        Some rawConn \<Rightarrow>
          if EnableH2ConnReuse c \<and> canTakeNewRequest run
          then (case connectHttp2 (cachedAnswer run) req rawConn c of
                  (Inr conn, c) \<Rightarrow> (Some conn, c) | (Inl _, c) \<Rightarrow> (None, c))
          else (None, c)
      | None \<Rightarrow> (None, c))"

definition useConnection ::
  "proxyRun \<Rightarrow> connectRequest \<Rightarrow> string \<Rightarrow> nat \<Rightarrow> connectDialer \<Rightarrow> (cd_error + proxyConn) \<times> connectDialer" where
  "useConnection run req proto rawConn c =
     (if proto = [] \<or> proto = ''http/1.1'' then connectHttp1 run req rawConn c
      else if proto = ''h2'' then
        (if \<not> newClientConn run then (Inl CDH2, closeRaw rawConn c)
         else (case connectHttp2 (answer run) req rawConn c of
                 (Inl e, c) \<Rightarrow> (Inl e, closeRaw rawConn c)
               | (Inr conn, c) \<Rightarrow>
                   (Inr conn, if EnableH2ConnReuse c then c\<lparr>cachedH2RawConn := Some rawConn\<rparr> else c)))
      else (Inl (CDUnsupportedProtocol proto), closeRaw rawConn c))"

text \<open>Dialing the proxy itself: plain TCP through the dialer, or TLS.\<close>

definition dialProxy ::
  "proxyRun \<Rightarrow> connectRequest \<Rightarrow> string \<Rightarrow> connectDialer \<Rightarrow> (cd_error + proxyConn) \<times> connectDialer" where
  "dialProxy run req network c =
     (let raw = cdOpened c; scheme = Scheme (ProxyUrl c) in
      if scheme = ''http'' then
        (if \<not> connects run network (Host (ProxyUrl c)) then (Inl CDDial, c)
         else useConnection run req [] raw (c\<lparr>cdOpened := Suc raw\<rparr>))
      else if scheme = ''https'' then
        (if \<not> connects run network (Host (ProxyUrl c)) then (Inl CDDial, c)
         else if \<not> tlsHandshake run then (Inl CDHandshake, c\<lparr>cdOpened := Suc raw\<rparr>)
         else useConnection run req (negotiated run) raw (c\<lparr>cdOpened := Suc raw\<rparr>))
      else (Inl (CDUnsupportedScheme scheme), c))"

definition DialContext ::
  "proxyRun \<Rightarrow> httpHeader \<Rightarrow> string \<Rightarrow> string \<Rightarrow> connectDialer \<Rightarrow> (cd_error + proxyConn) \<times> connectDialer" where
  "DialContext run ctxHeader network address c =
     (let req = \<lparr>crHost = address, crHeader = connectHeader c ctxHeader, crProto = []\<rparr> in
      case tryCachedH2 run req c of
        (Some conn, c) \<Rightarrow> (Inr conn, c)
      | (None, c) \<Rightarrow> dialProxy run req network c)"

section \<open>The tunnel through HTTP/2\<close>

text \<open>\<open>http2Conn\<close>: the shared connection, the pipe that carries the body of the CONNECT request (what was written to it and
  whether its writer is closed) and the body of the answer (what is left of it and whether it is closed). A write on a closed pipe
  and a read from a closed body fail; closing either twice is allowed. A read gives \<^const>\<open>None\<close> at the end.\<close>

record http2Conn =
  h2Conn :: nat
  h2In :: bytes
  h2InClosed :: bool
  h2Out :: bytes
  h2OutClosed :: bool

definition newHttp2Conn :: "nat \<Rightarrow> bytes \<Rightarrow> http2Conn" where
  "newHttp2Conn c respBody = \<lparr>h2Conn = c, h2In = [], h2InClosed = False, h2Out = respBody, h2OutClosed = False\<rparr>"

definition h2_Read :: "nat \<Rightarrow> http2Conn \<Rightarrow> (cd_error + bytes option) \<times> http2Conn" where
  "h2_Read n h =
     (if h2OutClosed h then (Inl CDRead, h)
      else if h2Out h = [] then (Inr None, h)
      else (Inr (Some (take n (h2Out h))), h\<lparr>h2Out := drop n (h2Out h)\<rparr>))"

definition h2_Write :: "bytes \<Rightarrow> http2Conn \<Rightarrow> (cd_error + nat) \<times> http2Conn" where
  "h2_Write p h =
     (if h2InClosed h then (Inl CDWrite, h) else (Inr (length p), h\<lparr>h2In := h2In h @ p\<rparr>))"

definition h2_CloseWrite :: "http2Conn \<Rightarrow> http2Conn" where
  "h2_CloseWrite h = h\<lparr>h2InClosed := True\<rparr>"

definition h2_CloseRead :: "http2Conn \<Rightarrow> http2Conn" where
  "h2_CloseRead h = h\<lparr>h2OutClosed := True\<rparr>"

definition h2_Close :: "http2Conn \<Rightarrow> http2Conn" where
  "h2_Close h = h2_CloseRead (h2_CloseWrite h)"

text \<open>The only operation that closes the connection all tunnels of a proxy share.\<close>

definition h2_CloseConn :: "http2Conn \<Rightarrow> connectDialer \<Rightarrow> connectDialer" where
  "h2_CloseConn h c = closeRaw (h2Conn h) c"

section \<open>Lemmas\<close>

lemma closeRaw_fields [simp]:
  "ProxyUrl (closeRaw n c) = ProxyUrl c" "cdOpened (closeRaw n c) = cdOpened c" "cdTimeout (closeRaw n c) = cdTimeout c"
  "cdClosed (closeRaw n c) = n # cdClosed c" "cachedH2RawConn (closeRaw n c) = cachedH2RawConn c"
  by (simp_all add: closeRaw_def)

text \<open>The two directions of a tunnel are independent: one can be closed while the other is used.\<close>

lemma half_closed_tunnel:
  "fst (h2_Read n (h2_CloseWrite h)) = fst (h2_Read n h)" "fst (h2_Write p (h2_CloseRead h)) = fst (h2_Write p h)"
  "fst (h2_Write p (h2_Close h)) = Inl CDWrite" "fst (h2_Read n (h2_Close h)) = Inl CDRead"
  by (simp_all add: h2_Read_def h2_Write_def h2_CloseWrite_def h2_CloseRead_def h2_Close_def)

lemmas connect_defs = connectHttp2_def connectHttp1_def useConnection_def dialProxy_def tryCachedH2_def

text \<open>Which request the proxy accepted when a tunnel is returned.\<close>

definition accepted :: "proxyRun \<Rightarrow> connectRequest \<Rightarrow> bool" where
  "accepted run req \<longleftrightarrow>
     (\<exists>proto. answer run (req\<lparr>crProto := proto\<rparr>) = Some 200 \<or> cachedAnswer run (req\<lparr>crProto := proto\<rparr>) = Some 200)"

lemma connectHttp2_accepted: "connectHttp2 ans req rawConn c = (Inr conn, c') \<Longrightarrow>
    conn = Http2Tunnel rawConn \<and> c' = c \<and> ans (req\<lparr>crProto := ''HTTP/2.0''\<rparr>) = Some 200"
  by (auto simp: connectHttp2_def split: option.splits if_splits)

lemma useConnection_accepted:
  assumes "useConnection run req proto rawConn c = (Inr conn, c')"
  shows "accepted run req \<and> cdClosed c' = cdClosed c \<and> (conn = RawTunnel rawConn \<or> conn = Http2Tunnel rawConn)"
proof (cases "proto = ''h2''")
  case True
  then show ?thesis using assms
    by (auto simp: useConnection_def accepted_def split: if_splits prod.splits sum.splits dest!: connectHttp2_accepted)
next
  case False
  then have "connectHttp1 run req rawConn c = (Inr conn, c')" using assms by (auto simp: useConnection_def split: if_splits)
  then show ?thesis
    by (auto simp: connectHttp1_def accepted_def Let_def split: if_splits option.splits)
qed

lemma dialProxy_accepted:
  assumes "dialProxy run req network c = (Inr conn, c')"
  shows "accepted run req \<and> cdClosed c' = cdClosed c \<and>
    (conn = RawTunnel (cdOpened c) \<or> conn = Http2Tunnel (cdOpened c))"
  using assms useConnection_accepted [of run req _ "cdOpened c" "c\<lparr>cdOpened := Suc (cdOpened c)\<rparr>" conn c']
  by (auto simp: dialProxy_def Let_def split: if_splits)

text \<open>An error closes the connection that was opened, unless TLS with the proxy failed.\<close>

lemma useConnection_closes:
  "useConnection run req proto rawConn c = (Inl e, c') \<Longrightarrow> rawConn \<in> set (cdClosed c')"
  by (auto simp: useConnection_def connectHttp1_def connectHttp2_def Let_def split: if_splits option.splits prod.splits sum.splits)

section \<open>Properties\<close>

text \<open>C11: a tunnel is only handed out when the proxy accepted it. When \<open>DialContext\<close> returns a
  connection, the proxy answered 200 to a CONNECT for exactly the requested address, in which every header of the
  context is as the context has it and every other header is the dialer's.\<close>

theorem tunnel_accepted_by_proxy:
  assumes "DialContext run ctxHeader network address c = (Inr conn, c')"
    and "distinct (map fst (headerEntries ctxHeader))" and "distinct (map fst (headerEntries (DefaultHeader c)))"
  shows "\<exists>req. accepted run req \<and> crHost req = address \<and>
    (\<forall>k. map_of (crHeader req) k =
      (case map_of (headerEntries ctxHeader) k of
         Some v \<Rightarrow> Some v | None \<Rightarrow> map_of (headerEntries (DefaultHeader c)) k))"
proof -
  let ?req = "\<lparr>crHost = address, crHeader = connectHeader c ctxHeader, crProto = []\<rparr>"
  have h: "map_of (connectHeader c ctxHeader) k =
      (case map_of (headerEntries ctxHeader) k of
         Some v \<Rightarrow> Some v | None \<Rightarrow> map_of (headerEntries (DefaultHeader c)) k)" for k
    by (simp add: connectHeader_def map_of_headerCopy [OF assms(2)] map_of_headerCopy [OF assms(3)] split: option.splits)
  obtain r c1 where t: "tryCachedH2 run ?req c = (r, c1)" by fastforce
  have "accepted run ?req"
  proof (cases r)
    case None
    then show ?thesis using assms(1) t dialProxy_accepted [of run ?req network c1 conn c'] by (simp add: DialContext_def)
  next
    case (Some conn1)
    with t show ?thesis
      by (auto simp: tryCachedH2_def accepted_def split: option.splits if_splits prod.splits sum.splits
          dest!: connectHttp2_accepted)
  qed
  with h show ?thesis by (intro exI [of _ ?req]) simp
qed

text \<open>C30: a timeout of zero, documented as no limit, makes every plain CONNECT fail. The deadline is set
  to the current time, so it has passed when the request is written.\<close>

theorem zero_timeout_connect_fails:
  assumes "cdTimeout c = 0" and "Scheme (ProxyUrl c) = ''http''" and "cachedH2RawConn c = None"
    and "timeNow run \<le> timeWrite run"
  shows "\<exists>e. fst (DialContext run ctxHeader network address c) = Inl e"
  using assms by (auto simp: DialContext_def tryCachedH2_def dialProxy_def useConnection_def connectHttp1_def Let_def)

definition sampleProxyRun :: proxyRun where
  "sampleProxyRun =
     \<lparr>connects = (\<lambda>_ _. True), tlsHandshake = True, negotiated = [], canTakeNewRequest = True,
      cachedAnswer = (\<lambda>_. Some 403), newClientConn = True, answer = (\<lambda>_. Some 200), setDeadlineOk = True,
      writeOk = True, timeNow = 0, timeWrite = 1, timeRead = 2\<rparr>"

definition sampleConnectDialer :: "int \<Rightarrow> connectDialer" where
  "sampleConnectDialer timeout =
     \<lparr>ProxyUrl = emptyURL\<lparr>Scheme := ''http'', Host := ''p:80''\<rparr>, DefaultHeader = Some [(''A'', [''1''])],
      Dialer = \<lparr>dialerToken = 0, DialTimeout = timeout, LocalAddr = None\<rparr>, cdTimeout = timeout,
      cachedH2RawConn = None, EnableH2ConnReuse = True, cdOpened = 0, cdClosed = []\<rparr>"

theorem tunnel_accepted_by_proxy_witness:
  "\<exists>req. accepted sampleProxyRun req \<and> crHost req = ''a.com:443'' \<and> map_of (crHeader req) ''A'' = Some [''1'']"
proof -
  have "DialContext sampleProxyRun None ''tcp'' ''a.com:443'' (sampleConnectDialer 1000)
      = (Inr (RawTunnel 0), (sampleConnectDialer 1000)\<lparr>cdOpened := 1\<rparr>)"
    "distinct (map fst (headerEntries None))"
    "distinct (map fst (headerEntries (DefaultHeader (sampleConnectDialer 1000))))"
    by (simp_all add: DialContext_def tryCachedH2_def dialProxy_def useConnection_def connectHttp1_def Let_def
        sampleProxyRun_def sampleConnectDialer_def headerEntries_def)
  from tunnel_accepted_by_proxy [OF this] show ?thesis
    by (auto simp: sampleConnectDialer_def headerEntries_def)
qed

theorem zero_timeout_connect_fails_witness:
  "\<exists>e. fst (DialContext sampleProxyRun None ''tcp'' ''a.com:443'' (sampleConnectDialer 0)) = Inl e"
  by (rule zero_timeout_connect_fails) (simp_all add: sampleConnectDialer_def sampleProxyRun_def)

text \<open>A refused CONNECT tears down the tunnels of others. When the proxy refuses a
  CONNECT on the shared HTTP/2 connection, that connection is closed although tunnels that were handed out
  before run over it.\<close>

theorem refused_connect_closes_shared:
  assumes "cachedH2RawConn c = Some raw" and "EnableH2ConnReuse c" and "canTakeNewRequest run"
    and "\<forall>req. cachedAnswer run req = Some status" and "status \<noteq> 200"
  shows "raw \<in> set (cdClosed (snd (DialContext run ctxHeader network address c)))"
proof -
  let ?req = "\<lparr>crHost = address, crHeader = connectHeader c ctxHeader, crProto = []\<rparr>"
  have t: "tryCachedH2 run ?req c = (None, closeRaw raw c)" using assms by (simp add: tryCachedH2_def connectHttp2_def)
  have "set (cdClosed c1) \<subseteq> set (cdClosed (snd (dialProxy run ?req network c1)))" for c1
    by (auto simp: connect_defs Let_def split: if_splits option.splits prod.splits sum.splits)
  from this [of "closeRaw raw c"] show ?thesis by (auto simp: DialContext_def t)
qed

theorem refused_connect_closes_shared_witness:
  "5 \<in> set (cdClosed (snd (DialContext sampleProxyRun None ''tcp'' ''a.com:443''
     ((sampleConnectDialer 1000)\<lparr>cachedH2RawConn := Some 5\<rparr>))))"
  by (rule refused_connect_closes_shared [where status = 403])
    (simp_all add: sampleConnectDialer_def sampleProxyRun_def)

end
