(* ===== verification/RoundTripper.thy ===== *)
theory RoundTripper
  imports Transports ConnectDialer
begin

text \<open>
  The round tripper, \<^verbatim>\<open>roundtripper.go\<close>: how it dials, which transport it builds for what the
  server negotiated, and the three maps it keeps per address. A transport is a pointer (a number,
  0 is nil) into a heap; a TLS connection carries the number it was opened with, and closing
  one is recorded, so that leaks can be stated. What the network, the TLS library and the pin
  storage answer to one dial is the argument \<open>dialEnv\<close>.
\<close>

section \<open>State\<close>

record Request =
  Method :: string
  reqURL :: URL
  reqHost :: string
  reqHeader :: "(string \<times> string list) list option"
  reqBody :: "bytes option"

record tlsConn =
  connId :: nat
  NegotiatedProtocol :: string

text \<open>The state of a racer; the transports it caches are those of its round tripper.\<close>

record protocolRacer =
  protocolCache :: "string \<rightharpoonup> string"
  pr_clientSessionCache :: "nat option"
  pr_insecureSkipVerify :: bool
  pr_serverNameOverwrite :: string
  pr_transportOptions :: "TransportOptions option"
  pr_settings :: "(u16, u32) gomap"
  pr_certificatePinner :: certificatePinner
  pr_hasBadPinHandler :: bool
  pr_http3Settings :: "(u64, u64) gomap"
  pr_http3SettingsOrder :: "u64 list"
  pr_http3PriorityParam :: u32
  pr_http3PseudoHeaderOrder :: "string list"
  pr_http3SendGreaseFrames :: bool
  pr_proxyURL :: string

record roundTripper =
  rt_initialStreamID :: u32
  rt_allowHTTP :: bool
  rt_clientHelloId :: ClientHelloID
  rt_certificatePinner :: certificatePinner
  rt_dialer :: contextDialer
  rt_clientSessionCache :: "nat option"
  rt_hasBadPinHandler :: bool
  rt_headerPriority :: "PriorityParam option"
  rt_settings :: "(u16, u32) gomap"
  rt_transportOptions :: "TransportOptions option"
  rt_serverNameOverwrite :: string
  rt_priorities :: "Priority list"
  rt_pseudoHeaderOrder :: "string list"
  rt_settingsOrder :: "u16 list"
  rt_connectionFlow :: u32
  rt_forceHttp1 :: bool
  rt_disableHttp3 :: bool
  rt_proxyURL :: string
  rt_http3Settings :: "(u64, u64) gomap"
  rt_http3SettingsOrder :: "u64 list"
  rt_http3PriorityParam :: u32
  rt_http3PseudoHeaderOrder :: "string list"
  rt_http3SendGreaseFrames :: bool
  rt_insecureSkipVerify :: bool
  rt_withRandomTlsExtensionOrder :: bool
  rt_disableIPV6 :: bool
  rt_disableIPV4 :: bool
  rt_racer :: "protocolRacer option"
  cachedConnections :: "string \<rightharpoonup> tlsConn"
  cachedTransports :: "string \<rightharpoonup> nat"
  cachedKinds :: "string \<rightharpoonup> transportKind"
  transportHeap :: "nat \<rightharpoonup> transport"
  nextPtr :: nat
  nextConn :: nat
  closedConns :: "nat list"

datatype rt_error =
    ErrProtocolNegotiated
  | ErrProtocolChanged string string
  | ErrPin pin_error
  | ErrDial
  | ErrHandshake
  | ErrScheme string
  | ErrHTTP3 h3_error
  | ErrTransport
  | ErrDeadlineExceeded
  | ErrBothFailed
  | GoPanic

text \<open>
  One dial: does the dialer connect for a network and address, what does the handshake with a
  configuration (and the flags \<open>forceHttp1\<close> and \<open>disableHttp3\<close>) give, what do \<open>hpkp\<close> and its
  storage say, does a fresh \<open>http2.Transport\<close> have an HTTP/1 transport, and in which order does
  \<open>range\<close> visit the default settings.
\<close>

datatype 'c handshake = HandshakeFails | HandshakeOk string "'c list"

record ('s, 'c) dialEnv =
  dConnects :: "string \<Rightarrow> string \<Rightarrow> bool"
  dHandshake :: "tlsConfig \<Rightarrow> bool \<Rightarrow> bool \<Rightarrow> 'c handshake"
  dHpkp :: "('s, 'c) hpkp"
  dStorage :: 's
  dPlatform :: platform
  dHasT1 :: bool
  dSettingKeys :: "u16 list"
  dUtls :: utls

section \<open>Transports of a round tripper\<close>

definition transportTLSConfig :: "roundTripper \<Rightarrow> tlsConfig" where
  "transportTLSConfig rt =
     \<lparr>ClientSessionCache = rt_clientSessionCache rt, ServerName = rt_serverNameOverwrite rt,
      InsecureSkipVerify = rt_insecureSkipVerify rt, OmitEmptyPsk = True,
      cfgRootCAs = (case rt_transportOptions rt of None \<Rightarrow> None | Some opts \<Rightarrow> RootCAs opts),
      cfgKeyLogWriter = None,
      cfgCertificates = (case rt_transportOptions rt of None \<Rightarrow> [] | Some opts \<Rightarrow> Certificates opts)\<rparr>"

definition idleConnectionTimeout :: "roundTripper \<Rightarrow> i64" where
  "idleConnectionTimeout rt =
     (case rt_transportOptions rt of
        None \<Rightarrow> defaultIdleConnectionTimeout
      | Some opts \<Rightarrow> (case IdleConnTimeout opts of None \<Rightarrow> defaultIdleConnectionTimeout | Some t \<Rightarrow> t))"

text \<open>The assignments from the options to an HTTP/1 transport.\<close>

definition applyTransportOptions :: "TransportOptions \<Rightarrow> httpTransport \<Rightarrow> httpTransport" where
  "applyTransportOptions opts t =
     t\<lparr>t1_DisableKeepAlives := DisableKeepAlives opts,
       t1_DisableCompression := DisableCompression opts,
       t1_MaxIdleConns := MaxIdleConns opts,
       t1_MaxIdleConnsPerHost := MaxIdleConnsPerHost opts,
       t1_MaxConnsPerHost := MaxConnsPerHost opts,
       t1_MaxResponseHeaderBytes :=
         (if sint (MaxResponseHeaderBytes opts) > 0 then MaxResponseHeaderBytes opts
          else t1_MaxResponseHeaderBytes t),
       t1_WriteBufferSize := WriteBufferSize opts,
       t1_ReadBufferSize := ReadBufferSize opts\<rparr>"

definition zeroHttpTransport :: "tlsConfig \<Rightarrow> u32 \<Rightarrow> i64 \<Rightarrow> httpTransport" where
  "zeroHttpTransport cfg flow idle =
     \<lparr>t1_TLSClientConfig = cfg, t1_ConnectionFlow = flow, t1_IdleConnTimeout = idle,
      t1_DisableKeepAlives = False, t1_DisableCompression = False, t1_MaxIdleConns = 0,
      t1_MaxIdleConnsPerHost = 0, t1_MaxConnsPerHost = 0, t1_MaxResponseHeaderBytes = 0,
      t1_WriteBufferSize = 0, t1_ReadBufferSize = 0\<rparr>"

definition buildHttp1Transport :: "roundTripper \<Rightarrow> httpTransport" where
  "buildHttp1Transport rt =
     (let t = zeroHttpTransport (transportTLSConfig rt) (rt_connectionFlow rt) (idleConnectionTimeout rt) in
      case rt_transportOptions rt of None \<Rightarrow> t | Some opts \<Rightarrow> applyTransportOptions opts t)"

definition defaultSettings :: "utls \<Rightarrow> (u16 \<times> u32) list" where
  "defaultSettings K =
     [(settingVal K SettingMaxConcurrentStreams, 1000), (settingVal K SettingMaxFrameSize, 16384),
      (settingVal K SettingInitialWindowSize, 6291456), (settingVal K SettingHeaderTableSize, 65536)]"

text \<open>The HTTP/2 case of \<open>dialTLSWithSetup\<close>. \<open>GetT1\<close> of a fresh transport is nil or an HTTP/1
  transport of the package, of which only the assigned fields are known.\<close>

definition buildHTTP2Transport :: "('s, 'c) dialEnv \<Rightarrow> roundTripper \<Rightarrow> http2Transport" where
  "buildHTTP2Transport env rt =
     \<lparr>t2_TLSClientConfig = transportTLSConfig rt, t2_ConnectionFlow = rt_connectionFlow rt,
      t2_HeaderPriority = rt_headerPriority rt, t2_IdleConnTimeout = idleConnectionTimeout rt,
      t2_InitialStreamID = rt_initialStreamID rt, t2_AllowHTTP = rt_allowHTTP rt,
      t2_DisableCompression =
        (case rt_transportOptions rt of None \<Rightarrow> False | Some opts \<Rightarrow> DisableCompression opts),
      t2_T1 = (case rt_transportOptions rt of
          None \<Rightarrow> None
        | Some opts \<Rightarrow>
            if dHasT1 env
            then Some ((applyTransportOptions opts (zeroHttpTransport (transportTLSConfig rt) 0 0))
                         \<lparr>t1_IdleConnTimeout := idleConnectionTimeout rt\<rparr>)
            else None),
      t2_PseudoHeaderOrder = rt_pseudoHeaderOrder rt,
      t2_Settings = (case rt_settings rt of None \<Rightarrow> Some (defaultSettings (dUtls env)) | Some s \<Rightarrow> Some s),
      t2_SettingsOrder = (case rt_settings rt of None \<Rightarrow> dSettingKeys env | Some _ \<Rightarrow> rt_settingsOrder rt),
      t2_Priorities = rt_priorities rt\<rparr>"

definition getHttp3Settings :: "roundTripper \<Rightarrow> (u64, u64) gomap" where
  "getHttp3Settings rt =
     (if entries (rt_http3Settings rt) = [] then None
      else if rt_http3SettingsOrder rt \<noteq> [] then
        Some (fold (\<lambda>id m. case mapGet (rt_http3Settings rt) id of Some v \<Rightarrow> mapPut id v m | None \<Rightarrow> m)
                (rt_http3SettingsOrder rt) [])
      else rt_http3Settings rt)"

definition rtHttp3Config :: "roundTripper \<Rightarrow> http3Config" where
  "rtHttp3Config rt =
     \<lparr>c3_clientSessionCache = rt_clientSessionCache rt, c3_insecureSkipVerify = rt_insecureSkipVerify rt,
      c3_serverNameOverwrite = rt_serverNameOverwrite rt, c3_transportOptions = rt_transportOptions rt,
      c3_http3Settings = getHttp3Settings rt, c3_http3SettingsOrder = rt_http3SettingsOrder rt,
      c3_http3PriorityParam = rt_http3PriorityParam rt,
      c3_http3PseudoHeaderOrder = rt_http3PseudoHeaderOrder rt,
      c3_http3SendGreaseFrames = rt_http3SendGreaseFrames rt, c3_proxyURL = rt_proxyURL rt\<rparr>"

section \<open>The maps\<close>

definition cachedKind :: "string \<Rightarrow> roundTripper \<Rightarrow> transportKind option" where
  "cachedKind addr rt = cachedKinds rt addr"

definition setCachedKind :: "string \<Rightarrow> transportKind \<Rightarrow> roundTripper \<Rightarrow> roundTripper" where
  "setCachedKind addr kind rt = rt\<lparr>cachedKinds := (cachedKinds rt)(addr \<mapsto> kind)\<rparr>"

text \<open>Allocating a transport and storing its pointer under a key.\<close>

definition cacheTransport :: "string \<Rightarrow> transport \<Rightarrow> roundTripper \<Rightarrow> roundTripper" where
  "cacheTransport key t rt =
     rt\<lparr>transportHeap := (transportHeap rt)(nextPtr rt \<mapsto> t),
        cachedTransports := (cachedTransports rt)(key \<mapsto> nextPtr rt),
        nextPtr := Suc (nextPtr rt)\<rparr>"

text \<open>\<open>dropCachedTransport\<close> takes its two locks one after the other: two steps.\<close>

definition dropTransportEntry :: "string \<Rightarrow> nat \<Rightarrow> roundTripper \<Rightarrow> roundTripper" where
  "dropTransportEntry addr stale rt =
     (if cachedTransports rt addr = Some stale
      then rt\<lparr>cachedTransports := (cachedTransports rt)(addr := None)\<rparr> else rt)"

definition dropKindEntry :: "string \<Rightarrow> roundTripper \<Rightarrow> roundTripper" where
  "dropKindEntry addr rt = rt\<lparr>cachedKinds := (cachedKinds rt)(addr := None)\<rparr>"

definition dropCachedTransport :: "string \<Rightarrow> nat \<Rightarrow> roundTripper \<Rightarrow> roundTripper" where
  "dropCachedTransport addr stale rt = dropKindEntry addr (dropTransportEntry addr stale rt)"

section \<open>Dialing\<close>

definition dialNetwork :: "roundTripper \<Rightarrow> string \<Rightarrow> string" where
  "dialNetwork rt network =
     (let network = (if network = ''tcp'' \<and> rt_disableIPV6 rt then ''tcp4'' else network) in
      if network = ''tcp'' \<and> rt_disableIPV4 rt then ''tcp6'' else network)"

definition dialHost :: "roundTripper \<Rightarrow> string \<Rightarrow> string" where
  "dialHost rt addr =
     (let host = (case SplitHostPort addr of Inl _ \<Rightarrow> addr | Inr (h, _) \<Rightarrow> h) in
      if rt_serverNameOverwrite rt \<noteq> [] then rt_serverNameOverwrite rt else host)"

definition dialTLSConfig :: "roundTripper \<Rightarrow> string \<Rightarrow> tlsConfig" where
  "dialTLSConfig rt host =
     \<lparr>ClientSessionCache = rt_clientSessionCache rt, ServerName = host,
      InsecureSkipVerify = rt_insecureSkipVerify rt, OmitEmptyPsk = True,
      cfgRootCAs = (case rt_transportOptions rt of None \<Rightarrow> None | Some opts \<Rightarrow> RootCAs opts),
      cfgKeyLogWriter = (case rt_transportOptions rt of None \<Rightarrow> None | Some opts \<Rightarrow> KeyLogWriter opts),
      cfgCertificates = (case rt_transportOptions rt of None \<Rightarrow> [] | Some opts \<Rightarrow> Certificates opts)\<rparr>"

definition closeConn :: "tlsConn \<Rightarrow> roundTripper \<Rightarrow> roundTripper" where
  "closeConn c rt = rt\<lparr>closedConns := connId c # closedConns rt\<rparr>"

text \<open>
  Dial, handshake and pin check, the part that \<open>dialTLSWithSetup\<close> and \<open>dialTLSForWebsocket\<close>
  share: an error leaves no open connection.
\<close>

definition secureDial ::
  "('s, 'c) dialEnv \<Rightarrow> bool \<Rightarrow> bool \<Rightarrow> string \<Rightarrow> string \<Rightarrow> roundTripper \<Rightarrow> (rt_error + tlsConn) \<times> roundTripper" where
  "secureDial env force noH3 network addr rt =
     (if \<not> dConnects env (dialNetwork rt network) addr then (Inl ErrDial, rt)
      else
        (let host = dialHost rt addr; c = nextConn rt; rt = rt\<lparr>nextConn := Suc c\<rparr> in
         case dHandshake env (dialTLSConfig rt host) force noH3 of
           HandshakeFails \<Rightarrow> (Inl ErrHandshake, closeConn \<lparr>connId = c, NegotiatedProtocol = []\<rparr> rt)
         | HandshakeOk proto certs \<Rightarrow>
             (let conn = \<lparr>connId = c, NegotiatedProtocol = proto\<rparr> in
              case Pin (dHpkp env) (dStorage env) (rt_certificatePinner rt) certs host of
                Inl e \<Rightarrow> (Inl (ErrPin e), closeConn conn rt)
              | Inr _ \<Rightarrow> (Inr conn, rt))))"

text \<open>The setup dial: build the transport for the protocol and stash the connection.\<close>

definition buildForProtocol ::
  "('s, 'c) dialEnv \<Rightarrow> string \<Rightarrow> tlsConn \<Rightarrow> roundTripper \<Rightarrow> (rt_error + tlsConn) \<times> roundTripper" where
  "buildForProtocol env addr conn rt =
     (let stash = (\<lambda>rt. (Inl ErrProtocolNegotiated,
                         rt\<lparr>cachedConnections := (cachedConnections rt)(addr \<mapsto> conn)\<rparr>))
      in if NegotiatedProtocol conn = ''h2'' then
           stash (setCachedKind addr transportHTTP2
             (cacheTransport addr (HTTP2 (buildHTTP2Transport env rt)) rt))
         else if NegotiatedProtocol conn = ''h3'' then
           (case buildHTTP3Transport (dPlatform env) (rtHttp3Config rt) of
              Inl e \<Rightarrow> (Inl (ErrHTTP3 e), rt)
            | Inr t3 \<Rightarrow> stash (setCachedKind addr transportHTTP3 (cacheTransport addr (HTTP3 t3) rt)))
         else stash (setCachedKind addr transportHTTP1
             (cacheTransport addr (HTTP1 (buildHttp1Transport rt)) rt)))"

definition dialTLSWithSetup ::
  "('s, 'c) dialEnv \<Rightarrow> string \<Rightarrow> string \<Rightarrow> bool \<Rightarrow> roundTripper \<Rightarrow> (rt_error + tlsConn) \<times> roundTripper" where
  "dialTLSWithSetup env network addr setup rt =
     (case cachedConnections rt addr of
        Some conn \<Rightarrow> (Inr conn, rt\<lparr>cachedConnections := (cachedConnections rt)(addr := None)\<rparr>)
      | None \<Rightarrow>
          (case secureDial env (rt_forceHttp1 rt) (rt_disableHttp3 rt) network addr rt of
             (Inl e, rt) \<Rightarrow> (Inl e, rt)
           | (Inr conn, rt) \<Rightarrow>
               if \<not> setup then
                 (if cachedKind addr rt = Some (kindForProtocol (NegotiatedProtocol conn)) then (Inr conn, rt)
                  else (Inl (ErrProtocolChanged addr (NegotiatedProtocol conn)), closeConn conn rt))
               else buildForProtocol env addr conn rt))"

definition dialTLS ::
  "('s, 'c) dialEnv \<Rightarrow> string \<Rightarrow> string \<Rightarrow> roundTripper \<Rightarrow> (rt_error + tlsConn) \<times> roundTripper" where
  "dialTLS env network addr rt = dialTLSWithSetup env network addr False rt"

definition dialTLSSetup ::
  "('s, 'c) dialEnv \<Rightarrow> string \<Rightarrow> string \<Rightarrow> roundTripper \<Rightarrow> (rt_error + tlsConn) \<times> roundTripper" where
  "dialTLSSetup env network addr rt = dialTLSWithSetup env network addr True rt"

definition dialTLSHTTP2 ::
  "('s, 'c) dialEnv \<Rightarrow> string \<Rightarrow> string \<Rightarrow> roundTripper \<Rightarrow> (rt_error + tlsConn) \<times> roundTripper" where
  "dialTLSHTTP2 env network addr rt = dialTLS env network addr rt"

definition dialTLSForWebsocket ::
  "('s, 'c) dialEnv \<Rightarrow> string \<Rightarrow> string \<Rightarrow> roundTripper \<Rightarrow> (rt_error + tlsConn) \<times> roundTripper" where
  "dialTLSForWebsocket env network addr rt = secureDial env True True network addr rt"

text \<open>The plain dial of an HTTP/1 transport: the network and address the dialer is asked for.\<close>

definition dial :: "string \<Rightarrow> string \<Rightarrow> roundTripper \<Rightarrow> string \<times> string" where
  "dial network addr rt =
     ((if network = ''tcp'' \<and> rt_disableIPV6 rt then ''tcp4'' else network), addr)"

section \<open>Round trips\<close>

definition getDialTLSAddr :: "Request \<Rightarrow> string" where
  "getDialTLSAddr req =
     (if url_Port (reqURL req) \<noteq> [] then JoinHostPort (url_Hostname (reqURL req)) (url_Port (reqURL req))
      else JoinHostPort (url_Hostname (reqURL req)) ''443'')"

definition getTransport ::
  "('s, 'c) dialEnv \<Rightarrow> Request \<Rightarrow> string \<Rightarrow> roundTripper \<Rightarrow> (rt_error + unit) \<times> roundTripper" where
  "getTransport env req addr rt =
     (let scheme = toLower (Scheme (reqURL req)) in
      if scheme = ''http'' then (Inr (), cacheTransport addr (HTTP1 (buildHttp1Transport rt)) rt)
      else if scheme = ''https'' then
        (case dialTLSSetup env ''tcp'' addr rt of
           (Inl ErrProtocolNegotiated, rt) \<Rightarrow> (Inr (), rt)
         | (Inl e, rt) \<Rightarrow> (Inl e, rt)
         | (Inr _, rt) \<Rightarrow> (Inl GoPanic, rt))
      else (Inl (ErrScheme (Scheme (reqURL req))), rt))"

text \<open>The part of \<open>RoundTrip\<close> under \<open>cachedTransportsLck\<close>: the pointer of the transport to use.\<close>

definition acquireTransport ::
  "('s, 'c) dialEnv \<Rightarrow> Request \<Rightarrow> string \<Rightarrow> roundTripper \<Rightarrow> (rt_error + nat) \<times> roundTripper" where
  "acquireTransport env req addr rt =
     (case cachedTransports rt addr of
        Some t \<Rightarrow> (Inr t, rt)
      | None \<Rightarrow>
          (case getTransport env req addr rt of
             (Inl e, rt) \<Rightarrow> (Inl e, rt)
           | (Inr _, rt) \<Rightarrow> (Inr (case cachedTransports rt addr of Some t \<Rightarrow> t | None \<Rightarrow> 0), rt)))"

definition isProtocolChanged :: "rt_error \<Rightarrow> bool" where
  "isProtocolChanged e = (case e of ErrProtocolChanged _ _ \<Rightarrow> True | _ \<Rightarrow> False)"

definition isBadPin :: "rt_error \<Rightarrow> bool" where
  "isBadPin e = (case e of ErrPin _ \<Rightarrow> True | _ \<Rightarrow> False)"

text \<open>
  \<open>RoundTrip\<close> after the test for a race. \<open>send\<close> is the call of the transport's own \<open>RoundTrip\<close>, with whatever it
  does to the round tripper through its dialer; the flag says whether the bad pin handler ran. A
  nil transport panics.
\<close>

definition directRoundTrip ::
  "('s, 'c) dialEnv \<Rightarrow> (nat \<Rightarrow> Request \<Rightarrow> roundTripper \<Rightarrow> (rt_error + 'r) \<times> roundTripper)
   \<Rightarrow> Request \<Rightarrow> roundTripper \<Rightarrow> (rt_error + 'r) \<times> bool \<times> roundTripper" where
  "directRoundTrip env send req rt =
     (let addr = getDialTLSAddr req in
      case acquireTransport env req addr rt of
        (Inl e, rt) \<Rightarrow> (Inl e, isBadPin e \<and> rt_hasBadPinHandler rt, rt)
      | (Inr t, rt) \<Rightarrow>
          if t = 0 then (Inl GoPanic, False, rt)
          else (case send t req rt of
                  (Inl e, rt) \<Rightarrow>
                    (Inl e, False, if isProtocolChanged e then dropCachedTransport addr t rt else rt)
                | (Inr resp, rt) \<Rightarrow> (Inr resp, False, rt)))"

section \<open>Construction\<close>

text \<open>\<open>ToSpec\<close> and \<open>UTLSIdToSpec\<close> of \<open>utls\<close> are arguments; \<^const>\<open>None\<close> is an error.\<close>

definition supportsSessionResumption ::
  "(ClientHelloID \<Rightarrow> ClientHelloSpec option) \<Rightarrow> (ClientHelloID \<Rightarrow> ClientHelloSpec option) \<Rightarrow> ClientHelloID \<Rightarrow> bool" where
  "supportsSessionResumption ToSpec UTLSIdToSpec hello =
     (case (case ToSpec hello of Some spec \<Rightarrow> Some spec | None \<Rightarrow> UTLSIdToSpec hello) of
        None \<Rightarrow> False
      | Some spec \<Rightarrow> list_ex (\<lambda>e. case e of UtlsPreSharedKeyExtension _ \<Rightarrow> True | _ \<Rightarrow> False) (Extensions spec))"

definition newProtocolRacer ::
  "nat option \<Rightarrow> bool \<Rightarrow> string \<Rightarrow> TransportOptions option \<Rightarrow> (u16, u32) gomap \<Rightarrow> certificatePinner \<Rightarrow> bool
   \<Rightarrow> (u64, u64) gomap \<Rightarrow> u64 list \<Rightarrow> u32 \<Rightarrow> string list \<Rightarrow> bool \<Rightarrow> string \<Rightarrow> protocolRacer" where
  "newProtocolRacer cache skip sno opts sets pinner handler h3s h3o h3p h3ps h3g proxy =
     \<lparr>protocolCache = Map.empty, pr_clientSessionCache = cache, pr_insecureSkipVerify = skip,
      pr_serverNameOverwrite = sno, pr_transportOptions = opts, pr_settings = sets,
      pr_certificatePinner = pinner, pr_hasBadPinHandler = handler, pr_http3Settings = h3s,
      pr_http3SettingsOrder = h3o, pr_http3PriorityParam = h3p, pr_http3PseudoHeaderOrder = h3ps,
      pr_http3SendGreaseFrames = h3g, pr_proxyURL = proxy\<rparr>"

text \<open>The arguments of \<open>newRoundTripper\<close>. \<open>resumption\<close> is what \<open>supportsSessionResumption\<close> says of the
  profile; a session cache is a token. The round tripper comes with the pin storage it leaves.\<close>

record rtArgs =
  a_clientProfile :: ClientProfile
  a_transportOptions :: "TransportOptions option"
  a_serverNameOverwrite :: string
  a_insecureSkipVerify :: bool
  a_withRandomTlsExtensionOrder :: bool
  a_forceHttp1 :: bool
  a_disableHttp3 :: bool
  a_disableSessionTickets :: bool
  a_enableH3Racing :: bool
  a_certificatePins :: "(string \<times> string list) list"
  a_hasBadPinHandler :: bool
  a_disableIPV6 :: bool
  a_disableIPV4 :: bool
  a_proxyURL :: string
  a_dialer :: contextDialer

definition newRoundTripper ::
  "('s, 'c) hpkp \<Rightarrow> bool \<Rightarrow> nat \<Rightarrow> rtArgs \<Rightarrow> 's \<Rightarrow> roundTripper \<times> 's" where
  "newRoundTripper H resumption lru a storage =
     (let (pinner, storage') = NewCertificatePinner H (a_certificatePins a) storage;
          cache = (if \<not> a_disableSessionTickets a \<and> resumption then Some lru else None);
          profile = a_clientProfile a
      in (\<lparr>rt_initialStreamID = GetStreamID profile, rt_allowHTTP = GetAllowHTTP profile,
           rt_clientHelloId = GetClientHelloId profile, rt_certificatePinner = pinner,
           rt_dialer = a_dialer a,
           rt_clientSessionCache = cache, rt_hasBadPinHandler = a_hasBadPinHandler a,
           rt_headerPriority = GetHeaderPriority profile, rt_settings = GetSettings profile,
           rt_transportOptions = a_transportOptions a, rt_serverNameOverwrite = a_serverNameOverwrite a,
           rt_priorities = GetPriorities profile, rt_pseudoHeaderOrder = GetPseudoHeaderOrder profile,
           rt_settingsOrder = GetSettingsOrder profile, rt_connectionFlow = GetConnectionFlow profile,
           rt_forceHttp1 = a_forceHttp1 a, rt_disableHttp3 = a_disableHttp3 a, rt_proxyURL = a_proxyURL a,
           rt_http3Settings = GetHttp3Settings profile,
           rt_http3SettingsOrder = GetHttp3SettingsOrder profile,
           rt_http3PriorityParam = GetHttp3PriorityParam profile,
           rt_http3PseudoHeaderOrder = GetHttp3PseudoHeaderOrder profile,
           rt_http3SendGreaseFrames = GetHttp3SendGreaseFrames profile,
           rt_insecureSkipVerify = a_insecureSkipVerify a,
           rt_withRandomTlsExtensionOrder = a_withRandomTlsExtensionOrder a,
           rt_disableIPV6 = a_disableIPV6 a, rt_disableIPV4 = a_disableIPV4 a,
           rt_racer = (if a_enableH3Racing a
             then Some (newProtocolRacer cache (a_insecureSkipVerify a) (a_serverNameOverwrite a)
                    (a_transportOptions a) (GetSettings profile) pinner (a_hasBadPinHandler a)
                    (GetHttp3Settings profile) (GetHttp3SettingsOrder profile)
                    (GetHttp3PriorityParam profile) (GetHttp3PseudoHeaderOrder profile)
                    (GetHttp3SendGreaseFrames profile) (a_proxyURL a))
             else None),
           cachedConnections = Map.empty, cachedTransports = Map.empty, cachedKinds = Map.empty,
           transportHeap = Map.empty, nextPtr = 1, nextConn = 0, closedConns = []\<rparr>, storage'))"

section \<open>What a dial changes\<close>

lemma closeConn_frame [simp]:
  "cachedConnections (closeConn c rt) = cachedConnections rt"
  "cachedTransports (closeConn c rt) = cachedTransports rt"
  "cachedKinds (closeConn c rt) = cachedKinds rt"
  "transportHeap (closeConn c rt) = transportHeap rt"
  "nextPtr (closeConn c rt) = nextPtr rt"
  "nextConn (closeConn c rt) = nextConn rt"
  "closedConns (closeConn c rt) = connId c # closedConns rt"
  by (simp_all add: closeConn_def)

lemma secureDial_cases:
  assumes "secureDial env force noH3 network addr rt = (r, rt')"
  obtains (noConnection) "r = Inl ErrDial" "rt' = rt"
  | (closed) e proto where "r = Inl e" "e = ErrHandshake \<or> (\<exists>p. e = ErrPin p)"
      "rt' = closeConn \<lparr>connId = nextConn rt, NegotiatedProtocol = proto\<rparr> (rt\<lparr>nextConn := Suc (nextConn rt)\<rparr>)"
  | (fresh) proto certs where "r = Inr \<lparr>connId = nextConn rt, NegotiatedProtocol = proto\<rparr>"
      "rt' = rt\<lparr>nextConn := Suc (nextConn rt)\<rparr>"
      "dHandshake env (dialTLSConfig rt (dialHost rt addr)) force noH3 = HandshakeOk proto certs"
      "Pin (dHpkp env) (dStorage env) (rt_certificatePinner rt) certs (dialHost rt addr) = Inr ()"
proof -
  have cfg: "dialTLSConfig (rt\<lparr>nextConn := n\<rparr>) h = dialTLSConfig rt h" for n h
    by (simp add: dialTLSConfig_def)
  note [simp] = secureDial_def cfg Let_def
  show ?thesis
  proof (cases "dConnects env (dialNetwork rt network) addr")
    case False
    then show ?thesis using assms noConnection by simp
  next
    case connects: True
    show ?thesis
    proof (cases "dHandshake env (dialTLSConfig rt (dialHost rt addr)) force noH3")
      case HandshakeFails
      then show ?thesis using connects assms closed by auto
    next
      case (HandshakeOk proto certs)
      then show ?thesis using connects assms closed fresh
        by (cases "Pin (dHpkp env) (dStorage env) (rt_certificatePinner rt) certs (dialHost rt addr)") auto
    qed
  qed
qed

text \<open>A dial never touches the transports, the kinds or the stash of other addresses.\<close>

lemma secureDial_frame:
  assumes "secureDial env force noH3 network addr rt = (r, rt')"
  shows "cachedConnections rt' = cachedConnections rt \<and> cachedTransports rt' = cachedTransports rt \<and>
    cachedKinds rt' = cachedKinds rt \<and> transportHeap rt' = transportHeap rt \<and> nextPtr rt' = nextPtr rt"
  using assms by (cases rule: secureDial_cases) auto

lemma secureDial_config:
  assumes "secureDial env force noH3 network addr rt = (r, rt')"
  shows "rt_proxyURL rt' = rt_proxyURL rt \<and> rt_racer rt' = rt_racer rt"
  using assms by (cases rule: secureDial_cases) (auto simp: closeConn_def)

lemma dialTLSWithSetup_config:
  assumes "dialTLSWithSetup env network addr setup rt = (r, rt')"
  shows "rt_proxyURL rt' = rt_proxyURL rt \<and> rt_racer rt' = rt_racer rt"
proof -
  obtain r1 rt1 where d: "secureDial env (rt_forceHttp1 rt) (rt_disableHttp3 rt) network addr rt = (r1, rt1)"
    by fastforce
  from secureDial_config [OF d] assms d show ?thesis
    by (auto simp: dialTLSWithSetup_def buildForProtocol_def setCachedKind_def cacheTransport_def closeConn_def
        split: option.splits sum.splits if_splits)
qed

lemma dialTLSWithSetup_stash:
  "cachedConnections rt addr = Some c \<Longrightarrow> dialTLSWithSetup env network addr setup rt =
     (Inr c, rt\<lparr>cachedConnections := (cachedConnections rt)(addr := None)\<rparr>)"
  by (simp add: dialTLSWithSetup_def)

text \<open>A reconnect: what it returns and what it leaves.\<close>

lemma dialTLS_cases:
  assumes "dialTLS env network addr rt = (r, rt')"
  obtains (stashed) c where "cachedConnections rt addr = Some c" "r = Inr c"
      "rt' = rt\<lparr>cachedConnections := (cachedConnections rt)(addr := None)\<rparr>"
  | (failed) e where "cachedConnections rt addr = None" "r = Inl e"
      "secureDial env (rt_forceHttp1 rt) (rt_disableHttp3 rt) network addr rt = (Inl e, rt')"
  | (fits) c where "cachedConnections rt addr = None" "r = Inr c"
      "secureDial env (rt_forceHttp1 rt) (rt_disableHttp3 rt) network addr rt = (Inr c, rt')"
      "cachedKinds rt addr = Some (kindForProtocol (NegotiatedProtocol c))"
  | (changed) c rt1 where "cachedConnections rt addr = None"
      "r = Inl (ErrProtocolChanged addr (NegotiatedProtocol c))"
      "secureDial env (rt_forceHttp1 rt) (rt_disableHttp3 rt) network addr rt = (Inr c, rt1)"
      "rt' = closeConn c rt1" "cachedKinds rt addr \<noteq> Some (kindForProtocol (NegotiatedProtocol c))"
proof (cases "cachedConnections rt addr")
  case (Some c)
  then show ?thesis using assms stashed by (simp add: dialTLS_def dialTLSWithSetup_stash)
next
  case None
  obtain r1 rt1 where d: "secureDial env (rt_forceHttp1 rt) (rt_disableHttp3 rt) network addr rt = (r1, rt1)"
    by fastforce
  have k: "cachedKind addr rt1 = cachedKinds rt addr"
    using secureDial_frame [OF d] by (simp add: cachedKind_def)
  show ?thesis
  proof (cases r1)
    case (Inl e)
    then show ?thesis using assms None d failed by (auto simp: dialTLS_def dialTLSWithSetup_def)
  next
    case (Inr c)
    then show ?thesis using assms None d k fits changed
      by (auto simp: dialTLS_def dialTLSWithSetup_def split: if_splits)
  qed
qed

lemma dialTLS_frame:
  assumes "dialTLS env network addr rt = (r, rt')"
  shows "cachedTransports rt' = cachedTransports rt" and "cachedKinds rt' = cachedKinds rt"
    and "transportHeap rt' = transportHeap rt" and "nextPtr rt' = nextPtr rt"
    and "cachedConnections rt' = (cachedConnections rt)(addr := None)"
  using assms by (cases rule: dialTLS_cases; use secureDial_frame in fastforce)+

text \<open>What the setup dial leaves in the maps: nothing new, or a new transport of the kind of the connection together
  with that kind, and the connection in the stash.\<close>

definition mapsKept :: "roundTripper \<Rightarrow> roundTripper \<Rightarrow> bool" where
  "mapsKept rt rt' \<longleftrightarrow> cachedConnections rt' = cachedConnections rt \<and> cachedTransports rt' = cachedTransports rt \<and>
     cachedKinds rt' = cachedKinds rt \<and> transportHeap rt' = transportHeap rt \<and> nextPtr rt' = nextPtr rt"

definition setUp :: "string \<Rightarrow> tlsConn \<Rightarrow> transport \<Rightarrow> roundTripper \<Rightarrow> roundTripper \<Rightarrow> bool" where
  "setUp addr c tr rt rt' \<longleftrightarrow> kindOf tr = kindForProtocol (NegotiatedProtocol c) \<and>
     cachedConnections rt' = (cachedConnections rt)(addr \<mapsto> c) \<and>
     cachedTransports rt' = (cachedTransports rt)(addr \<mapsto> nextPtr rt) \<and>
     cachedKinds rt' = (cachedKinds rt)(addr \<mapsto> kindOf tr) \<and>
     transportHeap rt' = (transportHeap rt)(nextPtr rt \<mapsto> tr) \<and> nextPtr rt' = Suc (nextPtr rt) \<and>
     (\<forall>t3. tr = HTTP3 t3 \<longrightarrow> h3Dial (rt_proxyURL rt) = Inr (t3_Dial t3))"

lemma buildForProtocol_cases:
  assumes "buildForProtocol env addr c rt = (r, rt')"
  obtains (failed) e where "r = Inl (ErrHTTP3 e)" "rt' = rt"
  | (built) tr where "r = Inl ErrProtocolNegotiated" "setUp addr c tr rt rt'"
proof -
  note defs = buildForProtocol_def setUp_def setCachedKind_def cacheTransport_def kindForProtocol_def
  consider (h2) "NegotiatedProtocol c = ''h2''" | (h3) "NegotiatedProtocol c = ''h3''"
    | (h1) "NegotiatedProtocol c \<noteq> ''h2''" "NegotiatedProtocol c \<noteq> ''h3''" by blast
  then show ?thesis
  proof cases
    case h2
    with assms show ?thesis by (intro built [of "HTTP2 (buildHTTP2Transport env rt)"]) (auto simp: defs)
  next
    case h1
    with assms show ?thesis by (intro built [of "HTTP1 (buildHttp1Transport rt)"]) (auto simp: defs)
  next
    case h3
    show ?thesis
    proof (cases "buildHTTP3Transport (dPlatform env) (rtHttp3Config rt)")
      case (Inl e)
      with assms h3 show ?thesis by (intro failed [of e]) (auto simp: buildForProtocol_def)
    next
      case (Inr t3)
      with buildHTTP3Transport_Dial [OF Inr] assms h3 show ?thesis
        by (intro built [of "HTTP3 t3"]) (auto simp: defs rtHttp3Config_def)
    qed
  qed
qed

text \<open>The setup dial when nothing is stashed.\<close>

lemma setup_cases:
  assumes "dialTLSSetup env network addr rt = (r, rt')" and "cachedConnections rt addr = None"
  obtains (failed) e where "r = Inl e" "e \<noteq> ErrProtocolNegotiated" "\<not> isProtocolChanged e" "e \<noteq> GoPanic" "mapsKept rt rt'"
  | (built) c tr where "r = Inl ErrProtocolNegotiated" "setUp addr c tr rt rt'"
proof -
  obtain r1 rt1 where d: "secureDial env (rt_forceHttp1 rt) (rt_disableHttp3 rt) network addr rt = (r1, rt1)"
    by fastforce
  have frame: "mapsKept rt rt1" "rt_proxyURL rt1 = rt_proxyURL rt"
    using secureDial_frame [OF d] secureDial_config [OF d] by (simp_all add: mapsKept_def)
  show ?thesis
  proof (cases r1)
    case (Inl e)
    then have "r = Inl e" "rt' = rt1" using assms d by (simp_all add: dialTLSSetup_def dialTLSWithSetup_def)
    moreover have "e = ErrDial \<or> e = ErrHandshake \<or> (\<exists>p. e = ErrPin p)"
      using d Inl by (cases rule: secureDial_cases) auto
    ultimately show ?thesis using frame failed by (auto simp: isProtocolChanged_def)
  next
    case (Inr c)
    then have "buildForProtocol env addr c rt1 = (r, rt')"
      using assms d by (simp add: dialTLSSetup_def dialTLSWithSetup_def)
    then show ?thesis
    proof (cases rule: buildForProtocol_cases)
      case (failed e)
      with frame that(1) [of "ErrHTTP3 e"] show ?thesis by (simp add: isProtocolChanged_def)
    next
      case (built tr)
      then have "setUp addr c tr rt rt'" using frame by (simp add: setUp_def mapsKept_def)
      with built show ?thesis using that(2) by blast
    qed
  qed
qed

section \<open>Invariant of requests one after the other\<close>

text \<open>
  Every cached pointer points to a transport; a recorded kind is that of the transport cached for the
  address; a stashed connection speaks the recorded kind.
\<close>

definition rt_inv :: "roundTripper \<Rightarrow> bool" where
  "rt_inv rt \<longleftrightarrow>
     (\<forall>addr k. cachedKinds rt addr = Some k \<longrightarrow>
        (\<exists>t tr. cachedTransports rt addr = Some t \<and> transportHeap rt t = Some tr \<and> kindOf tr = k)) \<and>
     (\<forall>addr c. cachedConnections rt addr = Some c \<longrightarrow>
        cachedKinds rt addr = Some (kindForProtocol (NegotiatedProtocol c))) \<and>
     (\<forall>addr t. cachedTransports rt addr = Some t \<longrightarrow> 0 < t \<and> t < nextPtr rt) \<and> 0 < nextPtr rt"

lemma rt_inv_new [inv_intros]: "rt_inv (fst (newRoundTripper H resumption lru a storage))"
  by (simp add: rt_inv_def newRoundTripper_def Let_def split: prod.splits)

lemma rt_inv_stash_cached: "rt_inv rt \<Longrightarrow> cachedTransports rt addr = None \<Longrightarrow> cachedConnections rt addr = None"
  unfolding rt_inv_def by (metis not_None_eq)

lemma rt_inv_kind_cached: "rt_inv rt \<Longrightarrow> cachedTransports rt addr = None \<Longrightarrow> cachedKinds rt addr = None"
  unfolding rt_inv_def by (metis not_None_eq)

lemma rt_inv_dialTLS [inv_intros]:
  assumes "rt_inv rt" "dialTLS env network addr rt = (r, rt')"
  shows "rt_inv rt'"
  using assms(1) unfolding rt_inv_def dialTLS_frame [OF assms(2)] by simp

text \<open>Storing a freshly allocated transport, with the kind recorded for its key and the connection
  stashed there, if any.\<close>

lemma rt_inv_store:
  assumes inv: "rt_inv rt"
    and T: "cachedTransports rt' = (cachedTransports rt)(addr \<mapsto> nextPtr rt)"
    and H: "transportHeap rt' = (transportHeap rt)(nextPtr rt \<mapsto> tr)" "nextPtr rt' = Suc (nextPtr rt)"
    and K: "cachedKinds rt' = (cachedKinds rt)(addr := k)" "\<forall>x. k = Some x \<longrightarrow> x = kindOf tr"
    and C: "cachedConnections rt' = (cachedConnections rt)(addr := c)"
      "\<forall>x. c = Some x \<longrightarrow> k = Some (kindForProtocol (NegotiatedProtocol x))"
  shows "rt_inv rt'"
  unfolding rt_inv_def
proof (intro conjI allI impI)
  have low: "cachedTransports rt a = Some t \<Longrightarrow> 0 < t \<and> t < nextPtr rt" for a t
    using inv by (simp add: rt_inv_def)
  fix a kd assume kd: "cachedKinds rt' a = Some kd"
  show "\<exists>t tr. cachedTransports rt' a = Some t \<and> transportHeap rt' t = Some tr \<and> kindOf tr = kd"
  proof (cases "a = addr")
    case True
    then show ?thesis using kd T H K by simp
  next
    case False
    then have "cachedKinds rt a = Some kd" using kd K(1) by simp
    then obtain t x where "cachedTransports rt a = Some t" "transportHeap rt t = Some x" "kindOf x = kd"
      using inv unfolding rt_inv_def by blast
    then show ?thesis using False T H low [of a t] by auto
  qed
next
  fix a x assume "cachedConnections rt' a = Some x"
  then show "cachedKinds rt' a = Some (kindForProtocol (NegotiatedProtocol x))"
    using C K inv unfolding rt_inv_def by (cases "a = addr") auto
next
  fix a t assume t: "cachedTransports rt' a = Some t"
  have "0 < nextPtr rt" using inv by (simp add: rt_inv_def)
  then have "0 < t \<and> t < nextPtr rt'"
    using t T H(2) inv unfolding rt_inv_def by (cases "a = addr") (auto simp: less_Suc_eq)
  then show "0 < t" and "t < nextPtr rt'" by simp_all
next
  show "0 < nextPtr rt'" using H(2) by simp
qed

lemma rt_inv_cacheTransport:
  assumes inv: "rt_inv rt" and none: "cachedTransports rt addr = None"
  shows "rt_inv (cacheTransport addr tr rt)"
proof (rule rt_inv_store [OF inv, where k = None and c = None and addr = addr and tr = tr])
  show "cachedKinds (cacheTransport addr tr rt) = (cachedKinds rt)(addr := None)"
    using rt_inv_kind_cached [OF inv none] by (simp add: cacheTransport_def fun_upd_idem)
  show "cachedConnections (cacheTransport addr tr rt) = (cachedConnections rt)(addr := None)"
    using rt_inv_stash_cached [OF inv none] by (simp add: cacheTransport_def fun_upd_idem)
qed (simp_all add: cacheTransport_def)

lemma rt_inv_setup:
  assumes inv: "rt_inv rt" and none: "cachedTransports rt addr = None"
    and d: "dialTLSSetup env network addr rt = (r, rt')"
  shows "rt_inv rt' \<and> (\<exists>e. r = Inl e \<and> e \<noteq> GoPanic \<and>
    (e = ErrProtocolNegotiated \<longrightarrow> cachedTransports rt' addr = Some (nextPtr rt)))"
  using d rt_inv_stash_cached [OF inv none]
proof (cases rule: setup_cases)
  case (failed e)
  with inv show ?thesis by (simp add: rt_inv_def mapsKept_def)
next
  case (built c tr)
  have "rt_inv rt'"
    by (rule rt_inv_store [OF inv, where k = "Some (kindOf tr)" and c = "Some c" and addr = addr and tr = tr])
      (use built(2) in \<open>simp_all add: setUp_def\<close>)
  with built show ?thesis by (simp add: setUp_def)
qed

lemma rt_inv_getTransport:
  assumes inv: "rt_inv rt" and none: "cachedTransports rt addr = None"
    and g: "getTransport env req addr rt = (r, rt')"
  shows "rt_inv rt' \<and> r \<noteq> Inl GoPanic \<and> (r = Inr () \<longrightarrow> cachedTransports rt' addr = Some (nextPtr rt))"
proof -
  let ?s = "toLower (Scheme (reqURL req))"
  consider (http) "?s = ''http''" | (https) "?s = ''https''" | (other) "?s \<noteq> ''http''" "?s \<noteq> ''https''" by blast
  then show ?thesis
  proof cases
    case http
    then show ?thesis using g rt_inv_cacheTransport [OF inv none]
      by (auto simp: getTransport_def cacheTransport_def)
  next
    case https
    obtain r1 rt1 where d: "dialTLSSetup env ''tcp'' addr rt = (r1, rt1)" by fastforce
    from rt_inv_setup [OF inv none d] show ?thesis using g https d
      by (auto simp: getTransport_def split: rt_error.splits)
  next
    case other
    then show ?thesis using g inv by (auto simp: getTransport_def)
  qed
qed

lemma rt_inv_acquireTransport:
  assumes inv: "rt_inv rt" and a: "acquireTransport env req addr rt = (r, rt')"
  shows "rt_inv rt' \<and> r \<noteq> Inl GoPanic \<and> (\<forall>t. r = Inr t \<longrightarrow> cachedTransports rt' addr = Some t \<and> t \<noteq> 0)"
proof (cases "cachedTransports rt addr")
  case None
  obtain r1 rt1 where g: "getTransport env req addr rt = (r1, rt1)" by fastforce
  have pos: "nextPtr rt \<noteq> 0" using inv by (simp add: rt_inv_def)
  from rt_inv_getTransport [OF inv None g] a g None pos show ?thesis
    by (cases r1) (auto simp: acquireTransport_def)
next
  case (Some t)
  then show ?thesis using a inv by (auto simp: acquireTransport_def rt_inv_def)
qed

lemma rt_inv_drop:
  assumes "rt_inv rt" "cachedConnections rt addr = None"
  shows "rt_inv (dropCachedTransport addr t rt)"
  using assms unfolding rt_inv_def dropCachedTransport_def dropKindEntry_def dropTransportEntry_def by auto

text \<open>
  What a transport's own \<open>RoundTrip\<close> does to the round tripper: it opens connections, one after the
  other, and then answers. The name it dials is its own affair: \<open>dialName\<close> is how the transports of \<^verbatim>\<open>fhttp\<close>
  turn the URL of a request into an address. For a host in ASCII that is the address
  \<open>getDialTLSAddr\<close> computes and the transport is cached under; an internationalised host is dialed in
  its punycode form while its cache key keeps the Unicode form. A plan is \<open>honest\<close> when it reports
  a change of protocol only if one of its dials did, and does not panic.
\<close>

fun redials :: "string \<Rightarrow> ('s, 'c) dialEnv list \<Rightarrow> roundTripper \<Rightarrow> (rt_error + tlsConn) list \<times> roundTripper" where
  "redials addr [] rt = ([], rt)"
| "redials addr (env # envs) rt =
     (let (r, rt) = dialTLS env ''tcp'' addr rt; (rs, rt) = redials addr envs rt in (r # rs, rt))"

type_synonym ('s, 'c, 'r) plan =
  "nat \<Rightarrow> Request \<Rightarrow> ('s, 'c) dialEnv list \<times> ((rt_error + tlsConn) list \<Rightarrow> rt_error + 'r)"

definition sendVia ::
  "(Request \<Rightarrow> string) \<Rightarrow> ('s, 'c, 'r) plan \<Rightarrow> nat \<Rightarrow> Request \<Rightarrow> roundTripper \<Rightarrow> (rt_error + 'r) \<times> roundTripper" where
  "sendVia dialName plan t req rt =
     (let (envs, finish) = plan t req; (rs, rt) = redials (dialName req) envs rt in (finish rs, rt))"

definition honest :: "('s, 'c, 'r) plan \<Rightarrow> bool" where
  "honest plan \<longleftrightarrow> (\<forall>t req rs e. snd (plan t req) rs = Inl e \<longrightarrow>
     e \<noteq> GoPanic \<and> (isProtocolChanged e \<longrightarrow> Inl e \<in> set rs))"

lemma rt_inv_redials:
  assumes "rt_inv rt" "redials addr envs rt = (rs, rt')"
  shows "rt_inv rt' \<and> cachedTransports rt' = cachedTransports rt \<and>
    (rs \<noteq> [] \<longrightarrow> cachedConnections rt' addr = None)"
  using assms
proof (induction envs arbitrary: rt rs)
  case (Cons env envs)
  obtain r rt1 where d: "dialTLS env ''tcp'' addr rt = (r, rt1)" by fastforce
  obtain rs2 rt2 where rd: "redials addr envs rt1 = (rs2, rt2)" by fastforce
  from Cons.prems d rd have "rt' = rt2" by simp
  moreover have "rt_inv rt1" using rt_inv_dialTLS [OF Cons.prems(1) d] .
  moreover have "rs2 = [] \<Longrightarrow> rt2 = rt1" using rd by (cases envs) (auto split: prod.splits)
  ultimately show ?case using Cons.IH [of rt1 rs2] rd dialTLS_frame [OF d] by (cases "rs2 = []") auto
qed simp

lemma rt_inv_directRoundTrip:
  assumes inv: "rt_inv rt" and h: "honest plan" and own: "dialName req = getDialTLSAddr req"
    and rt: "directRoundTrip env (sendVia dialName plan) req rt = (r, b, rt')"
  shows "rt_inv rt' \<and> r \<noteq> Inl GoPanic"
proof -
  let ?addr = "getDialTLSAddr req"
  obtain r1 rt1 where a: "acquireTransport env req ?addr rt = (r1, rt1)" by fastforce
  note acq = rt_inv_acquireTransport [OF inv a]
  show ?thesis
  proof (cases r1)
    case (Inl e)
    then show ?thesis using rt a acq by (auto simp: directRoundTrip_def)
  next
    case (Inr t)
    obtain envs finish where p: "plan t req = (envs, finish)" by fastforce
    obtain rs rt2 where rd: "redials ?addr envs rt1 = (rs, rt2)" by fastforce
    have i2: "rt_inv rt2" and st: "rs \<noteq> [] \<Longrightarrow> cachedConnections rt2 ?addr = None"
      using rt_inv_redials [OF _ rd] acq by auto
    have s: "sendVia dialName plan t req rt1 = (finish rs, rt2)" by (simp add: sendVia_def p own rd)
    have hon: "finish rs = Inl e \<Longrightarrow> e \<noteq> GoPanic \<and> (isProtocolChanged e \<longrightarrow> rs \<noteq> [])" for e
      using h p unfolding honest_def by (metis empty_iff empty_set snd_conv)
    show ?thesis
    proof (cases "finish rs")
      case (Inl e)
      then show ?thesis using rt a acq Inr s i2 st hon [OF Inl]
        by (auto simp: directRoundTrip_def rt_inv_drop split: if_splits)
    next
      case (Inr resp)
      then show ?thesis using rt a acq \<open>r1 = Inr t\<close> s i2 by (auto simp: directRoundTrip_def split: if_splits)
    qed
  qed
qed

text \<open>A history of requests, each completed before the next.\<close>

fun requests ::
  "(Request \<Rightarrow> string) \<Rightarrow> (('s, 'c) dialEnv \<times> ('s, 'c, 'r) plan \<times> Request) list \<Rightarrow> roundTripper \<Rightarrow> roundTripper" where
  "requests dialName [] rt = rt"
| "requests dialName ((env, plan, req) # hs) rt =
     requests dialName hs (snd (snd (directRoundTrip env (sendVia dialName plan) req rt)))"

lemma rt_inv_requests:
  "rt_inv rt \<Longrightarrow> \<forall>(env, plan, req) \<in> set hist. honest plan \<and> dialName req = getDialTLSAddr req \<Longrightarrow>
   rt_inv (requests dialName hist rt)"
proof (induction dialName hist rt rule: requests.induct)
  case (2 dialName env plan req hs rt)
  then have "honest plan" "dialName req = getDialTLSAddr req" by simp_all
  then have "rt_inv (snd (snd (directRoundTrip env (sendVia dialName plan) req rt)))"
    using rt_inv_directRoundTrip [OF 2(2)] by (metis prod.collapse)
  with 2 show ?case by simp
qed simp

lemma rt_inv_dial_fits:
  assumes inv: "rt_inv rt" and t: "cachedTransports rt addr = Some t" "transportHeap rt t = Some tr"
    and d: "dialTLS env network addr rt = (Inr c, rt')"
  shows "kindForProtocol (NegotiatedProtocol c) = kindOf tr"
proof -
  from d have "cachedKinds rt addr = Some (kindForProtocol (NegotiatedProtocol c))"
    using inv by (cases rule: dialTLS_cases) (auto simp: rt_inv_def)
  then show ?thesis using inv t unfolding rt_inv_def by (metis option.inject)
qed

lemma dialTLS_no_kind:
  assumes "cachedConnections rt addr = None" "cachedKinds rt addr = None"
  shows "\<exists>e. fst (dialTLS env network addr rt) = Inl e"
proof -
  obtain r rt' where d: "dialTLS env network addr rt = (r, rt')" by fastforce
  then have "\<exists>e. r = Inl e" using assms by (cases rule: dialTLS_cases) auto
  with d show ?thesis by simp
qed

section \<open>A sample environment\<close>

text \<open>The environment of the witnesses: every dial connects, the server negotiates the given
  protocol, no pins are configured.\<close>

definition sampleEnv :: "string \<Rightarrow> ((string \<times> Header) list, string) dialEnv" where
  "sampleEnv proto =
     \<lparr>dConnects = (\<lambda>_ _. True), dHandshake = (\<lambda>_ _ _. HandshakeOk proto [''cert'']), dHpkp = memHpkp,
      dStorage = [], dPlatform = \<lparr>intSize = 64, greaseN = 0, greaseVal = (0, 0, 0, 1)\<rparr>, dHasT1 = False,
      dSettingKeys = [], dUtls = ianaUtls\<rparr>"

definition sampleProfile :: ClientProfile where
  "sampleProfile = NewClientProfile (BuiltinHello HelloChrome_112) None [] [] 0 [] None 0 False None [] 0 [] False"

definition sampleArgs :: rtArgs where
  "sampleArgs =
     \<lparr>a_clientProfile = sampleProfile, a_transportOptions = None, a_serverNameOverwrite = [],
      a_insecureSkipVerify = False, a_withRandomTlsExtensionOrder = False, a_forceHttp1 = False,
      a_disableHttp3 = False, a_disableSessionTickets = False, a_enableH3Racing = False,
      a_certificatePins = [], a_hasBadPinHandler = False, a_disableIPV6 = False, a_disableIPV4 = False,
      a_proxyURL = [], a_dialer = ProxyDirect\<rparr>"

definition sampleRT :: roundTripper where
  "sampleRT = fst (newRoundTripper memHpkp False 0 sampleArgs [])"

definition sampleReq :: "string \<Rightarrow> Request" where
  "sampleReq scheme = \<lparr>Method = ''GET'', reqURL = emptyURL\<lparr>Scheme := scheme, Host := ''a.com''\<rparr>,
     reqHost = [], reqHeader = None, reqBody = None\<rparr>"

text \<open>A transport that opens one connection and answers with the error of the dial, if any.\<close>

definition samplePlan :: "string \<Rightarrow> ((string \<times> Header) list, string, string) plan" where
  "samplePlan proto t req = ([sampleEnv proto],
     (\<lambda>rs. case rs of [Inl e] \<Rightarrow> if e = GoPanic then Inl ErrTransport else Inl e | _ \<Rightarrow> Inr ''200''))"

lemma honest_samplePlan: "honest (samplePlan proto)"
  by (auto simp: honest_def samplePlan_def isProtocolChanged_def split: list.splits sum.splits if_splits)

lemmas sample_defs = sampleEnv_def sampleRT_def sampleArgs_def sampleProfile_def sampleReq_def

section \<open>Properties\<close>

text \<open>C4: one request after the other is safe, for a client without racing whose transports dial under the address
  they are cached for (\<open>dialName req = getDialTLSAddr req\<close>, as for every host in ASCII). Whatever servers and
  dialers answered in the history, and whatever the transports did with it, the next request does not panic, and
  every connection that a cached transport then obtains under its address speaks a protocol of that
  transport: HTTP/2 frames never reach an HTTP/1 transport, also when a server changes its mind
  between connections. The transports themselves do not panic, and report a change of protocol only when a dial did.\<close>

theorem connections_fit_transports:
  assumes "\<forall>(env, plan, req) \<in> set hist. honest plan \<and> dialName req = getDialTLSAddr req"
    and "honest plan" and "dialName req = getDialTLSAddr req"
    and "rt = requests dialName hist (fst (newRoundTripper H resumption lru args storage))"
  shows "fst (directRoundTrip env (sendVia dialName plan) req rt) \<noteq> Inl GoPanic \<and>
    (\<forall>addr t tr c. cachedTransports rt addr = Some t \<longrightarrow> transportHeap rt t = Some tr \<longrightarrow>
       fst (dialTLS env' network addr rt) = Inr c \<longrightarrow> kindForProtocol (NegotiatedProtocol c) = kindOf tr)"
proof -
  have inv: "rt_inv rt" unfolding assms(4) by (rule rt_inv_requests [OF rt_inv_new assms(1)])
  show ?thesis
  proof (intro conjI allI impI)
    show "fst (directRoundTrip env (sendVia dialName plan) req rt) \<noteq> Inl GoPanic"
      using rt_inv_directRoundTrip [where dialName = dialName, OF inv assms(2,3)] by (metis prod.collapse)
  next
    fix addr t tr c
    assume "cachedTransports rt addr = Some t" "transportHeap rt t = Some tr"
      "fst (dialTLS env' network addr rt) = Inr c"
    then show "kindForProtocol (NegotiatedProtocol c) = kindOf tr"
      using rt_inv_dial_fits [OF inv] by (metis prod.collapse)
  qed
qed

theorem connections_fit_transports_witness:
  "fst (directRoundTrip (sampleEnv ''h2'')
      (sendVia getDialTLSAddr (samplePlan ''http/1.1'')) (sampleReq ''https'')
      (requests getDialTLSAddr [(sampleEnv ''h2'', samplePlan ''h2'', sampleReq ''https'')] sampleRT)) \<noteq> Inl GoPanic"
proof -
  have h: "\<forall>(env, plan, req) \<in> set [(sampleEnv ''h2'', samplePlan ''h2'', sampleReq ''https'')].
      honest plan \<and> getDialTLSAddr req = getDialTLSAddr req"
    by (simp add: honest_samplePlan)
  show ?thesis unfolding sampleRT_def
    by (rule conjunct1 [OF connections_fit_transports [OF h honest_samplePlan refl refl]])
qed

text \<open>C5: no connection is used before its certificates were checked against the pins. Whatever a
  dial hands out or stashes, beyond what was stashed before, completed its handshake for the
  configured server name and passed the pin check for that name.\<close>

theorem pins_before_use:
  assumes d: "dialTLSWithSetup env network addr setup rt = (r, rt')"
    and none: "cachedConnections rt addr = None"
    and c: "r = Inr c \<or> cachedConnections rt' addr = Some c"
  shows "\<exists>certs. dHandshake env (dialTLSConfig rt (dialHost rt addr)) (rt_forceHttp1 rt) (rt_disableHttp3 rt) =
      HandshakeOk (NegotiatedProtocol c) certs \<and>
    Pin (dHpkp env) (dStorage env) (rt_certificatePinner rt) certs (dialHost rt addr) = Inr ()"
proof -
  obtain r1 rt1 where s: "secureDial env (rt_forceHttp1 rt) (rt_disableHttp3 rt) network addr rt = (r1, rt1)"
    by fastforce
  note frame = secureDial_frame [OF s]
  have "r1 = Inr c"
  proof (cases r1)
    case (Inl e)
    then show ?thesis using d none c s frame by (auto simp: dialTLSWithSetup_def)
  next
    case (Inr c1)
    then show ?thesis using d none c s frame
      by (auto simp: dialTLSWithSetup_def buildForProtocol_def setCachedKind_def cacheTransport_def
          split: if_splits sum.splits)
  qed
  with s show ?thesis by (cases rule: secureDial_cases) auto
qed

theorem pins_before_use_witness:
  "\<exists>certs. dHandshake (sampleEnv ''h2'') (dialTLSConfig sampleRT (dialHost sampleRT ''a.com:443'')) False False =
      HandshakeOk ''h2'' certs \<and>
    Pin memHpkp [] (rt_certificatePinner sampleRT) certs (dialHost sampleRT ''a.com:443'') = Inr ()"
proof -
  let ?d = "dialTLSWithSetup (sampleEnv ''h2'') ''tcp'' ''a.com:443'' True sampleRT"
  have "?d = (fst ?d, snd ?d)" "cachedConnections sampleRT ''a.com:443'' = None"
    "fst ?d = Inr \<lparr>connId = 0, NegotiatedProtocol = ''h2''\<rparr> \<or>
     cachedConnections (snd ?d) ''a.com:443'' = Some \<lparr>connId = 0, NegotiatedProtocol = ''h2''\<rparr>"
    by (simp_all add: sample_defs newRoundTripper_def NewCertificatePinner_def init_def Let_def
        dialTLSWithSetup_def secureDial_def Pin_def buildForProtocol_def setCachedKind_def cacheTransport_def)
  from pins_before_use [OF this] show ?thesis
    by (simp add: sample_defs newRoundTripper_def NewCertificatePinner_def init_def Let_def)
qed

text \<open>C25: a dial leaks its connection exactly when building the HTTP/3 transport fails. In every
  other case the connection it opened is returned, stashed for the request or closed; when the
  server negotiates \<open>h3\<close> and the transport can not be built, for instance because the proxy can not
  carry QUIC, the connection stays open with nobody holding it.\<close>

theorem dial_leaks_iff:
  assumes d: "dialTLSWithSetup env network addr setup rt = (r, rt')"
    and opened: "nextConn rt' \<noteq> nextConn rt"
    and old: "\<forall>n \<in> set (closedConns rt). n < nextConn rt"
    and none: "cachedConnections rt addr = None"
  shows "(\<exists>c. connId c = nextConn rt \<and> (r = Inr c \<or> cachedConnections rt' addr = Some c))
      \<or> nextConn rt \<in> set (closedConns rt') \<longleftrightarrow> (\<nexists>e. r = Inl (ErrHTTP3 e))"
proof -
  obtain r1 rt1 where s: "secureDial env (rt_forceHttp1 rt) (rt_disableHttp3 rt) network addr rt = (r1, rt1)"
    by fastforce
  from s show ?thesis
  proof (cases rule: secureDial_cases)
    case noConnection
    then show ?thesis using d none opened s by (simp add: dialTLSWithSetup_def)
  next
    case (closed e proto)
    then show ?thesis using d none s by (auto simp: dialTLSWithSetup_def)
  next
    case (fresh proto certs)
    then show ?thesis using d none s old
      by (auto simp: dialTLSWithSetup_def buildForProtocol_def setCachedKind_def cacheTransport_def
          split: if_splits sum.splits)
  qed
qed

theorem dial_leaks_iff_witness:
  "\<exists>e rt'. dialTLSWithSetup (sampleEnv ''h3'') ''tcp'' ''a.com:443'' True (sampleRT\<lparr>rt_proxyURL := ''http://p:1''\<rparr>)
      = (Inl (ErrHTTP3 e), rt') \<and> 0 \<notin> set (closedConns rt')"
proof -
  let ?rt = "sampleRT\<lparr>rt_proxyURL := ''http://p:1''\<rparr>"
  let ?d = "dialTLSWithSetup (sampleEnv ''h3'') ''tcp'' ''a.com:443'' True ?rt"
  have scheme: "h3Dial ''http://p:1'' = Inl (H3ProxyScheme ''http'')" by code_simp
  have d: "fst ?d = Inl (ErrHTTP3 (H3ProxyScheme ''http''))" "nextConn (snd ?d) \<noteq> nextConn ?rt"
    "\<forall>n \<in> set (closedConns ?rt). n < nextConn ?rt" "cachedConnections ?rt ''a.com:443'' = None"
    "nextConn ?rt = 0"
    by (simp_all add: sample_defs newRoundTripper_def NewCertificatePinner_def init_def Let_def
        dialTLSWithSetup_def secureDial_def Pin_def buildForProtocol_def buildHTTP3Transport_def
        rtHttp3Config_def scheme)
  from dial_leaks_iff [OF prod.collapse [symmetric] d(2-4)] d(1,5) show ?thesis
    by (metis prod.collapse)
qed

text \<open>C28: \<open>http\<close> and \<open>https\<close> requests to a host without a port share one cache entry. After a plain
  \<open>http\<close> request, an \<open>https\<close> request is given the transport built for \<open>http\<close>, and no connection
  that transport opens is ever accepted: the request fails whatever the server negotiates.\<close>

theorem http_then_https_fails:
  assumes "rt_inv rt" and "cachedTransports rt (getDialTLSAddr req) = None"
    and "toLower (Scheme (reqURL req)) = ''http''"
    and "getDialTLSAddr req' = getDialTLSAddr req"
  shows "\<exists>rt'. acquireTransport env req (getDialTLSAddr req) rt = (Inr (nextPtr rt), rt') \<and>
    acquireTransport env' req' (getDialTLSAddr req') rt' = (Inr (nextPtr rt), rt') \<and>
    (\<exists>e. fst (dialTLS env' network (getDialTLSAddr req') rt') = Inl e)"
proof -
  let ?a = "getDialTLSAddr req" and ?rt' = "cacheTransport (getDialTLSAddr req) (HTTP1 (buildHttp1Transport rt)) rt"
  have "acquireTransport env req ?a rt = (Inr (nextPtr rt), ?rt')"
    using assms(2,3) by (simp add: acquireTransport_def getTransport_def cacheTransport_def)
  moreover have "acquireTransport env' req' ?a ?rt' = (Inr (nextPtr rt), ?rt')"
    by (simp add: acquireTransport_def cacheTransport_def)
  moreover have "\<exists>e. fst (dialTLS env' network ?a ?rt') = Inl e"
    using rt_inv_stash_cached [OF assms(1,2)] rt_inv_kind_cached [OF assms(1,2)]
    by (intro dialTLS_no_kind) (simp_all add: cacheTransport_def)
  ultimately show ?thesis using assms(4) by metis
qed

theorem http_then_https_fails_witness:
  "\<exists>rt'. acquireTransport (sampleEnv ''h2'') (sampleReq ''http'') ''a.com:443'' sampleRT = (Inr 1, rt') \<and>
    acquireTransport (sampleEnv ''h2'') (sampleReq ''https'') ''a.com:443'' rt' = (Inr 1, rt') \<and>
    (\<exists>e. fst (dialTLS (sampleEnv ''h2'') ''tcp'' ''a.com:443'' rt') = Inl e)"
proof -
  have addr: "getDialTLSAddr (sampleReq s) = ''a.com:443''" for s
    by (simp add: getDialTLSAddr_def sampleReq_def emptyURL_def) code_simp
  have "rt_inv sampleRT" "cachedTransports sampleRT (getDialTLSAddr (sampleReq ''http'')) = None"
    "toLower (Scheme (reqURL (sampleReq ''http''))) = ''http''" "nextPtr sampleRT = 1"
    by (simp_all add: sampleRT_def rt_inv_new)
      (simp_all add: sample_defs newRoundTripper_def Let_def toLower_def lowerChar_def split: prod.splits)
  with http_then_https_fails [of sampleRT "sampleReq ''http''" "sampleReq ''https''"] show ?thesis
    by (simp add: addr)
qed

text \<open>C29: dropping a stale transport disables its replacement. When another request has already
  replaced the transport that failed, \<open>dropCachedTransport\<close> keeps the new transport but
  forgets its kind, so every connection the new transport opens later is refused.\<close>

theorem stale_drop_disables_replacement:
  assumes "cachedTransports rt addr = Some t" and "t \<noteq> stale" and "cachedConnections rt addr = None"
  shows "cachedTransports (dropCachedTransport addr stale rt) addr = Some t \<and>
    (\<exists>e. fst (dialTLS env network addr (dropCachedTransport addr stale rt)) = Inl e)"
proof -
  have d: "dropCachedTransport addr stale rt = dropKindEntry addr rt"
    using assms(1,2) by (simp add: dropCachedTransport_def dropTransportEntry_def)
  show ?thesis unfolding d using assms
    by (intro conjI dialTLS_no_kind) (simp_all add: dropKindEntry_def)
qed

theorem stale_drop_disables_replacement_witness:
  "\<exists>e. fst (dialTLS (sampleEnv ''h2'') ''tcp'' ''a.com:443''
     (dropCachedTransport ''a.com:443'' 7
        (setCachedKind ''a.com:443'' transportHTTP2
           (cacheTransport ''a.com:443'' (HTTP2 (buildHTTP2Transport (sampleEnv ''h2'') sampleRT)) sampleRT)))) = Inl e"
proof -
  let ?rt = "setCachedKind ''a.com:443'' transportHTTP2
    (cacheTransport ''a.com:443'' (HTTP2 (buildHTTP2Transport (sampleEnv ''h2'') sampleRT)) sampleRT)"
  have "cachedTransports ?rt ''a.com:443'' = Some 1" "(1 :: nat) \<noteq> 7" "cachedConnections ?rt ''a.com:443'' = None"
    by (simp_all add: setCachedKind_def cacheTransport_def)
      (simp_all add: sample_defs newRoundTripper_def Let_def split: prod.splits)
  from stale_drop_disables_replacement [OF this] show ?thesis by blast
qed

text \<open>C31: a transport that dials under another name than its key leads to a panic. When an \<open>https\<close> request
  built a transport and the connection stashed for it is not taken, dropping the
  transport leaves the stash behind, and the next request for the address panics in
  \<open>getTransport\<close>.\<close>

theorem leftover_stash_panics:
  assumes "rt_inv rt" and "cachedTransports rt addr = None"
    and "toLower (Scheme (reqURL req)) = ''https''"
    and "getTransport env req addr rt = (Inr (), rt1)"
    and "cachedTransports rt1 addr = Some t"
  shows "fst (acquireTransport env' req addr (dropCachedTransport addr t rt1)) = Inl GoPanic"
proof -
  obtain r rt2 where d: "dialTLSSetup env ''tcp'' addr rt = (r, rt2)" by fastforce
  have "r = Inl ErrProtocolNegotiated \<and> rt1 = rt2"
    using assms(3,4) d by (auto simp: getTransport_def split: sum.splits rt_error.splits)
  with d rt_inv_stash_cached [OF assms(1,2)] obtain c where c: "cachedConnections rt1 addr = Some c"
    by (auto elim!: setup_cases simp: setUp_def)
  let ?rt = "dropCachedTransport addr t rt1"
  have "cachedTransports ?rt addr = None" "cachedConnections ?rt addr = Some c"
    using assms(5) c by (simp_all add: dropCachedTransport_def dropTransportEntry_def dropKindEntry_def)
  then show ?thesis using assms(3)
    by (simp add: acquireTransport_def getTransport_def dialTLSSetup_def dialTLSWithSetup_stash)
qed

theorem leftover_stash_panics_witness:
  "fst (acquireTransport (sampleEnv ''h2'') (sampleReq ''https'') ''a.com:443'' (dropCachedTransport ''a.com:443'' 1
     (snd (getTransport (sampleEnv ''h2'') (sampleReq ''https'') ''a.com:443'' sampleRT)))) = Inl GoPanic"
proof -
  let ?g = "getTransport (sampleEnv ''h2'') (sampleReq ''https'') ''a.com:443'' sampleRT"
  have s: "toLower (Scheme (reqURL (sampleReq ''https''))) = ''https''"
    by (simp add: sampleReq_def toLower_def lowerChar_def)
  have i: "rt_inv sampleRT" by (simp add: sampleRT_def rt_inv_new)
  have n: "cachedTransports sampleRT ''a.com:443'' = None"
    by (simp add: sample_defs newRoundTripper_def Let_def split: prod.splits)
  have g: "fst ?g = Inr ()" "cachedTransports (snd ?g) ''a.com:443'' = Some 1"
    by (simp_all add: getTransport_def s)
      (simp_all add: sample_defs newRoundTripper_def NewCertificatePinner_def init_def Let_def dialTLSSetup_def
        dialTLSWithSetup_def secureDial_def Pin_def buildForProtocol_def setCachedKind_def cacheTransport_def)
  have "?g = (Inr (), snd ?g)" by (simp add: prod_eq_iff g(1))
  then show ?thesis by (rule leftover_stash_panics [OF i n s _ g(2)])
qed

end
