(* ===== verification/Racer.thy ===== *)
theory Racer
  imports RoundTripper
begin

text \<open>
  The race between HTTP/3 and HTTP/2, \<^verbatim>\<open>racer.go\<close>, the whole \<^verbatim>\<open>RoundTrip\<close> of the round tripper and
  the interleavings of concurrent requests. The racer works on the cache of transports of its
  round tripper; what it calls to build a transport is an argument, as in the code. How a
  transport answers a request is the argument \<open>send\<close> (for a pointer) or \<open>sendH3\<close> (for the HTTP/3 transport
  of one attempt).
\<close>

section \<open>racer.go\<close>

record 'r racingResult =
  res_protocol :: string
  res_response :: "'r option"
  res_err :: "rt_error option"

type_synonym getTransportFunc = "Request \<Rightarrow> string \<Rightarrow> roundTripper \<Rightarrow> (rt_error + unit) \<times> roundTripper"
type_synonym 'r sender = "nat \<Rightarrow> Request \<Rightarrow> roundTripper \<Rightarrow> (rt_error + 'r) \<times> roundTripper"
type_synonym 'r senderH3 = "http3Transport \<Rightarrow> Request \<Rightarrow> rt_error + 'r"

definition getHTTP3Config :: "protocolRacer \<Rightarrow> http3Config" where
  "getHTTP3Config pr =
     \<lparr>c3_clientSessionCache = pr_clientSessionCache pr, c3_insecureSkipVerify = pr_insecureSkipVerify pr,
      c3_serverNameOverwrite = pr_serverNameOverwrite pr, c3_transportOptions = pr_transportOptions pr,
      c3_http3Settings = pr_http3Settings pr, c3_http3SettingsOrder = pr_http3SettingsOrder pr,
      c3_http3PriorityParam = pr_http3PriorityParam pr,
      c3_http3PseudoHeaderOrder = pr_http3PseudoHeaderOrder pr,
      c3_http3SendGreaseFrames = pr_http3SendGreaseFrames pr, c3_proxyURL = pr_proxyURL pr\<rparr>"

definition getTransportKey :: "string \<Rightarrow> string \<Rightarrow> string" where
  "getTransportKey protocol addr = (if protocol = ''h3'' then addr @ '':h3'' else addr)"

definition clearProtocolCache :: "string \<Rightarrow> protocolRacer \<Rightarrow> protocolRacer" where
  "clearProtocolCache addr pr = pr\<lparr>protocolCache := (protocolCache pr)(addr := None)\<rparr>"

text \<open>The transport, as a pointer; reading an absent key gives nil (0).\<close>

definition allocTransport :: "transport \<Rightarrow> roundTripper \<Rightarrow> nat \<times> roundTripper" where
  "allocTransport t rt =
     (nextPtr rt, rt\<lparr>transportHeap := (transportHeap rt)(nextPtr rt \<mapsto> t), nextPtr := Suc (nextPtr rt)\<rparr>)"

definition readTransport :: "string \<Rightarrow> roundTripper \<Rightarrow> nat" where
  "readTransport key rt = (case cachedTransports rt key of Some t \<Rightarrow> t | None \<Rightarrow> 0)"

definition createTransportForProtocol ::
  "platform \<Rightarrow> string \<Rightarrow> string \<Rightarrow> Request \<Rightarrow> getTransportFunc \<Rightarrow> protocolRacer \<Rightarrow> roundTripper
   \<Rightarrow> (rt_error + nat) \<times> roundTripper" where
  "createTransportForProtocol pf protocol addr req getT pr rt =
     (if protocol = ''h3'' then
        (case buildHTTP3Transport pf (getHTTP3Config pr) of
           Inl e \<Rightarrow> (Inl (ErrHTTP3 e), rt)
         | Inr t3 \<Rightarrow> (let (p, rt) = allocTransport (HTTP3 t3) rt in (Inr p, rt)))
      else
        (let key = getTransportKey protocol addr in
         case getT req key rt of
           (Inl e, rt) \<Rightarrow> (Inl e, rt)
         | (Inr _, rt) \<Rightarrow> (Inr (readTransport key rt), rt)))"

definition getOrCreateTransport ::
  "platform \<Rightarrow> string \<Rightarrow> string \<Rightarrow> Request \<Rightarrow> getTransportFunc \<Rightarrow> protocolRacer \<Rightarrow> roundTripper
   \<Rightarrow> (rt_error + nat) \<times> roundTripper" where
  "getOrCreateTransport pf protocol addr req getT pr rt =
     (let key = getTransportKey protocol addr in
      case cachedTransports rt key of
        Some t \<Rightarrow> (Inr t, rt)
      | None \<Rightarrow>
          (case createTransportForProtocol pf protocol addr req getT pr rt of
             (Inl e, rt) \<Rightarrow> (Inl e, rt)
           | (Inr t, rt) \<Rightarrow> (Inr t, rt\<lparr>cachedTransports := (cachedTransports rt)(key \<mapsto> t)\<rparr>)))"

text \<open>\<open>roundTrip\<close>: a change of protocol drops the transport; calling a nil transport panics.\<close>

definition roundTrip ::
  "'r sender \<Rightarrow> nat \<Rightarrow> Request \<Rightarrow> string \<Rightarrow> roundTripper \<Rightarrow> (rt_error + 'r) \<times> roundTripper" where
  "roundTrip send t req addr rt =
     (if t = 0 then (Inl GoPanic, rt)
      else (case send t req rt of
              (Inl e, rt) \<Rightarrow> (Inl e, if isProtocolChanged e then dropCachedTransport addr t rt else rt)
            | (Inr resp, rt) \<Rightarrow> (Inr resp, rt)))"

text \<open>The bad pin handler runs when the flag in the result says so.\<close>

definition handleCachedProtocolError ::
  "rt_error \<Rightarrow> string \<Rightarrow> protocolRacer \<Rightarrow> bool \<times> protocolRacer" where
  "handleCachedProtocolError e addr pr =
     (isBadPin e \<and> pr_hasBadPinHandler pr, clearProtocolCache addr pr)"

text \<open>A response, or \<^const>\<open>None\<close> when the caller should race.\<close>

definition tryUseCachedProtocol ::
  "platform \<Rightarrow> 'r sender \<Rightarrow> Request \<Rightarrow> string \<Rightarrow> getTransportFunc \<Rightarrow> protocolRacer \<Rightarrow> roundTripper
   \<Rightarrow> 'r option \<times> bool \<times> protocolRacer \<times> roundTripper" where
  "tryUseCachedProtocol pf send req addr getT pr rt =
     (case protocolCache pr addr of
        None \<Rightarrow> (None, False, pr, rt)
      | Some cachedProtocol \<Rightarrow>
          (case getOrCreateTransport pf cachedProtocol addr req getT pr rt of
             (Inl e, rt) \<Rightarrow>
               (let (handled, pr) = handleCachedProtocolError e addr pr in (None, handled, pr, rt))
           | (Inr t, rt) \<Rightarrow>
               (case roundTrip send t req addr rt of
                  (Inr resp, rt) \<Rightarrow> (Some resp, False, pr, rt)
                | (Inl _, rt) \<Rightarrow> (None, False, clearProtocolCache addr pr, rt))))"

text \<open>\<open>cacheWinningProtocol\<close> takes its two locks one after the other: two steps.\<close>

definition rememberProtocol :: "string \<Rightarrow> string \<Rightarrow> protocolRacer \<Rightarrow> protocolRacer" where
  "rememberProtocol addr protocol pr = pr\<lparr>protocolCache := (protocolCache pr)(addr \<mapsto> protocol)\<rparr>"

definition storeWinner :: "platform \<Rightarrow> string \<Rightarrow> protocolRacer \<Rightarrow> roundTripper \<Rightarrow> roundTripper" where
  "storeWinner pf addr pr rt =
     (case buildHTTP3Transport pf (getHTTP3Config pr) of
        Inl _ \<Rightarrow> rt
      | Inr t3 \<Rightarrow> cacheTransport (addr @ '':h3'') (HTTP3 t3) rt)"

definition cacheWinningProtocol ::
  "platform \<Rightarrow> string \<Rightarrow> string \<Rightarrow> protocolRacer \<Rightarrow> roundTripper \<Rightarrow> protocolRacer \<times> roundTripper" where
  "cacheWinningProtocol pf addr protocol pr rt =
     (let pr = rememberProtocol addr protocol pr in
      if protocol = ''h3'' then (pr, storeWinner pf addr pr rt) else (pr, rt))"

definition attemptHTTP3 :: "platform \<Rightarrow> 'r senderH3 \<Rightarrow> Request \<Rightarrow> protocolRacer \<Rightarrow> 'r racingResult" where
  "attemptHTTP3 pf sendH3 req pr =
     (case buildHTTP3Transport pf (getHTTP3Config pr) of
        Inl e \<Rightarrow> \<lparr>res_protocol = ''h3'', res_response = None, res_err = Some (ErrHTTP3 e)\<rparr>
      | Inr t3 \<Rightarrow>
          (case sendH3 t3 req of
             Inl e \<Rightarrow> \<lparr>res_protocol = ''h3'', res_response = None, res_err = Some e\<rparr>
           | Inr resp \<Rightarrow> \<lparr>res_protocol = ''h3'', res_response = Some resp, res_err = None\<rparr>))"

definition attemptHTTP2 ::
  "'r sender \<Rightarrow> Request \<Rightarrow> string \<Rightarrow> getTransportFunc \<Rightarrow> roundTripper \<Rightarrow> 'r racingResult \<times> roundTripper" where
  "attemptHTTP2 send req addr getT rt =
     (case (case cachedTransports rt addr of Some _ \<Rightarrow> (Inr (), rt) | None \<Rightarrow> getT req addr rt) of
        (Inl e, rt) \<Rightarrow> (\<lparr>res_protocol = ''h2'', res_response = None, res_err = Some e\<rparr>, rt)
      | (Inr _, rt) \<Rightarrow>
          (case roundTrip send (readTransport addr rt) req addr rt of
             (Inl e, rt) \<Rightarrow> (\<lparr>res_protocol = ''h2'', res_response = None, res_err = Some e\<rparr>, rt)
           | (Inr resp, rt) \<Rightarrow> (\<lparr>res_protocol = ''h2'', res_response = Some resp, res_err = None\<rparr>, rt)))"

text \<open>
  What the waiting loop sees, in order: results, or the end of the ten seconds (\<^const>\<open>None\<close>), which is also
  what follows when nothing more arrives. The loop runs for \<open>n\<close> more iterations.
\<close>

fun waitLoop ::
  "platform \<Rightarrow> string \<Rightarrow> nat \<Rightarrow> rt_error option \<Rightarrow> 'r racingResult option list \<Rightarrow> protocolRacer \<Rightarrow> roundTripper
   \<Rightarrow> (rt_error + 'r) \<times> protocolRacer \<times> roundTripper" where
  "waitLoop pf addr 0 lastErr arrivals pr rt =
     (Inl (case lastErr of Some e \<Rightarrow> e | None \<Rightarrow> ErrBothFailed), pr, rt)"
| "waitLoop pf addr (Suc n) lastErr (Some result # arrivals) pr rt =
     (case (res_err result, res_response result) of
        (None, Some resp) \<Rightarrow>
          (let (pr, rt) = cacheWinningProtocol pf addr (res_protocol result) pr rt in (Inr resp, pr, rt))
      | _ \<Rightarrow> waitLoop pf addr n (res_err result) arrivals pr rt)"
| "waitLoop pf addr (Suc n) lastErr (None # arrivals) pr rt =
     (Inl (case lastErr of Some e \<Rightarrow> e | None \<Rightarrow> ErrDeadlineExceeded), pr, rt)"
| "waitLoop pf addr (Suc n) lastErr [] pr rt =
     (Inl (case lastErr of Some e \<Rightarrow> e | None \<Rightarrow> ErrDeadlineExceeded), pr, rt)"

definition waitForRaceWinner ::
  "platform \<Rightarrow> string \<Rightarrow> 'r racingResult option list \<Rightarrow> protocolRacer \<Rightarrow> roundTripper
   \<Rightarrow> (rt_error + 'r) \<times> protocolRacer \<times> roundTripper" where
  "waitForRaceWinner pf addr arrivals pr rt = waitLoop pf addr 2 None arrivals pr rt"

text \<open>
  The race. The HTTP/2 attempt starts after the HTTP/3 attempt; \<open>schedule\<close> is the order in which the two
  results and the deadline reach the waiting loop.
\<close>

datatype arrival = H3Result | H2Result | Deadline

definition startRace ::
  "platform \<Rightarrow> 'r sender \<Rightarrow> 'r senderH3 \<Rightarrow> arrival list \<Rightarrow> Request \<Rightarrow> string \<Rightarrow> getTransportFunc
   \<Rightarrow> protocolRacer \<Rightarrow> roundTripper \<Rightarrow> (rt_error + 'r) \<times> protocolRacer \<times> roundTripper" where
  "startRace pf send sendH3 schedule req addr getT pr rt =
     (let h3 = attemptHTTP3 pf sendH3 req pr; (h2, rt) = attemptHTTP2 send req addr getT rt in
      waitForRaceWinner pf addr
        (map (\<lambda>a. case a of H3Result \<Rightarrow> Some h3 | H2Result \<Rightarrow> Some h2 | Deadline \<Rightarrow> None) schedule) pr rt)"

definition race ::
  "platform \<Rightarrow> 'r sender \<Rightarrow> 'r senderH3 \<Rightarrow> arrival list \<Rightarrow> Request \<Rightarrow> string \<Rightarrow> getTransportFunc
   \<Rightarrow> protocolRacer \<Rightarrow> roundTripper \<Rightarrow> (rt_error + 'r) \<times> bool \<times> protocolRacer \<times> roundTripper" where
  "race pf send sendH3 schedule req addr getT pr rt =
     (case tryUseCachedProtocol pf send req addr getT pr rt of
        (Some resp, handled, pr, rt) \<Rightarrow> (Inr resp, handled, pr, rt)
      | (None, handled, pr, rt) \<Rightarrow>
          (let (r, pr, rt) = startRace pf send sendH3 schedule req addr getT pr rt in (r, handled, pr, rt)))"

section \<open>RoundTrip of the round tripper\<close>

text \<open>The test for a race: the racer of the round tripper, when it takes the request.\<close>

definition races :: "Request \<Rightarrow> roundTripper \<Rightarrow> protocolRacer option" where
  "races req rt =
     (if \<not> rt_forceHttp1 rt \<and> \<not> rt_disableHttp3 rt \<and> toLower (Scheme (reqURL req)) = ''https''
      then rt_racer rt else None)"

definition RoundTrip ::
  "('s, 'c) dialEnv \<Rightarrow> 'r sender \<Rightarrow> 'r senderH3 \<Rightarrow> arrival list \<Rightarrow> Request \<Rightarrow> roundTripper
   \<Rightarrow> (rt_error + 'r) \<times> bool \<times> roundTripper" where
  "RoundTrip env send sendH3 schedule req rt =
     (case races req rt of
        Some pr \<Rightarrow>
          (let (r, handled, pr, rt) =
             race (dPlatform env) send sendH3 schedule req (getDialTLSAddr req) (getTransport env) pr rt
           in (r, handled, rt\<lparr>rt_racer := Some pr\<rparr>))
      | None \<Rightarrow> directRoundTrip env send req rt)"

section \<open>The interface between the racer and the round tripper\<close>

text \<open>
  What asking for the transport of a key may do, seen from the maps: the cached transport is handed out, or
  the attempt fails and leaves the maps alone, or a connection was stashed although nothing is cached and
  the code panics after taking it, or one new transport is stored. A stored HTTP/3 transport dials as
  the proxy of the round tripper demands.
\<close>

definition sameConfig :: "roundTripper \<Rightarrow> roundTripper \<Rightarrow> bool" where
  "sameConfig rt rt' \<longleftrightarrow> rt_proxyURL rt' = rt_proxyURL rt \<and> rt_racer rt' = rt_racer rt"

definition sameMaps :: "roundTripper \<Rightarrow> roundTripper \<Rightarrow> bool" where
  "sameMaps rt rt' \<longleftrightarrow> cachedConnections rt' = cachedConnections rt \<and> cachedTransports rt' = cachedTransports rt \<and>
     transportHeap rt' = transportHeap rt \<and> nextPtr rt' = nextPtr rt \<and> sameConfig rt rt'"

definition stores :: "string \<Rightarrow> transport \<Rightarrow> roundTripper \<Rightarrow> roundTripper \<Rightarrow> bool" where
  "stores key tr rt rt' \<longleftrightarrow>
     cachedTransports rt' = (cachedTransports rt)(key \<mapsto> nextPtr rt) \<and>
     transportHeap rt' = (transportHeap rt)(nextPtr rt \<mapsto> tr) \<and> nextPtr rt' = Suc (nextPtr rt) \<and>
     (\<forall>a. a \<noteq> key \<longrightarrow> cachedConnections rt' a = cachedConnections rt a) \<and> sameConfig rt rt' \<and>
     (\<forall>t3. tr = HTTP3 t3 \<longrightarrow> h3Dial (rt_proxyURL rt) = Inr (t3_Dial t3))"

inductive acquires :: "string \<Rightarrow> roundTripper \<Rightarrow> rt_error + nat \<Rightarrow> roundTripper \<Rightarrow> bool" for key rt where
  cached: "cachedTransports rt key = Some t \<Longrightarrow> acquires key rt (Inr t) rt"
| failed: "e \<noteq> GoPanic \<Longrightarrow> sameMaps rt rt' \<Longrightarrow> acquires key rt (Inl e) rt'"
| panics: "cachedTransports rt key = None \<Longrightarrow> cachedConnections rt key = Some c \<Longrightarrow>
    acquires key rt (Inl GoPanic) (rt\<lparr>cachedConnections := (cachedConnections rt)(key := None)\<rparr>)"
| built: "stores key tr rt rt' \<Longrightarrow> acquires key rt (Inr (nextPtr rt)) rt'"

lemmas maps_defs = sameMaps_def stores_def sameConfig_def

lemma stores_cacheTransport:
  assumes "\<forall>t3. tr = HTTP3 t3 \<longrightarrow> h3Dial (rt_proxyURL rt) = Inr (t3_Dial t3)"
  shows "stores key tr rt (cacheTransport key tr rt)"
  using assms by (simp add: maps_defs cacheTransport_def)

lemma stores_h3:
  assumes "buildHTTP3Transport pf (getHTTP3Config pr) = Inr t3" and "pr_proxyURL pr = rt_proxyURL rt"
  shows "stores key (HTTP3 t3) rt (cacheTransport key (HTTP3 t3) rt)"
  using buildHTTP3Transport_Dial [OF assms(1)] assms(2)
  by (intro stores_cacheTransport) (simp add: getHTTP3Config_def)

text \<open>The racer relies on its \<open>getTransportFunc\<close> for keys that are not cached, and then hands out transports itself.\<close>

locale transport_source =
  fixes getT :: getTransportFunc
  assumes getT_acquires: "cachedTransports rt key = None \<Longrightarrow> getT req key rt = (r, rt') \<Longrightarrow>
    acquires key rt (map_sum id (\<lambda>_. nextPtr rt) r) rt'"
begin

lemma getT_cases:
  assumes "cachedTransports rt key = None" and "getT req key rt = (r, rt')"
  obtains (fails) e where "r = Inl e" "acquires key rt (Inl e) rt'"
  | (builds) tr where "r = Inr ()" "stores key tr rt rt'"
proof (cases r)
  case (Inl e)
  then show ?thesis using getT_acquires [OF assms] fails by simp
next
  case (Inr u)
  then have "acquires key rt (Inr (nextPtr rt)) rt'" using getT_acquires [OF assms] by simp
  then show ?thesis using assms(1) Inr builds by cases auto
qed

lemma getOrCreate_acquires:
  assumes p: "pr_proxyURL pr = rt_proxyURL rt"
    and g: "getOrCreateTransport pf protocol addr req getT pr rt = (r, rt')"
  shows "acquires (getTransportKey protocol addr) rt r rt'"
proof (cases "cachedTransports rt (getTransportKey protocol addr)")
  case (Some t)
  then show ?thesis using g by (auto simp: getOrCreateTransport_def intro: acquires.cached)
next
  case None
  note [simp] = getOrCreateTransport_def createTransportForProtocol_def
  show ?thesis
  proof (cases "protocol = ''h3''")
    case h3: True
    show ?thesis
    proof (cases "buildHTTP3Transport pf (getHTTP3Config pr)")
      case (Inl e)
      then show ?thesis using g None h3 by (auto intro!: acquires.failed simp: sameMaps_def sameConfig_def)
    next
      case (Inr t3)
      then have "r = Inr (nextPtr rt)" "rt' = cacheTransport (getTransportKey protocol addr) (HTTP3 t3) rt"
        using g None h3 by (auto simp: allocTransport_def cacheTransport_def)
      then show ?thesis using acquires.built [OF stores_h3 [OF Inr p]] by simp
    qed
  next
    case h2: False
    obtain r1 rt1 where d: "getT req (getTransportKey protocol addr) rt = (r1, rt1)" by fastforce
    with None show ?thesis
    proof (cases rule: getT_cases)
      case (fails e)
      then show ?thesis using g None d h2 by auto
    next
      case (builds tr)
      then have "cachedTransports rt1 (getTransportKey protocol addr) = Some (nextPtr rt)" by (simp add: stores_def)
      then have "r = Inr (nextPtr rt)" "rt' = rt1"
        using g None d h2 builds by (auto simp: readTransport_def fun_upd_idem)
      then show ?thesis using builds by (auto intro: acquires.built)
    qed
  qed
qed

end

lemma getTransport_acquires:
  assumes none: "cachedTransports rt addr = None" and g: "getTransport env req addr rt = (r, rt')"
  shows "acquires addr rt (map_sum id (\<lambda>_. nextPtr rt) r) rt'"
proof -
  let ?s = "toLower (Scheme (reqURL req))"
  consider (http) "?s = ''http''" | (https) "?s = ''https''" | (other) "?s \<noteq> ''http''" "?s \<noteq> ''https''" by blast
  then show ?thesis
  proof cases
    case http
    then show ?thesis using g acquires.built [OF stores_cacheTransport [of "HTTP1 (buildHttp1Transport rt)" rt addr]]
      by (auto simp: getTransport_def)
  next
    case other
    then show ?thesis using g by (auto simp: getTransport_def maps_defs intro!: acquires.failed)
  next
    case https
    obtain r1 rt1 where d: "dialTLSSetup env ''tcp'' addr rt = (r1, rt1)" by fastforce
    have cfg: "sameConfig rt rt1"
      using dialTLSWithSetup_config d unfolding dialTLSSetup_def sameConfig_def by blast
    show ?thesis
    proof (cases "cachedConnections rt addr")
      case (Some c)
      then show ?thesis using g https d none
        by (auto simp: getTransport_def dialTLSSetup_def dialTLSWithSetup_stash intro: acquires.panics)
    next
      case None
      from d None show ?thesis
      proof (cases rule: setup_cases)
        case (failed e)
        then have "acquires addr rt (Inl e) rt1" using cfg by (intro acquires.failed) (simp_all add: sameMaps_def mapsKept_def)
        then show ?thesis using g https d failed by (auto simp: getTransport_def split: rt_error.splits)
      next
        case (built c tr)
        then have "stores addr tr rt rt1" using cfg by (simp add: stores_def setUp_def)
        then show ?thesis using g https d built by (auto simp: getTransport_def intro: acquires.built)
      qed
    qed
  qed
qed

interpretation source: transport_source "getTransport env" for env
  by unfold_locales (rule getTransport_acquires)

lemma acquireTransport_acquires:
  assumes a: "acquireTransport env req addr rt = (r, rt')"
  shows "acquires addr rt r rt'"
proof (cases "cachedTransports rt addr")
  case None
  obtain r1 rt1 where g: "getTransport env req addr rt = (r1, rt1)" by fastforce
  with None show ?thesis
  proof (cases rule: source.getT_cases)
    case (fails e)
    then show ?thesis using a None g by (auto simp: acquireTransport_def)
  next
    case (builds tr)
    then have "r = Inr (nextPtr rt)" "rt' = rt1" using a None g by (auto simp: acquireTransport_def stores_def)
    then show ?thesis using builds by (auto intro: acquires.built)
  qed
qed (use a in \<open>auto simp: acquireTransport_def intro: acquires.cached\<close>)

text \<open>The section of \<open>attemptHTTP2\<close> under the lock is the one of \<open>RoundTrip\<close>.\<close>

lemma attemptHTTP2_acquires:
  "attemptHTTP2 send req addr (getTransport env) rt =
     (case acquireTransport env req addr rt of
        (Inl e, rt) \<Rightarrow> (\<lparr>res_protocol = ''h2'', res_response = None, res_err = Some e\<rparr>, rt)
      | (Inr t, rt) \<Rightarrow>
          (case roundTrip send t req addr rt of
             (Inl e, rt) \<Rightarrow> (\<lparr>res_protocol = ''h2'', res_response = None, res_err = Some e\<rparr>, rt)
           | (Inr resp, rt) \<Rightarrow> (\<lparr>res_protocol = ''h2'', res_response = Some resp, res_err = None\<rparr>, rt)))"
  by (auto simp: attemptHTTP2_def acquireTransport_def readTransport_def split: option.splits sum.splits prod.splits)

section \<open>Invariants of a round tripper\<close>

text \<open>
  Cached pointers are allocated; every HTTP/3 transport dials as the proxy demands, and the racer has the
  proxy of its round tripper.
\<close>

definition ptr_inv :: "roundTripper \<Rightarrow> bool" where
  "ptr_inv rt \<longleftrightarrow>
     (\<forall>addr t. cachedTransports rt addr = Some t \<longrightarrow> 0 < t \<and> t < nextPtr rt) \<and> 0 < nextPtr rt \<and>
     (\<forall>p t3. transportHeap rt p = Some (HTTP3 t3) \<longrightarrow> h3Dial (rt_proxyURL rt) = Inr (t3_Dial t3)) \<and>
     (\<forall>pr. rt_racer rt = Some pr \<longrightarrow> pr_proxyURL pr = rt_proxyURL rt)"

text \<open>A stashed connection belongs to a cached transport.\<close>

definition stash_inv :: "roundTripper \<Rightarrow> bool" where
  "stash_inv rt \<longleftrightarrow> (\<forall>addr. cachedTransports rt addr = None \<longrightarrow> cachedConnections rt addr = None)"

lemma ptr_inv_new [inv_intros]: "ptr_inv (fst (newRoundTripper H resumption lru a storage))"
  by (auto simp: ptr_inv_def newRoundTripper_def newProtocolRacer_def Let_def split: prod.splits if_splits)

lemma stash_inv_new [inv_intros]: "stash_inv (fst (newRoundTripper H resumption lru a storage))"
  by (simp add: stash_inv_def newRoundTripper_def Let_def split: prod.splits)

text \<open>Changes that allocate nothing: entries of the cache may go, a new racer has the old proxy.\<close>

lemma ptr_inv_frame:
  assumes "ptr_inv rt" "\<And>a t. cachedTransports rt' a = Some t \<Longrightarrow> cachedTransports rt a = Some t"
    "transportHeap rt' = transportHeap rt" "nextPtr rt' = nextPtr rt" "rt_proxyURL rt' = rt_proxyURL rt"
    "\<And>pr. rt_racer rt' = Some pr \<Longrightarrow> pr_proxyURL pr = rt_proxyURL rt"
  shows "ptr_inv rt'"
  unfolding ptr_inv_def
proof (intro conjI allI impI)
  fix a t assume "cachedTransports rt' a = Some t"
  then have "0 < t \<and> t < nextPtr rt" using assms(1,2) unfolding ptr_inv_def by blast
  then show "0 < t" "t < nextPtr rt'" using assms(4) by simp_all
qed (use assms in \<open>auto simp: ptr_inv_def\<close>)

lemma ptr_inv_stores:
  assumes inv: "ptr_inv rt" and s: "stores key tr rt rt'"
  shows "ptr_inv rt'"
  unfolding ptr_inv_def
proof (intro conjI allI impI)
  fix a t assume t: "cachedTransports rt' a = Some t"
  have "0 < nextPtr rt" using inv by (simp add: ptr_inv_def)
  then have "0 < t \<and> t < nextPtr rt'"
    using t s inv unfolding ptr_inv_def stores_def by (cases "a = key") (auto simp: less_Suc_eq)
  then show "0 < t" and "t < nextPtr rt'" by simp_all
next
  fix p t3 assume "transportHeap rt' p = Some (HTTP3 t3)"
  then show "h3Dial (rt_proxyURL rt') = Inr (t3_Dial t3)"
    using s inv unfolding ptr_inv_def maps_defs by (cases "p = nextPtr rt") auto
next
  fix pr assume "rt_racer rt' = Some pr"
  then show "pr_proxyURL pr = rt_proxyURL rt'" using s inv by (simp add: ptr_inv_def maps_defs)
qed (use s in \<open>simp add: stores_def\<close>)

text \<open>Pointers are only allocated, the proxy stays, and a pointer that is handed out is allocated.\<close>

lemma ptr_inv_acquires:
  assumes "acquires key rt r rt'" and inv: "ptr_inv rt"
  shows "ptr_inv rt' \<and> nextPtr rt \<le> nextPtr rt' \<and> rt_proxyURL rt' = rt_proxyURL rt \<and>
    (\<forall>t. r = Inr t \<longrightarrow> 0 < t \<and> t < nextPtr rt')"
  using assms(1)
proof cases
  case (cached t)
  then show ?thesis using inv by (auto simp: ptr_inv_def)
next
  case (failed e)
  then have "ptr_inv rt'" by (intro ptr_inv_frame [OF inv]) (use inv in \<open>auto simp: ptr_inv_def maps_defs\<close>)
  with failed show ?thesis by (simp add: maps_defs)
next
  case (panics c)
  have "ptr_inv rt'" unfolding panics(2) by (rule ptr_inv_frame [OF inv]) (use inv in \<open>auto simp: ptr_inv_def\<close>)
  with panics show ?thesis by simp
next
  case (built tr)
  then show ?thesis using ptr_inv_stores [OF inv] inv by (auto simp: ptr_inv_def maps_defs)
qed

text \<open>A change after which an old transport that is still cached was cached before, with no more stashed for it.\<close>

definition extends :: "roundTripper \<Rightarrow> roundTripper \<Rightarrow> bool" where
  "extends rt rt' \<longleftrightarrow> nextPtr rt \<le> nextPtr rt' \<and>
     (\<forall>a t. t < nextPtr rt \<longrightarrow> cachedTransports rt' a = Some t \<longrightarrow>
        cachedTransports rt a = Some t \<and> (cachedConnections rt a = None \<longrightarrow> cachedConnections rt' a = None))"

lemma stash_inv_stores:
  "stores key tr rt rt' \<Longrightarrow> stash_inv rt \<Longrightarrow> stash_inv rt' \<and> extends rt rt'"
  unfolding stash_inv_def extends_def stores_def by (auto split: if_splits)

text \<open>While the stash is in order, asking for a transport does not panic.\<close>

lemma stash_inv_acquires:
  assumes "acquires key rt r rt'" and inv: "stash_inv rt"
  shows "stash_inv rt' \<and> r \<noteq> Inl GoPanic \<and> extends rt rt'"
  using assms(1)
proof cases
  case (built tr)
  then show ?thesis using stash_inv_stores [OF _ inv] by simp
qed (use inv in \<open>auto simp: stash_inv_def sameMaps_def extends_def\<close>)

text \<open>The HTTP/2 attempt of a race then uses no nil transport: it only panics if its transport does.\<close>

lemma attemptHTTP2_no_panic:
  assumes i: "stash_inv rt" "ptr_inv rt" and s: "\<And>t req rt. fst (send t req rt) \<noteq> Inl GoPanic"
  shows "res_err (fst (attemptHTTP2 send req addr (getTransport env) rt)) \<noteq> Some GoPanic"
proof -
  obtain r rt1 where a: "acquireTransport env req addr rt = (r, rt1)" by fastforce
  note acq = acquireTransport_acquires [OF a]
  show ?thesis
  proof (cases r)
    case (Inl e)
    then show ?thesis using a stash_inv_acquires [OF acq i(1)] by (simp add: attemptHTTP2_acquires)
  next
    case (Inr t)
    then have "t \<noteq> 0" using ptr_inv_acquires [OF acq i(2)] by simp
    then have "fst (roundTrip send t req addr rt1) \<noteq> Inl GoPanic"
      using s [of t req rt1] by (auto simp: roundTrip_def split: prod.splits sum.splits)
    then show ?thesis using a Inr by (auto simp: attemptHTTP2_acquires split: prod.splits sum.splits)
  qed
qed

section \<open>Concurrent requests\<close>

text \<open>
  Requests run concurrently; a step is what happens while a lock is held, or a section that shares nothing. The racer
  is the one of the round tripper. \<open>inFlight\<close> are the transports handed to requests, \<open>attempts\<close> the HTTP/3
  transports that races built for one request, \<open>protocolsRead\<close> what requests found in the protocol cache, \<open>winners\<close> the
  addresses for which a transport of the winner is still to be stored, \<open>dropsDue\<close> the transports that reported a change
  of protocol, with their address, and \<open>dropping\<close> the addresses between the two halves of a drop. Entries are never removed from
  these sets: a transport may be used, and a drop may happen, at any later time. \<open>dialName\<close> is the address under
  which the transports of \<^verbatim>\<open>fhttp\<close> dial for a request.
\<close>

record machine =
  m_rt :: roundTripper
  inFlight :: "(Request \<times> nat) set"
  attempts :: "(Request \<times> http3Transport) set"
  protocolsRead :: "(Request \<times> string) set"
  winners :: "string set"
  dropsDue :: "(string \<times> nat) set"
  dropping :: "string set"
  panicked :: bool

datatype ('s, 'c) event =
    Acquire "('s, 'c) dialEnv" Request
  | ReadProtocol Request
  | Create "('s, 'c) dialEnv" string Request
  | Forget Request
  | Attempt3 platform Request
  | Remember string Request
  | StoreWinner platform string
  | Redial "('s, 'c) dialEnv" string Request nat
  | DropEntry string nat
  | DropKind string

abbreviation setRacer :: "protocolRacer \<Rightarrow> machine \<Rightarrow> machine" where
  "setRacer pr m \<equiv> m\<lparr>m_rt := (m_rt m)\<lparr>rt_racer := Some pr\<rparr>\<rparr>"

text \<open>The result that wins a race: of an attempt over HTTP/3, or of a transport handed out for HTTP/2.\<close>

definition mayWin :: "string \<Rightarrow> Request \<Rightarrow> machine \<Rightarrow> bool" where
  "mayWin protocol req m \<longleftrightarrow>
     (protocol = ''h3'' \<and> req \<in> fst ` attempts m) \<or> (protocol = ''h2'' \<and> req \<in> fst ` inFlight m)"

inductive step :: "(Request \<Rightarrow> string) \<Rightarrow> ('s, 'c) event \<Rightarrow> machine \<Rightarrow> machine \<Rightarrow> bool" for dialName where
  acquired: "acquireTransport env req (getDialTLSAddr req) (m_rt m) = (Inr t, rt') \<Longrightarrow>
     step dialName (Acquire env req) m (m\<lparr>m_rt := rt', inFlight := insert (req, t) (inFlight m)\<rparr>)"
| refused: "acquireTransport env req (getDialTLSAddr req) (m_rt m) = (Inl e, rt') \<Longrightarrow>
     step dialName (Acquire env req) m (m\<lparr>m_rt := rt', panicked := (panicked m \<or> e = GoPanic)\<rparr>)"
| protocolRead: "races req (m_rt m) = Some pr \<Longrightarrow> protocolCache pr (getDialTLSAddr req) = Some protocol \<Longrightarrow>
     step dialName (ReadProtocol req) m (m\<lparr>protocolsRead := insert (req, protocol) (protocolsRead m)\<rparr>)"
| created: "(req, protocol) \<in> protocolsRead m \<Longrightarrow> races req (m_rt m) = Some pr \<Longrightarrow>
     getOrCreateTransport (dPlatform env) protocol (getDialTLSAddr req) req (getTransport env) pr (m_rt m) = (Inr t, rt') \<Longrightarrow>
     step dialName (Create env protocol req) m
       (m\<lparr>m_rt := rt', inFlight := insert (req, t) (inFlight m), panicked := (panicked m \<or> t = 0)\<rparr>)"
| notCreated: "(req, protocol) \<in> protocolsRead m \<Longrightarrow> races req (m_rt m) = Some pr \<Longrightarrow>
     getOrCreateTransport (dPlatform env) protocol (getDialTLSAddr req) req (getTransport env) pr (m_rt m) = (Inl e, rt') \<Longrightarrow>
     step dialName (Create env protocol req) m (m\<lparr>m_rt := rt', panicked := (panicked m \<or> e = GoPanic)\<rparr>)"
| forgotten: "(req, protocol) \<in> protocolsRead m \<Longrightarrow> races req (m_rt m) = Some pr \<Longrightarrow>
     step dialName (Forget req) m (setRacer (clearProtocolCache (getDialTLSAddr req) pr) m)"
| attempted: "races req (m_rt m) = Some pr \<Longrightarrow> buildHTTP3Transport pf (getHTTP3Config pr) = Inr t3 \<Longrightarrow>
     step dialName (Attempt3 pf req) m (m\<lparr>attempts := insert (req, t3) (attempts m)\<rparr>)"
| remembered: "mayWin protocol req m \<Longrightarrow> races req (m_rt m) = Some pr \<Longrightarrow>
     step dialName (Remember protocol req) m
       ((setRacer (rememberProtocol (getDialTLSAddr req) protocol pr) m)
          \<lparr>winners := (if protocol = ''h3'' then insert (getDialTLSAddr req) (winners m) else winners m)\<rparr>)"
| stored: "addr \<in> winners m \<Longrightarrow> rt_racer (m_rt m) = Some pr \<Longrightarrow>
     step dialName (StoreWinner pf addr) m (m\<lparr>m_rt := storeWinner pf addr pr (m_rt m)\<rparr>)"
| redial: "(req, t) \<in> inFlight m \<Longrightarrow> transportHeap (m_rt m) t = Some tr \<Longrightarrow> kindOf tr \<noteq> transportHTTP3 \<Longrightarrow>
     dialTLS env network (dialName req) (m_rt m) = (r, rt') \<Longrightarrow>
     step dialName (Redial env network req t) m
       (m\<lparr>m_rt := rt', dropsDue := (if \<exists>e. r = Inl e \<and> isProtocolChanged e
          then insert (getDialTLSAddr req, t) (dropsDue m) else dropsDue m)\<rparr>)"
| dropEntry: "(addr, t) \<in> dropsDue m \<Longrightarrow>
     step dialName (DropEntry addr t) m (m\<lparr>m_rt := dropTransportEntry addr t (m_rt m), dropping := insert addr (dropping m)\<rparr>)"
| dropKind: "addr \<in> dropping m \<Longrightarrow> step dialName (DropKind addr) m (m\<lparr>m_rt := dropKindEntry addr (m_rt m)\<rparr>)"

inductive_cases step_Acquire: "step dialName (Acquire env req) m m'"
inductive_cases step_Redial: "step dialName (Redial env network req t) m m'"

inductive steps :: "(Request \<Rightarrow> string) \<Rightarrow> ('s, 'c) event list \<Rightarrow> machine \<Rightarrow> machine \<Rightarrow> bool" for dialName where
  none: "steps dialName [] m m"
| more: "steps dialName es m m' \<Longrightarrow> step dialName e m' m'' \<Longrightarrow> steps dialName (es @ [e]) m m''"

definition startMachine :: "roundTripper \<Rightarrow> machine" where
  "startMachine rt = \<lparr>m_rt = rt, inFlight = {}, attempts = {}, protocolsRead = {}, winners = {}, dropsDue = {},
     dropping = {}, panicked = False\<rparr>"

text \<open>Every HTTP/3 transport there is: those of the round tripper, cached or not, and those of the attempts of races.\<close>

definition http3Transports :: "machine \<Rightarrow> http3Transport set" where
  "http3Transports m = {t3. HTTP3 t3 \<in> ran (transportHeap (m_rt m))} \<union> snd ` attempts m"

text \<open>What holds in every interleaving, under whatever names the transports dial.\<close>

definition machine_inv :: "machine \<Rightarrow> bool" where
  "machine_inv m \<longleftrightarrow>
     ptr_inv (m_rt m) \<and> (\<forall>(req, t) \<in> inFlight m. 0 < t \<and> t < nextPtr (m_rt m)) \<and>
     (\<forall>(req, t3) \<in> attempts m. h3Dial (rt_proxyURL (m_rt m)) = Inr (t3_Dial t3))"

text \<open>What holds while the transports dial under their own address: nothing panicked, and a transport that is to be dropped
  and still cached has no connection stashed for it.\<close>

definition machine_stash :: "machine \<Rightarrow> bool" where
  "machine_stash m \<longleftrightarrow>
     stash_inv (m_rt m) \<and> \<not> panicked m \<and>
     (\<forall>(addr, t) \<in> dropsDue m. t < nextPtr (m_rt m) \<and>
        (cachedTransports (m_rt m) addr = Some t \<longrightarrow> cachedConnections (m_rt m) addr = None))"

definition ownNames :: "(Request \<Rightarrow> string) \<Rightarrow> machine \<Rightarrow> bool" where
  "ownNames dialName m \<longleftrightarrow> (\<forall>(req, t) \<in> inFlight m. dialName req = getDialTLSAddr req)"

lemma races_racer: "races req rt = Some pr \<Longrightarrow> rt_racer rt = Some pr"
  by (simp add: races_def split: if_splits)

lemma races_proxy: "ptr_inv rt \<Longrightarrow> races req rt = Some pr \<Longrightarrow> pr_proxyURL pr = rt_proxyURL rt"
  by (auto simp: ptr_inv_def dest: races_racer)

lemma machine_inv_rt: "machine_inv m \<Longrightarrow> ptr_inv (m_rt m)"
  by (simp add: machine_inv_def)

text \<open>A step that allocates at most, keeps the proxy, and hands out or attempts at most one transport.\<close>

lemma machine_inv_mono:
  assumes inv: "machine_inv m" and p: "ptr_inv (m_rt m')" "nextPtr (m_rt m) \<le> nextPtr (m_rt m')"
    and q: "rt_proxyURL (m_rt m') = rt_proxyURL (m_rt m)"
    and i: "\<forall>(req, t) \<in> inFlight m' - inFlight m. 0 < t \<and> t < nextPtr (m_rt m')"
    and a: "\<forall>(req, t3) \<in> attempts m' - attempts m. h3Dial (rt_proxyURL (m_rt m)) = Inr (t3_Dial t3)"
  shows "machine_inv m' \<and> rt_proxyURL (m_rt m') = rt_proxyURL (m_rt m)"
proof -
  have "0 < t \<and> t < nextPtr (m_rt m')" if "(req, t) \<in> inFlight m'" for req t
    using that i inv p(2) unfolding machine_inv_def by (cases "(req, t) \<in> inFlight m") (auto dest: less_le_trans)
  moreover have "h3Dial (rt_proxyURL (m_rt m)) = Inr (t3_Dial t3)" if "(req, t3) \<in> attempts m'" for req t3
    using that a inv unfolding machine_inv_def by (cases "(req, t3) \<in> attempts m") auto
  ultimately show ?thesis using p(1) q unfolding machine_inv_def by auto
qed

lemma machine_inv_acquires:
  assumes inv: "machine_inv m" and a: "acquires key (m_rt m) r rt'"
    and m': "m_rt m' = rt'" "attempts m' = attempts m"
    and i: "inFlight m' = (case r of Inr t \<Rightarrow> insert (req, t) (inFlight m) | Inl _ \<Rightarrow> inFlight m)"
  shows "machine_inv m' \<and> rt_proxyURL (m_rt m') = rt_proxyURL (m_rt m)"
  using ptr_inv_acquires [OF a machine_inv_rt [OF inv]] m' i
  by (intro machine_inv_mono [OF inv]) (auto split: sum.splits)

text \<open>A step that changes nothing but the racer, or the maps of addresses.\<close>

lemma machine_inv_frame:
  assumes inv: "machine_inv m" and p: "ptr_inv (m_rt m')" "nextPtr (m_rt m') = nextPtr (m_rt m)"
    "rt_proxyURL (m_rt m') = rt_proxyURL (m_rt m)" "inFlight m' = inFlight m" "attempts m' = attempts m"
  shows "machine_inv m' \<and> rt_proxyURL (m_rt m') = rt_proxyURL (m_rt m)"
  by (rule machine_inv_mono [OF inv]) (simp_all add: p)

lemma ptr_inv_racer:
  assumes "ptr_inv rt" "races req rt = Some pr" "pr_proxyURL pr' = pr_proxyURL pr"
  shows "ptr_inv (rt\<lparr>rt_racer := Some pr'\<rparr>)"
  using assms(1,3) races_proxy [OF assms(1,2)] by (simp add: ptr_inv_def)

lemma storeWinner_cases:
  assumes "ptr_inv rt" and "rt_racer rt = Some pr"
  obtains "storeWinner pf addr pr rt = rt"
  | t3 where "stores (addr @ '':h3'') (HTTP3 t3) rt (storeWinner pf addr pr rt)"
proof (cases "buildHTTP3Transport pf (getHTTP3Config pr)")
  case (Inr t3)
  have "pr_proxyURL pr = rt_proxyURL rt" using assms by (simp add: ptr_inv_def)
  from stores_h3 [OF Inr this, of "addr @ '':h3''"] Inr show ?thesis by (intro that(2)) (simp add: storeWinner_def)
qed (use that in \<open>simp add: storeWinner_def\<close>)

lemma dialTLS_config: "dialTLS env network addr rt = (r, rt') \<Longrightarrow> sameConfig rt rt'"
  unfolding dialTLS_def sameConfig_def by (rule dialTLSWithSetup_config)

lemma ptr_inv_storeWinner:
  assumes "ptr_inv rt" and "rt_racer rt = Some pr"
  shows "ptr_inv (storeWinner pf addr pr rt) \<and> nextPtr rt \<le> nextPtr (storeWinner pf addr pr rt) \<and>
    rt_proxyURL (storeWinner pf addr pr rt) = rt_proxyURL rt"
  using assms
proof (cases rule: storeWinner_cases [of _ _ pf addr])
  case (2 t3)
  with ptr_inv_stores [OF assms(1) 2] show ?thesis by (simp add: maps_defs)
qed (use assms in simp)

lemma ptr_inv_dialTLS:
  assumes "ptr_inv rt" and "dialTLS env network addr rt = (r, rt')"
  shows "ptr_inv rt' \<and> nextPtr rt' = nextPtr rt \<and> rt_proxyURL rt' = rt_proxyURL rt"
proof -
  note f = dialTLS_frame [OF assms(2)] and c = dialTLS_config [OF assms(2)]
  have "ptr_inv rt'" by (rule ptr_inv_frame [OF assms(1)]) (use f c assms(1) in \<open>auto simp: sameConfig_def ptr_inv_def\<close>)
  with f c show ?thesis by (simp add: sameConfig_def)
qed

lemma ptr_inv_drops:
  assumes "ptr_inv rt"
  shows "ptr_inv (dropTransportEntry addr t rt)" "ptr_inv (dropKindEntry addr rt)"
    "nextPtr (dropTransportEntry addr t rt) = nextPtr rt" "nextPtr (dropKindEntry addr rt) = nextPtr rt"
    "rt_proxyURL (dropTransportEntry addr t rt) = rt_proxyURL rt" "rt_proxyURL (dropKindEntry addr rt) = rt_proxyURL rt"
  using assms by (auto simp: dropTransportEntry_def dropKindEntry_def ptr_inv_def)

lemma machine_inv_step:
  assumes "step dialName e m m'" and inv: "machine_inv m"
  shows "machine_inv m' \<and> rt_proxyURL (m_rt m') = rt_proxyURL (m_rt m)"
  using assms(1)
proof cases
  case (acquired env req t rt')
  show ?thesis by (rule machine_inv_acquires [OF inv acquireTransport_acquires [OF acquired(3)], where req = req]) (simp_all add: acquired)
next
  case (refused env req e rt')
  show ?thesis by (rule machine_inv_acquires [OF inv acquireTransport_acquires [OF refused(3)]]) (simp_all add: refused)
next
  case (created req protocol pr env t rt')
  note a = source.getOrCreate_acquires [OF races_proxy [OF machine_inv_rt [OF inv] created(4)] created(5)]
  show ?thesis by (rule machine_inv_acquires [OF inv a, where req = req]) (simp_all add: created)
next
  case (notCreated req protocol pr env e rt')
  note a = source.getOrCreate_acquires [OF races_proxy [OF machine_inv_rt [OF inv] notCreated(4)] notCreated(5)]
  show ?thesis by (rule machine_inv_acquires [OF inv a]) (simp_all add: notCreated)
next
  case (attempted req pr pf t3)
  have "h3Dial (rt_proxyURL (m_rt m)) = Inr (t3_Dial t3)"
    using buildHTTP3Transport_Dial [OF attempted(4)] races_proxy [OF machine_inv_rt [OF inv] attempted(3)]
    by (simp add: getHTTP3Config_def)
  with inv show ?thesis unfolding attempted(2) by (auto simp: machine_inv_def)
next
  case (stored addr pr pf)
  with ptr_inv_storeWinner [OF machine_inv_rt [OF inv] stored(4)] show ?thesis
    by (intro machine_inv_mono [OF inv]) simp_all
next
  case (redial req t tr env network r rt')
  with ptr_inv_dialTLS [OF machine_inv_rt [OF inv] redial(6)] show ?thesis by (intro machine_inv_frame [OF inv]) simp_all
next
  case (forgotten req protocol pr)
  then show ?thesis by (intro machine_inv_frame [OF inv])
      (simp_all add: ptr_inv_racer [OF machine_inv_rt [OF inv] forgotten(4)] clearProtocolCache_def)
next
  case (remembered protocol req pr)
  then show ?thesis by (intro machine_inv_frame [OF inv])
      (simp_all add: ptr_inv_racer [OF machine_inv_rt [OF inv] remembered(4)] rememberProtocol_def)
qed (use machine_inv_rt [OF inv] in \<open>intro machine_inv_frame [OF inv]; simp add: ptr_inv_drops\<close>)+

lemma machine_inv_steps:
  "steps dialName es m m' \<Longrightarrow> machine_inv m \<Longrightarrow> machine_inv m' \<and> rt_proxyURL (m_rt m') = rt_proxyURL (m_rt m)"
  by (induction rule: steps.induct) (auto dest: machine_inv_step)

lemma machine_inv_start: "ptr_inv rt \<Longrightarrow> machine_inv (startMachine rt)"
  by (simp add: machine_inv_def startMachine_def)

lemma machine_inv_http3:
  "machine_inv m \<Longrightarrow> t3 \<in> http3Transports m \<Longrightarrow> h3Dial (rt_proxyURL (m_rt m)) = Inr (t3_Dial t3)"
  unfolding machine_inv_def ptr_inv_def http3Transports_def ran_def by auto

text \<open>The stash: a step that extends the round tripper keeps the order of the drops that are due.\<close>

lemma machine_stash_extends:
  assumes inv: "machine_stash m" and s: "stash_inv (m_rt m')" and e: "extends (m_rt m) (m_rt m')"
    and f: "dropsDue m' = dropsDue m" "\<not> panicked m'"
  shows "machine_stash m'"
proof -
  have "t < nextPtr (m_rt m') \<and> (cachedTransports (m_rt m') a = Some t \<longrightarrow> cachedConnections (m_rt m') a = None)"
    if "(a, t) \<in> dropsDue m" for a t
  proof -
    have "t < nextPtr (m_rt m)" "cachedTransports (m_rt m) a = Some t \<Longrightarrow> cachedConnections (m_rt m) a = None"
      using that inv unfolding machine_stash_def by auto
    with e show ?thesis unfolding extends_def by (meson less_le_trans)
  qed
  with s f show ?thesis unfolding machine_stash_def by auto
qed

lemma machine_stash_acquires:
  assumes inv: "machine_stash m" and a: "acquires key (m_rt m) r rt'"
    and m': "m_rt m' = rt'" "dropsDue m' = dropsDue m" "panicked m' \<longrightarrow> panicked m \<or> r = Inl GoPanic"
  shows "machine_stash m'"
proof -
  have i: "stash_inv (m_rt m)" "\<not> panicked m" using inv by (simp_all add: machine_stash_def)
  show ?thesis using stash_inv_acquires [OF a i(1)] i m' by (intro machine_stash_extends [OF inv]) auto
qed

lemma machine_stash_same:
  assumes "machine_stash m" "cachedTransports (m_rt m') = cachedTransports (m_rt m)"
    "cachedConnections (m_rt m') = cachedConnections (m_rt m)" "nextPtr (m_rt m') = nextPtr (m_rt m)"
    "dropsDue m' = dropsDue m" "panicked m' = panicked m"
  shows "machine_stash m'"
  using assms by (simp add: machine_stash_def stash_inv_def)

lemma machine_stash_step:
  assumes "step dialName e m m'" and inv: "machine_inv m" and st: "machine_stash m" and own: "ownNames dialName m"
  shows "machine_stash m'"
  using assms(1)
proof cases
  case (acquired env req t rt')
  show ?thesis by (rule machine_stash_acquires [OF st acquireTransport_acquires [OF acquired(3)]]) (simp_all add: acquired)
next
  case (refused env req e rt')
  show ?thesis by (rule machine_stash_acquires [OF st acquireTransport_acquires [OF refused(3)]]) (simp_all add: refused)
next
  case (created req protocol pr env t rt')
  note a = source.getOrCreate_acquires [OF races_proxy [OF machine_inv_rt [OF inv] created(4)] created(5)]
  have "t \<noteq> 0" using ptr_inv_acquires [OF a machine_inv_rt [OF inv]] by simp
  then show ?thesis by (intro machine_stash_acquires [OF st a]) (simp_all add: created)
next
  case (notCreated req protocol pr env e rt')
  note a = source.getOrCreate_acquires [OF races_proxy [OF machine_inv_rt [OF inv] notCreated(4)] notCreated(5)]
  show ?thesis by (rule machine_stash_acquires [OF st a]) (simp_all add: notCreated)
next
  case (stored addr pr pf)
  have i: "stash_inv (m_rt m)" "\<not> panicked m" using st by (simp_all add: machine_stash_def)
  from machine_inv_rt [OF inv] stored(4) show ?thesis
  proof (cases rule: storeWinner_cases [of _ _ pf addr])
    case 1
    then show ?thesis unfolding stored(2) by (intro machine_stash_same [OF st]) simp_all
  next
    case (2 t3)
    from stash_inv_stores [OF 2 i(1)] i(2) show ?thesis unfolding stored(2) by (intro machine_stash_extends [OF st]) simp_all
  qed
next
  case (redial req t tr env network r rt')
  have n: "dialName req = getDialTLSAddr req" using own redial(3) by (auto simp: ownNames_def)
  have "t < nextPtr (m_rt m)" using inv redial(3) by (auto simp: machine_inv_def)
  then show ?thesis using st dialTLS_frame [OF redial(6)] n
    unfolding redial(2) machine_stash_def stash_inv_def by (auto split: if_splits)
next
  case (dropEntry addr t)
  have "cachedTransports (m_rt m) addr = Some t \<Longrightarrow> cachedConnections (m_rt m) addr = None"
    using st dropEntry(3) unfolding machine_stash_def by auto
  then show ?thesis using st unfolding dropEntry(2) machine_stash_def stash_inv_def dropTransportEntry_def
    by (auto split: if_splits)
qed (use st in \<open>auto simp: dropKindEntry_def intro: machine_stash_same\<close>)

lemma step_inFlight: "step dialName e m m' \<Longrightarrow> inFlight m \<subseteq> inFlight m'"
  by (induction rule: step.induct) auto

lemma machine_stash_steps:
  assumes "steps dialName es m m'" "machine_inv m" "machine_stash m" "ownNames dialName m'"
  shows "machine_stash m'"
  using assms
proof (induction rule: steps.induct)
  case (more es m m1 e m2)
  have own: "ownNames dialName m1" using step_inFlight [OF more(2)] more.prems(3) unfolding ownNames_def by auto
  show ?case using machine_stash_step [OF more(2) _ more.IH own] machine_inv_steps [OF more(1)] more.prems own by simp
qed

lemma machine_stash_start: "stash_inv rt \<Longrightarrow> machine_stash (startMachine rt)"
  by (simp add: machine_stash_def startMachine_def)

section \<open>Properties\<close>

text \<open>C2: concurrent requests are safe. In every interleaving of requests, raced or not, with their connections,
  failures, drops, HTTP/3 attempts and race winners, starting from a new client and under whatever names the
  transports dial: every transport handed to a request is one that was built (never nil), and every HTTP/3
  transport, cached or built for one attempt of a race, dials as the client's proxy demands. If a request panics, then some
  request was in flight whose transport dials under another name than the address it is cached for.\<close>

theorem interleavings_safe:
  assumes "steps dialName es (startMachine (fst (newRoundTripper H resumption lru args storage))) m"
  shows "(\<forall>(req, t) \<in> inFlight m. t \<noteq> 0) \<and>
    (\<forall>t3 \<in> http3Transports m. h3Dial (a_proxyURL args) = Inr (t3_Dial t3)) \<and>
    (panicked m \<longrightarrow> (\<exists>(req, t) \<in> inFlight m. dialName req \<noteq> getDialTLSAddr req))"
proof -
  let ?m0 = "startMachine (fst (newRoundTripper H resumption lru args storage))"
  have i0: "machine_inv ?m0" "machine_stash ?m0"
    by (rule machine_inv_start [OF ptr_inv_new], rule machine_stash_start [OF stash_inv_new])
  have p: "rt_proxyURL (m_rt ?m0) = a_proxyURL args"
    by (simp add: startMachine_def newRoundTripper_def Let_def split: prod.splits)
  note inv = machine_inv_steps [OF assms i0(1), unfolded p]
  have "ownNames dialName m \<Longrightarrow> \<not> panicked m"
    using machine_stash_steps [OF assms i0] by (simp add: machine_stash_def)
  with inv machine_inv_http3 [of m] show ?thesis by (force simp: ownNames_def machine_inv_def)
qed

theorem interleavings_safe_witness:
  "\<exists>m. steps getDialTLSAddr [Acquire (sampleEnv ''h2'') (sampleReq ''https'')]
      (startMachine (fst (newRoundTripper memHpkp False 0 sampleArgs []))) m \<and> \<not> panicked m"
proof -
  let ?m0 = "startMachine (fst (newRoundTripper memHpkp False 0 sampleArgs []))"
  obtain r rt' where a: "acquireTransport (sampleEnv ''h2'') (sampleReq ''https'')
      (getDialTLSAddr (sampleReq ''https'')) (m_rt ?m0) = (r, rt')" by fastforce
  have "\<exists>m. step getDialTLSAddr (Acquire (sampleEnv ''h2'') (sampleReq ''https'')) ?m0 m"
    using a by (cases r) (blast intro: step.acquired step.refused)+
  then obtain m where "steps getDialTLSAddr ([] @ [Acquire (sampleEnv ''h2'') (sampleReq ''https'')]) ?m0 m"
    by (blast intro: steps.intros)
  with interleavings_safe [OF this] show ?thesis by auto
qed

text \<open>The results that count: the first two arrivals, up to the deadline.\<close>

definition inTime :: "'r racingResult option list \<Rightarrow> 'r racingResult list" where
  "inTime arrivals = map the (takeWhile (\<lambda>a. a \<noteq> None) (take 2 arrivals))"

definition succeeded :: "'r racingResult \<Rightarrow> bool" where
  "succeeded r \<longleftrightarrow> res_err r = None \<and> res_response r \<noteq> None"

lemma protocolCache_winning [simp]:
  "protocolCache (fst (cacheWinningProtocol pf addr p pr rt)) = (protocolCache pr)(addr \<mapsto> p)"
  by (simp add: cacheWinningProtocol_def rememberProtocol_def Let_def)

text \<open>C7: the race is won by the first success. The result is the response of the first attempt that
  succeeds in time, whichever protocol it used and whatever failed before, and exactly that
  protocol is remembered for the address; without a success nothing is remembered and the
  error of the last attempt is reported.\<close>

theorem race_first_success:
  "(case find succeeded (inTime arrivals) of
      Some w \<Rightarrow> fst (waitForRaceWinner pf addr arrivals pr rt) = Inr (the (res_response w)) \<and>
        protocolCache (fst (snd (waitForRaceWinner pf addr arrivals pr rt))) =
          (protocolCache pr)(addr \<mapsto> res_protocol w)
    | None \<Rightarrow> fst (waitForRaceWinner pf addr arrivals pr rt) =
          Inl (if inTime arrivals \<noteq> [] \<and> res_err (last (inTime arrivals)) \<noteq> None
               then the (res_err (last (inTime arrivals)))
               else if length (inTime arrivals) = 2 then ErrBothFailed else ErrDeadlineExceeded) \<and>
        snd (waitForRaceWinner pf addr arrivals pr rt) = (pr, rt))"
proof -
  have win: "fst (snd (let (pr, rt) = w in (r, pr, rt))) = fst w" "fst (let (pr, rt) = w in (r, pr, rt)) = r"
    for w :: "protocolRacer \<times> roundTripper" and r :: "rt_error + 'a"
    by (simp_all split: prod.splits)
  have two: "waitForRaceWinner pf addr as pr rt = waitLoop pf addr (Suc (Suc 0)) None as pr rt"
    for as :: "'a racingResult option list"
    by (simp add: waitForRaceWinner_def numeral_2_eq_2)
  consider "arrivals = []" | xs where "arrivals = None # xs" | a where "arrivals = [Some a]"
    | a xs where "arrivals = Some a # None # xs" | a b xs where "arrivals = Some a # Some b # xs"
    by (metis list.exhaust option.exhaust)
  then show ?thesis
    by cases (auto simp: two inTime_def succeeded_def win split: option.splits)
qed

text \<open>C33: pins are not checked on HTTP/3. An HTTP/3 response that arrives first is the result of the race for
  every pin configuration: the attempt does not depend on the client's pinner.\<close>

theorem http3_ignores_pins:
  assumes "buildHTTP3Transport pf (getHTTP3Config pr) = Inr t3" and "sendH3 t3 req = Inr resp"
  shows "fst (startRace pf send sendH3 (H3Result # schedule) req addr getT (pr\<lparr>pr_certificatePinner := pinner\<rparr>) rt)
    = Inr resp"
proof -
  have "getHTTP3Config (pr\<lparr>pr_certificatePinner := pinner\<rparr>) = getHTTP3Config pr" by (simp add: getHTTP3Config_def)
  then show ?thesis using assms
    by (simp add: startRace_def attemptHTTP3_def waitForRaceWinner_def numeral_2_eq_2 Let_def split: prod.splits)
qed

definition sampleRacer :: protocolRacer where
  "sampleRacer = newProtocolRacer None False [] None None \<lparr>certificatePins = []\<rparr> False None [] 0 [] False []"

theorem http3_ignores_pins_witness:
  "fst (startRace samplePlatform (\<lambda>t req rt. (Inl ErrTransport, rt)) (\<lambda>t3 req. Inr ''200'') [H3Result]
     (sampleReq ''https'') ''a.com:443'' (getTransport (sampleEnv ''h2''))
     (sampleRacer\<lparr>pr_certificatePinner := \<lparr>certificatePins = [(''a.com'', [''pin''])]\<rparr>\<rparr>) sampleRT) = Inr ''200''"
proof -
  obtain t3 where t3: "buildHTTP3Transport samplePlatform (getHTTP3Config sampleRacer) = Inr t3"
    by (simp add: buildHTTP3Transport_def h3Dial_def h3Settings_def h3MaxResponseHeaderBytes_def
        getHTTP3Config_def sampleRacer_def newProtocolRacer_def)
  show ?thesis by (rule http3_ignores_pins [OF t3]) simp
qed

end
