(* ===== verification/Logging.thy ===== *)
theory Logging
  imports Prelude
begin

text \<open>
  The three loggers of \<^verbatim>\<open>logger.go\<close>. A call is modelled by the lines it prints on standard
  output; the format string is taken as already formatted with its arguments.
\<close>

datatype Logger = noopLogger | plainLogger | debugLogger Logger

definition NewNoopLogger :: Logger where "NewNoopLogger = noopLogger"

definition NewLogger :: Logger where "NewLogger = plainLogger"

definition NewDebugLogger :: "Logger \<Rightarrow> Logger" where "NewDebugLogger l = debugLogger l"

fun log_Debug :: "Logger \<Rightarrow> string \<Rightarrow> string list" where
  "log_Debug noopLogger m = []"
| "log_Debug plainLogger m = []"
| "log_Debug (debugLogger l) m = [m]"

fun log_Info :: "Logger \<Rightarrow> string \<Rightarrow> string list" where
  "log_Info noopLogger m = []"
| "log_Info plainLogger m = [m]"
| "log_Info (debugLogger l) m = log_Info l m"

fun log_Warn :: "Logger \<Rightarrow> string \<Rightarrow> string list" where
  "log_Warn noopLogger m = []"
| "log_Warn plainLogger m = [m]"
| "log_Warn (debugLogger l) m = log_Warn l m"

fun log_Error :: "Logger \<Rightarrow> string \<Rightarrow> string list" where
  "log_Error noopLogger m = []"
| "log_Error plainLogger m = [m]"
| "log_Error (debugLogger l) m = log_Error l m"

text \<open>The levels above debug agree: wrapping a logger changes only where debug lines go.\<close>

lemma log_levels_agree: "log_Info l m = log_Warn l m" "log_Warn l m = log_Error l m"
  by (induction l) auto

end
