(* ===== verification/CookieJar.thy ===== *)
theory CookieJar
  imports GoNet Logging
begin

text \<open>
  The cookie jar of \<^verbatim>\<open>jar.go\<close>. The jar keeps its own table of cookies per host key beside an
  \<^verbatim>\<open>fhttp\<close> jar that it only writes to; that jar's \<^verbatim>\<open>SetCookies\<close> is the parameter
  \<open>innerSet\<close>. A cookie is a value: the jar stores the pointers it is given and nothing in this
  file writes through them.
\<close>

section \<open>Data\<close>

record Cookie =
  Name :: string
  Value :: string
  CPath :: string
  Domain :: string
  Expires :: int
  MaxAge :: int
  Secure :: bool
  HttpOnly :: bool

record cookieJarConfig =
  jlogger :: "Logger option"
  skipExisting :: bool
  jdebug :: bool
  allowEmptyCookies :: bool

record 'j cookieJar =
  innerJar :: 'j
  jconfig :: cookieJarConfig
  allCookies :: "string \<rightharpoonup> Cookie list"

type_synonym CookieJarOption = "cookieJarConfig \<Rightarrow> cookieJarConfig"

section \<open>Options and constructor\<close>

definition WithSkipExisting :: CookieJarOption where
  "WithSkipExisting config = config\<lparr>skipExisting := True\<rparr>"

definition WithAllowEmptyCookies :: CookieJarOption where
  "WithAllowEmptyCookies config = config\<lparr>allowEmptyCookies := True\<rparr>"

definition WithDebugLogger :: CookieJarOption where
  "WithDebugLogger config = config\<lparr>jdebug := True\<rparr>"

definition WithLogger :: "Logger \<Rightarrow> CookieJarOption" where
  "WithLogger l config = config\<lparr>jlogger := Some l\<rparr>"

definition NewCookieJar :: "'j \<Rightarrow> CookieJarOption list \<Rightarrow> 'j cookieJar" where
  "NewCookieJar realJar options =
     (let config = foldl (\<lambda>c opt. opt c)
            \<lparr>jlogger = None, skipExisting = False, jdebug = False, allowEmptyCookies = False\<rparr> options;
          log = (case jlogger config of None \<Rightarrow> NewNoopLogger | Some l \<Rightarrow> l);
          log = (if jdebug config then NewDebugLogger log else log)
      in \<lparr>innerJar = realJar, jconfig = config\<lparr>jlogger := Some log\<rparr>, allCookies = Map.empty\<rparr>)"

section \<open>Filters\<close>

text \<open>A lookup in \<open>allCookies\<close> of a missing key yields Go's nil slice.\<close>

definition cookiesAt :: "(string \<rightharpoonup> Cookie list) \<Rightarrow> string \<Rightarrow> Cookie list" where
  "cookiesAt m k = (case m k of None \<Rightarrow> [] | Some cs \<Rightarrow> cs)"

fun inSlice :: "string list \<Rightarrow> string \<Rightarrow> bool" where
  "inSlice [] el = False"
| "inSlice (e # es) el = (if e = el then True else inSlice es el)"

text \<open>The inner loops of \<open>SetCookies\<close>: stop at the first cookie with the same name.\<close>

fun nameIn :: "string \<Rightarrow> Cookie list \<Rightarrow> bool" where
  "nameIn n [] = False"
| "nameIn n (c # cs) = (if n = Name c then True else nameIn n cs)"

text \<open>\<open>unique\<close> walks the cookies from the last to the first and keeps the first it sees of each name.\<close>

fun uniqueLoop :: "string list \<Rightarrow> Cookie list \<Rightarrow> Cookie list" where
  "uniqueLoop seen [] = []"
| "uniqueLoop seen (c # cs) =
     (if inSlice seen (Name c) then uniqueLoop seen cs
      else c # uniqueLoop (seen @ [Name c]) cs)"

definition unique :: "Cookie list \<Rightarrow> Cookie list" where
  "unique cookies = uniqueLoop [] (rev cookies)"

definition nonEmpty :: "cookieJarConfig \<Rightarrow> Cookie list \<Rightarrow> Cookie list" where
  "nonEmpty config cookies =
     (if allowEmptyCookies config then cookies else filter (\<lambda>c. Value c \<noteq> []) cookies)"

definition notExpired :: "Cookie list \<Rightarrow> Cookie list" where
  "notExpired cookies = filter (\<lambda>c. \<not> MaxAge c < 0) cookies"

definition buildCookieHostKey :: "URL \<Rightarrow> string" where
  "buildCookieHostKey u =
     (let hostParts = splitOn (CHR ''.'') (Host u); n = length hostParts in
      if n = 3 \<or> n = 2 then hostParts ! (n - 2) @ ''.'' @ hostParts ! (n - 1) else Host u)"

section \<open>The jar\<close>

definition mergeOverwrite :: "Cookie list \<Rightarrow> Cookie list \<Rightarrow> Cookie list" where
  "mergeOverwrite existing new = filter (\<lambda>e. \<not> nameIn (Name e) new) existing @ new"

definition mergeSkip :: "Cookie list \<Rightarrow> Cookie list \<Rightarrow> Cookie list" where
  "mergeSkip existing new = existing @ filter (\<lambda>c. \<not> nameIn (Name c) existing) new"

definition SetCookies ::
  "(URL \<Rightarrow> Cookie list \<Rightarrow> 'j \<Rightarrow> 'j) \<Rightarrow> URL \<Rightarrow> Cookie list \<Rightarrow> 'j cookieJar \<Rightarrow> 'j cookieJar" where
  "SetCookies innerSet u cookies jar =
     (let uniqueCookies = unique (nonEmpty (jconfig jar) cookies);
          hostKey = buildCookieHostKey u;
          existing = cookiesAt (allCookies jar) hostKey;
          newCookies = (if \<not> skipExisting (jconfig jar) then mergeOverwrite existing uniqueCookies
                        else mergeSkip existing uniqueCookies)
      in jar\<lparr>innerJar := innerSet u newCookies (innerJar jar),
             allCookies := (allCookies jar)(hostKey \<mapsto> newCookies)\<rparr>)"

definition Cookies :: "URL \<Rightarrow> 'j cookieJar \<Rightarrow> Cookie list" where
  "Cookies u jar = notExpired (cookiesAt (allCookies jar) (buildCookieHostKey u))"

definition GetAllCookies :: "'j cookieJar \<Rightarrow> (string \<rightharpoonup> Cookie list)" where
  "GetAllCookies jar = allCookies jar"

section \<open>Lookup by name\<close>

text \<open>The abstract view of a cookie list: what a name stands for.\<close>

definition byName :: "Cookie list \<Rightarrow> string \<rightharpoonup> Cookie" where
  "byName cs n = find (\<lambda>c. Name c = n) cs"

text \<open>The cookie a server set last under a name.\<close>

definition lastNamed :: "Cookie list \<Rightarrow> string \<rightharpoonup> Cookie" where
  "lastNamed cs n = find (\<lambda>c. Name c = n) (rev cs)"

abbreviation names :: "Cookie list \<Rightarrow> string set" where
  "names cs \<equiv> Name ` set cs"

lemma inSlice_iff [simp]: "inSlice xs x \<longleftrightarrow> x \<in> set xs"
  by (induction xs) auto

lemma nameIn_iff [simp]: "nameIn n cs \<longleftrightarrow> n \<in> names cs"
  by (induction cs) auto

lemma find_eq_None_iff: "find P xs = None \<longleftrightarrow> (\<forall>x\<in>set xs. \<not> P x)"
  by (induction xs) auto

lemma byName_None: "byName cs n = None \<longleftrightarrow> n \<notin> names cs"
  by (auto simp: byName_def find_eq_None_iff)

lemma find_append: "find P (xs @ ys) = (case find P xs of None \<Rightarrow> find P ys | Some x \<Rightarrow> Some x)"
  by (induction xs) auto

lemma find_filter_keep: "(\<And>x. P x \<Longrightarrow> Q x) \<Longrightarrow> find P (filter Q xs) = find P xs"
  by (induction xs) auto

lemma uniqueLoop_props:
  "distinct (map Name (uniqueLoop seen cs)) \<and> names (uniqueLoop seen cs) = names cs - set seen
   \<and> set (uniqueLoop seen cs) \<subseteq> set cs"
  by (induction seen cs rule: uniqueLoop.induct) auto

lemma byName_uniqueLoop: "n \<notin> set seen \<Longrightarrow> byName (uniqueLoop seen cs) n = byName cs n"
  by (induction seen cs rule: uniqueLoop.induct) (auto simp: byName_def)

lemma distinct_unique: "distinct (map Name (unique cs))"
  and names_unique: "names (unique cs) = names cs"
  and set_unique: "set (unique cs) \<subseteq> set cs"
  using uniqueLoop_props [of "[]" "rev cs"] by (auto simp: unique_def)

lemma byName_unique: "byName (unique cs) n = lastNamed cs n"
  by (simp add: unique_def byName_uniqueLoop lastNamed_def) (simp add: byName_def)

section \<open>Merging policies\<close>

text \<open>
  The contract the jar relies on, whichever of its two policies is configured: merging keeps
  the names of a host distinct and loses none of them.
\<close>

locale cookie_merge =
  fixes merge :: "Cookie list \<Rightarrow> Cookie list \<Rightarrow> Cookie list"
  assumes merge_distinct:
      "distinct (map Name old) \<Longrightarrow> distinct (map Name new) \<Longrightarrow> distinct (map Name (merge old new))"
    and merge_names: "names (merge old new) = names old \<union> names new"
begin

lemma merge_all_distinct:
  assumes "distinct (map Name old)"
  shows "distinct (map Name (foldl (\<lambda>acc n. merge acc (unique n)) old batches))"
  using assms
  by (induction batches arbitrary: old) (auto intro!: merge_distinct distinct_unique)

lemma merge_all_names:
  "names (foldl (\<lambda>acc n. merge acc (unique n)) old batches) = names old \<union> (\<Union> (names ` set batches))"
  by (induction batches arbitrary: old) (auto simp: merge_names names_unique)

end

interpretation overwrite: cookie_merge mergeOverwrite
  by unfold_locales (auto simp: mergeOverwrite_def distinct_map_filter)

interpretation skip: cookie_merge mergeSkip
  by unfold_locales (auto 4 4 simp: mergeSkip_def distinct_map_filter intro: rev_image_eqI)

lemma byName_mergeOverwrite:
  "byName (mergeOverwrite old new) n = (case byName new n of Some c \<Rightarrow> Some c | None \<Rightarrow> byName old n)"
proof (cases "n \<in> names new")
  case True
  then have "find (\<lambda>c. Name c = n) (filter (\<lambda>e. \<not> nameIn (Name e) new) old) = None"
    by (auto simp: find_eq_None_iff)
  moreover from True have "byName new n \<noteq> None" by (auto simp: byName_None)
  ultimately show ?thesis
    by (auto simp: byName_def mergeOverwrite_def find_append split: option.splits)
next
  case False
  then have "find (\<lambda>c. Name c = n) (filter (\<lambda>e. \<not> nameIn (Name e) new) old) = byName old n"
    unfolding byName_def by (intro find_filter_keep) auto
  moreover from False have "byName new n = None" by (simp add: byName_None)
  ultimately show ?thesis
    by (auto simp: byName_def mergeOverwrite_def find_append split: option.splits)
qed

lemma byName_mergeSkip:
  "byName (mergeSkip old new) n = (case byName old n of Some c \<Rightarrow> Some c | None \<Rightarrow> byName new n)"
proof (cases "n \<in> names old")
  case True
  then have "byName old n \<noteq> None" by (auto simp: byName_None)
  then show ?thesis by (auto simp: byName_def mergeSkip_def find_append split: option.splits)
next
  case False
  then have "find (\<lambda>c. Name c = n) (filter (\<lambda>c. \<not> nameIn (Name c) old) new) = byName new n"
    unfolding byName_def by (intro find_filter_keep) auto
  then show ?thesis
    by (auto simp: byName_def mergeSkip_def find_append split: option.splits)
qed

section \<open>Invariant\<close>

definition jar_inv :: "'j cookieJar \<Rightarrow> bool" where
  "jar_inv jar \<longleftrightarrow> (\<forall>k. distinct (map Name (cookiesAt (allCookies jar) k)))"

text \<open>A history of the jar: the calls that change it, in the order the lock admits them.\<close>

fun setAll :: "(URL \<Rightarrow> Cookie list \<Rightarrow> 'j \<Rightarrow> 'j) \<Rightarrow> 'j cookieJar \<Rightarrow> (URL \<times> Cookie list) list \<Rightarrow> 'j cookieJar" where
  "setAll f jar [] = jar"
| "setAll f jar ((u, cs) # h) = setAll f (SetCookies f u cs jar) h"

lemma cookiesAt_upd [simp]: "cookiesAt (m(k \<mapsto> v)) k' = (if k' = k then v else cookiesAt m k')"
  by (simp add: cookiesAt_def)

lemma jar_inv_New: "jar_inv (NewCookieJar j opts)"
  by (simp add: jar_inv_def NewCookieJar_def Let_def cookiesAt_def)

lemma jar_inv_SetCookies [inv_intros]: "jar_inv jar \<Longrightarrow> jar_inv (SetCookies f u cs jar)"
  by (auto simp: jar_inv_def SetCookies_def Let_def
      intro: overwrite.merge_distinct skip.merge_distinct distinct_unique)

lemma jar_inv_setAll: "jar_inv jar \<Longrightarrow> jar_inv (setAll f jar h)"
  by (induction f jar h rule: setAll.induct) (auto intro: inv_intros)

lemma cookiesAt_SetCookies:
  "cookiesAt (allCookies (SetCookies f u cs jar)) k =
     (if k = buildCookieHostKey u
      then (if skipExisting (jconfig jar) then mergeSkip else mergeOverwrite)
             (cookiesAt (allCookies jar) k) (unique (nonEmpty (jconfig jar) cs))
      else cookiesAt (allCookies jar) k)"
  by (simp add: SetCookies_def Let_def)

section \<open>Properties\<close>

text \<open>C34: in every history of a jar, whatever its options, a host never holds two cookies of the
  same name: neither the stored list nor the list \<open>Cookies\<close> sends with a request repeats a name.\<close>

theorem jar_names_distinct:
  "distinct (map Name (cookiesAt (allCookies (setAll f (NewCookieJar j opts) h)) k))
   \<and> distinct (map Name (Cookies u (setAll f (NewCookieJar j opts) h)))"
proof -
  have "jar_inv (setAll f (NewCookieJar j opts) h)"
    by (intro jar_inv_setAll jar_inv_New)
  then show ?thesis
    by (auto simp: jar_inv_def Cookies_def notExpired_def distinct_map_filter)
qed

text \<open>C35: without \<open>WithSkipExisting\<close>, \<open>SetCookies\<close> refines the update of a table from names to
  cookies: under the host key of the URL each name stands for the last non-empty cookie of the
  call that carries it, and for what it stood for before if the call has none; every other host
  key keeps its cookies.\<close>

theorem SetCookies_overwrites:
  assumes "\<not> skipExisting (jconfig jar)"
  shows "byName (cookiesAt (allCookies (SetCookies f u cs jar)) k) n =
    (if k = buildCookieHostKey u
     then (case lastNamed (nonEmpty (jconfig jar) cs) n of
             Some c \<Rightarrow> Some c | None \<Rightarrow> byName (cookiesAt (allCookies jar) k) n)
     else byName (cookiesAt (allCookies jar) k) n)"
  using assms by (auto simp: cookiesAt_SetCookies byName_mergeOverwrite byName_unique)

theorem SetCookies_overwrites_witness:
  "\<not> skipExisting (jconfig (NewCookieJar () []))
   \<and> byName (cookiesAt (allCookies (SetCookies (\<lambda>_ _ j. j)
        (emptyURL\<lparr>Host := ''a.example.com''\<rparr>)
        [\<lparr>Name = ''s'', Value = ''1'', CPath = [], Domain = [], Expires = 0, MaxAge = 0, Secure = False, HttpOnly = False\<rparr>]
        (NewCookieJar () []))) ''example.com'') ''s''
     = Some \<lparr>Name = ''s'', Value = ''1'', CPath = [], Domain = [], Expires = 0, MaxAge = 0, Secure = False, HttpOnly = False\<rparr>"
proof -
  have h: "\<not> skipExisting (jconfig (NewCookieJar () []))"
    by (simp add: NewCookieJar_def Let_def)
  show ?thesis
    by (simp only: SetCookies_overwrites [OF h])
      (simp add: buildCookieHostKey_def Let_def nonEmpty_def lastNamed_def NewCookieJar_def emptyURL_def)
qed

text \<open>With \<open>WithSkipExisting\<close> the jar never replaces a cookie it holds: a name keeps the cookie
  it already stands for, and only a name that is new to the host key is given the last non-empty
  cookie of the call; every other host key keeps its cookies.\<close>

theorem SetCookies_skips:
  assumes "skipExisting (jconfig jar)"
  shows "byName (cookiesAt (allCookies (SetCookies f u cs jar)) k) n =
    (case byName (cookiesAt (allCookies jar) k) n of
       Some c \<Rightarrow> Some c
     | None \<Rightarrow> if k = buildCookieHostKey u then lastNamed (nonEmpty (jconfig jar) cs) n else None)"
  using assms
  by (simp add: cookiesAt_SetCookies byName_mergeSkip byName_unique split: option.split)

theorem SetCookies_skips_witness:
  "\<exists>c. byName (cookiesAt (allCookies (SetCookies (\<lambda>_ _ j. j)
        (emptyURL\<lparr>Host := ''example.com''\<rparr>)
        [\<lparr>Name = ''s'', Value = ''2'', CPath = [], Domain = [], Expires = 0, MaxAge = 0, Secure = False, HttpOnly = False\<rparr>]
        (SetCookies (\<lambda>_ _ j. j) (emptyURL\<lparr>Host := ''example.com''\<rparr>)
          [\<lparr>Name = ''s'', Value = ''1'', CPath = [], Domain = [], Expires = 0, MaxAge = 0, Secure = False, HttpOnly = False\<rparr>]
          (NewCookieJar () [WithSkipExisting])))) ''example.com'') ''s'' = Some c \<and> Value c = ''1''"
proof -
  have h: "skipExisting (jconfig (NewCookieJar () [WithSkipExisting]))"
    by (simp add: NewCookieJar_def Let_def WithSkipExisting_def)
  have h': "skipExisting (jconfig (SetCookies (\<lambda>_ _ j. j) u cs (NewCookieJar () [WithSkipExisting])))" for u cs
    using h by (simp add: SetCookies_def Let_def)
  show ?thesis
    by (simp only: SetCookies_skips [OF h] SetCookies_skips [OF h'])
      (simp add: buildCookieHostKey_def Let_def nonEmpty_def lastNamed_def NewCookieJar_def
        WithSkipExisting_def emptyURL_def cookiesAt_def byName_def)
qed

text \<open>What \<open>Cookies\<close> returns for a URL is exactly the stored cookies of its host key that a
  server has not expired with a negative \<open>MaxAge\<close>, in the stored order; in particular a cookie
  deleted through \<open>SetCookies\<close> is no longer sent.\<close>

theorem Cookies_after_delete:
  assumes "c \<in> set cs" and "MaxAge c < 0" and "Value c \<noteq> []" and "\<not> skipExisting (jconfig jar)"
    and "lastNamed cs (Name c) = Some c" and "jar_inv jar"
  shows "Name c \<notin> names (Cookies u (SetCookies f u cs jar))"
proof
  let ?jar = "SetCookies f u cs jar" and ?k = "buildCookieHostKey u"
  assume "Name c \<in> names (Cookies u ?jar)"
  then obtain d where d: "d \<in> set (cookiesAt (allCookies ?jar) ?k)" "Name d = Name c" "\<not> MaxAge d < 0"
    by (auto simp: Cookies_def notExpired_def)
  have keep: "lastNamed (nonEmpty (jconfig jar) cs) (Name c) = Some c"
  proof -
    have "find P (filter Q xs) = Some c" if "find P xs = Some c" "Q c" for P Q and xs :: "Cookie list"
      using that by (induction xs) (auto split: if_splits)
    then show ?thesis
      using assms(3,5) by (simp add: lastNamed_def nonEmpty_def rev_filter)
  qed
  have at: "byName (cookiesAt (allCookies ?jar) ?k) (Name c) = Some c"
    using assms(4) keep by (simp add: cookiesAt_SetCookies byName_mergeOverwrite byName_unique)
  have "distinct (map Name (cookiesAt (allCookies ?jar) ?k))"
    using assms(6) jar_inv_SetCookies unfolding jar_inv_def by blast
  moreover have "c \<in> set (cookiesAt (allCookies ?jar) ?k)"
    using at unfolding byName_def by (metis find_Some_iff nth_mem)
  ultimately have "c = d" using d(1,2) by (metis (mono_tags, lifting) distinct_map inj_onD)
  with d(3) assms(2) show False by simp
qed

theorem Cookies_after_delete_witness:
  "''s'' \<notin> names (Cookies (emptyURL\<lparr>Host := ''example.com''\<rparr>)
     (SetCookies (\<lambda>_ _ j. j) (emptyURL\<lparr>Host := ''example.com''\<rparr>)
       [\<lparr>Name = ''s'', Value = ''x'', CPath = [], Domain = [], Expires = 0, MaxAge = -1, Secure = False, HttpOnly = False\<rparr>]
       (NewCookieJar () [])))"
proof -
  let ?c = "\<lparr>Name = ''s'', Value = ''x'', CPath = [], Domain = [], Expires = 0, MaxAge = -1, Secure = False, HttpOnly = False\<rparr>"
  have "?c \<in> set [?c]" "MaxAge ?c < 0" "Value ?c \<noteq> []" "\<not> skipExisting (jconfig (NewCookieJar () []))"
    "lastNamed [?c] (Name ?c) = Some ?c" "jar_inv (NewCookieJar () [])"
    by (simp_all add: lastNamed_def jar_inv_New) (simp add: NewCookieJar_def Let_def)
  from Cookies_after_delete [OF this] show ?thesis by simp
qed

text \<open>The labels of a host, and the cookie a call stores under a name.\<close>

abbreviation labels :: "URL \<Rightarrow> string list" where
  "labels u \<equiv> splitOn (CHR ''.'') (Host u)"

lemma buildCookieHostKey_three: "labels u = [a, x, y] \<Longrightarrow> buildCookieHostKey u = x @ ''.'' @ y"
  by (simp add: buildCookieHostKey_def Let_def)

lemma hostKey_three_eq:
  assumes "labels u = [a, x, y]" and "labels v = [b, x', y']"
  shows "buildCookieHostKey u = buildCookieHostKey v \<longleftrightarrow> x = x' \<and> y = y'"
proof -
  have "CHR ''.'' \<notin> set x" "CHR ''.'' \<notin> set x'"
    using splitOn_sep_free [of x "CHR ''.''" "Host u"] splitOn_sep_free [of x' "CHR ''.''" "Host v"] assms by simp_all
  then have "x @ CHR ''.'' # y = x' @ CHR ''.'' # y' \<longleftrightarrow> x = x' \<and> y = y'"
    by (auto simp: append_eq_append_conv2 append_eq_Cons_conv Cons_eq_append_conv)
  then show ?thesis by (simp add: buildCookieHostKey_three [OF assms(1)] buildCookieHostKey_three [OF assms(2)])
qed

lemma stored_cookie:
  assumes "lastNamed (nonEmpty (jconfig jar) cs) n = Some c"
    and "skipExisting (jconfig jar) \<longrightarrow> n \<notin> names (cookiesAt (allCookies jar) (buildCookieHostKey u))"
  shows "c \<in> set (cookiesAt (allCookies (SetCookies f u cs jar)) (buildCookieHostKey u))"
proof -
  have "byName (cookiesAt (allCookies (SetCookies f u cs jar)) (buildCookieHostKey u)) n = Some c"
    using assms by (simp add: cookiesAt_SetCookies byName_mergeOverwrite byName_mergeSkip byName_unique byName_None [THEN iffD2])
  then show ?thesis unfolding byName_def by (metis find_Some_iff nth_mem)
qed

text \<open>C36: hosts of three labels share their cookies exactly when their last two labels agree, whatever these are, for
  every jar and its options. A cookie that a call stores for the first host (the last non-empty one of
  its name, not expired, of a name not held before if the jar skips existing cookies), and that was not sent to the second host
  before, is sent to the second host afterwards if and only if the two last labels are the same: so
  sites that only share a public suffix of two labels, as \<open>shop.co.uk\<close> and \<open>bank.co.uk\<close>, get each other's cookies.\<close>

theorem cookies_cross_public_suffix:
  assumes "labels u = [a, x, y]" and "labels v = [b, x', y']"
    and "lastNamed (nonEmpty (jconfig jar) cs) n = Some c" and "\<not> MaxAge c < 0"
    and "skipExisting (jconfig jar) \<longrightarrow> n \<notin> names (cookiesAt (allCookies jar) (buildCookieHostKey u))"
    and "c \<notin> set (Cookies v jar)"
  shows "c \<in> set (Cookies v (SetCookies f u cs jar)) \<longleftrightarrow> x = x' \<and> y = y'"
proof -
  have "c \<in> set (Cookies v (SetCookies f u cs jar)) \<longleftrightarrow> buildCookieHostKey v = buildCookieHostKey u"
  proof
    assume "buildCookieHostKey v = buildCookieHostKey u"
    with stored_cookie [OF assms(3,5), of f] assms(4) show "c \<in> set (Cookies v (SetCookies f u cs jar))"
      by (simp add: Cookies_def notExpired_def)
  next
    assume "c \<in> set (Cookies v (SetCookies f u cs jar))"
    with assms(6) show "buildCookieHostKey v = buildCookieHostKey u"
      by (simp add: Cookies_def cookiesAt_SetCookies split: if_splits)
  qed
  then show ?thesis using hostKey_three_eq [OF assms(1,2)] by metis
qed

theorem cookies_cross_public_suffix_witness:
  "\<lparr>Name = ''session'', Value = ''secret'', CPath = [], Domain = [], Expires = 0, MaxAge = 0, Secure = True, HttpOnly = True\<rparr>
   \<in> set (Cookies (emptyURL\<lparr>Host := ''bank.co.uk''\<rparr>)
     (SetCookies (\<lambda>_ _ j. j) (emptyURL\<lparr>Host := ''shop.co.uk''\<rparr>)
       [\<lparr>Name = ''session'', Value = ''secret'', CPath = [], Domain = [], Expires = 0, MaxAge = 0, Secure = True, HttpOnly = True\<rparr>]
       (NewCookieJar () [WithSkipExisting])))"
proof -
  let ?c = "\<lparr>Name = ''session'', Value = ''secret'', CPath = [], Domain = [], Expires = 0, MaxAge = 0, Secure = True, HttpOnly = True\<rparr>"
  let ?jar = "NewCookieJar () [WithSkipExisting]"
  have l: "labels (emptyURL\<lparr>Host := ''shop.co.uk''\<rparr>) = [''shop'', ''co'', ''uk'']"
    "labels (emptyURL\<lparr>Host := ''bank.co.uk''\<rparr>) = [''bank'', ''co'', ''uk'']" by code_simp+
  have n: "lastNamed (nonEmpty (jconfig ?jar) [?c]) ''session'' = Some ?c" "\<not> MaxAge ?c < 0"
    "skipExisting (jconfig ?jar) \<longrightarrow> ''session'' \<notin> names (cookiesAt (allCookies ?jar) (buildCookieHostKey (emptyURL\<lparr>Host := ''shop.co.uk''\<rparr>)))"
    "?c \<notin> set (Cookies (emptyURL\<lparr>Host := ''bank.co.uk''\<rparr>) ?jar)"
    by (simp_all add: NewCookieJar_def Let_def nonEmpty_def lastNamed_def Cookies_def notExpired_def cookiesAt_def)
  from cookies_cross_public_suffix [OF l n] show ?thesis by simp
qed

end
