(* ===== verification/Bandwidth.thy ===== *)
theory Bandwidth
  imports Prelude
begin

text \<open>
  The package \<^verbatim>\<open>bandwidth\<close>: \<^verbatim>\<open>Tracker\<close> with its two atomic 64-bit counters, the wrapped
  connection \<^verbatim>\<open>BTConn\<close> that feeds them, and the \<^verbatim>\<open>NopeTracker\<close> used when tracking is off.
  A tracker is shared by every connection of a client, so the operations of a connection
  take and return the tracker beside the state of the wrapped connection.
\<close>

section \<open>bandwidth/tracker.go\<close>

record Tracker =
  writeBytes :: i64
  readBytes :: i64

definition NewTracker :: Tracker where
  "NewTracker = \<lparr>writeBytes = 0, readBytes = 0\<rparr>"

definition Reset :: "Tracker \<Rightarrow> Tracker" where
  "Reset bt = bt\<lparr>writeBytes := 0, readBytes := 0\<rparr>"

definition GetWriteBytes :: "Tracker \<Rightarrow> i64" where
  "GetWriteBytes bt = writeBytes bt"

definition GetReadBytes :: "Tracker \<Rightarrow> i64" where
  "GetReadBytes bt = readBytes bt"

definition GetTotalBandwidth :: "Tracker \<Rightarrow> i64" where
  "GetTotalBandwidth bt = readBytes bt + writeBytes bt"

definition addWriteBytes :: "Tracker \<Rightarrow> i64 \<Rightarrow> Tracker" where
  "addWriteBytes bt n = bt\<lparr>writeBytes := writeBytes bt + n\<rparr>"

definition addReadBytes :: "Tracker \<Rightarrow> i64 \<Rightarrow> Tracker" where
  "addReadBytes bt n = bt\<lparr>readBytes := readBytes bt + n\<rparr>"

section \<open>bandwidth/tracked\_conn.go\<close>

text \<open>
  \<open>rd\<close> and \<open>wr\<close> are the \<open>Read\<close> and \<open>Write\<close> of the wrapped \<open>net.Conn\<close>: they return the
  new state of that connection, the number of bytes and the error.
\<close>

definition BTConn_Read ::
  "('c \<Rightarrow> 'b \<Rightarrow> 'c \<times> int \<times> 'e option) \<Rightarrow> 'c \<Rightarrow> Tracker \<Rightarrow> 'b \<Rightarrow> 'c \<times> Tracker \<times> int \<times> 'e option" where
  "BTConn_Read rd conn tracker p =
     (let (conn', n, err) = rd conn p in (conn', addReadBytes tracker (word_of_int n), n, err))"

definition BTConn_Write ::
  "('c \<Rightarrow> 'b \<Rightarrow> 'c \<times> int \<times> 'e option) \<Rightarrow> 'c \<Rightarrow> Tracker \<Rightarrow> 'b \<Rightarrow> 'c \<times> Tracker \<times> int \<times> 'e option" where
  "BTConn_Write wr conn tracker p =
     (let (conn', n, err) = wr conn p in (conn', addWriteBytes tracker (word_of_int n), n, err))"

section \<open>bandwidth/nope\_tracker.go\<close>

definition Nope_Reset :: "unit \<Rightarrow> unit" where
  "Nope_Reset bt = ()"

definition Nope_GetWriteBytes :: "unit \<Rightarrow> i64" where
  "Nope_GetWriteBytes bt = 0"

definition Nope_GetReadBytes :: "unit \<Rightarrow> i64" where
  "Nope_GetReadBytes bt = 0"

definition Nope_GetTotalBandwidth :: "unit \<Rightarrow> i64" where
  "Nope_GetTotalBandwidth bt = 0"

text \<open>\<open>NopeTracker.TrackConnection\<close> hands the connection back unwrapped, so its traffic is not counted.\<close>

definition Nope_onRead :: "unit \<Rightarrow> i64 \<Rightarrow> unit" where
  "Nope_onRead bt n = ()"

section \<open>The interface BandwidthTracker\<close>

text \<open>
  What the client promises its users about \<^verbatim>\<open>GetBandwidthTracker()\<close>, whichever
  implementation is configured: the total is the sum of the two counters and a reset clears
  all three readings.
\<close>

locale bandwidth_tracker =
  fixes reset :: "'t \<Rightarrow> 't"
    and getRead getWrite getTotal :: "'t \<Rightarrow> i64"
    and onRead onWrite :: "'t \<Rightarrow> i64 \<Rightarrow> 't"
  assumes total_is_sum: "getTotal t = getRead t + getWrite t"
    and reset_read: "getRead (reset t) = 0"
    and reset_write: "getWrite (reset t) = 0"
    and onRead_write: "getWrite (onRead t n) = getWrite t"
    and onWrite_read: "getRead (onWrite t n) = getRead t"
begin

lemma reset_total: "getTotal (reset t) = 0"
  by (simp add: total_is_sum reset_read reset_write)

lemma reset_idem_readings:
  "getRead (reset (reset t)) = getRead (reset t)" "getTotal (reset (reset t)) = getTotal (reset t)"
  by (simp_all add: reset_read reset_total)

end

interpretation counting: bandwidth_tracker Reset GetReadBytes GetWriteBytes GetTotalBandwidth
    addReadBytes addWriteBytes
  by unfold_locales
    (simp_all add: Reset_def GetReadBytes_def GetWriteBytes_def GetTotalBandwidth_def
      addReadBytes_def addWriteBytes_def)

interpretation nope: bandwidth_tracker Nope_Reset Nope_GetReadBytes Nope_GetWriteBytes
    Nope_GetTotalBandwidth Nope_onRead Nope_onRead
  by unfold_locales
    (simp_all add: Nope_Reset_def Nope_GetReadBytes_def Nope_GetWriteBytes_def
      Nope_GetTotalBandwidth_def)

section \<open>Traffic over shared connections\<close>

text \<open>The calls the connections of a client make on its tracker, in the order they happen.\<close>

datatype traffic = ReadEv int | WriteEv int

fun track :: "Tracker \<Rightarrow> traffic \<Rightarrow> Tracker" where
  "track bt (ReadEv n) = addReadBytes bt (word_of_int n)"
| "track bt (WriteEv n) = addWriteBytes bt (word_of_int n)"

fun trackAll :: "Tracker \<Rightarrow> traffic list \<Rightarrow> Tracker" where
  "trackAll bt [] = bt"
| "trackAll bt (e # es) = trackAll (track bt e) es"

fun readOf :: "traffic \<Rightarrow> int" where
  "readOf (ReadEv n) = n" | "readOf (WriteEv n) = 0"

fun writeOf :: "traffic \<Rightarrow> int" where
  "writeOf (ReadEv n) = 0" | "writeOf (WriteEv n) = n"

lemma BTConn_Read_tracks:
  "BTConn_Read rd conn bt p = (conn', bt', n, err) \<Longrightarrow> bt' = track bt (ReadEv n)"
  by (auto simp: BTConn_Read_def split: prod.splits)

lemma BTConn_Write_tracks:
  "BTConn_Write wr conn bt p = (conn', bt', n, err) \<Longrightarrow> bt' = track bt (WriteEv n)"
  by (auto simp: BTConn_Write_def split: prod.splits)

lemma readBytes_trackAll:
  "readBytes (trackAll bt es) = readBytes bt + word_of_int (sum_list (map readOf es))"
proof (induction es arbitrary: bt)
  case (Cons e es)
  then show ?case
    by (cases e) (simp_all add: addReadBytes_def addWriteBytes_def add.assoc flip: of_int_add)
qed simp

lemma writeBytes_trackAll:
  "writeBytes (trackAll bt es) = writeBytes bt + word_of_int (sum_list (map writeOf es))"
proof (induction es arbitrary: bt)
  case (Cons e es)
  then show ?case
    by (cases e) (simp_all add: addReadBytes_def addWriteBytes_def add.assoc flip: of_int_add)
qed simp

lemma sint_word_of_int_small:
  "- (2 ^ 63) \<le> n \<Longrightarrow> n < 2 ^ 63 \<Longrightarrow> sint (word_of_int n :: i64) = n"
  by (simp add: signed_of_int signed_take_bit_int_eq_self)

section \<open>Properties\<close>

text \<open>Whatever the connections of a client read and wrote since the last reset, in any
  interleaving, the tracker reports exactly the number of bytes read, the number written and
  their sum, as long as the sum of both fits in a signed 64-bit integer.\<close>

theorem tracker_counts_traffic:
  assumes "\<forall>e \<in> set es. readOf e \<ge> 0 \<and> writeOf e \<ge> 0"
    and "sum_list (map readOf es) + sum_list (map writeOf es) < 2 ^ 63"
  shows "sint (GetReadBytes (trackAll (Reset bt) es)) = sum_list (map readOf es)
    \<and> sint (GetWriteBytes (trackAll (Reset bt) es)) = sum_list (map writeOf es)
    \<and> sint (GetTotalBandwidth (trackAll (Reset bt) es)) =
           sum_list (map readOf es) + sum_list (map writeOf es)"
proof (intro conjI)
  have r: "0 \<le> sum_list (map readOf es)" and w: "0 \<le> sum_list (map writeOf es)"
    using assms(1) by (auto intro!: sum_list_nonneg)
  have tr: "GetReadBytes (trackAll (Reset bt) es) = word_of_int (sum_list (map readOf es))"
    by (simp add: GetReadBytes_def readBytes_trackAll Reset_def)
  have tw: "GetWriteBytes (trackAll (Reset bt) es) = word_of_int (sum_list (map writeOf es))"
    by (simp add: GetWriteBytes_def writeBytes_trackAll Reset_def)
  show "sint (GetReadBytes (trackAll (Reset bt) es)) = sum_list (map readOf es)"
    unfolding tr using r w assms(2) by (intro sint_word_of_int_small) linarith+
  show "sint (GetWriteBytes (trackAll (Reset bt) es)) = sum_list (map writeOf es)"
    unfolding tw using r w assms(2) by (intro sint_word_of_int_small) linarith+
  have "GetTotalBandwidth (trackAll (Reset bt) es) =
      word_of_int (sum_list (map readOf es) + sum_list (map writeOf es))"
    by (simp add: counting.total_is_sum tr tw)
  then show "sint (GetTotalBandwidth (trackAll (Reset bt) es)) =
      sum_list (map readOf es) + sum_list (map writeOf es)"
    using r w assms(2) by (simp only:) (intro sint_word_of_int_small; linarith)
qed

theorem tracker_counts_traffic_witness:
  "sint (GetTotalBandwidth (trackAll (Reset NewTracker) [ReadEv 1460, WriteEv 517, ReadEv 3])) = 1980"
proof -
  have h1: "\<forall>e \<in> set [ReadEv 1460, WriteEv 517, ReadEv 3]. readOf e \<ge> 0 \<and> writeOf e \<ge> 0" by simp
  have h2: "sum_list (map readOf [ReadEv 1460, WriteEv 517, ReadEv 3])
      + sum_list (map writeOf [ReadEv 1460, WriteEv 517, ReadEv 3]) < 2 ^ 63" by simp
  show ?thesis using tracker_counts_traffic [OF h1 h2, of NewTracker] by simp
qed

end
