(* ===== verification/Client.thy ===== *)
theory Client
  imports Racer CookieJar Bandwidth Logging
begin

text \<open>
  The client: \<^verbatim>\<open>client.go\<close>, the options of \<^verbatim>\<open>client_options.go\<close> and the websocket wrapper of
  \<^verbatim>\<open>websocket.go\<close> and \<^verbatim>\<open>websocket_options.go\<close>. Functions of the user (hooks, redirect policies, dialers,
  factories) are arguments or tokens; a hook gives its result together with the request it
  leaves, since it may change it. The cookie jar is any type \<open>'j\<close> with the two operations of the
  interface.
\<close>

section \<open>Configuration\<close>

record Response =
  StatusCode :: nat
  respHeader :: httpHeader
  respBody :: "bytes option"
  respProto :: string
  Uncompressed :: bool
  respURL :: "URL option"

datatype client_error =
    InvalidConfig string
  | DialerError cd_error
  | FactoryError string
  | HookFailed string
  | RequestFailed rt_error
  | BodyReadFailed
  | DumpFailed
  | CharsetFailed
  | BadRequest
  | ClientPanic

text \<open>What a hook returns: nothing, an error (wrapping \<open>ErrContinueHooks\<close> or not), or a panic.\<close>

datatype hookResult = HookOk | HookContinue string | HookAbort string | HookPanic string

type_synonym preHook = "Request \<Rightarrow> hookResult \<times> Request"

record PostResponseContext =
  ctxRequest :: Request
  ctxResponse :: "Response option"
  ctxError :: "client_error option"

text \<open>All post-response hooks of a request get the same context and may change it.\<close>

type_synonym postHook = "PostResponseContext \<Rightarrow> hookResult \<times> PostResponseContext"

type_synonym ProxyDialerFactory = "string \<Rightarrow> i64 \<Rightarrow> string option \<Rightarrow> httpHeader \<Rightarrow> string + nat"

record 'j httpClientConfig =
  cfg_cookieJar :: "'j option"
  cfg_customRedirectFunc :: "nat option"
  cfg_certificatePins :: "(string \<times> string list) list"
  cfg_defaultHeaders :: httpHeader
  cfg_connectHeaders :: httpHeader
  cfg_badPinHandler :: bool
  cfg_transportOptions :: "TransportOptions option"
  cfg_localAddr :: "string option"
  cfg_dialer :: netDialer
  cfg_dialContext :: "nat option"
  cfg_proxyDialerFactory :: "ProxyDialerFactory option"
  cfg_proxyUrl :: string
  cfg_serverNameOverwrite :: string
  cfg_clientProfile :: ClientProfile
  cfg_timeout :: i64
  cfg_catchPanics :: bool
  cfg_debug :: bool
  cfg_followRedirects :: bool
  cfg_insecureSkipVerify :: bool
  cfg_withRandomTlsExtensionOrder :: bool
  cfg_forceHttp1 :: bool
  cfg_disableHttp3 :: bool
  cfg_disableSessionTickets :: bool
  cfg_enableProtocolRacing :: bool
  cfg_disableIPV6 :: bool
  cfg_disableIPV4 :: bool
  cfg_enabledBandwidthTracker :: bool
  cfg_preHooks :: "preHook list"
  cfg_postHooks :: "postHook list"

type_synonym 'j HttpClientOption = "'j httpClientConfig \<Rightarrow> 'j httpClientConfig"

definition second :: i64 where "second = 1000000000"
definition millisecond :: i64 where "millisecond = 1000000"

section \<open>client\_options.go\<close>

definition WithProxyUrl :: "string \<Rightarrow> 'j HttpClientOption" where
  "WithProxyUrl proxyUrl config = config\<lparr>cfg_proxyUrl := proxyUrl\<rparr>"

definition WithCharlesProxy :: "string \<Rightarrow> string \<Rightarrow> 'j HttpClientOption" where
  "WithCharlesProxy host port =
     (let h = (if host \<noteq> [] then host else ''127.0.0.1''); p = (if port \<noteq> [] then port else ''8888'')
      in WithProxyUrl (''http://'' @ h @ '':'' @ p))"

definition WithCookieJar :: "'j option \<Rightarrow> 'j HttpClientOption" where
  "WithCookieJar jar config = config\<lparr>cfg_cookieJar := jar\<rparr>"

definition WithTimeoutMilliseconds :: "int \<Rightarrow> 'j HttpClientOption" where
  "WithTimeoutMilliseconds timeout config = config\<lparr>cfg_timeout := millisecond * word_of_int timeout\<rparr>"

definition WithDialer :: "netDialer \<Rightarrow> 'j HttpClientOption" where
  "WithDialer dialer config = config\<lparr>cfg_dialer := dialer\<rparr>"

definition WithProxyDialerFactory :: "ProxyDialerFactory option \<Rightarrow> 'j HttpClientOption" where
  "WithProxyDialerFactory factory config = config\<lparr>cfg_proxyDialerFactory := factory\<rparr>"

definition WithTimeoutSeconds :: "int \<Rightarrow> 'j HttpClientOption" where
  "WithTimeoutSeconds timeout config = config\<lparr>cfg_timeout := second * word_of_int timeout\<rparr>"

definition WithTimeout :: "int \<Rightarrow> 'j HttpClientOption" where
  "WithTimeout timeout config = config\<lparr>cfg_timeout := second * word_of_int timeout\<rparr>"

definition WithNotFollowRedirects :: "'j HttpClientOption" where
  "WithNotFollowRedirects config = config\<lparr>cfg_followRedirects := False\<rparr>"

definition WithLocalAddr :: "string \<Rightarrow> 'j HttpClientOption" where
  "WithLocalAddr localAddr config = config\<lparr>cfg_localAddr := Some localAddr\<rparr>"

definition WithCustomRedirectFunc :: "nat option \<Rightarrow> 'j HttpClientOption" where
  "WithCustomRedirectFunc redirectFunc config = config\<lparr>cfg_customRedirectFunc := redirectFunc\<rparr>"

definition WithRandomTLSExtensionOrder :: "'j HttpClientOption" where
  "WithRandomTLSExtensionOrder config = config\<lparr>cfg_withRandomTlsExtensionOrder := True\<rparr>"

definition WithCertificatePinning :: "(string \<times> string list) list \<Rightarrow> bool \<Rightarrow> 'j HttpClientOption" where
  "WithCertificatePinning pins handler config =
     config\<lparr>cfg_certificatePins := pins, cfg_badPinHandler := handler\<rparr>"

definition WithDebug :: "'j HttpClientOption" where
  "WithDebug config = config\<lparr>cfg_debug := True\<rparr>"

definition WithCatchPanics :: "'j HttpClientOption" where
  "WithCatchPanics config = config\<lparr>cfg_catchPanics := True\<rparr>"

definition WithTransportOptions :: "TransportOptions option \<Rightarrow> 'j HttpClientOption" where
  "WithTransportOptions opts config = config\<lparr>cfg_transportOptions := opts\<rparr>"

definition WithInsecureSkipVerify :: "'j HttpClientOption" where
  "WithInsecureSkipVerify config = config\<lparr>cfg_insecureSkipVerify := True\<rparr>"

definition WithForceHttp1 :: "'j HttpClientOption" where
  "WithForceHttp1 config = config\<lparr>cfg_forceHttp1 := True\<rparr>"

definition WithDisableHttp3 :: "'j HttpClientOption" where
  "WithDisableHttp3 config = config\<lparr>cfg_disableHttp3 := True\<rparr>"

definition WithDisableSessionTickets :: "'j HttpClientOption" where
  "WithDisableSessionTickets config = config\<lparr>cfg_disableSessionTickets := True\<rparr>"

definition WithProtocolRacing :: "'j HttpClientOption" where
  "WithProtocolRacing config = config\<lparr>cfg_enableProtocolRacing := True\<rparr>"

definition WithClientProfile :: "ClientProfile \<Rightarrow> 'j HttpClientOption" where
  "WithClientProfile profile config = config\<lparr>cfg_clientProfile := profile\<rparr>"

definition WithDefaultHeaders :: "httpHeader \<Rightarrow> 'j HttpClientOption" where
  "WithDefaultHeaders headers config = config\<lparr>cfg_defaultHeaders := headers\<rparr>"

definition WithServerNameOverwrite :: "string \<Rightarrow> 'j HttpClientOption" where
  "WithServerNameOverwrite serverName config = config\<lparr>cfg_serverNameOverwrite := serverName\<rparr>"

definition WithDisableIPV6 :: "'j HttpClientOption" where
  "WithDisableIPV6 config = config\<lparr>cfg_disableIPV6 := True\<rparr>"

definition WithDisableIPV4 :: "'j HttpClientOption" where
  "WithDisableIPV4 config = config\<lparr>cfg_disableIPV4 := True\<rparr>"

definition WithBandwidthTracker :: "'j HttpClientOption" where
  "WithBandwidthTracker config = config\<lparr>cfg_enabledBandwidthTracker := True\<rparr>"

definition WithConnectHeaders :: "httpHeader \<Rightarrow> 'j HttpClientOption" where
  "WithConnectHeaders headers config = config\<lparr>cfg_connectHeaders := headers\<rparr>"

definition WithPreHook :: "preHook \<Rightarrow> 'j HttpClientOption" where
  "WithPreHook hook config = config\<lparr>cfg_preHooks := cfg_preHooks config @ [hook]\<rparr>"

definition WithPostHook :: "postHook \<Rightarrow> 'j HttpClientOption" where
  "WithPostHook hook config = config\<lparr>cfg_postHooks := cfg_postHooks config @ [hook]\<rparr>"

definition WithDialContext :: "nat option \<Rightarrow> 'j HttpClientOption" where
  "WithDialContext dialContext config = config\<lparr>cfg_dialContext := dialContext\<rparr>"

section \<open>Validation\<close>

definition extractProxyScheme :: "string \<Rightarrow> string" where
  "extractProxyScheme proxyURL = (case url_Parse proxyURL of Inl _ \<Rightarrow> [] | Inr u \<Rightarrow> Scheme u)"

definition validateProxyConfig :: "string \<Rightarrow> 'j httpClientConfig \<Rightarrow> client_error option" where
  "validateProxyConfig proxyUrl config =
     (if proxyUrl = [] \<or> \<not> cfg_enableProtocolRacing config then None
      else
        (let proxyScheme = extractProxyScheme proxyUrl in
         if proxyScheme = ''socks5'' \<or> proxyScheme = ''socks5h'' then None
         else Some (InvalidConfig ''protocol racing requires a SOCKS5 proxy'')))"

definition validateConfig :: "'j httpClientConfig \<Rightarrow> client_error option" where
  "validateConfig config =
     (if cfg_enableProtocolRacing config \<and> cfg_disableHttp3 config then Some (InvalidConfig ''racing without HTTP/3'')
      else if cfg_enableProtocolRacing config \<and> cfg_forceHttp1 config then Some (InvalidConfig ''racing with forced HTTP/1'')
      else if cfg_disableIPV4 config \<and> cfg_disableIPV6 config then Some (InvalidConfig ''cannot disable both IPv4 and IPv6'')
      else if cfg_certificatePins config \<noteq> [] \<and> cfg_insecureSkipVerify config
        then Some (InvalidConfig ''pinning with insecure skip verify'')
      else if cfg_proxyUrl config \<noteq> [] \<and> cfg_proxyDialerFactory config \<noteq> None
        then Some (InvalidConfig ''both proxy URL and custom proxy dialer factory'')
      else if cfg_dialContext config \<noteq> None \<and> (cfg_proxyUrl config \<noteq> [] \<or> cfg_proxyDialerFactory config \<noteq> None)
        then Some (InvalidConfig ''WithDialContext overrides the built-in proxy logic'')
      else validateProxyConfig (cfg_proxyUrl config) config)"

section \<open>Construction\<close>

text \<open>\<open>nil\<close> follows redirects; \<open>defaultRedirectFunc\<close> stops at the first response.\<close>

datatype redirectPolicy = NilRedirect | DefaultRedirect | CustomRedirect nat

record 'j httpClient =
  cl_Transport :: roundTripper
  cl_Timeout :: i64
  cl_CheckRedirect :: redirectPolicy
  cl_Jar :: "'j option"
  cl_logger :: Logger
  cl_bandwidthTracker :: "Tracker option"
  cl_config :: "'j httpClientConfig"
  cl_headerLocked :: bool
  cl_dialer :: contextDialer
  cl_preHooks :: "preHook list"
  cl_postHooks :: "postHook list"

text \<open>The code outside the repository that building a client calls: SOCKS4 support, \<open>hpkp\<close>, whether \<open>utls\<close> says
  that a profile resumes sessions, and the session cache it allocates.\<close>

record ('s, 'c) clientEnv =
  ce_fromURL :: "URL \<Rightarrow> bool"
  ce_hpkp :: "('s, 'c) hpkp"
  ce_resumption :: "ClientHelloID \<Rightarrow> bool"
  ce_lru :: nat

definition defaultConfig :: "ClientProfile \<Rightarrow> 'j httpClientConfig" where
  "defaultConfig DefaultClientProfile =
     \<lparr>cfg_cookieJar = None, cfg_customRedirectFunc = None, cfg_certificatePins = [],
      cfg_defaultHeaders = Some [], cfg_connectHeaders = Some [], cfg_badPinHandler = False,
      cfg_transportOptions = None, cfg_localAddr = None,
      cfg_dialer = \<lparr>dialerToken = 0, DialTimeout = 0, LocalAddr = None\<rparr>, cfg_dialContext = None,
      cfg_proxyDialerFactory = None, cfg_proxyUrl = [], cfg_serverNameOverwrite = [],
      cfg_clientProfile = DefaultClientProfile, cfg_timeout = 30 * second, cfg_catchPanics = False,
      cfg_debug = False, cfg_followRedirects = True, cfg_insecureSkipVerify = False,
      cfg_withRandomTlsExtensionOrder = False, cfg_forceHttp1 = False, cfg_disableHttp3 = False,
      cfg_disableSessionTickets = False, cfg_enableProtocolRacing = False, cfg_disableIPV6 = False,
      cfg_disableIPV4 = False, cfg_enabledBandwidthTracker = False, cfg_preHooks = [], cfg_postHooks = []\<rparr>"

text \<open>The choice of a dialer, which \<open>buildFromConfig\<close> makes from a direct dialer with the configured
  timeout and address and \<open>applyProxy\<close> from \<open>proxy.Direct\<close>.\<close>

definition chooseDialer ::
  "('s, 'c) clientEnv \<Rightarrow> contextDialer \<Rightarrow> 'j httpClientConfig \<Rightarrow> client_error + contextDialer" where
  "chooseDialer env base config =
     (case (if cfg_proxyUrl config \<noteq> [] \<and> cfg_proxyDialerFactory config = None
            then newConnectDialer (ce_fromURL env) (cfg_proxyUrl config) (sint (cfg_timeout config))
                   (cfg_localAddr config) (cfg_dialer config) (cfg_connectHeaders config)
            else Inr base) of
        Inl e \<Rightarrow> Inl (if e = CDPanic then ClientPanic else DialerError e)
      | Inr dialer \<Rightarrow>
          (case (case cfg_proxyDialerFactory config of
                   None \<Rightarrow> Inr dialer
                 | Some factory \<Rightarrow>
                     (case factory (cfg_proxyUrl config) (cfg_timeout config) (cfg_localAddr config)
                             (cfg_connectHeaders config) of
                        Inl e \<Rightarrow> Inl (FactoryError e) | Inr d \<Rightarrow> Inr (FactoryDialer d))) of
             Inl e \<Rightarrow> Inl e
           | Inr dialer \<Rightarrow>
               Inr (case cfg_dialContext config of Some f \<Rightarrow> CustomDialer f | None \<Rightarrow> dialer)))"

definition rtArgsOf :: "'j httpClientConfig \<Rightarrow> contextDialer \<Rightarrow> rtArgs" where
  "rtArgsOf config dialer =
     \<lparr>a_clientProfile = cfg_clientProfile config, a_transportOptions = cfg_transportOptions config,
      a_serverNameOverwrite = cfg_serverNameOverwrite config,
      a_insecureSkipVerify = cfg_insecureSkipVerify config,
      a_withRandomTlsExtensionOrder = cfg_withRandomTlsExtensionOrder config,
      a_forceHttp1 = cfg_forceHttp1 config, a_disableHttp3 = cfg_disableHttp3 config,
      a_disableSessionTickets = cfg_disableSessionTickets config,
      a_enableH3Racing = cfg_enableProtocolRacing config, a_certificatePins = cfg_certificatePins config,
      a_hasBadPinHandler = cfg_badPinHandler config, a_disableIPV6 = cfg_disableIPV6 config,
      a_disableIPV4 = cfg_disableIPV4 config, a_proxyURL = cfg_proxyUrl config, a_dialer = dialer\<rparr>"

definition buildTransport ::
  "('s, 'c) clientEnv \<Rightarrow> 'j httpClientConfig \<Rightarrow> contextDialer \<Rightarrow> 's \<Rightarrow> roundTripper \<times> 's" where
  "buildTransport env config dialer storage =
     newRoundTripper (ce_hpkp env) (ce_resumption env (GetClientHelloId (cfg_clientProfile config))) (ce_lru env)
       (rtArgsOf config dialer) storage"

definition redirectOf :: "'j httpClientConfig \<Rightarrow> redirectPolicy" where
  "redirectOf config =
     (if \<not> cfg_followRedirects config then DefaultRedirect
      else (case cfg_customRedirectFunc config of Some f \<Rightarrow> CustomRedirect f | None \<Rightarrow> NilRedirect))"

definition chooseLogger :: "bool \<Rightarrow> Logger option \<Rightarrow> Logger" where
  "chooseLogger debug logger =
     (let logger = (if debug
        then Some (NewDebugLogger (case logger of None \<Rightarrow> NewLogger | Some l \<Rightarrow> l)) else logger)
      in case logger of None \<Rightarrow> NewNoopLogger | Some l \<Rightarrow> l)"

definition buildFromConfig ::
  "('s, 'c) clientEnv \<Rightarrow> Logger \<Rightarrow> 'j httpClientConfig \<Rightarrow> 's \<Rightarrow> (client_error + 'j httpClient) \<times> 's" where
  "buildFromConfig env logger config storage =
     (case chooseDialer env
             (newDirectDialer (sint (cfg_timeout config)) (cfg_localAddr config) (cfg_dialer config)) config of
        Inl e \<Rightarrow> (Inl e, storage)
      | Inr dialer \<Rightarrow>
          (let (transport, storage) = buildTransport env config dialer storage in
           (Inr \<lparr>cl_Transport = transport, cl_Timeout = cfg_timeout config,
                 cl_CheckRedirect = redirectOf config, cl_Jar = cfg_cookieJar config, cl_logger = logger,
                 cl_bandwidthTracker = (if cfg_enabledBandwidthTracker config then Some NewTracker else None),
                 cl_config = config, cl_headerLocked = False, cl_dialer = dialer,
                 cl_preHooks = cfg_preHooks config, cl_postHooks = cfg_postHooks config\<rparr>, storage)))"

definition NewHttpClient ::
  "('s, 'c) clientEnv \<Rightarrow> ClientProfile \<Rightarrow> Logger option \<Rightarrow> 'j HttpClientOption list \<Rightarrow> 's
   \<Rightarrow> (client_error + 'j httpClient) \<times> 's" where
  "NewHttpClient env DefaultClientProfile logger options storage =
     (let config = fold (\<lambda>opt c. opt c) options (defaultConfig DefaultClientProfile) in
      case validateConfig config of
        Some e \<Rightarrow> (Inl e, storage)
      | None \<Rightarrow> buildFromConfig env (chooseLogger (cfg_debug config) logger) config storage)"

definition DefaultOptions :: "ClientProfile \<Rightarrow> 'j HttpClientOption list" where
  "DefaultOptions DefaultClientProfile =
     [WithTimeoutSeconds 30, WithClientProfile DefaultClientProfile, WithRandomTLSExtensionOrder,
      WithNotFollowRedirects]"

definition ProvideDefaultClient ::
  "('s, 'c) clientEnv \<Rightarrow> ClientProfile \<Rightarrow> 'j \<Rightarrow> Logger option \<Rightarrow> 's \<Rightarrow> (client_error + 'j httpClient) \<times> 's" where
  "ProvideDefaultClient env DefaultClientProfile newJar logger storage =
     NewHttpClient env DefaultClientProfile logger
       (DefaultOptions DefaultClientProfile @ [WithCookieJar (Some newJar)]) storage"

section \<open>Setters\<close>

definition GetDialer :: "'j httpClient \<Rightarrow> contextDialer" where
  "GetDialer c = cl_dialer c"

definition GetTLSDialer ::
  "('s, 'c) dialEnv \<Rightarrow> 'j httpClient \<Rightarrow> string \<Rightarrow> string \<Rightarrow> (rt_error + tlsConn) \<times> roundTripper" where
  "GetTLSDialer denv c network addr = dialTLSForWebsocket denv network addr (cl_Transport c)"

definition applyFollowRedirect :: "'j httpClient \<Rightarrow> 'j httpClient" where
  "applyFollowRedirect c =
     (let c = c\<lparr>cl_CheckRedirect := (if cfg_followRedirects (cl_config c) then NilRedirect else DefaultRedirect)\<rparr> in
      case cfg_customRedirectFunc (cl_config c) of
        Some f \<Rightarrow> if cfg_followRedirects (cl_config c) then c\<lparr>cl_CheckRedirect := CustomRedirect f\<rparr> else c
      | None \<Rightarrow> c)"

definition SetFollowRedirect :: "bool \<Rightarrow> 'j httpClient \<Rightarrow> 'j httpClient" where
  "SetFollowRedirect followRedirect c =
     applyFollowRedirect (c\<lparr>cl_config := (cl_config c)\<lparr>cfg_followRedirects := followRedirect\<rparr>\<rparr>)"

definition GetFollowRedirect :: "'j httpClient \<Rightarrow> bool" where
  "GetFollowRedirect c = cfg_followRedirects (cl_config c)"

definition applyProxy ::
  "('s, 'c) clientEnv \<Rightarrow> 'j httpClient \<Rightarrow> 's \<Rightarrow> client_error option \<times> 'j httpClient \<times> 's" where
  "applyProxy env c storage =
     (case chooseDialer env ProxyDirect (cl_config c) of
        Inl e \<Rightarrow> (Some e, c, storage)
      | Inr dialer \<Rightarrow>
          (let (transport, storage) = buildTransport env (cl_config c) dialer storage in
           (None, c\<lparr>cl_Transport := transport\<rparr>, storage)))"

definition setProxyUrl :: "string \<Rightarrow> 'j httpClient \<Rightarrow> 'j httpClient" where
  "setProxyUrl proxyUrl c = c\<lparr>cl_config := (cl_config c)\<lparr>cfg_proxyUrl := proxyUrl\<rparr>\<rparr>"

definition SetProxy ::
  "('s, 'c) clientEnv \<Rightarrow> string \<Rightarrow> 'j httpClient \<Rightarrow> 's \<Rightarrow> client_error option \<times> 'j httpClient \<times> 's" where
  "SetProxy env proxyUrl c storage =
     (let currentProxy = cfg_proxyUrl (cl_config c) in
      case validateProxyConfig proxyUrl (cl_config c) of
        Some e \<Rightarrow> (Some e, c, storage)
      | None \<Rightarrow>
          (case applyProxy env (setProxyUrl proxyUrl c) storage of
             (Some e, c, storage) \<Rightarrow>
               if e = ClientPanic then (Some e, c, storage)
               else applyProxy env (setProxyUrl currentProxy c) storage
           | (None, c, storage) \<Rightarrow> (None, c, storage)))"

definition GetProxy :: "'j httpClient \<Rightarrow> string" where
  "GetProxy c = cfg_proxyUrl (cl_config c)"

definition client_GetCookies :: "(URL \<Rightarrow> 'j \<Rightarrow> Cookie list) \<Rightarrow> URL \<Rightarrow> 'j httpClient \<Rightarrow> Cookie list" where
  "client_GetCookies jarCookies u c = (case cl_Jar c of None \<Rightarrow> [] | Some jar \<Rightarrow> jarCookies u jar)"

definition client_SetCookies ::
  "(URL \<Rightarrow> Cookie list \<Rightarrow> 'j \<Rightarrow> 'j) \<Rightarrow> URL \<Rightarrow> Cookie list \<Rightarrow> 'j httpClient \<Rightarrow> 'j httpClient" where
  "client_SetCookies jarSet u cookies c =
     (case cl_Jar c of None \<Rightarrow> c | Some jar \<Rightarrow> c\<lparr>cl_Jar := Some (jarSet u cookies jar)\<rparr>)"

definition SetCookieJar :: "'j option \<Rightarrow> 'j httpClient \<Rightarrow> 'j httpClient" where
  "SetCookieJar jar c = c\<lparr>cl_Jar := jar\<rparr>"

definition GetCookieJar :: "'j httpClient \<Rightarrow> 'j option" where
  "GetCookieJar c = cl_Jar c"

definition GetBandwidthTracker :: "'j httpClient \<Rightarrow> Tracker option" where
  "GetBandwidthTracker c = cl_bandwidthTracker c"

definition AddPreRequestHook :: "preHook \<Rightarrow> 'j httpClient \<Rightarrow> 'j httpClient" where
  "AddPreRequestHook hook c = c\<lparr>cl_preHooks := cl_preHooks c @ [hook]\<rparr>"

definition AddPostResponseHook :: "postHook \<Rightarrow> 'j httpClient \<Rightarrow> 'j httpClient" where
  "AddPostResponseHook hook c = c\<lparr>cl_postHooks := cl_postHooks c @ [hook]\<rparr>"

definition ResetPreHooks :: "'j httpClient \<Rightarrow> 'j httpClient" where
  "ResetPreHooks c = c\<lparr>cl_preHooks := []\<rparr>"

definition ResetPostHooks :: "'j httpClient \<Rightarrow> 'j httpClient" where
  "ResetPostHooks c = c\<lparr>cl_postHooks := []\<rparr>"

section \<open>Hooks\<close>

text \<open>A panic in a hook is recovered and becomes an error.\<close>

definition runPreHook :: "preHook \<Rightarrow> Request \<Rightarrow> hookResult \<times> Request" where
  "runPreHook hook req =
     (case hook req of (HookPanic m, req) \<Rightarrow> (HookAbort (''panic in pre-request hook: '' @ m), req) | r \<Rightarrow> r)"

definition runPostHook :: "postHook \<Rightarrow> PostResponseContext \<Rightarrow> hookResult \<times> PostResponseContext" where
  "runPostHook hook ctx =
     (case hook ctx of (HookPanic m, ctx) \<Rightarrow> (HookAbort (''panic in post-response hook: '' @ m), ctx) | r \<Rightarrow> r)"

text \<open>The loops, with the number of hooks that were called.\<close>

fun preHooksLoop :: "preHook list \<Rightarrow> Request \<Rightarrow> nat \<Rightarrow> client_error option \<times> Request \<times> nat" where
  "preHooksLoop [] req n = (None, req, n)"
| "preHooksLoop (hook # hooks) req n =
     (case runPreHook hook req of
        (HookAbort m, req) \<Rightarrow> (Some (HookFailed m), req, Suc n)
      | (_, req) \<Rightarrow> preHooksLoop hooks req (Suc n))"

definition executePreHooks :: "'j httpClient \<Rightarrow> Request \<Rightarrow> client_error option \<times> Request \<times> nat" where
  "executePreHooks c req = preHooksLoop (cl_preHooks c) req 0"

fun postHooksLoop :: "postHook list \<Rightarrow> PostResponseContext \<Rightarrow> nat \<Rightarrow> nat" where
  "postHooksLoop [] ctx n = n"
| "postHooksLoop (hook # hooks) ctx n =
     (case runPostHook hook ctx of
        (HookAbort _, _) \<Rightarrow> Suc n
      | (_, ctx) \<Rightarrow> postHooksLoop hooks ctx (Suc n))"

definition executePostHooks :: "'j httpClient \<Rightarrow> Request \<Rightarrow> Response option \<Rightarrow> client_error option \<Rightarrow> nat" where
  "executePostHooks c req resp e =
     (if cl_postHooks c = [] then 0
      else postHooksLoop (cl_postHooks c) \<lparr>ctxRequest = req, ctxResponse = resp, ctxError = e\<rparr> 0)"

section \<open>Requests\<close>

text \<open>
  A call returns a response and an error, each possibly nil, or panics, or waits for ever on a lock that
  is never released. \<open>doEnv\<close> is what \<open>do\<close> calls outside the repository: the key of the header order,
  reading and dumping bodies, \<open>http.Client.Do\<close>, and the conversion of a body to UTF-8 by its content type.
\<close>

datatype 'a outcome = Returned 'a | Panicked | Blocked

type_synonym doResult = "(Response option \<times> client_error option) outcome"

record doEnv =
  HeaderOrderKey :: string
  requestBodyOk :: bool
  dumpRequestOk :: bool
  clientDo :: "Request \<Rightarrow> roundTripper \<Rightarrow> (client_error + Response) outcome \<times> roundTripper"
  dumpResponseOk :: bool
  firstByteOk :: bool
  charsetConvert :: "string \<Rightarrow> bytes \<Rightarrow> bytes option"

definition allToLower :: "string list \<Rightarrow> string list" where
  "allToLower = map toLower"

definition headerValues :: "string \<Rightarrow> httpHeader \<Rightarrow> string list" where
  "headerValues k h = (case map_of (headerEntries h) k of Some vs \<Rightarrow> vs | None \<Rightarrow> [])"

definition headerGet :: "string \<Rightarrow> httpHeader \<Rightarrow> string" where
  "headerGet k h = (case headerValues k h of v # _ \<Rightarrow> v | [] \<Rightarrow> [])"

text \<open>The section under \<open>headerLck\<close>; \<^const>\<open>None\<close> is the panic of an assignment to a nil header.\<close>

definition prepareHeader :: "string \<Rightarrow> 'j httpClient \<Rightarrow> Request \<Rightarrow> Request option" where
  "prepareHeader key c req =
     (let h = (if headerEntries (reqHeader req) = [] then cfg_defaultHeaders (cl_config c) else reqHeader req) in
      case headerAssign key (allToLower (headerValues key h)) h of
        None \<Rightarrow> None
      | Some h \<Rightarrow> Some (req\<lparr>reqHeader := h\<rparr>))"

text \<open>What debug mode does to a response: the body is replaced by its conversion.\<close>

definition debugResponse :: "doEnv \<Rightarrow> Response \<Rightarrow> Response option \<times> client_error option" where
  "debugResponse env resp =
     (if \<not> dumpResponseOk env then (None, Some DumpFailed)
      else (case respBody resp of
              None \<Rightarrow> (Some resp, None)
            | Some body \<Rightarrow>
                if \<not> firstByteOk env then (None, Some BodyReadFailed)
                else if body = [] then (Some (resp\<lparr>respBody := Some []\<rparr>), None)
                else (case charsetConvert env (headerGet ''Content-Type'' (respHeader resp)) body of
                        None \<Rightarrow> (None, Some CharsetFailed)
                      | Some converted \<Rightarrow> (Some (resp\<lparr>respBody := Some converted\<rparr>), None))))"

text \<open>After the header: the body in debug mode, the request, the response in debug mode.\<close>

definition doSend :: "doEnv \<Rightarrow> Request \<Rightarrow> 'j httpClient \<Rightarrow> doResult \<times> 'j httpClient" where
  "doSend env req c =
     (let debug = cfg_debug (cl_config c) in
      if debug \<and> reqBody req \<noteq> None \<and> \<not> requestBodyOk env then (Returned (None, Some BodyReadFailed), c)
      else if debug \<and> \<not> dumpRequestOk env then (Returned (None, Some DumpFailed), c)
      else
        (let (result, rt) = clientDo env req (cl_Transport c); c = c\<lparr>cl_Transport := rt\<rparr> in
         case result of
           Panicked \<Rightarrow> (Panicked, c)
         | Blocked \<Rightarrow> (Blocked, c)
         | Returned (Inl e) \<Rightarrow> (Returned (None, Some e), c)
         | Returned (Inr resp) \<Rightarrow> (Returned (if debug then debugResponse env resp else (Some resp, None)), c)))"

text \<open>A recovered panic leaves both results nil, and the lock as it was.\<close>

definition recovered :: "'j httpClient \<Rightarrow> doResult \<Rightarrow> doResult" where
  "recovered c r = (if cfg_catchPanics (cl_config c) \<and> r = Panicked then Returned (None, None) else r)"

definition client_do :: "doEnv \<Rightarrow> Request \<Rightarrow> 'j httpClient \<Rightarrow> doResult \<times> 'j httpClient" where
  "client_do env req c =
     (if cl_headerLocked c then (Blocked, c)
      else (case prepareHeader (HeaderOrderKey env) c req of
              None \<Rightarrow> (recovered c Panicked, c\<lparr>cl_headerLocked := True\<rparr>)
            | Some req \<Rightarrow> (case doSend env req c of (r, c') \<Rightarrow> (recovered c r, c'))))"

text \<open>\<open>Do\<close>, with the number of pre-request hooks called, whether the request was started, and the
  number of post-response hooks called.\<close>

definition Do :: "doEnv \<Rightarrow> Request \<Rightarrow> 'j httpClient \<Rightarrow> doResult \<times> (nat \<times> bool \<times> nat) \<times> 'j httpClient" where
  "Do env req c =
     (case executePreHooks c req of
        (Some e, req, n) \<Rightarrow> (Returned (None, Some e), (n, False, 0), c)
      | (None, req, n) \<Rightarrow>
          (case client_do env req c of
             (Returned (resp, e), c) \<Rightarrow> (Returned (resp, e), (n, True, executePostHooks c req resp e), c)
           | (r, c) \<Rightarrow> (r, (n, True, 0), c)))"

text \<open>\<open>http.NewRequest\<close> is an argument: the request, unless method, URL or body are invalid.\<close>

definition client_Get ::
  "(string \<Rightarrow> string \<Rightarrow> bytes option \<Rightarrow> Request option) \<Rightarrow> doEnv \<Rightarrow> string \<Rightarrow> 'j httpClient \<Rightarrow> doResult \<times> 'j httpClient" where
  "client_Get NewRequest env url c =
     (case NewRequest ''GET'' url None of
        None \<Rightarrow> (Returned (None, Some BadRequest), c)
      | Some req \<Rightarrow> (case Do env req c of (r, _, c) \<Rightarrow> (r, c)))"

definition client_Head ::
  "(string \<Rightarrow> string \<Rightarrow> bytes option \<Rightarrow> Request option) \<Rightarrow> doEnv \<Rightarrow> string \<Rightarrow> 'j httpClient \<Rightarrow> doResult \<times> 'j httpClient" where
  "client_Head NewRequest env url c =
     (case NewRequest ''HEAD'' url None of
        None \<Rightarrow> (Returned (None, Some BadRequest), c)
      | Some req \<Rightarrow> (case Do env req c of (r, _, c) \<Rightarrow> (r, c)))"

definition client_Post ::
  "(string \<Rightarrow> string \<Rightarrow> bytes option \<Rightarrow> Request option) \<Rightarrow> doEnv \<Rightarrow> string \<Rightarrow> string \<Rightarrow> bytes option
   \<Rightarrow> 'j httpClient \<Rightarrow> doResult \<times> 'j httpClient" where
  "client_Post NewRequest env url contentType body c =
     (case NewRequest ''POST'' url body of
        None \<Rightarrow> (Returned (None, Some BadRequest), c)
      | Some req \<Rightarrow>
          (let req = req\<lparr>reqHeader := Some (headerPut ''Content-Type'' [contentType] (headerEntries (reqHeader req)))\<rparr>
           in case Do env req c of (r, _, c) \<Rightarrow> (r, c)))"

section \<open>websocket.go\<close>

record 'j websocketConfig =
  ws_url :: string
  ws_tlsClient :: "'j httpClient option"
  ws_headers :: httpHeader
  ws_readBufferSize :: int
  ws_writeBufferSize :: int
  ws_handshakeTimeout :: i64
  ws_cookieJar :: "'j option"

type_synonym 'j WebsocketOption = "'j websocketConfig \<Rightarrow> 'j websocketConfig"

definition WithUrl :: "string \<Rightarrow> 'j WebsocketOption" where
  "WithUrl url config = config\<lparr>ws_url := url\<rparr>"

definition WithTlsClient :: "'j httpClient option \<Rightarrow> 'j WebsocketOption" where
  "WithTlsClient tlsClient config = config\<lparr>ws_tlsClient := tlsClient\<rparr>"

definition WithHeaders :: "httpHeader \<Rightarrow> 'j WebsocketOption" where
  "WithHeaders headers config = config\<lparr>ws_headers := headers\<rparr>"

definition WithReadBufferSize :: "int \<Rightarrow> 'j WebsocketOption" where
  "WithReadBufferSize n config = config\<lparr>ws_readBufferSize := n\<rparr>"

definition WithWriteBufferSize :: "int \<Rightarrow> 'j WebsocketOption" where
  "WithWriteBufferSize n config = config\<lparr>ws_writeBufferSize := n\<rparr>"

definition WithHandshakeTimeoutMilliseconds :: "int \<Rightarrow> 'j WebsocketOption" where
  "WithHandshakeTimeoutMilliseconds timeout config =
     config\<lparr>ws_handshakeTimeout := millisecond * word_of_int timeout\<rparr>"

definition WithCookiejar :: "'j option \<Rightarrow> 'j WebsocketOption" where
  "WithCookiejar jar config = config\<lparr>ws_cookieJar := jar\<rparr>"

text \<open>The dialer of the websocket package, with the dialer it uses for \<open>ws\<close> URLs and the client whose TLS
  dialer it uses for \<open>wss\<close> URLs.\<close>

record 'j websocketDialer =
  HandshakeTimeout :: i64
  wsJar :: "'j option"
  wsReadBufferSize :: int
  wsWriteBufferSize :: int
  NetDialTLSContext :: "'j httpClient"
  NetDialContext :: contextDialer

datatype ws_error = NilTlsClient | EmptyUrl

definition validateWebsocketConfig :: "'j websocketConfig \<Rightarrow> ws_error option" where
  "validateWebsocketConfig config =
     (case ws_tlsClient config of
        None \<Rightarrow> Some NilTlsClient
      | Some _ \<Rightarrow> if ws_url config = [] then Some EmptyUrl else None)"

definition emptyWebsocketConfig :: "'j websocketConfig" where
  "emptyWebsocketConfig = \<lparr>ws_url = [], ws_tlsClient = None, ws_headers = None, ws_readBufferSize = 0,
     ws_writeBufferSize = 0, ws_handshakeTimeout = 0, ws_cookieJar = None\<rparr>"

definition NewWebsocket :: "'j WebsocketOption list \<Rightarrow> ws_error + 'j websocketConfig \<times> 'j websocketDialer" where
  "NewWebsocket options =
     (let config = fold (\<lambda>opt c. opt c) options emptyWebsocketConfig in
      case validateWebsocketConfig config of
        Some e \<Rightarrow> Inl e
      | None \<Rightarrow>
          (case ws_tlsClient config of
             None \<Rightarrow> Inl NilTlsClient
           | Some client \<Rightarrow>
               Inr (config, \<lparr>HandshakeTimeout = ws_handshakeTimeout config, wsJar = ws_cookieJar config,
                 wsReadBufferSize = ws_readBufferSize config, wsWriteBufferSize = ws_writeBufferSize config,
                 NetDialTLSContext = client, NetDialContext = GetDialer client\<rparr>)))"

text \<open>The URL and header that \<open>Connect\<close> gives to the package, and the configuration it leaves.\<close>

definition Connect :: "string \<Rightarrow> 'j websocketConfig \<Rightarrow> (string \<times> httpHeader) \<times> 'j websocketConfig" where
  "Connect key config =
     (let config =
        (case map_of (headerEntries (ws_headers config)) key of
           None \<Rightarrow> config
         | Some order \<Rightarrow>
             config\<lparr>ws_headers := Some (headerPut key (allToLower order) (headerEntries (ws_headers config)))\<rparr>)
      in ((ws_url config, ws_headers config), config))"

section \<open>Invariant of a client\<close>

text \<open>
  The transport was built with the proxy the client reports; a racing client has no proxy or one
  that carries QUIC.
\<close>

definition client_inv :: "'j httpClient \<Rightarrow> bool" where
  "client_inv c \<longleftrightarrow> ptr_inv (cl_Transport c) \<and> rt_proxyURL (cl_Transport c) = GetProxy c \<and>
     validateProxyConfig (GetProxy c) (cl_config c) = None"

lemma buildTransport_inv:
  assumes "buildTransport env config dialer storage = (rt, storage')"
  shows "ptr_inv rt" "rt_proxyURL rt = cfg_proxyUrl config" "rt_dialer rt = dialer"
proof -
  have rt: "rt = fst (buildTransport env config dialer storage)" using assms by simp
  show "ptr_inv rt" unfolding rt buildTransport_def by (rule ptr_inv_new)
  show "rt_proxyURL rt = cfg_proxyUrl config" "rt_dialer rt = dialer"
    unfolding rt buildTransport_def newRoundTripper_def rtArgsOf_def by (simp_all add: Let_def split: prod.splits)
qed

lemma client_inv_buildFromConfig:
  assumes "buildFromConfig env logger config storage = (Inr c, storage')"
    and "validateProxyConfig (cfg_proxyUrl config) config = None"
  shows "client_inv c" "cl_config c = config"
proof -
  obtain d rt where b: "buildTransport env config d storage = (rt, storage')" "cl_Transport c = rt" "cl_config c = config"
    using assms(1) by (auto simp: buildFromConfig_def split: sum.splits prod.splits)
  then show "cl_config c = config" by simp
  show "client_inv c" using buildTransport_inv [OF b(1)] b assms(2) by (simp add: client_inv_def GetProxy_def)
qed

lemma validateConfig_proxy:
  "validateConfig config = None \<Longrightarrow> validateProxyConfig (cfg_proxyUrl config) config = None"
  by (auto simp: validateConfig_def split: if_splits)

lemma client_inv_New [inv_intros]:
  assumes "NewHttpClient env profile logger options storage = (Inr c, storage')"
  shows "client_inv c"
  using assms by (auto simp: NewHttpClient_def Let_def validateConfig_proxy
      intro: client_inv_buildFromConfig split: option.splits)

lemma applyProxy_cases:
  assumes "applyProxy env c storage = (r, c', storage')"
  obtains (failed) e where "r = Some e" "c' = c" "storage' = storage"
  | (applied) d rt where "r = None" "chooseDialer env ProxyDirect (cl_config c) = Inr d"
      "buildTransport env (cl_config c) d storage = (rt, storage')" "c' = c\<lparr>cl_Transport := rt\<rparr>"
  using assms by (auto simp: applyProxy_def split: sum.splits prod.splits)

lemma validateProxyConfig_racing:
  "cfg_enableProtocolRacing config' = cfg_enableProtocolRacing config \<Longrightarrow>
   validateProxyConfig p config' = validateProxyConfig p config"
  by (simp add: validateProxyConfig_def)

lemma client_inv_applied:
  assumes "applyProxy env (setProxyUrl p c) storage = (None, c', storage')"
    and "validateProxyConfig p (cl_config c) = None"
  shows "client_inv c' \<and> GetProxy c' = p"
  using assms(1)
proof (cases rule: applyProxy_cases)
  case (applied d rt)
  then show ?thesis using buildTransport_inv [OF applied(3)] assms(2)
    by (simp add: client_inv_def GetProxy_def setProxyUrl_def
        validateProxyConfig_racing [of "(cl_config c)\<lparr>cfg_proxyUrl := p\<rparr>" "cl_config c"])
qed simp

lemma client_inv_SetProxy [inv_intros]:
  assumes inv: "client_inv c" and s: "SetProxy env p c storage = (r, c', storage')" and "r \<noteq> Some ClientPanic"
  shows "client_inv c'"
proof (cases "validateProxyConfig p (cl_config c)")
  case (Some e)
  then show ?thesis using s inv by (simp add: SetProxy_def)
next
  case valid: None
  obtain r1 c1 s1 where a: "applyProxy env (setProxyUrl p c) storage = (r1, c1, s1)" by (metis prod_cases3)
  show ?thesis
  proof (cases r1)
    case None
    then show ?thesis using s valid a client_inv_applied [of env p c storage c1 s1] by (simp add: SetProxy_def)
  next
    case (Some e)
    then have e: "e \<noteq> ClientPanic" "c1 = setProxyUrl p c"
      using s valid a assms(3) by (auto simp: SetProxy_def elim: applyProxy_cases)
    have restored: "setProxyUrl (GetProxy c) c1 = c" by (simp add: e(2) setProxyUrl_def GetProxy_def)
    have s2: "applyProxy env c s1 = (r, c', storage')"
      using s valid a Some e(1) restored by (simp add: SetProxy_def GetProxy_def)
    then show ?thesis
    proof (cases rule: applyProxy_cases)
      case (failed e)
      then show ?thesis using inv by simp
    next
      case (applied d rt)
      then show ?thesis using buildTransport_inv [OF applied(3)] inv by (simp add: client_inv_def GetProxy_def)
    qed
  qed
qed

text \<open>The operations of a client between requests; a history ends when \<open>SetProxy\<close> panics.\<close>

datatype 'j client_op =
    OpSetProxy string
  | OpSetFollowRedirect bool
  | OpSetCookieJar "'j option"
  | OpAddPreHook preHook
  | OpAddPostHook postHook
  | OpResetHooks

fun applyOp :: "('s, 'c) clientEnv \<Rightarrow> 'j client_op \<Rightarrow> 'j httpClient \<times> 's \<Rightarrow> ('j httpClient \<times> 's) option" where
  "applyOp env (OpSetProxy p) (c, s) =
     (case SetProxy env p c s of (r, c, s) \<Rightarrow> if r = Some ClientPanic then None else Some (c, s))"
| "applyOp env (OpSetFollowRedirect b) (c, s) = Some (SetFollowRedirect b c, s)"
| "applyOp env (OpSetCookieJar jar) (c, s) = Some (SetCookieJar jar c, s)"
| "applyOp env (OpAddPreHook h) (c, s) = Some (AddPreRequestHook h c, s)"
| "applyOp env (OpAddPostHook h) (c, s) = Some (AddPostResponseHook h c, s)"
| "applyOp env OpResetHooks (c, s) = Some (ResetPostHooks (ResetPreHooks c), s)"

definition applyOps :: "('s, 'c) clientEnv \<Rightarrow> 'j client_op list \<Rightarrow> 'j httpClient \<times> 's \<Rightarrow> ('j httpClient \<times> 's) option" where
  "applyOps env = runSteps (applyOp env)"

lemma client_inv_frame:
  assumes "client_inv c" "cl_Transport c' = cl_Transport c" "cfg_proxyUrl (cl_config c') = cfg_proxyUrl (cl_config c)"
    "cfg_enableProtocolRacing (cl_config c') = cfg_enableProtocolRacing (cl_config c)"
  shows "client_inv c'"
  using assms validateProxyConfig_racing [OF assms(4)] by (simp add: client_inv_def GetProxy_def)

lemma client_inv_applyOp:
  assumes "client_inv c" "applyOp env op (c, s) = Some (c', s')"
  shows "client_inv c'"
proof (cases op)
  case (OpSetProxy p)
  then show ?thesis using assms client_inv_SetProxy [OF assms(1)] by (auto split: prod.splits if_splits)
qed (use assms in \<open>auto intro!: client_inv_frame [OF assms(1)] simp: SetFollowRedirect_def applyFollowRedirect_def
    SetCookieJar_def AddPreRequestHook_def AddPostResponseHook_def ResetPostHooks_def ResetPreHooks_def Let_def
    split: option.splits if_splits\<close>)

text \<open>No operation changes the dialer the client was built with.\<close>

lemma SetProxy_keeps_dialer:
  assumes "SetProxy env p c storage = (r, c', storage')"
  shows "cl_dialer c' = cl_dialer c"
  using assms by (auto simp: SetProxy_def setProxyUrl_def split: option.splits prod.splits if_splits
      elim!: applyProxy_cases)

lemma applyOp_keeps_dialer: "applyOp env op (c, s) = Some (c', s') \<Longrightarrow> cl_dialer c' = cl_dialer c"
  by (cases op) (auto simp: SetFollowRedirect_def applyFollowRedirect_def SetCookieJar_def AddPreRequestHook_def
      AddPostResponseHook_def ResetPostHooks_def ResetPreHooks_def Let_def
      split: option.splits if_splits prod.splits dest: SetProxy_keeps_dialer)

interpretation client_ops: invariant_run "applyOp env" "\<lambda>(c, s). client_inv c" for env
  by unfold_locales (auto dest: client_inv_applyOp)

interpretation client_dialer: framed_run "applyOp env" "\<lambda>(c, s). cl_dialer c" for env
  by unfold_locales (auto dest: applyOp_keeps_dialer)

lemma client_inv_applyOps: "client_inv c \<Longrightarrow> applyOps env ops (c, s) = Some (c', s') \<Longrightarrow> client_inv c'"
  using client_ops.run_inv [of "(c, s)" env ops "(c', s')"] by (simp add: applyOps_def)

lemma applyOps_keeps_dialer: "applyOps env ops (c, s) = Some (c', s') \<Longrightarrow> cl_dialer c' = cl_dialer c"
  using client_dialer.run_view [of env ops "(c, s)" "(c', s')"] by (simp add: applyOps_def)

section \<open>Samples\<close>

definition sampleClientEnv :: "((string \<times> Header) list, string) clientEnv" where
  "sampleClientEnv = \<lparr>ce_fromURL = (\<lambda>_. True), ce_hpkp = memHpkp, ce_resumption = (\<lambda>_. False), ce_lru = 0\<rparr>"

definition sampleClient :: "nat HttpClientOption list \<Rightarrow> nat httpClient" where
  "sampleClient options =
     (case fst (NewHttpClient sampleClientEnv sampleProfile None options []) of
        Inr c \<Rightarrow> c | Inl _ \<Rightarrow> (case fst (NewHttpClient sampleClientEnv sampleProfile None [] []) of Inr c \<Rightarrow> c))"

lemmas client_sample_defs = sampleClient_def sampleClientEnv_def NewHttpClient_def defaultConfig_def
  validateConfig_def validateProxyConfig_def buildFromConfig_def chooseDialer_def newDirectDialer_def
  buildTransport_def newRoundTripper_def NewCertificatePinner_def init_def rtArgsOf_def redirectOf_def

section \<open>Properties\<close>

definition continues :: "hookResult \<Rightarrow> bool" where
  "continues r = (case r of HookOk \<Rightarrow> True | HookContinue _ \<Rightarrow> True | _ \<Rightarrow> False)"

text \<open>The context after hooks that all let the loop go on; \<^const>\<open>None\<close> if one of them does not.\<close>

fun throughHooks :: "postHook list \<Rightarrow> PostResponseContext \<Rightarrow> PostResponseContext option" where
  "throughHooks [] ctx = Some ctx"
| "throughHooks (h # hs) ctx = (if continues (fst (h ctx)) then throughHooks hs (snd (h ctx)) else None)"

lemma postHooksLoop_stop:
  "throughHooks before ctx = Some ctx' \<Longrightarrow> \<not> continues (fst (h ctx')) \<Longrightarrow>
   postHooksLoop (before @ h # rest) ctx n = n + Suc (length before)"
proof (induction before arbitrary: ctx n)
  case Nil
  then show ?case by (cases "h ctx'") (simp add: runPostHook_def continues_def split: hookResult.splits)
next
  case (Cons b bs)
  then have b: "continues (fst (b ctx))" "throughHooks bs (snd (b ctx)) = Some ctx'" by (auto split: if_splits)
  have "postHooksLoop ((b # bs) @ h # rest) ctx n = postHooksLoop (bs @ h # rest) (snd (b ctx)) (Suc n)"
    using b(1) by (cases "b ctx") (simp add: runPostHook_def continues_def split: hookResult.splits)
  also have "\<dots> = Suc n + Suc (length bs)" by (rule Cons.IH [OF b(2) Cons.prems(2)])
  finally show ?case by simp
qed

text \<open>C23: post-response hooks run in order up to the first that fails. When the first hooks return
  nothing or an error wrapping \<open>ErrContinueHooks\<close>, each seeing the context as the ones before left it, and the next one returns
  another error or panics, exactly those hooks are called and no later one, although the documentation of
  \<open>AddPostResponseHook\<close> and \<open>WithPostHook\<close> promises that all hooks are always executed.\<close>

theorem failing_post_hook_stops:
  assumes "cl_postHooks c = before @ h # rest"
    and "throughHooks before \<lparr>ctxRequest = req, ctxResponse = resp, ctxError = e\<rparr> = Some ctx"
    and "\<not> continues (fst (h ctx))"
  shows "executePostHooks c req resp e = Suc (length before)"
  using assms(1,3) postHooksLoop_stop [OF assms(2), of h rest 0] by (simp add: executePostHooks_def)

theorem failing_post_hook_stops_witness:
  "executePostHooks ((sampleClient [])\<lparr>cl_postHooks :=
       [\<lambda>ctx. (HookContinue ''a'', ctx\<lparr>ctxError := Some ClientPanic\<rparr>),
        \<lambda>ctx. (if ctxError ctx = None then HookOk else HookPanic ''b'', ctx), \<lambda>ctx. (HookOk, ctx)]\<rparr>)
     (sampleReq ''https'') None None = 2"
proof -
  let ?a = "\<lambda>ctx. (HookContinue ''a'', ctx\<lparr>ctxError := Some ClientPanic\<rparr>)"
  let ?b = "\<lambda>ctx. (if ctxError ctx = None then HookOk else HookPanic ''b'', ctx)" and ?c = "\<lambda>ctx. (HookOk, ctx)"
  have h: "cl_postHooks ((sampleClient [])\<lparr>cl_postHooks := [?a, ?b, ?c]\<rparr>) = [?a] @ ?b # [?c]" by simp
  let ?ctx = "\<lparr>ctxRequest = sampleReq ''https'', ctxResponse = None, ctxError = Some ClientPanic\<rparr>"
  have "throughHooks [?a] \<lparr>ctxRequest = sampleReq ''https'', ctxResponse = None, ctxError = None\<rparr> = Some ?ctx"
    "\<not> continues (fst (?b ?ctx))" by (simp_all add: continues_def)
  from failing_post_hook_stops [OF h, of "sampleReq ''https''" None None ?ctx] this show ?thesis by simp
qed

text \<open>C18: \<open>SetProxy\<close> hides its failure. When the new proxy can not be used and the old one can, \<open>SetProxy\<close>
  returns no error, and the client goes on with the old proxy.\<close>

theorem SetProxy_hides_failure:
  assumes "validateProxyConfig p (cl_config c) = None"
    and "applyProxy env (setProxyUrl p c) storage = (Some e, c1, storage1)" and "e \<noteq> ClientPanic"
    and "applyProxy env c storage1 = (None, c2, storage2)"
  shows "SetProxy env p c storage = (None, c2, storage2) \<and> GetProxy c2 = GetProxy c"
proof -
  have "c1 = setProxyUrl p c" using assms(2) by (auto elim: applyProxy_cases)
  then have "setProxyUrl (GetProxy c) c1 = c" by (simp add: setProxyUrl_def GetProxy_def)
  moreover have "GetProxy c2 = GetProxy c" using assms(4) by (cases rule: applyProxy_cases) (auto simp: GetProxy_def)
  ultimately show ?thesis using assms by (simp add: SetProxy_def GetProxy_def)
qed

theorem SetProxy_hides_failure_witness:
  "\<exists>c2. SetProxy sampleClientEnv ''ftp://p'' (sampleClient []) [] = (None, c2, []) \<and> GetProxy c2 = []"
proof -
  let ?c = "sampleClient []"
  have bad: "newConnectDialer (\<lambda>_. True) ''ftp://p'' t a d h = Inl (CDUnsupportedScheme ''ftp'')" for t a d h
  proof -
    have "url_Parse ''ftp://p'' = Inr (emptyURL\<lparr>Scheme := ''ftp'', Host := ''p''\<rparr>)" by code_simp
    then show ?thesis by (simp add: newConnectDialer_def Let_def)
  qed
  have v: "validateProxyConfig ''ftp://p'' (cl_config ?c) = None"
    by (simp add: client_sample_defs Let_def)
  have a: "applyProxy sampleClientEnv (setProxyUrl ''ftp://p'' ?c) [] =
      (Some (DialerError (CDUnsupportedScheme ''ftp'')), setProxyUrl ''ftp://p'' ?c, [])"
    by (simp add: applyProxy_def chooseDialer_def setProxyUrl_def sampleClientEnv_def bad)
      (simp add: client_sample_defs Let_def bad)
  have p: "GetProxy ?c = []" by (simp add: GetProxy_def client_sample_defs Let_def)
  obtain r c2 s2 where b: "applyProxy sampleClientEnv ?c [] = (r, c2, s2)" by (metis prod_cases3)
  have "r = None" "s2 = []" using b
    by (simp_all add: applyProxy_def client_sample_defs Let_def split: prod.splits)
  with SetProxy_hides_failure [OF v a _ b [unfolded \<open>r = None\<close>]] p show ?thesis by auto
qed

text \<open>C20: plain websockets bypass a proxy that was set later. After any sequence of calls, \<open>SetProxy\<close> among
  them, a websocket dials \<open>ws\<close> URLs with the dialer the client was built with.\<close>

theorem websocket_keeps_first_dialer:
  assumes "applyOps env ops (c, storage) = Some (c', storage')"
    and "NewWebsocket (options @ [WithTlsClient (Some c')]) = Inr (config, dialer)"
  shows "NetDialContext dialer = GetDialer c"
proof -
  have "ws_tlsClient (fold (\<lambda>opt c. opt c) (options @ [WithTlsClient (Some c')]) emptyWebsocketConfig) = Some c'"
    by (simp add: WithTlsClient_def)
  then have "NetDialContext dialer = GetDialer c'"
    using assms(2) by (auto simp: NewWebsocket_def Let_def split: option.splits)
  then show ?thesis using applyOps_keeps_dialer [OF assms(1)] by (simp add: GetDialer_def)
qed

lemma sampleClient_proxy: "GetProxy (sampleClient []) = []" "cfg_dialContext (cl_config (sampleClient [])) = None"
  "cfg_proxyDialerFactory (cl_config (sampleClient [])) = None" "cfg_enableProtocolRacing (cl_config (sampleClient [])) = False"
  "cfg_connectHeaders (cl_config (sampleClient [])) = Some []"
  by (simp_all add: GetProxy_def client_sample_defs Let_def)

lemma url_Parse_sample: "url_Parse ''http://p:80'' = Inr (emptyURL\<lparr>Scheme := ''http'', Host := ''p:80''\<rparr>)"
  by code_simp

lemma url_Port_sample: "url_Port (emptyURL\<lparr>Scheme := ''http'', Host := ''p:80''\<rparr>) = ''80''"
  by code_simp

lemma newConnectDialer_sample:
  "\<exists>d. newConnectDialer fromURL ''http://p:80'' t a nd (Some h) = Inr d"
  by (simp add: newConnectDialer_def url_Parse_sample url_Port_sample defaultPort_def newHTTPDialer_def Let_def)
    (simp add: emptyURL_def)

lemma SetProxy_sample:
  "\<exists>c' s'. SetProxy sampleClientEnv ''http://p:80'' (sampleClient []) [] = (None, c', s') \<and> GetProxy c' = ''http://p:80''"
proof -
  from newConnectDialer_sample obtain d
    where d: "newConnectDialer (ce_fromURL sampleClientEnv) ''http://p:80'' (sint (cfg_timeout (cl_config (sampleClient []))))
      (cfg_localAddr (cl_config (sampleClient []))) (cfg_dialer (cl_config (sampleClient []))) (Some []) = Inr d" by blast
  then show ?thesis
    by (simp add: SetProxy_def validateProxyConfig_def sampleClient_proxy applyProxy_def chooseDialer_def
        setProxyUrl_def GetProxy_def split: prod.splits)
qed

theorem websocket_keeps_first_dialer_witness:
  "\<exists>c' s' config dialer.
     applyOps sampleClientEnv [OpSetProxy ''http://p:80''] (sampleClient [], []) = Some (c', s') \<and>
     NewWebsocket ([WithUrl ''ws://a.com''] @ [WithTlsClient (Some c')]) = Inr (config, dialer) \<and>
     NetDialContext dialer = GetDialer (sampleClient [])"
proof -
  from SetProxy_sample obtain c' s'
    where "SetProxy sampleClientEnv ''http://p:80'' (sampleClient []) [] = (None, c', s')" by blast
  then have a: "applyOps sampleClientEnv [OpSetProxy ''http://p:80''] (sampleClient [], []) = Some (c', s')" by (simp add: applyOps_def)
  obtain config dialer where w: "NewWebsocket ([WithUrl ''ws://a.com''] @ [WithTlsClient (Some c')]) = Inr (config, dialer)"
    by (simp add: NewWebsocket_def WithUrl_def WithTlsClient_def emptyWebsocketConfig_def validateWebsocketConfig_def Let_def)
  from websocket_keeps_first_dialer [OF a w] a w show ?thesis by blast
qed

text \<open>With a custom dial function \<open>SetProxy\<close> reports a proxy that is not used. The combination is refused when a client is built,
  but \<open>SetProxy\<close> accepts it: it returns no error, \<open>GetProxy\<close> names the proxy, and every connection goes
  through the custom function as before.\<close>

theorem SetProxy_ignored_with_dialContext:
  assumes "cfg_dialContext (cl_config c) = Some f" and "validateProxyConfig p (cl_config c) = None"
    and "fst (applyProxy env (setProxyUrl p c) storage) = None"
  shows "\<exists>c' storage'. SetProxy env p c storage = (None, c', storage') \<and> GetProxy c' = p \<and>
    rt_dialer (cl_Transport c') = CustomDialer f"
proof -
  from assms(3) obtain c' s' where a: "applyProxy env (setProxyUrl p c) storage = (None, c', s')" by (metis prod.collapse)
  then have s: "SetProxy env p c storage = (None, c', s')" using assms(2) by (simp add: SetProxy_def)
  from a have "rt_dialer (cl_Transport c') = CustomDialer f \<and> GetProxy c' = p"
  proof (cases rule: applyProxy_cases)
    case (applied d rt)
    then have "d = CustomDialer f" using assms(1)
      by (auto simp: chooseDialer_def setProxyUrl_def split: sum.splits if_splits option.splits)
    then show ?thesis using applied buildTransport_inv(3) [OF applied(3)] by (simp add: setProxyUrl_def GetProxy_def)
  qed simp
  with s show ?thesis by blast
qed

theorem SetProxy_ignored_with_dialContext_witness:
  "\<exists>c' s'. SetProxy sampleClientEnv ''http://p:80'' (sampleClient [WithDialContext (Some 7)]) [] = (None, c', s') \<and>
     GetProxy c' = ''http://p:80'' \<and> rt_dialer (cl_Transport c') = CustomDialer 7"
proof -
  let ?c = "sampleClient [WithDialContext (Some 7)]"
  have cfg: "cfg_dialContext (cl_config ?c) = Some 7" "cfg_proxyDialerFactory (cl_config ?c) = None"
    "cfg_enableProtocolRacing (cl_config ?c) = False" "cfg_connectHeaders (cl_config ?c) = Some []"
    by (simp_all add: client_sample_defs WithDialContext_def Let_def)
  from newConnectDialer_sample obtain d
    where "newConnectDialer (ce_fromURL sampleClientEnv) ''http://p:80'' (sint (cfg_timeout (cl_config ?c)))
      (cfg_localAddr (cl_config ?c)) (cfg_dialer (cl_config ?c)) (Some []) = Inr d" by blast
  then have "fst (applyProxy sampleClientEnv (setProxyUrl ''http://p:80'' ?c) []) = None"
    by (simp add: applyProxy_def chooseDialer_def setProxyUrl_def cfg split: prod.splits)
  then show ?thesis
    by (intro SetProxy_ignored_with_dialContext [OF cfg(1)]) (simp_all add: validateProxyConfig_def cfg)
qed

text \<open>C22: \<open>WithCatchPanics\<close> turns a panic into a silent failure and a deadlock. A client whose default headers are nil and
  that catches panics returns neither a response nor an error for a request without headers, and
  every later request waits for ever for the lock that the first one holds.\<close>

theorem caught_panic_blocks_client:
  assumes "cfg_defaultHeaders (cl_config c) = None" and "cfg_catchPanics (cl_config c)"
    and "\<not> cl_headerLocked c" and "headerEntries (reqHeader req) = []"
    and "client_do env req c = (r, c')"
  shows "r = Returned (None, None) \<and> fst (client_do env' req' c') = Blocked"
  using assms by (auto simp: client_do_def prepareHeader_def headerAssign_def recovered_def)

theorem caught_panic_blocks_client_witness:
  "\<forall>env env' req'. fst (client_do env' req'
     (snd (client_do env (sampleReq ''https'') (sampleClient [WithDefaultHeaders None, WithCatchPanics])))) = Blocked"
proof (intro allI)
  fix env env' :: doEnv and req' :: Request
  let ?c = "sampleClient [WithDefaultHeaders None, WithCatchPanics]"
  have "cfg_defaultHeaders (cl_config ?c) = None" "cfg_catchPanics (cl_config ?c)" "\<not> cl_headerLocked ?c"
    "headerEntries (reqHeader (sampleReq ''https'')) = []"
    by (simp_all add: client_sample_defs WithDefaultHeaders_def WithCatchPanics_def Let_def sampleReq_def headerEntries_def)
  from caught_panic_blocks_client [OF this prod.collapse [symmetric]]
  show "fst (client_do env' req' (snd (client_do env (sampleReq ''https'') ?c))) = Blocked" by blast
qed

end
