(* ===== verification/Ja3.thy ===== *)
theory Ja3
  imports Profiles
begin

text \<open>
  Custom fingerprints: the name tables of \<^verbatim>\<open>mapper.go\<close> and the translation of a JA3 string with
  its companion lists into a ClientHello specification, \<^verbatim>\<open>ja3.go\<close>. Every function takes the
  constants of \<^verbatim>\<open>utls\<close> as its argument \<open>K\<close>.
\<close>

section \<open>mapper.go\<close>

definition H2SettingsMap :: "utls \<Rightarrow> (string \<times> u16) list" where
  "H2SettingsMap K =
    [(''HEADER_TABLE_SIZE'', settingVal K SettingHeaderTableSize),
     (''ENABLE_PUSH'', settingVal K SettingEnablePush),
     (''MAX_CONCURRENT_STREAMS'', settingVal K SettingMaxConcurrentStreams),
     (''INITIAL_WINDOW_SIZE'', settingVal K SettingInitialWindowSize),
     (''MAX_FRAME_SIZE'', settingVal K SettingMaxFrameSize),
     (''MAX_HEADER_LIST_SIZE'', settingVal K SettingMaxHeaderListSize),
     (''UNKNOWN_SETTING_7'', 0x7),
     (''UNKNOWN_SETTING_8'', 0x8),
     (''UNKNOWN_SETTING_9'', 0x9)]"

definition H3SettingsMap :: "(string \<times> u64) list" where
  "H3SettingsMap =
    [(''QPACK_MAX_TABLE_CAPACITY'', 0x1), (''MAX_FIELD_SECTION_SIZE'', 0x6),
     (''QPACK_BLOCKED_STREAMS'', 0x7), (''H3_DATAGRAM'', 0x33)]"

definition tlsVersions :: "utls \<Rightarrow> (string \<times> u16) list" where
  "tlsVersions K =
    [(''GREASE'', GREASE_PLACEHOLDER K), (''1.3'', versionVal K VersionTLS13),
     (''1.2'', versionVal K VersionTLS12), (''1.1'', versionVal K VersionTLS11),
     (''1.0'', versionVal K VersionTLS10)]"

definition delegatedCredentialsAlgorithms :: "utls \<Rightarrow> (string \<times> u16) list" where
  "delegatedCredentialsAlgorithms K =
    [(''PKCS1WithSHA256'', sigVal K PKCS1WithSHA256), (''PKCS1WithSHA384'', sigVal K PKCS1WithSHA384),
     (''PKCS1WithSHA512'', sigVal K PKCS1WithSHA512), (''PSSWithSHA256'', sigVal K PSSWithSHA256),
     (''PSSWithSHA384'', sigVal K PSSWithSHA384), (''PSSWithSHA512'', sigVal K PSSWithSHA512),
     (''ECDSAWithP256AndSHA256'', sigVal K ECDSAWithP256AndSHA256),
     (''ECDSAWithP384AndSHA384'', sigVal K ECDSAWithP384AndSHA384),
     (''ECDSAWithP521AndSHA512'', sigVal K ECDSAWithP521AndSHA512),
     (''PKCS1WithSHA1'', sigVal K PKCS1WithSHA1), (''ECDSAWithSHA1'', sigVal K ECDSAWithSHA1),
     (''Ed25519'', sigVal K Ed25519), (''SHA224_RSA'', sigVal K SHA224_RSA),
     (''SHA224_ECDSA'', sigVal K SHA224_ECDSA)]"

definition signatureAlgorithms :: "utls \<Rightarrow> (string \<times> u16) list" where
  "signatureAlgorithms K =
    [(''PKCS1WithSHA256'', sigVal K PKCS1WithSHA256), (''PKCS1WithSHA384'', sigVal K PKCS1WithSHA384),
     (''PKCS1WithSHA512'', sigVal K PKCS1WithSHA512), (''PSSWithSHA256'', sigVal K PSSWithSHA256),
     (''PSSWithSHA384'', sigVal K PSSWithSHA384), (''PSSWithSHA512'', sigVal K PSSWithSHA512),
     (''ECDSAWithP256AndSHA256'', sigVal K ECDSAWithP256AndSHA256),
     (''ECDSAWithP384AndSHA384'', sigVal K ECDSAWithP384AndSHA384),
     (''ECDSAWithP521AndSHA512'', sigVal K ECDSAWithP521AndSHA512),
     (''PKCS1WithSHA1'', sigVal K PKCS1WithSHA1), (''ECDSAWithSHA1'', sigVal K ECDSAWithSHA1),
     (''Ed25519'', sigVal K Ed25519), (''SHA224_RSA'', sigVal K SHA224_RSA),
     (''SHA224_ECDSA'', sigVal K SHA224_ECDSA),
     (''MLDSA44'', sigVal K MLDSA44), (''MLDSA65'', sigVal K MLDSA65), (''MLDSA87'', sigVal K MLDSA87),
     (''GREASE'', GREASE_PLACEHOLDER K)]"

definition kdfIds :: "utls \<Rightarrow> (string \<times> u16) list" where
  "kdfIds K = [(''HKDF_SHA256'', hpkeVal K HKDF_SHA256), (''HKDF_SHA384'', hpkeVal K HKDF_SHA384),
     (''HKDF_SHA512'', hpkeVal K HKDF_SHA512)]"

definition aeadIds :: "utls \<Rightarrow> (string \<times> u16) list" where
  "aeadIds K = [(''AEAD_AES_128_GCM'', hpkeVal K AEAD_AES_128_GCM),
     (''AEAD_AES_256_GCM'', hpkeVal K AEAD_AES_256_GCM),
     (''AEAD_CHACHA20_POLY1305'', hpkeVal K AEAD_CHACHA20_POLY1305)]"

definition curves :: "utls \<Rightarrow> (string \<times> u16) list" where
  "curves K =
    [(''GREASE'', GREASE_PLACEHOLDER K), (''P256'', groupVal K CurveP256), (''P384'', groupVal K CurveP384),
     (''P521'', groupVal K CurveP521), (''X25519'', groupVal K X25519),
     (''P256Kyber768'', groupVal K P256Kyber768Draft00),
     (''X25519Kyber512D'', groupVal K X25519Kyber512Draft00),
     (''X25519Kyber768'', groupVal K X25519Kyber768Draft00),
     (''X25519Kyber768Old'', groupVal K X25519Kyber768Draft00Old),
     (''X25519MLKEM768'', groupVal K X25519MLKEM768)]"

definition certCompression :: "utls \<Rightarrow> (string \<times> u16) list" where
  "certCompression K = [(''zlib'', certVal K CertCompressionZlib),
     (''brotli'', certVal K CertCompressionBrotli), (''zstd'', certVal K CertCompressionZstd)]"

section \<open>ja3.go: mapping names\<close>

definition extensionTrustAnchors :: u16 where "extensionTrustAnchors = 0xca34"

record CandidateCipherSuites =
  cKdfId :: string
  cAeadId :: string

text \<open>The first two loops of the factory: a known name, or else four hexadecimal digits.\<close>

fun mapAlgorithms :: "(string \<times> u16) list \<Rightarrow> (string \<Rightarrow> spec_error) \<Rightarrow> string list \<Rightarrow> spec_error + u16 list" where
  "mapAlgorithms tbl err [] = Inr []"
| "mapAlgorithms tbl err (a # as) =
     (case (case map_of tbl a of
              Some v \<Rightarrow> Inr v
            | None \<Rightarrow> (case parseUint a 16 16 of Inl _ \<Rightarrow> Inl (err a) | Inr n \<Rightarrow> Inr (of_nat n))) of
        Inl e \<Rightarrow> Inl e
      | Inr v \<Rightarrow> (case mapAlgorithms tbl err as of Inl e \<Rightarrow> Inl e | Inr vs \<Rightarrow> Inr (v # vs)))"

definition mapHpkeSuite :: "utls \<Rightarrow> CandidateCipherSuites \<Rightarrow> spec_error + HPKESymmetricCipherSuite" where
  "mapHpkeSuite K s =
     (case (map_of (kdfIds K) (cKdfId s), map_of (aeadIds K) (cAeadId s)) of
        (Some kdf, Some aead) \<Rightarrow> Inr \<lparr>KdfId = kdf, AeadId = aead\<rparr>
      | _ \<Rightarrow>
          (case parseUint (cKdfId s) 16 16 of
             Inl _ \<Rightarrow> Inl (BadKdfId (cKdfId s))
           | Inr kdf \<Rightarrow>
               (case parseUint (cAeadId s) 16 16 of
                  Inl _ \<Rightarrow> Inl (BadAeadId (cAeadId s))
                | Inr aead \<Rightarrow> Inr \<lparr>KdfId = of_nat kdf, AeadId = of_nat aead\<rparr>)))"

fun mapHpkeSuites :: "utls \<Rightarrow> CandidateCipherSuites list \<Rightarrow> spec_error + HPKESymmetricCipherSuite list" where
  "mapHpkeSuites K [] = Inr []"
| "mapHpkeSuites K (s # ss) =
     (case mapHpkeSuite K s of Inl e \<Rightarrow> Inl e
      | Inr v \<Rightarrow> (case mapHpkeSuites K ss of Inl e \<Rightarrow> Inl e | Inr vs \<Rightarrow> Inr (v # vs)))"

text \<open>The loops that skip what their table does not know.\<close>

definition mapKnown :: "(string \<times> u16) list \<Rightarrow> string list \<Rightarrow> u16 list" where
  "mapKnown tbl names = List.map_filter (map_of tbl) names"

definition mapKeyShares :: "utls \<Rightarrow> string list \<Rightarrow> KeyShare list" where
  "mapKeyShares K names = List.map_filter
     (\<lambda>n. case map_of (curves K) n of
            None \<Rightarrow> None
          | Some g \<Rightarrow> Some \<lparr>Group = g, KSData = (if n = ''GREASE'' then [0] else [])\<rparr>) names"

section \<open>ja3.go: the specification\<close>

text \<open>The loops that parse the numbers of a JA3 field.\<close>

fun parseNumbers :: "nat \<Rightarrow> string list \<Rightarrow> spec_error + nat list" where
  "parseNumbers bits [] = Inr []"
| "parseNumbers bits (s # ss) =
     (case parseUint s 10 bits of
        Inl e \<Rightarrow> Inl (BadNumber e)
      | Inr n \<Rightarrow> (case parseNumbers bits ss of Inl e \<Rightarrow> Inl e | Inr ns \<Rightarrow> Inr (n # ns)))"

definition dropEmptyField :: "string list \<Rightarrow> string list" where
  "dropEmptyField fs = (if length fs = 1 \<and> fs ! 0 = [] then [] else fs)"

definition getExtensionBaseMap :: "utls \<Rightarrow> (u16 \<times> TLSExtension) list" where
  "getExtensionBaseMap K =
    [(extVal K ExtensionServerName, SNIExtension),
     (extVal K ExtensionStatusRequest, StatusRequestExtension),
     (extVal K ExtensionSCT, SCTExtension),
     (extVal K ExtensionPadding, UtlsPaddingExtension BoringPaddingStyle False),
     (extVal K ExtensionExtendedMasterSecret, ExtendedMasterSecretExtension),
     (extVal K ExtensionSessionTicket, SessionTicketExtension),
     (extVal K ExtensionPreSharedKey, UtlsPreSharedKeyExtension False),
     (extVal K ExtensionEarlyData, GenericExtension (extVal K ExtensionEarlyData) []),
     (extVal K ExtensionCookie, CookieExtension),
     (extVal K ExtensionPSKModes, PSKKeyExchangeModesExtension [PskModeDHE K]),
     (extVal K ExtensionNextProtoNeg, NPNExtension),
     (extVal K ExtensionRenegotiationInfo, RenegotiationInfoExtension RenegotiateOnceAsClient)]"

text \<open>The lists the factory passes to \<open>stringToSpec\<close> beside the JA3 string.\<close>

record ja3Params =
  pSignatureAlgorithms :: "u16 list"
  pDelegatedCredentials :: "u16 list"
  pTlsVersions :: "u16 list"
  pKeyShares :: "KeyShare list"
  pHpkeSuites :: "HPKESymmetricCipherSuite list"
  pCandidatePayloads :: "u16 list"
  pALPN :: "string list"
  pALPS :: "string list"
  pCertCompression :: "u16 list"
  pRecordSizeLimit :: u16
  pTrustAnchors :: bytes

text \<open>The writes to \<open>extMap\<close>, in the order of the code.\<close>

definition buildExtMap :: "utls \<Rightarrow> ja3Params \<Rightarrow> u16 list \<Rightarrow> u8 list \<Rightarrow> (u16 \<times> TLSExtension) list" where
  "buildExtMap K p targetCurves targetPoints =
     (let m = getExtensionBaseMap K;
          m = mapPut (extVal K ExtensionSupportedCurves) (SupportedCurvesExtension targetCurves) m;
          m = (if pCertCompression p \<noteq> []
               then mapPut (extVal K ExtensionCompressCertificate) (UtlsCompressCertExtension (pCertCompression p)) m
               else m);
          m = mapPut (extVal K ExtensionKeyShare) (KeyShareExtension (pKeyShares p)) m;
          m = mapPut (extVal K ExtensionSupportedPoints) (SupportedPointsExtension targetPoints) m;
          m = mapPut (extVal K ExtensionECH)
                (GREASEEncryptedClientHelloExtension (pHpkeSuites p) (pCandidatePayloads p)) m;
          m = mapPut (extVal K ExtensionSupportedVersions) (SupportedVersionsExtension (pTlsVersions p)) m;
          m = mapPut (extVal K ExtensionSignatureAlgorithms)
                (SignatureAlgorithmsExtension (pSignatureAlgorithms p)) m;
          m = mapPut (extVal K ExtensionDelegatedCredentials)
                (DelegatedCredentialsExtension (pDelegatedCredentials p)) m;
          m = mapPut (extVal K ExtensionALPN) (ALPNExtension (pALPN p)) m;
          m = mapPut (extVal K ExtensionALPSOld) (ApplicationSettingsExtension (pALPS p)) m;
          m = mapPut (extVal K ExtensionALPS) (ApplicationSettingsExtensionNew (pALPS p)) m;
          m = (if pTrustAnchors p \<noteq> []
               then mapPut extensionTrustAnchors (GenericExtension extensionTrustAnchors (pTrustAnchors p)) m
               else m);
          m = mapPut (extVal K ExtensionRecordSizeLimit) (FakeRecordSizeLimitExtension (pRecordSizeLimit p)) m
      in m)"

text \<open>One iteration of the extension loop, and the loop.\<close>

definition lookupExtension :: "utls \<Rightarrow> (u16 \<times> TLSExtension) list \<Rightarrow> string \<Rightarrow> spec_error + TLSExtension" where
  "lookupExtension K extMap e =
     (case parseUint e 10 16 of
        Inl err \<Rightarrow> Inl (BadNumber err)
      | Inr eId \<Rightarrow>
          if of_nat eId = GREASE_PLACEHOLDER K then Inr UtlsGREASEExtension
          else (case map_of extMap (of_nat eId) of
                  Some te \<Rightarrow> Inr te
                | None \<Rightarrow> if of_nat eId = extensionTrustAnchors then Inl TrustAnchorsMissing
                          else Inl (UnknownExtension e)))"

fun lookupExtensions :: "utls \<Rightarrow> (u16 \<times> TLSExtension) list \<Rightarrow> string list \<Rightarrow> spec_error + TLSExtension list" where
  "lookupExtensions K extMap [] = Inr []"
| "lookupExtensions K extMap (e # es) =
     (case lookupExtension K extMap e of Inl err \<Rightarrow> Inl err
      | Inr te \<Rightarrow> (case lookupExtensions K extMap es of Inl err \<Rightarrow> Inl err | Inr tes \<Rightarrow> Inr (te # tes)))"

definition stringToSpec :: "utls \<Rightarrow> string \<Rightarrow> ja3Params \<Rightarrow> spec_error + ClientHelloSpec" where
  "stringToSpec K ja3 p =
     (let parts = splitOn (CHR '','') ja3 in
      if length parts < 5 then Inl SpecPanic
      else
        (let ciphers = splitOn (CHR ''-'') (parts ! 1);
             extensions = splitOn (CHR ''-'') (parts ! 2);
             curveFields = dropEmptyField (splitOn (CHR ''-'') (parts ! 3));
             pointFormats = dropEmptyField (splitOn (CHR ''-'') (parts ! 4))
         in case parseNumbers 16 curveFields of Inl e \<Rightarrow> Inl e
         | Inr targetCurves \<Rightarrow>
         (case parseNumbers 8 pointFormats of Inl e \<Rightarrow> Inl e
         | Inr targetPoints \<Rightarrow>
         (let extMap = buildExtMap K p (map of_nat targetCurves) (map of_nat targetPoints) in
          case lookupExtensions K extMap extensions of Inl e \<Rightarrow> Inl e
          | Inr exts \<Rightarrow>
          (case parseNumbers 16 ciphers of Inl e \<Rightarrow> Inl e
          | Inr suites \<Rightarrow>
             Inr \<lparr>CipherSuites = map of_nat suites, CompressionMethods = [CompressionNone K],
                  Extensions = exts, GetSessionID = Some Sha256Sum256\<rparr>)))))"

text \<open>The textual lists of a custom client.\<close>

record ja3Input =
  supportedSignatureAlgorithms :: "string list"
  supportedDelegatedCredentialsAlgorithms :: "string list"
  supportedVersions :: "string list"
  keyShareCurves :: "string list"
  supportedProtocolsALPN :: "string list"
  supportedProtocolsALPS :: "string list"
  echCandidateCipherSuites :: "CandidateCipherSuites list"
  candidatePayloads :: "u16 list"
  certCompressionAlgorithms :: "string list"
  recordSizeLimit :: u16
  trustAnchorsPayload :: string

definition ja3Factory :: "utls \<Rightarrow> string \<Rightarrow> ja3Input \<Rightarrow> bytes \<Rightarrow> specFactory" where
  "ja3Factory K ja3String i trustAnchors seed =
     (case mapAlgorithms (signatureAlgorithms K) BadSignatureAlgorithm (supportedSignatureAlgorithms i) of
        Inl e \<Rightarrow> Inl e
      | Inr sigs \<Rightarrow>
     (case mapAlgorithms (delegatedCredentialsAlgorithms K) BadDelegatedAlgorithm
             (supportedDelegatedCredentialsAlgorithms i) of
        Inl e \<Rightarrow> Inl e
      | Inr dels \<Rightarrow>
     (case mapHpkeSuites K (echCandidateCipherSuites i) of
        Inl e \<Rightarrow> Inl e
      | Inr hpke \<Rightarrow>
        stringToSpec K ja3String
          \<lparr>pSignatureAlgorithms = sigs, pDelegatedCredentials = dels,
           pTlsVersions = mapKnown (tlsVersions K) (supportedVersions i),
           pKeyShares = mapKeyShares K (keyShareCurves i), pHpkeSuites = hpke,
           pCandidatePayloads = candidatePayloads i, pALPN = supportedProtocolsALPN i,
           pALPS = supportedProtocolsALPS i,
           pCertCompression = mapKnown (certCompression K) (certCompressionAlgorithms i),
           pRecordSizeLimit = recordSizeLimit i, pTrustAnchors = trustAnchors\<rparr>)))"

definition GetSpecFactoryFromJa3String ::
  "utls \<Rightarrow> (nat \<Rightarrow> nat option) \<Rightarrow> string \<Rightarrow> ja3Input \<Rightarrow> spec_error + specFactory" where
  "GetSpecFactoryFromJa3String K draw ja3String i =
     (if trustAnchorsPayload i = [] then Inr (ja3Factory K ja3String i [])
      else (case BuildTrustAnchorsPayload draw (trustAnchorsPayload i) of
              TAError e \<Rightarrow> Inl (BadTrustAnchors e)
            | TAPanic \<Rightarrow> Inl SpecPanic
            | TAPayload ta \<Rightarrow> Inr (ja3Factory K ja3String i ta)))"

section \<open>Printing a JA3 string\<close>

text \<open>The JA3 format: five fields separated by commas, numbers in decimal separated by dashes.\<close>

definition ja3Field :: "nat list \<Rightarrow> string" where
  "ja3Field ns = joinWith (CHR ''-'') (map utoa ns)"

definition ja3Print :: "string \<Rightarrow> u16 list \<Rightarrow> u16 list \<Rightarrow> u16 list \<Rightarrow> u8 list \<Rightarrow> string" where
  "ja3Print version suites exts groups points =
     joinWith (CHR '','') [version, ja3Field (map unat suites), ja3Field (map unat exts),
       ja3Field (map unat groups), ja3Field (map unat points)]"

text \<open>What one extension number stands for, and the first number that stands for nothing.\<close>

definition extensionFor :: "utls \<Rightarrow> (u16 \<times> TLSExtension) list \<Rightarrow> u16 \<Rightarrow> TLSExtension option" where
  "extensionFor K extMap e = (if e = GREASE_PLACEHOLDER K then Some UtlsGREASEExtension else map_of extMap e)"

definition unknownError :: "u16 \<Rightarrow> spec_error" where
  "unknownError e = (if e = extensionTrustAnchors then TrustAnchorsMissing else UnknownExtension (utoa (unat e)))"

definition specExtensions :: "utls \<Rightarrow> (u16 \<times> TLSExtension) list \<Rightarrow> u16 list \<Rightarrow> spec_error + TLSExtension list" where
  "specExtensions K extMap es =
     (case find (\<lambda>e. extensionFor K extMap e = None) es of
        Some e \<Rightarrow> Inl (unknownError e)
      | None \<Rightarrow> Inr (map (the \<circ> extensionFor K extMap) es))"

lemma comma_notin_utoa [simp]: "CHR '','' \<notin> set (utoa n)" and dash_notin_utoa [simp]: "CHR ''-'' \<notin> set (utoa n)"
  by (simp_all add: utoa_no_char)

lemma comma_notin_ja3Field [simp]: "CHR '','' \<notin> set (ja3Field ns)"
proof
  assume "CHR '','' \<in> set (ja3Field ns)"
  then have "CHR '','' \<in> insert (CHR ''-'') (\<Union> (set ` set (map utoa ns)))"
    unfolding ja3Field_def by (rule subsetD [OF set_joinWith_subset])
  then show False by auto
qed

lemma split_ja3Field: "ns \<noteq> [] \<Longrightarrow> splitOn (CHR ''-'') (ja3Field ns) = map utoa ns"
  unfolding ja3Field_def by (rule splitOn_joinWith) auto

lemma dropEmpty_ja3Field: "dropEmptyField (splitOn (CHR ''-'') (ja3Field ns)) = map utoa ns"
proof (cases "ns = []")
  case False
  then have "\<not> (length (map utoa ns) = 1 \<and> map utoa ns ! 0 = [])" by auto
  with False show ?thesis by (simp add: split_ja3Field dropEmptyField_def del: length_map)
qed (simp add: ja3Field_def dropEmptyField_def)

lemma split_ja3Print:
  assumes "CHR '','' \<notin> set version"
  shows "splitOn (CHR '','') (ja3Print version suites exts groups points) =
    [version, ja3Field (map unat suites), ja3Field (map unat exts), ja3Field (map unat groups),
     ja3Field (map unat points)]"
  unfolding ja3Print_def by (rule splitOn_joinWith) (use assms in auto)

lemma parseNumbers_utoa: "(\<And>n. n \<in> set ns \<Longrightarrow> n < 2 ^ b) \<Longrightarrow> parseNumbers b (map utoa ns) = Inr ns"
  by (induction ns) auto

lemma unat_u16_less: "unat (w :: u16) < 2 ^ 16"
  using unsigned_less [of w] by simp

lemma parseNumbers_u16: "parseNumbers 16 (map utoa (map unat (ws :: u16 list))) = Inr (map unat ws)"
  by (rule parseNumbers_utoa) (use unat_u16_less in auto)

lemma parseNumbers_u8: "parseNumbers 8 (map utoa (map unat (ws :: u8 list))) = Inr (map unat ws)"
  by (rule parseNumbers_utoa) auto

lemma lookupExtension_utoa:
  "lookupExtension K m (utoa (unat e)) =
     (case extensionFor K m e of Some te \<Rightarrow> Inr te | None \<Rightarrow> Inl (unknownError e))"
  by (simp add: lookupExtension_def extensionFor_def unknownError_def parseUint_utoa [OF unat_u16_less]
      split: option.splits)

lemma lookupExtensions_utoa: "lookupExtensions K m (map utoa (map unat es)) = specExtensions K m es"
  by (induction es) (auto simp: specExtensions_def lookupExtension_utoa split: option.splits)

lemma length_splitOn: "length (splitOn c s) = Suc (count_list s c)"
  by (induction s) (auto split: list.splits)

section \<open>Properties\<close>

text \<open>C37: a JA3 string is read back exactly. For every list of cipher suites, extensions, curves
  and point formats that is printed in the JA3 format, the specification has exactly those suites
  and the extensions of those numbers, in that order; the first number that is neither GREASE nor
  in the extension map is reported by its error, and no extension is ever dropped.\<close>

theorem stringToSpec_print:
  assumes "CHR '','' \<notin> set version" and "suites \<noteq> []" and "exts \<noteq> []"
  shows "stringToSpec K (ja3Print version suites exts groups points) p =
    (case specExtensions K (buildExtMap K p groups points) exts of
       Inl e \<Rightarrow> Inl e
     | Inr tes \<Rightarrow> Inr \<lparr>CipherSuites = suites, CompressionMethods = [CompressionNone K],
                       Extensions = tes, GetSessionID = Some Sha256Sum256\<rparr>)"
proof -
  have round: "map of_nat (map unat ws) = ws" for ws :: "'x::len word list"
    by (induction ws) simp_all
  have s: "splitOn (CHR ''-'') (ja3Field (map unat suites)) = map utoa (map unat suites)"
    and e: "splitOn (CHR ''-'') (ja3Field (map unat exts)) = map utoa (map unat exts)"
    using assms by (simp_all only: split_ja3Field map_is_Nil_conv simp_thms)
  show ?thesis
    by (simp add: stringToSpec_def split_ja3Print [OF assms(1)] s e dropEmpty_ja3Field
        parseNumbers_u16 parseNumbers_u8 lookupExtensions_utoa round del: map_map cong: sum.case_cong)
qed

theorem stringToSpec_print_witness:
  "map_sum id CipherSuites (stringToSpec ianaUtls (ja3Print ''771'' [0x1301, 0xc02b] [0, 0x0a0a, 10] [29] [0])
     \<lparr>pSignatureAlgorithms = [], pDelegatedCredentials = [], pTlsVersions = [], pKeyShares = [],
      pHpkeSuites = [], pCandidatePayloads = [], pALPN = [], pALPS = [], pCertCompression = [],
      pRecordSizeLimit = 0, pTrustAnchors = []\<rparr>) = Inr [0x1301, 0xc02b]"
proof -
  have "CHR '','' \<notin> set ''771''" "[0x1301 :: u16, 0xc02b] \<noteq> []" "[0 :: u16, 0x0a0a, 10] \<noteq> []"
    by simp_all
  from stringToSpec_print [OF this] show ?thesis
    by (simp add: specExtensions_def extensionFor_def buildExtMap_def ianaUtls_def getExtensionBaseMap_def
        Let_def)
qed

text \<open>C38: a JA3 string panics exactly when it has fewer than four commas: the fields are indexed
  without a check of their number, so a malformed string is a run-time panic and not an error.\<close>

theorem stringToSpec_panics_iff:
  "stringToSpec K ja3 p = Inl SpecPanic \<longleftrightarrow> count_list ja3 (CHR '','') < 4"
proof -
  have n: "parseNumbers b fs \<noteq> Inl SpecPanic" for b fs
    by (induction b fs rule: parseNumbers.induct) (auto split: sum.splits)
  have l1: "lookupExtension K m e \<noteq> Inl SpecPanic" for m e
    by (auto simp: lookupExtension_def split: sum.splits option.splits)
  have l: "lookupExtensions K m es \<noteq> Inl SpecPanic" for m es
    by (induction es) (auto simp: l1 split: sum.splits)
  show ?thesis
    by (auto simp: stringToSpec_def length_splitOn Let_def n l split: sum.splits)
qed

end
