(* ===== verification/Cffi.thy ===== *)
theory Cffi
  imports Client Ja3
begin

text \<open>
  The foreign function interface: sessions, clients, requests and responses of
  \<^verbatim>\<open>cffi_src/factory.go\<close> with the types of \<^verbatim>\<open>cffi_src/types.go\<close>, and the exported functions with their memory
  of \<^verbatim>\<open>cffi_dist/main.go\<close>. A session that holds nil is \<^term>\<open>Some None\<close>; calling a method of nil
  panics. JSON, the file system, decompression and the conversion of character sets are arguments.
\<close>

section \<open>types.go\<close>

record cffiTransportOptions =
  ct_IdleConnTimeout :: "i64 option"
  ct_MaxIdleConns :: int
  ct_MaxIdleConnsPerHost :: int
  ct_MaxConnsPerHost :: int
  ct_MaxResponseHeaderBytes :: i64
  ct_WriteBufferSize :: int
  ct_ReadBufferSize :: int
  ct_DisableKeepAlives :: bool
  ct_DisableCompression :: bool

record CandidateCipherSuite =
  kdfId :: string
  aeadId :: string

definition Translate :: "CandidateCipherSuite list \<Rightarrow> CandidateCipherSuites list" where
  "Translate c = map (\<lambda>suite. \<lparr>cKdfId = kdfId suite, cAeadId = aeadId suite\<rparr>) c"

record PriorityFrames =
  framePriorityParam :: PriorityParam
  frameStreamID :: u32

record CustomTlsClient =
  H2Settings :: "(string \<times> u32) list"
  H2SettingsOrder :: "string list"
  H3Settings :: "(string \<times> u64) list"
  H3SettingsOrder :: "string list"
  H3PseudoHeaderOrder :: "string list"
  HeaderPriority :: "PriorityParam option"
  CertCompressionAlgos :: "string list"
  Ja3String :: string
  TrustAnchorsPayload :: string
  KeyShareCurves :: "string list"
  ALPNProtocols :: "string list"
  ALPSProtocols :: "string list"
  ECHCandidatePayloads :: "u16 list"
  ECHCandidateCipherSuites :: "CandidateCipherSuite list"
  PriorityFramesField :: "PriorityFrames list"
  PseudoHeaderOrder :: "string list"
  SupportedDelegatedCredentialsAlgorithms :: "string list"
  SupportedSignatureAlgorithms :: "string list"
  SupportedVersions :: "string list"
  ConnectionFlow :: u32
  RecordSizeLimit :: u16
  StreamId :: u32
  H3PriorityParam :: u32
  H3SendGreaseFrames :: bool
  AllowHttp :: bool

record cffiCookie =
  c_Expires :: int
  c_Domain :: string
  c_Name :: string
  c_Path :: string
  c_Value :: string
  c_MaxAge :: int
  c_Secure :: bool
  c_HttpOnly :: bool

record RequestInput =
  CertificatePinningHosts :: "(string \<times> string list) list"
  CustomTlsClientInput :: "CustomTlsClient option"
  TransportOptionsInput :: "cffiTransportOptions option"
  Headers :: "(string \<times> string) list"
  DefaultHeaders :: httpHeader
  ConnectHeaders :: httpHeader
  LocalAddress :: "string option"
  ServerNameOverwrite :: "string option"
  ProxyUrlInput :: "string option"
  RequestBody :: "string option"
  RequestHostOverride :: "string option"
  SessionId :: "string option"
  StreamOutputBlockSize :: "int option"
  StreamOutputEOFSymbol :: "string option"
  StreamOutputPath :: "string option"
  RequestMethod :: string
  RequestUrl :: string
  TLSClientIdentifier :: string
  HeaderOrder :: "string list"
  RequestCookies :: "cffiCookie list"
  TimeoutMilliseconds :: int
  TimeoutSeconds :: int
  CatchPanics :: bool
  FollowRedirects :: bool
  ForceHttp1 :: bool
  DisableHttp3 :: bool
  DisableSessionTickets :: bool
  WithProtocolRacingInput :: bool
  InsecureSkipVerifyInput :: bool
  IsByteRequest :: bool
  IsByteResponse :: bool
  IsRotatingProxy :: bool
  DisableIPV6 :: bool
  DisableIPV4 :: bool
  WithDebugInput :: bool
  WithCustomCookieJar :: bool
  WithoutCookieJar :: bool
  WithRandomTLSExtensionOrderInput :: bool

record cffiResponse =
  rCookies :: "(string \<times> string) list"
  rHeaders :: httpHeader
  rId :: string
  rBody :: string
  rSessionId :: string
  rTarget :: "URL option"
  rUsedProtocol :: string
  rStatus :: nat

datatype cffi_error =
    IdentifierAndCustom
  | BothTimeouts
  | ModifyFailed "client_error option"
  | CustomClientFailed spec_error
  | LocalAddressFailed
  | ClientFailed client_error
  | NoUrlOrMethod
  | Base64Failed
  | NewRequestFailed
  | CharsetFailed
  | FileOpenFailed
  | StreamWriteFailed
  | StreamReadFailed
  | NoClient string
  | BadUrl url_error
  | RequestDoFailed client_error
  | ResponseNil
  | BadJson

section \<open>Profiles\<close>

definition resolveSettings :: "(string \<times> 'k) list \<Rightarrow> (string \<times> 'v) list \<Rightarrow> ('k \<times> 'v) list" where
  "resolveSettings tbl sets =
     fold (\<lambda>(key, value) m. case map_of tbl key of None \<Rightarrow> m | Some k \<Rightarrow> mapPut k value m) sets []"

definition resolveOrder :: "(string \<times> 'k) list \<Rightarrow> string list \<Rightarrow> 'k list" where
  "resolveOrder tbl order = List.map_filter (map_of tbl) order"

definition ja3InputOf :: "CustomTlsClient \<Rightarrow> ja3Input" where
  "ja3InputOf d =
     \<lparr>supportedSignatureAlgorithms = SupportedSignatureAlgorithms d,
      supportedDelegatedCredentialsAlgorithms = SupportedDelegatedCredentialsAlgorithms d,
      supportedVersions = SupportedVersions d, keyShareCurves = KeyShareCurves d,
      supportedProtocolsALPN = ALPNProtocols d, supportedProtocolsALPS = ALPSProtocols d,
      echCandidateCipherSuites = Translate (ECHCandidateCipherSuites d),
      candidatePayloads = ECHCandidatePayloads d, certCompressionAlgorithms = CertCompressionAlgos d,
      recordSizeLimit = RecordSizeLimit d, trustAnchorsPayload = TrustAnchorsPayload d\<rparr>"

definition getCustomTlsClientProfile ::
  "utls \<Rightarrow> (nat \<Rightarrow> nat option) \<Rightarrow> CustomTlsClient \<Rightarrow> spec_error + ClientProfile" where
  "getCustomTlsClientProfile K draw d =
     (case GetSpecFactoryFromJa3String K draw (Ja3String d) (ja3InputOf d) of
        Inl e \<Rightarrow> Inl e
      | Inr specFactory \<Rightarrow>
          Inr (NewClientProfile
            (FactoryHello \<lparr>Client = ''Custom'', RandomExtensionOrder = False, Version = ''1'', SpecFactory = specFactory\<rparr>)
            (Some (resolveSettings (H2SettingsMap K) (H2Settings d)))
            (resolveOrder (H2SettingsMap K) (H2SettingsOrder d)) (PseudoHeaderOrder d) (ConnectionFlow d)
            (map (\<lambda>f. \<lparr>StreamID = frameStreamID f, PrioParam = framePriorityParam f\<rparr>) (PriorityFramesField d))
            (HeaderPriority d) (StreamId d) (AllowHttp d)
            (Some (resolveSettings H3SettingsMap (H3Settings d)))
            (resolveOrder H3SettingsMap (H3SettingsOrder d)) (H3PriorityParam d) (H3PseudoHeaderOrder d)
            (H3SendGreaseFrames d)))"

definition getTlsClientProfile :: "(string \<Rightarrow> ClientProfile option) \<Rightarrow> ClientProfile \<Rightarrow> string \<Rightarrow> ClientProfile" where
  "getTlsClientProfile MappedTLSClients DefaultClientProfile ident =
     (case MappedTLSClients ident of None \<Rightarrow> DefaultClientProfile | Some p \<Rightarrow> p)"

section \<open>Sessions\<close>

type_synonym 'j clients = "string \<Rightarrow> 'j httpClient option option"

text \<open>\<open>CloseIdleConnections\<close> on nil panics; the sessions are visited in the given order.\<close>

definition RemoveSession :: "string \<Rightarrow> 'j clients \<Rightarrow> unit outcome \<times> 'j clients" where
  "RemoveSession sessionId clients =
     (case clients sessionId of
        None \<Rightarrow> (Returned (), clients)
      | Some None \<Rightarrow> (Panicked, clients)
      | Some (Some _) \<Rightarrow> (Returned (), clients(sessionId := None)))"

definition ClearSessionCache :: "string list \<Rightarrow> 'j clients \<Rightarrow> unit outcome \<times> 'j clients" where
  "ClearSessionCache sessionIds clients =
     (if \<exists>s \<in> set sessionIds. clients s = Some None then (Panicked, clients)
      else (Returned (), (\<lambda>_. None)))"

definition GetClient :: "string \<Rightarrow> 'j clients \<Rightarrow> cffi_error + 'j httpClient option" where
  "GetClient sessionId clients =
     (case clients sessionId of None \<Rightarrow> Inl (NoClient sessionId) | Some client \<Rightarrow> Inr client)"

text \<open>The client is changed in place: the result says whether it succeeded and what the client is now.\<close>

definition handleModification ::
  "('s, 'c) clientEnv \<Rightarrow> 'j httpClient option \<Rightarrow> string option \<Rightarrow> bool \<Rightarrow> bool \<Rightarrow> 's
   \<Rightarrow> (cffi_error + bool) outcome \<times> 'j httpClient option \<times> 's" where
  "handleModification env client proxyUrl followRedirects isRotatingProxy storage =
     (case client of
        None \<Rightarrow> (Returned (Inl (ModifyFailed None)), None, storage)
      | Some c \<Rightarrow>
          (let change = (case proxyUrl of None \<Rightarrow> None
                         | Some p \<Rightarrow> if GetProxy c \<noteq> p \<or> isRotatingProxy then Some p else None);
               (r, c, storage) = (case change of None \<Rightarrow> (None, c, storage) | Some p \<Rightarrow> SetProxy env p c storage)
           in case r of
                Some ClientPanic \<Rightarrow> (Panicked, Some c, storage)
              | Some e \<Rightarrow> (Returned (Inl (ModifyFailed (Some e))), Some c, storage)
              | None \<Rightarrow>
                  (let differs = (GetFollowRedirect c \<noteq> followRedirects);
                       c = (if differs then SetFollowRedirect followRedirects c else c)
                   in (Returned (Inr (change \<noteq> None \<or> differs)), Some c, storage))))"

text \<open>The options of a new client, in the order of the code. \<open>jars\<close> are the two jars it may use: the one of
  \<open>fhttp\<close>, and the jar of this package with or without its debug logger.\<close>

definition transportOptionsOf :: "cffiTransportOptions \<Rightarrow> TransportOptions" where
  "transportOptionsOf t =
     \<lparr>KeyLogWriter = None, IdleConnTimeout = ct_IdleConnTimeout t, RootCAs = None, Certificates = [],
      MaxIdleConns = ct_MaxIdleConns t, MaxIdleConnsPerHost = ct_MaxIdleConnsPerHost t,
      MaxConnsPerHost = ct_MaxConnsPerHost t, MaxResponseHeaderBytes = ct_MaxResponseHeaderBytes t,
      WriteBufferSize = ct_WriteBufferSize t, ReadBufferSize = ct_ReadBufferSize t,
      DisableKeepAlives = ct_DisableKeepAlives t, DisableCompression = ct_DisableCompression t\<rparr>"

definition optionsOf ::
  "'j \<times> (bool \<Rightarrow> 'j) \<Rightarrow> ClientProfile \<Rightarrow> string option \<Rightarrow> RequestInput \<Rightarrow> 'j HttpClientOption list" where
  "optionsOf jars profile localAddr i =
     [if TimeoutMilliseconds i \<noteq> 0 then WithTimeoutMilliseconds (TimeoutMilliseconds i)
      else if TimeoutSeconds i \<noteq> 0 then WithTimeoutSeconds (TimeoutSeconds i) else WithTimeoutSeconds 30,
      WithClientProfile profile]
     @ (if WithRandomTLSExtensionOrderInput i then [WithRandomTLSExtensionOrder] else [])
     @ (if ForceHttp1 i then [WithForceHttp1] else [])
     @ (if DisableHttp3 i then [WithDisableHttp3] else [])
     @ (if DisableSessionTickets i then [WithDisableSessionTickets] else [])
     @ (if WithProtocolRacingInput i then [WithProtocolRacing] else [])
     @ (if DisableIPV6 i then [WithDisableIPV6] else [])
     @ (if DisableIPV4 i then [WithDisableIPV4] else [])
     @ (case TransportOptionsInput i of None \<Rightarrow> [] | Some t \<Rightarrow> [WithTransportOptions (Some (transportOptionsOf t))])
     @ (case localAddr of None \<Rightarrow> [] | Some a \<Rightarrow> [WithLocalAddr a])
     @ (if CatchPanics i then [WithCatchPanics] else [])
     @ (if CertificatePinningHosts i \<noteq> [] then [WithCertificatePinning (CertificatePinningHosts i) False] else [])
     @ (if WithDebugInput i then [WithDebug] else [])
     @ (if \<not> WithoutCookieJar i
        then [WithCookieJar (Some (if WithCustomCookieJar i then snd jars (WithDebugInput i) else fst jars))] else [])
     @ (if \<not> FollowRedirects i then [WithNotFollowRedirects] else [])
     @ (if InsecureSkipVerifyInput i then [WithInsecureSkipVerify] else [])
     @ (if headerEntries (DefaultHeaders i) \<noteq> [] then [WithDefaultHeaders (DefaultHeaders i)] else [])
     @ (if headerEntries (ConnectHeaders i) \<noteq> [] then [WithConnectHeaders (ConnectHeaders i)] else [])
     @ (case ServerNameOverwrite i of Some s \<Rightarrow> if s \<noteq> [] then [WithServerNameOverwrite s] else [] | None \<Rightarrow> [])
     @ (case ProxyUrlInput i of Some p \<Rightarrow> if p \<noteq> [] then [WithProxyUrl p] else [] | None \<Rightarrow> [])"

text \<open>What building a client needs beside the client itself: the constants of \<open>utls\<close>, the random source of the trust
  anchors, the table of profiles, the resolver of local addresses and the jars.\<close>

record ('s, 'c, 'j) factoryEnv =
  f_client :: "('s, 'c) clientEnv"
  f_utls :: utls
  f_draw :: "nat \<Rightarrow> nat option"
  f_mapped :: "string \<Rightarrow> ClientProfile option"
  f_default :: ClientProfile
  f_resolveTCPAddr :: "string \<Rightarrow> string option"
  f_jars :: "'j \<times> (bool \<Rightarrow> 'j)"

definition profileOf :: "('s, 'c, 'j) factoryEnv \<Rightarrow> RequestInput \<Rightarrow> cffi_error + ClientProfile" where
  "profileOf env i =
     (case (case CustomTlsClientInput i of
              None \<Rightarrow> Inr (f_default env)
            | Some d \<Rightarrow> getCustomTlsClientProfile (f_utls env) (f_draw env) d) of
        Inl e \<Rightarrow> Inl (CustomClientFailed e)
      | Inr p \<Rightarrow> Inr (if TLSClientIdentifier i \<noteq> []
                      then getTlsClientProfile (f_mapped env) (f_default env) (TLSClientIdentifier i) else p))"

definition getTlsClient ::
  "('s, 'c, 'j) factoryEnv \<Rightarrow> RequestInput \<Rightarrow> string \<Rightarrow> bool \<Rightarrow> 'j clients \<Rightarrow> 's
   \<Rightarrow> (cffi_error + 'j httpClient option) outcome \<times> 'j clients \<times> 's" where
  "getTlsClient env i sessionId withSession clients storage =
     (case (if withSession then clients sessionId else None) of
        Some client \<Rightarrow>
          (case handleModification (f_client env) client (ProxyUrlInput i) (FollowRedirects i) (IsRotatingProxy i) storage of
             (Panicked, client, storage) \<Rightarrow> (Panicked, clients(sessionId := Some client), storage)
           | (Blocked, client, storage) \<Rightarrow> (Blocked, clients(sessionId := Some client), storage)
           | (Returned (Inl e), client, storage) \<Rightarrow> (Returned (Inl e), clients(sessionId := Some client), storage)
           | (Returned (Inr _), client, storage) \<Rightarrow> (Returned (Inr client), clients(sessionId := Some client), storage))
      | None \<Rightarrow>
          (case profileOf env i of
             Inl e \<Rightarrow> (if e = CustomClientFailed SpecPanic then Panicked else Returned (Inl e), clients, storage)
           | Inr profile \<Rightarrow>
               (case (case LocalAddress i of
                        None \<Rightarrow> Inr None
                      | Some a \<Rightarrow> (case f_resolveTCPAddr env a of None \<Rightarrow> Inl LocalAddressFailed | Some r \<Rightarrow> Inr (Some r))) of
                  Inl e \<Rightarrow> (Returned (Inl e), clients, storage)
                | Inr localAddr \<Rightarrow>
                    (case NewHttpClient (f_client env) (f_default env) (Some NewNoopLogger)
                            (optionsOf (f_jars env) profile localAddr i) storage of
                       (Inl ClientPanic, storage) \<Rightarrow> (Panicked, clients, storage)
                     | (Inl e, storage) \<Rightarrow>
                         (Returned (Inl (ClientFailed e)), if withSession then clients(sessionId := Some None) else clients, storage)
                     | (Inr c, storage) \<Rightarrow>
                         (Returned (Inr (Some c)), if withSession then clients(sessionId := Some (Some c)) else clients, storage)))))"

text \<open>The client, the session it belongs to (a fresh identifier without a session) and whether there is a session.\<close>

definition CreateClient ::
  "('s, 'c, 'j) factoryEnv \<Rightarrow> string \<Rightarrow> RequestInput \<Rightarrow> 'j clients \<Rightarrow> 's
   \<Rightarrow> (cffi_error + 'j httpClient option) outcome \<times> string \<times> bool \<times> 'j clients \<times> 's" where
  "CreateClient env uuid i clients storage =
     (let (newSessionId, useSession) =
        (case SessionId i of Some s \<Rightarrow> if s \<noteq> [] then (s, True) else (uuid, False) | None \<Rightarrow> (uuid, False))
      in if TLSClientIdentifier i \<noteq> [] \<and> CustomTlsClientInput i \<noteq> None
         then (Returned (Inl IdentifierAndCustom), newSessionId, useSession, clients, storage)
         else if TimeoutSeconds i \<noteq> 0 \<and> TimeoutMilliseconds i \<noteq> 0
         then (Returned (Inl BothTimeouts), newSessionId, useSession, clients, storage)
         else (case getTlsClient env i newSessionId useSession clients storage of
                 (r, clients, storage) \<Rightarrow> (r, newSessionId, useSession, clients, storage)))"

section \<open>Requests and responses\<close>

text \<open>\<open>http.NewRequest\<close> and the decoder of base64 are arguments, \<^const>\<open>None\<close> is an error. Writing the host of a
  request that could not be built panics.\<close>

definition BuildRequest ::
  "string \<Rightarrow> (string \<Rightarrow> bytes option) \<Rightarrow> (string \<Rightarrow> string \<Rightarrow> bytes option \<Rightarrow> Request option) \<Rightarrow> RequestInput
   \<Rightarrow> (cffi_error + Request) outcome" where
  "BuildRequest orderKey b64Decode NewRequest i =
     (if RequestMethod i = [] \<or> RequestUrl i = [] then Returned (Inl NoUrlOrMethod)
      else
        (let body = (case RequestBody i of
               None \<Rightarrow> Inr None
             | Some b \<Rightarrow>
                 if b = [] then Inr None
                 else if IsByteRequest i then (case b64Decode b of None \<Rightarrow> Inl Base64Failed | Some d \<Rightarrow> Inr (Some d))
                 else Inr (Some (bytes_of_string b)))
         in case body of
              Inl e \<Rightarrow> Returned (Inl e)
            | Inr body \<Rightarrow>
                (case NewRequest (RequestMethod i) (RequestUrl i) body of
                   None \<Rightarrow> if RequestHostOverride i \<noteq> None then Panicked else Returned (Inl NewRequestFailed)
                 | Some req \<Rightarrow>
                     (let req = (case RequestHostOverride i of None \<Rightarrow> req | Some h \<Rightarrow> req\<lparr>reqHost := h\<rparr>);
                          headers = fold (\<lambda>(k, v) m. headerPut k [v] m) (Headers i) [];
                          headers = headerPut orderKey (HeaderOrder i) headers
                      in Returned (Inr (req\<lparr>reqHeader := Some headers\<rparr>))))))"

text \<open>
  Streaming a body into a file. A reader is the bytes it still has and whether it ends in an error: a read into a buffer
  of \<open>n\<close> bytes gives the next \<open>n\<close> bytes at most, and the end or the error once nothing is left. A read into an empty
  buffer gives nothing and no error, but a reader may report its end even then (\<open>endsOnEmpty\<close>). A file has the bytes it holds and the room that is left for it, \<^const>\<open>None\<close> for no
  limit; a write that does not fit writes what fits and fails. For a positive block size the way a reader cuts the body into
  shorter reads makes no difference to the file, so a read fills its buffer here; a block size for which the buffer can not be allocated
  is not considered. The loop has no bound of its own: it is undefined
  (\<^const>\<open>None\<close>) when it does not end.
\<close>

record outFile =
  contents :: bytes
  room :: "nat option"

definition fileWrite :: "bytes \<Rightarrow> outFile \<Rightarrow> bool \<times> outFile" where
  "fileWrite bs f =
     (case room f of
        None \<Rightarrow> (True, f\<lparr>contents := contents f @ bs\<rparr>)
      | Some r \<Rightarrow> (length bs \<le> r, f\<lparr>contents := contents f @ take r bs, room := Some (r - length bs)\<rparr>))"

partial_function (option) streamLoop ::
  "nat \<Rightarrow> bool \<Rightarrow> bool \<Rightarrow> outFile \<Rightarrow> bytes \<Rightarrow> (cffi_error option \<times> outFile) option" where
  "streamLoop blockSize endsOnEmpty readFails f body =
     (case fileWrite (take blockSize body) f of
        (ok, f') \<Rightarrow>
          if \<not> ok then Some (Some StreamWriteFailed, f')
          else if body = [] \<and> (blockSize \<noteq> 0 \<or> endsOnEmpty)
          then Some (if readFails then Some StreamReadFailed else None, f')
          else streamLoop blockSize endsOnEmpty readFails f' (drop blockSize body))"

text \<open>The file is opened first, \<^const>\<open>None\<close> when that fails. The write of the end symbol is not checked.\<close>

definition readAllBodyWithStreamToFile ::
  "RequestInput \<Rightarrow> bool \<Rightarrow> bool \<Rightarrow> outFile option \<Rightarrow> bytes \<Rightarrow> (cffi_error option \<times> outFile option) outcome" where
  "readAllBodyWithStreamToFile i endsOnEmpty readFails target body =
     (case target of
        None \<Rightarrow> Returned (Some FileOpenFailed, None)
      | Some f \<Rightarrow>
          (let blockSize = (case StreamOutputBlockSize i of None \<Rightarrow> 1024 | Some n \<Rightarrow> n) in
           if blockSize < 0 then Panicked
           else (case streamLoop (nat blockSize) endsOnEmpty readFails f body of
                   None \<Rightarrow> Blocked
                 | Some (Some e, f') \<Rightarrow> Returned (Some e, Some f')
                 | Some (None, f') \<Rightarrow>
                     Returned (None, Some (case StreamOutputEOFSymbol i of
                       None \<Rightarrow> f' | Some eof \<Rightarrow> snd (fileWrite (bytes_of_string eof) f'))))))"

definition cookiesToMap :: "Cookie list \<Rightarrow> (string \<times> string) list" where
  "cookiesToMap cookies = fold (\<lambda>c m. mapPut (Name c) (Value c) m) cookies []"

text \<open>The code outside the repository that a response needs: decompression, whether reading the body ends in an error and how it ends,
  the conversion to UTF-8 (\<^const>\<open>None\<close> when its reader can not be made), the detection of a content type, and the
  file that is appended to.\<close>

record responseEnv =
  decompress :: "string \<Rightarrow> bytes \<Rightarrow> bytes"
  readFails :: bool
  endsOnEmpty :: bool
  toUTF8 :: "string \<Rightarrow> bytes \<Rightarrow> bytes option"
  detectContentType :: "bytes \<Rightarrow> string"
  outputFile :: "outFile option"

text \<open>The body as it is returned, and the file it was streamed to. Streaming returns an empty body.\<close>

definition readResponseBody ::
  "responseEnv \<Rightarrow> RequestInput \<Rightarrow> bytes \<Rightarrow> ((cffi_error + bytes) \<times> outFile option) outcome" where
  "readResponseBody env i body =
     (if StreamOutputPath i \<noteq> None
      then (case readAllBodyWithStreamToFile i (endsOnEmpty env) (readFails env) (outputFile env) body of
              Returned (Some e, f) \<Rightarrow> Returned (Inl e, f)
            | Returned (None, f) \<Rightarrow> Returned (Inr [], f)
            | Panicked \<Rightarrow> Panicked | Blocked \<Rightarrow> Blocked)
      else Returned (if readFails env then Inl StreamReadFailed else Inr body, outputFile env))"

definition responseBody ::
  "responseEnv \<Rightarrow> RequestInput \<Rightarrow> Client.Response \<Rightarrow> ((cffi_error + bytes) \<times> outFile option) outcome" where
  "responseBody env i resp =
     (let raw = (case respBody resp of None \<Rightarrow> [] | Some b \<Rightarrow> b);
          body = (if Uncompressed resp then raw else decompress env (headerGet ''Content-Encoding'' (respHeader resp)) raw)
      in if IsByteResponse i then readResponseBody env i body
         else if body = [] then Returned (if readFails env then Inl StreamReadFailed else Inr [], outputFile env)
         else (case toUTF8 env (headerGet ''Content-Type'' (respHeader resp)) body of
                 None \<Rightarrow> Returned (Inl CharsetFailed, outputFile env)
               | Some converted \<Rightarrow> readResponseBody env i converted))"

definition BuildResponse ::
  "responseEnv \<Rightarrow> string \<Rightarrow> string \<Rightarrow> bool \<Rightarrow> Client.Response \<Rightarrow> Cookie list \<Rightarrow> RequestInput
   \<Rightarrow> (cffi_error + cffiResponse) outcome" where
  "BuildResponse env uuid sessionId withSession resp cookies i =
     (case responseBody env i resp of
        Panicked \<Rightarrow> Panicked
      | Blocked \<Rightarrow> Blocked
      | Returned (Inl e, _) \<Rightarrow> Returned (Inl e)
      | Returned (Inr body, _) \<Rightarrow>
          Returned (Inr \<lparr>rCookies = cookiesToMap cookies, rHeaders = respHeader resp, rId = uuid,
            rBody = (if IsByteResponse i
                     then ''data:'' @ detectContentType env body @ '';base64,'' @ b64Encode body
                     else string_of_bytes body),
            rSessionId = (if withSession then sessionId else []), rTarget = respURL resp,
            rUsedProtocol = respProto resp, rStatus = StatusCode resp\<rparr>))"

section \<open>main.go\<close>

definition buildCookies :: "cffiCookie list \<Rightarrow> Cookie list" where
  "buildCookies cookies = map (\<lambda>c. \<lparr>Name = c_Name c, Value = c_Value c, CPath = c_Path c, Domain = c_Domain c,
     Expires = c_Expires c, MaxAge = c_MaxAge c, Secure = c_Secure c, HttpOnly = c_HttpOnly c\<rparr>) cookies"

definition transformCookies :: "Cookie list \<Rightarrow> cffiCookie list" where
  "transformCookies cookies = map (\<lambda>c. \<lparr>c_Expires = Expires c, c_Domain = Domain c, c_Name = Name c, c_Path = CPath c,
     c_Value = Value c, c_MaxAge = MaxAge c, c_Secure = Secure c, c_HttpOnly = HttpOnly c\<rparr>) cookies"

text \<open>
  Memory handed to the caller: the pointers that are allocated, the registered ones by response
  identifier, and a count of frees of a pointer that was not allocated.
\<close>

record memory =
  allocated :: "nat set"
  nextCString :: nat
  unsafePointers :: "string \<rightharpoonup> nat"
  badFrees :: nat

definition emptyMemory :: memory where
  "emptyMemory = \<lparr>allocated = {}, nextCString = 0, unsafePointers = Map.empty, badFrees = 0\<rparr>"

definition cString :: "memory \<Rightarrow> nat \<times> memory" where
  "cString m = (nextCString m, m\<lparr>allocated := insert (nextCString m) (allocated m), nextCString := Suc (nextCString m)\<rparr>)"

definition cFree :: "nat \<Rightarrow> memory \<Rightarrow> memory" where
  "cFree p m = (if p \<in> allocated m then m\<lparr>allocated := allocated m - {p}\<rparr> else m\<lparr>badFrees := Suc (badFrees m)\<rparr>)"

text \<open>The end of every exported function: the text is copied to C memory and registered under its identifier.\<close>

definition giveResponse :: "string \<Rightarrow> memory \<Rightarrow> nat \<times> memory" where
  "giveResponse uid m =
     (let (p, m) = cString m in (p, m\<lparr>unsafePointers := (unsafePointers m)(uid \<mapsto> p)\<rparr>))"

text \<open>An error that can not be marshalled is returned unregistered.\<close>

definition handleErrorResponse :: "bool \<Rightarrow> string \<Rightarrow> memory \<Rightarrow> nat \<times> memory" where
  "handleErrorResponse marshals uid m = (if marshals then giveResponse uid m else cString m)"

definition freeMemory :: "string \<Rightarrow> memory \<Rightarrow> memory" where
  "freeMemory uid m =
     (case unsafePointers m uid of
        None \<Rightarrow> m
      | Some p \<Rightarrow> (cFree p m)\<lparr>unsafePointers := (unsafePointers m)(uid := None)\<rparr>)"

text \<open>How every exported function answers. \<open>uid\<close> is the identifier of the answer, \<open>marshals\<close> says whether the output can be
  marshalled and \<open>errMarshals\<close> whether an error can.\<close>

record answering =
  ans_uid :: string
  ans_marshals :: bool
  ans_errMarshals :: bool

definition reply :: "answering \<Rightarrow> (cffi_error + 'a) outcome \<Rightarrow> memory \<Rightarrow> nat outcome \<times> memory" where
  "reply a r m =
     (case r of
        Panicked \<Rightarrow> (Panicked, m)
      | Blocked \<Rightarrow> (Blocked, m)
      | Returned (Inl _) \<Rightarrow> apfst Returned (handleErrorResponse (ans_errMarshals a) (ans_uid a) m)
      | Returned (Inr _) \<Rightarrow>
          apfst Returned (if ans_marshals a then giveResponse (ans_uid a) m
                          else handleErrorResponse (ans_errMarshals a) (ans_uid a) m))"

text \<open>The exported functions. JSON input is already decoded, \<^const>\<open>None\<close> when it is malformed.\<close>

definition destroyAll ::
  "string list \<Rightarrow> answering \<Rightarrow> 'j clients \<Rightarrow> memory \<Rightarrow> nat outcome \<times> 'j clients \<times> memory" where
  "destroyAll sessionIds a clients m =
     (case ClearSessionCache sessionIds clients of
        (r, clients) \<Rightarrow> (case reply a (map_outcome Inr r) m of (p, m) \<Rightarrow> (p, clients, m)))"

definition destroySession ::
  "string option \<Rightarrow> answering \<Rightarrow> 'j clients \<Rightarrow> memory \<Rightarrow> nat outcome \<times> 'j clients \<times> memory" where
  "destroySession input a clients m =
     (case (case input of
              None \<Rightarrow> (Returned (Inl BadJson), clients)
            | Some sessionId \<Rightarrow> apfst (map_outcome Inr) (RemoveSession sessionId clients)) of
        (r, clients) \<Rightarrow> (case reply a r m of (p, m) \<Rightarrow> (p, clients, m)))"

definition sessionCookies ::
  "(URL \<Rightarrow> 'j \<Rightarrow> Cookie list) \<Rightarrow> (string \<times> string) option \<Rightarrow> 'j clients \<Rightarrow> (cffi_error + cffiCookie list) outcome" where
  "sessionCookies jarCookies input clients =
     (case input of
        None \<Rightarrow> Returned (Inl BadJson)
      | Some (sessionId, u) \<Rightarrow>
          (case GetClient sessionId clients of
             Inl e \<Rightarrow> Returned (Inl e)
           | Inr client \<Rightarrow>
               (case url_Parse u of
                  Inl e \<Rightarrow> Returned (Inl (BadUrl e))
                | Inr url \<Rightarrow>
                    (case client of
                       None \<Rightarrow> Panicked
                     | Some c \<Rightarrow> Returned (Inr (transformCookies (client_GetCookies jarCookies url c)))))))"

definition getCookiesFromSession ::
  "(URL \<Rightarrow> 'j \<Rightarrow> Cookie list) \<Rightarrow> (string \<times> string) option \<Rightarrow> answering \<Rightarrow> 'j clients \<Rightarrow> memory \<Rightarrow> nat outcome \<times> memory" where
  "getCookiesFromSession jarCookies input a clients m = reply a (sessionCookies jarCookies input clients) m"

definition addSessionCookies ::
  "(URL \<Rightarrow> 'j \<Rightarrow> Cookie list) \<Rightarrow> (URL \<Rightarrow> Cookie list \<Rightarrow> 'j \<Rightarrow> 'j) \<Rightarrow> (string \<times> string \<times> cffiCookie list) option
   \<Rightarrow> 'j clients \<Rightarrow> (cffi_error + cffiCookie list) outcome \<times> 'j clients" where
  "addSessionCookies jarCookies jarSet input clients =
     (case input of
        None \<Rightarrow> (Returned (Inl BadJson), clients)
      | Some (sessionId, u, cookies) \<Rightarrow>
          (case GetClient sessionId clients of
             Inl e \<Rightarrow> (Returned (Inl e), clients)
           | Inr client \<Rightarrow>
               (case url_Parse u of
                  Inl e \<Rightarrow> (Returned (Inl (BadUrl e)), clients)
                | Inr url \<Rightarrow>
                    (case client of
                       None \<Rightarrow> (Panicked, clients)
                     | Some c \<Rightarrow>
                         (let c = client_SetCookies jarSet url (buildCookies cookies) c in
                          (Returned (Inr (transformCookies (client_GetCookies jarCookies url c))),
                           clients(sessionId := Some (Some c))))))))"

definition addCookiesToSession ::
  "(URL \<Rightarrow> 'j \<Rightarrow> Cookie list) \<Rightarrow> (URL \<Rightarrow> Cookie list \<Rightarrow> 'j \<Rightarrow> 'j) \<Rightarrow> (string \<times> string \<times> cffiCookie list) option \<Rightarrow> answering
   \<Rightarrow> 'j clients \<Rightarrow> memory \<Rightarrow> nat outcome \<times> 'j clients \<times> memory" where
  "addCookiesToSession jarCookies jarSet input a clients m =
     (case addSessionCookies jarCookies jarSet input clients of
        (r, clients) \<Rightarrow> (case reply a r m of (p, m) \<Rightarrow> (p, clients, m)))"

text \<open>A request. \<open>req.AddCookie\<close> of \<open>fhttp\<close>, the jar, \<open>Do\<close> and the response are as above; a client that belongs to a
  session keeps what the request did to it.\<close>

record ('s, 'c, 'j) requestEnv =
  q_factory :: "('s, 'c, 'j) factoryEnv"
  q_uuid :: string
  q_orderKey :: string
  q_b64Decode :: "string \<Rightarrow> bytes option"
  q_NewRequest :: "string \<Rightarrow> string \<Rightarrow> bytes option \<Rightarrow> Request option"
  q_AddCookie :: "Cookie \<Rightarrow> Request \<Rightarrow> Request"
  q_jarCookies :: "URL \<Rightarrow> 'j \<Rightarrow> Cookie list"
  q_jarSet :: "URL \<Rightarrow> Cookie list \<Rightarrow> 'j \<Rightarrow> 'j"
  q_do :: doEnv
  q_response :: responseEnv

definition sendRequest ::
  "('s, 'c, 'j) requestEnv \<Rightarrow> RequestInput \<Rightarrow> string \<Rightarrow> bool \<Rightarrow> Request \<Rightarrow> 'j httpClient
   \<Rightarrow> (cffi_error + cffiResponse) outcome \<times> 'j httpClient" where
  "sendRequest env i sessionId withSession req c =
     (let cookies = buildCookies (RequestCookies i);
          useJar = (GetCookieJar c \<noteq> None \<and> cookies \<noteq> []);
          c = (if useJar then client_SetCookies (q_jarSet env) (reqURL req) cookies c else c);
          req = (if useJar then req else fold (q_AddCookie env) cookies req)
      in case Do (q_do env) req c of
           (Panicked, _, c) \<Rightarrow> (Panicked, c)
         | (Blocked, _, c) \<Rightarrow> (Blocked, c)
         | (Returned (_, Some e), _, c) \<Rightarrow> (Returned (Inl (RequestDoFailed e)), c)
         | (Returned (None, None), _, c) \<Rightarrow> (Returned (Inl ResponseNil), c)
         | (Returned (Some resp, None), _, c) \<Rightarrow>
             (let target = (case respURL resp of Some u \<Rightarrow> client_GetCookies (q_jarCookies env) u c | None \<Rightarrow> []) in
              (BuildResponse (q_response env) (q_uuid env) sessionId withSession resp target i, c)))"

definition handleRequest ::
  "('s, 'c, 'j) requestEnv \<Rightarrow> RequestInput option \<Rightarrow> 'j clients \<Rightarrow> 's
   \<Rightarrow> (cffi_error + cffiResponse) outcome \<times> 'j clients \<times> 's" where
  "handleRequest env input clients storage =
     (case input of
        None \<Rightarrow> (Returned (Inl BadJson), clients, storage)
      | Some i \<Rightarrow>
          (case CreateClient (q_factory env) (q_uuid env) i clients storage of
             (Panicked, _, _, clients, storage) \<Rightarrow> (Panicked, clients, storage)
           | (Blocked, _, _, clients, storage) \<Rightarrow> (Blocked, clients, storage)
           | (Returned (Inl e), _, _, clients, storage) \<Rightarrow> (Returned (Inl e), clients, storage)
           | (Returned (Inr client), sessionId, withSession, clients, storage) \<Rightarrow>
               (case BuildRequest (q_orderKey env) (q_b64Decode env) (q_NewRequest env) i of
                  Panicked \<Rightarrow> (Panicked, clients, storage)
                | Blocked \<Rightarrow> (Blocked, clients, storage)
                | Returned (Inl e) \<Rightarrow> (Returned (Inl e), clients, storage)
                | Returned (Inr req) \<Rightarrow>
                    (case client of
                       None \<Rightarrow> (Panicked, clients, storage)
                     | Some c \<Rightarrow>
                         (case sendRequest env i sessionId withSession req c of
                            (r, c) \<Rightarrow> (r, if withSession then clients(sessionId := Some (Some c)) else clients, storage))))))"

definition request ::
  "('s, 'c, 'j) requestEnv \<Rightarrow> RequestInput option \<Rightarrow> answering \<Rightarrow> 'j clients \<Rightarrow> 's \<Rightarrow> memory
   \<Rightarrow> nat outcome \<times> 'j clients \<times> 's \<times> memory" where
  "request env input a clients storage m =
     (case handleRequest env input clients storage of
        (r, clients, storage) \<Rightarrow> (case reply a r m of (p, m) \<Rightarrow> (p, clients, storage, m)))"

section \<open>Histories of calls\<close>

text \<open>The process as its caller sees it: the sessions, the storage of the pins and the memory. Each call gets an answer; a call that
  panics ends the process, and one that blocks never comes back: a history has no later call.\<close>

record ('s, 'j) process =
  p_clients :: "'j clients"
  p_storage :: 's
  p_memory :: memory

datatype ('s, 'c, 'j) call =
    FreeMemory string
  | DestroyAll "string list" answering
  | DestroySession "string option" answering
  | GetCookies "URL \<Rightarrow> 'j \<Rightarrow> Cookie list" "(string \<times> string) option" answering
  | AddCookies "URL \<Rightarrow> 'j \<Rightarrow> Cookie list" "URL \<Rightarrow> Cookie list \<Rightarrow> 'j \<Rightarrow> 'j" "(string \<times> string \<times> cffiCookie list) option" answering
  | RequestCall "('s, 'c, 'j) requestEnv" "RequestInput option" answering

definition goesOn :: "nat outcome \<Rightarrow> 'p \<Rightarrow> 'p option" where
  "goesOn r p = (case r of Returned _ \<Rightarrow> Some p | Panicked \<Rightarrow> None | Blocked \<Rightarrow> None)"

fun callStep :: "('s, 'c, 'j) call \<Rightarrow> ('s, 'j) process \<Rightarrow> ('s, 'j) process option" where
  "callStep (FreeMemory uid) p = Some (p\<lparr>p_memory := freeMemory uid (p_memory p)\<rparr>)"
| "callStep (DestroyAll ids a) p =
     (case destroyAll ids a (p_clients p) (p_memory p) of
        (r, clients, m) \<Rightarrow> goesOn r (p\<lparr>p_clients := clients, p_memory := m\<rparr>))"
| "callStep (DestroySession input a) p =
     (case destroySession input a (p_clients p) (p_memory p) of
        (r, clients, m) \<Rightarrow> goesOn r (p\<lparr>p_clients := clients, p_memory := m\<rparr>))"
| "callStep (GetCookies jarC input a) p =
     (case getCookiesFromSession jarC input a (p_clients p) (p_memory p) of
        (r, m) \<Rightarrow> goesOn r (p\<lparr>p_memory := m\<rparr>))"
| "callStep (AddCookies jarC jarS input a) p =
     (case addCookiesToSession jarC jarS input a (p_clients p) (p_memory p) of
        (r, clients, m) \<Rightarrow> goesOn r (p\<lparr>p_clients := clients, p_memory := m\<rparr>))"
| "callStep (RequestCall env input a) p =
     (case request env input a (p_clients p) (p_storage p) (p_memory p) of
        (r, clients, storage, m) \<Rightarrow> goesOn r (p\<lparr>p_clients := clients, p_storage := storage, p_memory := m\<rparr>))"

definition runCalls :: "('s, 'c, 'j) call list \<Rightarrow> ('s, 'j) process \<Rightarrow> ('s, 'j) process option" where
  "runCalls = runSteps callStep"

definition freshProcess :: "'s \<Rightarrow> ('s, 'j) process" where
  "freshProcess storage = \<lparr>p_clients = (\<lambda>_. None), p_storage = storage, p_memory = emptyMemory\<rparr>"

section \<open>Lemmas\<close>

text \<open>Streaming ends when the buffer is not empty, or nothing is left and the reader says so. Writing in two pieces is writing once.\<close>

lemma fileWrite_Nil [simp]: "fileWrite [] f = (True, f)"
  by (cases f) (simp add: fileWrite_def split: option.splits)

lemma fileWrite_append:
  "fileWrite (xs @ ys) f =
     (if fst (fileWrite xs f) then fileWrite ys (snd (fileWrite xs f))
      else (False, snd (fileWrite xs f)))"
  by (cases f) (auto simp: fileWrite_def split: option.splits)

lemma streamLoop_complete:
  "0 < n \<Longrightarrow> streamLoop n ends fails f body =
     Some (if \<not> fst (fileWrite body f) then Some StreamWriteFailed else if fails then Some StreamReadFailed else None,
           snd (fileWrite body f))"
proof (induction "length body" arbitrary: f body rule: less_induct)
  case less
  show ?case
  proof (cases "body = []")
    case True
    then show ?thesis using less.prems by (subst streamLoop.simps) simp
  next
    case False
    then have "length (drop n body) < length body" using less.prems by simp
    note IH = less.hyps [OF this less.prems, of "snd (fileWrite (take n body) f)"]
    have "fileWrite body f = fileWrite (take n body @ drop n body) f" by simp
    then have split: "fileWrite body f =
      (if fst (fileWrite (take n body) f) then fileWrite (drop n body) (snd (fileWrite (take n body) f))
       else (False, snd (fileWrite (take n body) f)))" by (simp only: fileWrite_append)
    show ?thesis unfolding split using False IH
      by (cases "fileWrite (take n body) f") (simp add: streamLoop.simps [of n ends fails f body])
  qed
qed

lemma streamLoop_diverges:
  assumes "body \<noteq> [] \<or> \<not> ends"
  shows "streamLoop 0 ends fails f body = None"
proof -
  have "n = 0 \<longrightarrow> b = [] \<and> ends" if "streamLoop n ends fails f b = Some r" for n ends fails f b r
    using that
  proof (rule streamLoop.raw_induct [where P = "\<lambda>n ends fails f b r. n = 0 \<longrightarrow> b = [] \<and> ends", rotated])
    fix loop n ends fails f b r
    assume IH: "\<And>n ends fails f b r. loop n ends fails f b = Some r \<Longrightarrow> n = 0 \<longrightarrow> b = [] \<and> ends"
      and eq: "(case fileWrite (take n b) f of
        (ok, f') \<Rightarrow> if \<not> ok then Some (Some StreamWriteFailed, f')
          else if b = [] \<and> (n \<noteq> 0 \<or> ends) then Some (if fails then Some StreamReadFailed else None, f')
          else loop n ends fails f' (drop n b)) = Some r"
    show "n = 0 \<longrightarrow> b = [] \<and> ends"
      using eq IH [of 0 ends fails f b r] by (auto split: if_splits)
  qed
  with assms show ?thesis by (metis option.exhaust)
qed

lemma streamLoop_empty: "streamLoop 0 True fails f [] = Some (if fails then Some StreamReadFailed else None, f)"
  by (subst streamLoop.simps) simp

text \<open>The memory invariant: registered pointers are allocated and different.\<close>

definition memory_inv :: "memory \<Rightarrow> bool" where
  "memory_inv m \<longleftrightarrow> badFrees m = 0 \<and> (\<forall>p \<in> allocated m. p < nextCString m) \<and>
     (\<forall>u p. unsafePointers m u = Some p \<longrightarrow> p \<in> allocated m) \<and>
     (\<forall>u v p. unsafePointers m u = Some p \<longrightarrow> unsafePointers m v = Some p \<longrightarrow> u = v)"

lemma memory_inv_empty [inv_intros]: "memory_inv emptyMemory"
  by (simp add: memory_inv_def emptyMemory_def)

lemma memory_inv_giveResponse [inv_intros]: "memory_inv m \<Longrightarrow> memory_inv (snd (giveResponse uid m))"
  by (auto simp: memory_inv_def giveResponse_def cString_def less_Suc_eq split: if_splits)

lemma memory_inv_handleErrorResponse [inv_intros]:
  "memory_inv m \<Longrightarrow> memory_inv (snd (handleErrorResponse marshals uid m))"
  by (cases marshals)
    (auto simp: handleErrorResponse_def memory_inv_giveResponse, auto simp: memory_inv_def cString_def less_Suc_eq)

lemma memory_inv_freeMemory [inv_intros]: "memory_inv m \<Longrightarrow> memory_inv (freeMemory uid m)"
  by (auto simp: memory_inv_def freeMemory_def cFree_def split: option.splits if_splits)

lemma memory_inv_reply:
  assumes "memory_inv m" and "reply a r m = (p, m')"
  shows "memory_inv m'"
  using assms memory_inv_giveResponse [OF assms(1), of "ans_uid a"]
    memory_inv_handleErrorResponse [OF assms(1), of "ans_errMarshals a" "ans_uid a"]
  by (auto simp: reply_def apfst_def map_prod_def split: outcome.splits sum.splits if_splits prod.splits)

lemma memory_inv_callStep:
  assumes "callStep c p = Some p'" and "memory_inv (p_memory p)"
  shows "memory_inv (p_memory p')"
proof (cases c)
  case (FreeMemory uid)
  then show ?thesis using assms memory_inv_freeMemory by auto
qed (use assms memory_inv_reply [OF assms(2)] in
  \<open>auto simp: destroyAll_def destroySession_def getCookiesFromSession_def addCookiesToSession_def request_def goesOn_def
     split: prod.splits outcome.splits\<close>)

interpretation calls: invariant_run callStep "\<lambda>p. memory_inv (p_memory p)"
  by unfold_locales (rule memory_inv_callStep)

section \<open>Samples\<close>

definition sampleInput :: RequestInput where
  "sampleInput =
     \<lparr>CertificatePinningHosts = [], CustomTlsClientInput = None, TransportOptionsInput = None, Headers = [],
      DefaultHeaders = None, ConnectHeaders = None, LocalAddress = None, ServerNameOverwrite = None, ProxyUrlInput = None,
      RequestBody = None, RequestHostOverride = None, SessionId = Some ''s'', StreamOutputBlockSize = None,
      StreamOutputEOFSymbol = None, StreamOutputPath = None, RequestMethod = ''GET'', RequestUrl = ''http://h'',
      TLSClientIdentifier = [], HeaderOrder = [], RequestCookies = [], TimeoutMilliseconds = 0, TimeoutSeconds = 0,
      CatchPanics = False, FollowRedirects = False, ForceHttp1 = False, DisableHttp3 = False,
      DisableSessionTickets = False, WithProtocolRacingInput = False, InsecureSkipVerifyInput = False,
      IsByteRequest = False, IsByteResponse = False, IsRotatingProxy = False, DisableIPV6 = False, DisableIPV4 = False,
      WithDebugInput = False, WithCustomCookieJar = False, WithoutCookieJar = False,
      WithRandomTLSExtensionOrderInput = False\<rparr>"

definition sampleFactory :: "((string \<times> Header) list, string, nat) factoryEnv" where
  "sampleFactory = \<lparr>f_client = sampleClientEnv, f_utls = ianaUtls, f_draw = (\<lambda>_. Some 0), f_mapped = (\<lambda>_. None),
     f_default = sampleProfile, f_resolveTCPAddr = Some, f_jars = (0, (\<lambda>_. 1))\<rparr>"

section \<open>Properties\<close>

text \<open>C10: memory given to a caller is safe. In every history of calls of the exported functions, requests and failing ones
  included, and of frees with any identifiers, even freed twice or unknown: nothing is freed that is not
  allocated, every registered answer is still allocated, and \<open>freeMemory\<close> releases it, once.\<close>

theorem answers_freed_once:
  assumes "runCalls cs (freshProcess storage) = Some p"
  shows "badFrees (p_memory p) = 0 \<and>
   (\<forall>uid q. unsafePointers (p_memory p) uid = Some q \<longrightarrow>
      q \<in> allocated (p_memory p) \<and> q \<notin> allocated (freeMemory uid (p_memory p)) \<and>
      freeMemory uid (freeMemory uid (p_memory p)) = freeMemory uid (p_memory p))"
proof -
  have inv: "memory_inv (p_memory p)"
    using calls.run_inv [OF _ assms [unfolded runCalls_def]] memory_inv_empty by (simp add: freshProcess_def)
  have once: "q \<in> allocated m \<and> q \<notin> allocated (freeMemory uid m) \<and> freeMemory uid (freeMemory uid m) = freeMemory uid m"
    if "memory_inv m" "unsafePointers m uid = Some q" for m uid q
  proof -
    have "q \<in> allocated m" using that by (auto simp: memory_inv_def)
    then show ?thesis using that(2) by (simp add: freeMemory_def cFree_def)
  qed
  have "badFrees (p_memory p) = 0" using inv by (simp add: memory_inv_def)
  with once [OF inv] show ?thesis by blast
qed

theorem answers_freed_once_witness:
  "\<exists>p. runCalls ([DestroyAll [] \<lparr>ans_uid = ''a'', ans_marshals = True, ans_errMarshals = True\<rparr>, FreeMemory ''b'']
       :: (unit, unit, nat) call list) (freshProcess ()) = Some p \<and> badFrees (p_memory p) = 0 \<and> unsafePointers (p_memory p) ''a'' = Some 0 \<and>
     0 \<notin> allocated (freeMemory ''a'' (p_memory p))"
proof -
  let ?cs = "[DestroyAll [] \<lparr>ans_uid = ''a'', ans_marshals = True, ans_errMarshals = True\<rparr>, FreeMemory ''b'']
    :: (unit, unit, nat) call list"
  have "\<exists>p. runCalls ?cs (freshProcess ()) = Some p \<and> unsafePointers (p_memory p) ''a'' = Some 0"
    by (simp add: destroyAll_def ClearSessionCache_def reply_def giveResponse_def cString_def emptyMemory_def freshProcess_def
        goesOn_def freeMemory_def runCalls_def)
  then obtain p where p: "runCalls ?cs (freshProcess ()) = Some p" "unsafePointers (p_memory p) ''a'' = Some 0" by blast
  with answers_freed_once [OF p(1)] show ?thesis by blast
qed

text \<open>C13: every outcome of streaming a body to a file. With a positive block size the loop ends: the file gets the body,
  appended in order, and the end symbol after it; when the file can not take all of the body it gets what fits
  and a write error, and when the body can not be read to its end it gets what was read and a read error. With a block size
  of zero the loop never ends, unless there is no body at all and its reader says so to an empty buffer; with a negative
  one the code panics, and without a file there is an error.\<close>

theorem stream_to_file_outcomes:
  "readAllBodyWithStreamToFile i ends fails target body =
     (let n = (case StreamOutputBlockSize i of None \<Rightarrow> 1024 | Some k \<Rightarrow> k);
          eof = (case StreamOutputEOFSymbol i of None \<Rightarrow> [] | Some s \<Rightarrow> bytes_of_string s)
      in case target of
           None \<Rightarrow> Returned (Some FileOpenFailed, None)
         | Some f \<Rightarrow>
             if n < 0 then Panicked
             else if n = 0 \<and> \<not> (body = [] \<and> ends) then Blocked
             else if \<not> fst (fileWrite body f) then Returned (Some StreamWriteFailed, Some (snd (fileWrite body f)))
             else if fails then Returned (Some StreamReadFailed, Some (snd (fileWrite body f)))
             else Returned (None, Some (snd (fileWrite (body @ eof) f))))"
proof (cases target)
  case (Some f)
  define n where "n = (case StreamOutputBlockSize i of None \<Rightarrow> 1024 | Some k \<Rightarrow> k)"
  consider "n < 0" | "n = 0" "body \<noteq> [] \<or> \<not> ends" | "n = 0" "body = []" "ends" | "0 < n" by fastforce
  then show ?thesis
    unfolding readAllBodyWithStreamToFile_def n_def [symmetric] Let_def
    by cases (auto simp: Some streamLoop_complete streamLoop_diverges streamLoop_empty fileWrite_append split: option.splits)
qed (simp add: readAllBodyWithStreamToFile_def)

text \<open>C27: a client that can not be built poisons its session. The session then holds nil: destroying it or clearing all
  sessions panics, reading its cookies panics, and every later request for it fails.\<close>

theorem failed_client_poisons_session:
  assumes "SessionId i = Some sid" and "sid \<noteq> []" and "clients sid = None"
    and "CreateClient env uuid i clients storage = (Returned (Inl (ClientFailed e)), sid', ws, clients', storage')"
  shows "fst (RemoveSession sid clients') = Panicked \<and>
    (sid \<in> set sids \<longrightarrow> fst (ClearSessionCache sids clients') = Panicked) \<and>
    (\<forall>i'. SessionId i' = Some sid \<longrightarrow> (\<exists>e'. fst (CreateClient env uuid i' clients' storage') = Returned (Inl e')))"
proof -
  obtain r where g: "getTlsClient env i sid True clients storage = (r, clients', storage')"
    "r = Returned (Inl (ClientFailed e))"
    using assms by (auto simp: CreateClient_def split: if_splits prod.splits)
  then have nil: "clients' sid = Some None"
    using assms(3) by (auto simp: getTlsClient_def profileOf_def split: sum.splits prod.splits option.splits
        client_error.splits if_splits)
  have again: "\<exists>e'. fst (CreateClient env uuid i' clients' storage') = Returned (Inl e')" if "SessionId i' = Some sid" for i'
    using that assms(2) nil by (simp add: CreateClient_def getTlsClient_def handleModification_def)
  show ?thesis using nil again by (auto simp: RemoveSession_def ClearSessionCache_def)
qed

theorem failed_client_poisons_session_witness:
  "\<exists>e clients'. CreateClient sampleFactory ''u'' (sampleInput\<lparr>DisableIPV4 := True, DisableIPV6 := True\<rparr>) (\<lambda>_. None) []
       = (Returned (Inl (ClientFailed e)), ''s'', True, clients', []) \<and>
     fst (RemoveSession ''s'' clients') = Panicked"
proof -
  let ?i = "sampleInput\<lparr>DisableIPV4 := True, DisableIPV6 := True\<rparr>"
  obtain e clients' where c: "CreateClient sampleFactory ''u'' ?i (\<lambda>_. None) []
      = (Returned (Inl (ClientFailed e)), ''s'', True, clients', [])"
    by (simp add: CreateClient_def getTlsClient_def profileOf_def sampleInput_def sampleFactory_def optionsOf_def
        NewHttpClient_def defaultConfig_def validateConfig_def headerEntries_def Let_def
        WithTimeoutSeconds_def WithClientProfile_def WithDisableIPV6_def WithDisableIPV4_def WithCookieJar_def
        WithNotFollowRedirects_def)
  have "SessionId ?i = Some ''s''" by (simp add: sampleInput_def)
  from failed_client_poisons_session [OF this _ _ c] c show ?thesis by simp
qed

end
