(* ===== verification/Socks5Udp.thy ===== *)
theory Socks5Udp
  imports GoNet
begin

text \<open>
  SOCKS5 UDP ASSOCIATE as \<^verbatim>\<open>socks5_udp.go\<close> implements it: the negotiation on the TCP control
  connection, the datagram encapsulation of \<^verbatim>\<open>socks5PacketConn\<close>, and the QUIC dialer that ties
  the lifetimes of the sockets together. A connection is a value: the bytes the peer sends
  before the stream ends, what was written so far, and how many writes and deadline calls succeed.
  Name resolution, dialing, the clock and the QUIC handshake are the environment \<open>netEnv\<close>.
\<close>

section \<open>Connections with errors\<close>

type_synonym ('s, 'e, 'a) io = "'s \<Rightarrow> ('e + 'a) \<times> 's"

definition ret :: "'a \<Rightarrow> ('s, 'e, 'a) io" where
  "ret x s = (Inr x, s)"

definition fail :: "'e \<Rightarrow> ('s, 'e, 'a) io" where
  "fail e s = (Inl e, s)"

definition andThen :: "('s, 'e, 'a) io \<Rightarrow> ('a \<Rightarrow> ('s, 'e, 'b) io) \<Rightarrow> ('s, 'e, 'b) io" where
  "andThen m f s = (case m s of (Inl e, s') \<Rightarrow> (Inl e, s') | (Inr x, s') \<Rightarrow> f x s')"

record tcpConn =
  inbox :: bytes
  outbox :: "bytes list"
  writesOk :: nat
  deadlinesOk :: nat
  deadline :: "int option"
  isClosed :: bool

datatype s5_error =
    BadProxyURL | UnsupportedScheme string
  | SendGreeting | ReadMethod | BadVersion u8 | NoCredentials | NoAcceptableMethod | UnsupportedMethod u8
  | UserTooLong nat | PasswordTooLong nat | SendCredentials | ReadAuthReply | AuthFailed u8
  | ConnectProxy | SetDeadlineFailed | SendRequest | ReadReplyHeader | BadReplyVersion u8 | RequestFailed u8
  | ReadBndAddr | ReadDomainLength | ReadDomain | ResolveBndDomain | UnsupportedAtyp u8 | ReadBndPort
  | ResolveProxyHost | ClearDeadlineFailed
  | NotUDPAddr | PayloadTooLarge nat | UdpWriteFailed | UdpReadFailed
  | CreateUDPSocket | ResolveTarget | QuicDialFailed

definition conn_Write :: "s5_error \<Rightarrow> bytes \<Rightarrow> (tcpConn, s5_error, unit) io" where
  "conn_Write e msg c =
     (if writesOk c = 0 then (Inl e, c)
      else (Inr (), c\<lparr>outbox := outbox c @ [msg], writesOk := writesOk c - 1\<rparr>))"

text \<open>\<open>io.ReadFull(conn, buf)\<close> for a buffer of \<open>n\<close> bytes: it fails when the stream ends early.\<close>

definition conn_ReadFull :: "s5_error \<Rightarrow> nat \<Rightarrow> (tcpConn, s5_error, bytes) io" where
  "conn_ReadFull e n c =
     (if length (inbox c) < n then (Inl e, c\<lparr>inbox := []\<rparr>)
      else (Inr (take n (inbox c)), c\<lparr>inbox := drop n (inbox c)\<rparr>))"

definition conn_SetDeadline :: "s5_error \<Rightarrow> int option \<Rightarrow> (tcpConn, s5_error, unit) io" where
  "conn_SetDeadline e d c =
     (if deadlinesOk c = 0 then (Inl e, c)
      else (Inr (), c\<lparr>deadline := d, deadlinesOk := deadlinesOk c - 1\<rparr>))"

definition conn_Close :: "tcpConn \<Rightarrow> tcpConn" where
  "conn_Close c = c\<lparr>isClosed := True\<rparr>"

section \<open>Constants, credentials, deadline\<close>

definition maxSocks5UDPPacketSize :: nat where "maxSocks5UDPPacketSize = 65535"

definition maxSocks5UDPHeaderSize :: nat where "maxSocks5UDPHeaderSize = 22"

text \<open>Durations are counted in nanoseconds, as \<open>time.Duration\<close> does.\<close>

definition socks5ControlTimeout :: int where "socks5ControlTimeout = 30 * 1000000000"

record socks5Auth =
  user :: string
  passwd :: string

record IPAddr =
  aIP :: ip
  aZone :: string

record netEnv =
  ctxDeadline :: "int option"
  now :: int
  dialTCP :: "string \<Rightarrow> tcpConn option"
  resolveIPAddr :: "string \<Rightarrow> ip option"
  parseIP :: "string \<Rightarrow> ip option"
  lookupPort :: "string \<Rightarrow> int option"
  lookupIPAddr :: "string \<Rightarrow> IPAddr list option"
  listenUDP :: "UDPAddr option"
  dialEarly :: "UDPAddr \<Rightarrow> bool"

definition socks5ControlDeadline :: "netEnv \<Rightarrow> int" where
  "socks5ControlDeadline env =
     (case ctxDeadline env of Some d \<Rightarrow> d | None \<Rightarrow> now env + socks5ControlTimeout)"

definition parseSOCKS5ProxyURL :: "string \<Rightarrow> s5_error + (string \<times> socks5Auth option)" where
  "parseSOCKS5ProxyURL proxyURL =
     (case url_Parse proxyURL of
        Inl _ \<Rightarrow> Inl BadProxyURL
      | Inr u \<Rightarrow>
          if Scheme u \<noteq> ''socks5'' \<and> Scheme u \<noteq> ''socks5h'' then Inl (UnsupportedScheme (Scheme u))
          else
            (let host = url_Hostname u;
                 port = (if url_Port u = [] then ''1080'' else url_Port u);
                 auth = (case User u of None \<Rightarrow> None
                         | Some ui \<Rightarrow> Some \<lparr>user = username ui, passwd = passwordOr ui\<rparr>)
             in Inr (JoinHostPort host port, auth)))"

section \<open>Negotiation\<close>

text \<open>The message of RFC 1929, without the length checks.\<close>

definition authMessage :: "socks5Auth \<Rightarrow> bytes" where
  "authMessage auth =
     [0x01, of_nat (length (user auth))] @ bytes_of_string (user auth)
       @ [of_nat (length (passwd auth))] @ bytes_of_string (passwd auth)"

definition socks5UsernamePasswordAuth :: "socks5Auth \<Rightarrow> (tcpConn, s5_error, unit) io" where
  "socks5UsernamePasswordAuth auth =
     (if length (user auth) > 255 then fail (UserTooLong (length (user auth)))
      else if length (passwd auth) > 255 then fail (PasswordTooLong (length (passwd auth)))
      else andThen (conn_Write SendCredentials (authMessage auth)) (\<lambda>_.
           andThen (conn_ReadFull ReadAuthReply 2) (\<lambda>resp.
           if resp ! 1 \<noteq> 0x00 then fail (AuthFailed (resp ! 1)) else ret ())))"

definition socks5Handshake :: "socks5Auth option \<Rightarrow> (tcpConn, s5_error, unit) io" where
  "socks5Handshake auth =
     (let methods = (if auth \<noteq> None then [0x00, 0x02] else [0x00 :: u8]);
          msg = [0x05, of_nat (length methods)] @ methods
      in andThen (conn_Write SendGreeting msg) (\<lambda>_.
         andThen (conn_ReadFull ReadMethod 2) (\<lambda>resp.
         if resp ! 0 \<noteq> 0x05 then fail (BadVersion (resp ! 0))
         else if resp ! 1 = 0x00 then ret ()
         else if resp ! 1 = 0x02 then
           (case auth of None \<Rightarrow> fail NoCredentials | Some a \<Rightarrow> socks5UsernamePasswordAuth a)
         else if resp ! 1 = 0xFF then fail NoAcceptableMethod
         else fail (UnsupportedMethod (resp ! 1)))))"

text \<open>The address and port bytes of a request or header: ATYP, address, port.\<close>

definition addrBytes :: "ip \<Rightarrow> int \<Rightarrow> bytes" where
  "addrBytes a port =
     (case ip_To4 a of
        Some ip4 \<Rightarrow> 0x01 # ip4
      | None \<Rightarrow> 0x04 # (case ip_To16 a of Some b \<Rightarrow> b | None \<Rightarrow> []))
     @ putUint16 (word_of_int port)"

definition associateRequest :: "UDPAddr option \<Rightarrow> bytes" where
  "associateRequest clientUDPAddr =
     (let (dstAddr, dstPort) =
        (case clientUDPAddr of
           Some a \<Rightarrow> if \<not> ip_IsUnspecified (IP a) then (IP a, Port a) else (IPv4zero, 0)
         | None \<Rightarrow> (IPv4zero, 0))
      in [0x05, 0x03, 0x00] @ addrBytes dstAddr dstPort)"

definition readBndAddr :: "netEnv \<Rightarrow> u8 \<Rightarrow> (tcpConn, s5_error, ip) io" where
  "readBndAddr env atyp =
     (if atyp = 0x01 then conn_ReadFull ReadBndAddr 4
      else if atyp = 0x04 then conn_ReadFull ReadBndAddr 16
      else if atyp = 0x03 then
        andThen (conn_ReadFull ReadDomainLength 1) (\<lambda>lenBuf.
        andThen (conn_ReadFull ReadDomain (unat (lenBuf ! 0))) (\<lambda>domain.
        (case resolveIPAddr env (string_of_bytes domain) of
           None \<Rightarrow> fail ResolveBndDomain | Some a \<Rightarrow> ret a)))
      else fail (UnsupportedAtyp atyp))"

definition replaceUnspecified :: "netEnv \<Rightarrow> string \<Rightarrow> ip \<Rightarrow> (tcpConn, s5_error, ip) io" where
  "replaceUnspecified env proxyAddr bndIP =
     (if ip_IsUnspecified bndIP then
        (let proxyHost = (case SplitHostPort proxyAddr of Inl _ \<Rightarrow> [] | Inr (h, _) \<Rightarrow> h) in
         case parseIP env proxyHost of
           Some a \<Rightarrow> ret a
         | None \<Rightarrow> (case resolveIPAddr env proxyHost of
             None \<Rightarrow> fail ResolveProxyHost | Some a \<Rightarrow> ret a))
      else ret bndIP)"

text \<open>The body of \<open>socks5UDPAssociate\<close> after the dial.\<close>

definition associateOn ::
  "netEnv \<Rightarrow> string \<Rightarrow> socks5Auth option \<Rightarrow> UDPAddr option \<Rightarrow> (tcpConn, s5_error, UDPAddr) io" where
  "associateOn env proxyAddr auth clientUDPAddr =
     andThen (conn_SetDeadline SetDeadlineFailed (Some (socks5ControlDeadline env))) (\<lambda>_.
     andThen (socks5Handshake auth) (\<lambda>_.
     andThen (conn_Write SendRequest (associateRequest clientUDPAddr)) (\<lambda>_.
     andThen (conn_ReadFull ReadReplyHeader 4) (\<lambda>header.
     if header ! 0 \<noteq> 0x05 then fail (BadReplyVersion (header ! 0))
     else if header ! 1 \<noteq> 0x00 then fail (RequestFailed (header ! 1))
     else
       andThen (readBndAddr env (header ! 3)) (\<lambda>bndIP.
       andThen (conn_ReadFull ReadBndPort 2) (\<lambda>portBuf.
       andThen (replaceUnspecified env proxyAddr bndIP) (\<lambda>bndIP.
       andThen (conn_SetDeadline ClearDeadlineFailed None) (\<lambda>_.
       ret \<lparr>IP = bndIP, Port = int (unat (getUint16 (portBuf ! 0) (portBuf ! 1))), Zone = []\<rparr>))))))))"

text \<open>
  The control connection is returned beside the result: the deferred function closes it on
  every error path, and on success it stays open.
\<close>

definition socks5UDPAssociate ::
  "netEnv \<Rightarrow> string \<Rightarrow> socks5Auth option \<Rightarrow> UDPAddr option \<Rightarrow> (s5_error + UDPAddr) \<times> tcpConn option" where
  "socks5UDPAssociate env proxyAddr auth clientUDPAddr =
     (case dialTCP env proxyAddr of
        None \<Rightarrow> (Inl ConnectProxy, None)
      | Some c \<Rightarrow>
          (case associateOn env proxyAddr auth clientUDPAddr c of
             (Inl e, c') \<Rightarrow> (Inl e, Some (conn_Close c'))
           | (Inr relay, c') \<Rightarrow> (Inr relay, Some c')))"

section \<open>Datagram headers\<close>

text \<open>\<open>copy(dst[off:], src)\<close>: the new buffer and the number of bytes copied.\<close>

definition copyInto :: "bytes \<Rightarrow> nat \<Rightarrow> bytes \<Rightarrow> bytes \<times> nat" where
  "copyInto dst off src =
     (let n = min (length dst - off) (length src)
      in (take off dst @ take n src @ drop (off + n) dst, n))"

text \<open>\<open>encodeSocks5UDPHeader\<close>: \<^const>\<open>None\<close> is the index panic on a buffer that is too short.\<close>

definition encodeSocks5UDPHeader :: "bytes \<Rightarrow> UDPAddr \<Rightarrow> (bytes \<times> nat) option" where
  "encodeSocks5UDPHeader dst addr =
     (if length dst < 4 then None
      else
        (let dst = dst[0 := 0x00, 1 := 0x00, 2 := 0x00];
             (dst, n) =
               (case ip_To4 (IP addr) of
                  Some ip4 \<Rightarrow> copyInto (dst[3 := 0x01]) 4 ip4
                | None \<Rightarrow> copyInto (dst[3 := 0x04]) 4
                    (case ip_To16 (IP addr) of Some b \<Rightarrow> b | None \<Rightarrow> []));
             offset = 4 + n
         in if length dst < offset + 2 then None
            else Some (fst (copyInto dst offset (putUint16 (word_of_int (Port addr)))), offset + 2)))"

datatype hdr_error =
    HeaderTooShort nat | Fragmented u8 | TooShortIPv4 | TooShortIPv6 | DomainInDatagram
  | HdrUnsupportedAtyp u8 | TooShortPort

definition decodeSocks5UDPHeader :: "bytes \<Rightarrow> hdr_error + (UDPAddr \<times> nat)" where
  "decodeSocks5UDPHeader data =
     (let finish = (\<lambda>a offset.
        if length data < offset + 2 then Inl TooShortPort
        else Inr (\<lparr>IP = a, Port = int (unat (getUint16 (data ! offset) (data ! (offset + 1)))), Zone = []\<rparr>,
                  offset + 2))
      in
      if length data < 4 then Inl (HeaderTooShort (length data))
      else if data ! 2 \<noteq> 0x00 then Inl (Fragmented (data ! 2))
      else if data ! 3 = 0x01 then
        (if length data < 4 + 4 + 2 then Inl TooShortIPv4 else finish (take 4 (drop 4 data)) 8)
      else if data ! 3 = 0x04 then
        (if length data < 4 + 16 + 2 then Inl TooShortIPv6 else finish (take 16 (drop 4 data)) 20)
      else if data ! 3 = 0x03 then Inl DomainInDatagram
      else Inl (HdrUnsupportedAtyp (data ! 3)))"

section \<open>The packet connection\<close>

datatype netAddr = UDPNetAddr UDPAddr | OtherNetAddr

datatype udpEvent = Datagram bytes "UDPAddr option" | UdpErr

record socks5PacketConn =
  udpOpen :: bool
  udpSent :: "(bytes \<times> UDPAddr) list"
  udpCloseErr :: bool
  ctrlOpen :: bool
  ctrlCloseErr :: bool
  relayAddr :: UDPAddr
  pcClosed :: bool

text \<open>
  \<open>buf\<close> is the scratch buffer taken from the pool, with whatever an earlier packet left in it;
  \<open>sendOk\<close> says whether the UDP socket accepts the datagram. \<^const>\<open>None\<close> is a panic.
\<close>

definition WriteTo ::
  "bytes \<Rightarrow> bool \<Rightarrow> bytes \<Rightarrow> netAddr \<Rightarrow> socks5PacketConn \<Rightarrow> ((s5_error + nat) \<times> socks5PacketConn) option" where
  "WriteTo buf sendOk p addr c =
     (case addr of
        OtherNetAddr \<Rightarrow> Some (Inl NotUDPAddr, c)
      | UDPNetAddr udpAddr \<Rightarrow>
          if length p > maxSocks5UDPPacketSize - maxSocks5UDPHeaderSize
          then Some (Inl (PayloadTooLarge (length p)), c)
          else
            (case encodeSocks5UDPHeader buf udpAddr of
               None \<Rightarrow> None
             | Some (buf, headerLen) \<Rightarrow>
                 (let (buf, payloadLen) = copyInto buf headerLen p;
                      datagram = take (headerLen + payloadLen) buf
                  in if \<not> (udpOpen c \<and> sendOk) then Some (Inl UdpWriteFailed, c)
                     else Some (Inr payloadLen, c\<lparr>udpSent := udpSent c @ [(datagram, relayAddr c)]\<rparr>))))"

text \<open>
  \<open>ReadFrom\<close> on the datagrams that arrive at the local socket: \<^const>\<open>None\<close> while the call blocks,
  otherwise the result and the datagrams not yet read.
\<close>

fun ReadFrom ::
  "UDPAddr \<Rightarrow> nat \<Rightarrow> udpEvent list \<Rightarrow> ((s5_error + (bytes \<times> UDPAddr)) \<times> udpEvent list) option" where
  "ReadFrom relay plen [] = None"
| "ReadFrom relay plen (UdpErr # es) = Some (Inl UdpReadFailed, es)"
| "ReadFrom relay plen (Datagram d srcAddr # es) =
     (let buf = take maxSocks5UDPPacketSize d in
      case srcAddr of
        Some src \<Rightarrow>
          if \<not> ip_Equal (IP src) (IP relay) then ReadFrom relay plen es
          else (case decodeSocks5UDPHeader buf of
                  Inl _ \<Rightarrow> ReadFrom relay plen es
                | Inr (udpAddr, dataOffset) \<Rightarrow> Some (Inr (take plen (drop dataOffset buf), udpAddr), es))
      | None \<Rightarrow>
          (case decodeSocks5UDPHeader buf of
             Inl _ \<Rightarrow> ReadFrom relay plen es
           | Inr (udpAddr, dataOffset) \<Rightarrow> Some (Inr (take plen (drop dataOffset buf), udpAddr), es)))"

datatype close_error = UdpCloseError | CtrlCloseError

definition Close :: "socks5PacketConn \<Rightarrow> close_error option \<times> socks5PacketConn" where
  "Close c =
     (if pcClosed c then (None, c)
      else
        (let c' = c\<lparr>pcClosed := True, udpOpen := False, ctrlOpen := False\<rparr> in
         if udpCloseErr c then (Some UdpCloseError, c')
         else if ctrlCloseErr c then (Some CtrlCloseError, c')
         else (None, c')))"

section \<open>Resolving the target and dialing\<close>

text \<open>The callers pass a non-empty list; \<open>ips[0]\<close> of an empty one would panic (\<^const>\<open>None\<close>).\<close>

definition pickIPAddr :: "IPAddr list \<Rightarrow> ip \<Rightarrow> IPAddr option" where
  "pickIPAddr ips prefer =
     (case ips of [] \<Rightarrow> None
      | first # _ \<Rightarrow>
          if prefer = [] then Some first
          else (case find (\<lambda>candidate. (ip_To4 (aIP candidate) \<noteq> None) = (ip_To4 prefer \<noteq> None)) ips of
                  Some candidate \<Rightarrow> Some candidate
                | None \<Rightarrow> Some first))"

datatype resolve_error = SplitError addr_error | PortError | LookupError | NoAddresses | PickPanic

definition resolveUDPAddr :: "netEnv \<Rightarrow> string \<Rightarrow> ip \<Rightarrow> resolve_error + UDPAddr" where
  "resolveUDPAddr env addr prefer =
     (case SplitHostPort addr of
        Inl e \<Rightarrow> Inl (SplitError e)
      | Inr (host, port) \<Rightarrow>
          (case lookupPort env port of
             None \<Rightarrow> Inl PortError
           | Some portNumber \<Rightarrow>
               (case parseIP env host of
                  Some a \<Rightarrow> Inr \<lparr>IP = a, Port = portNumber, Zone = []\<rparr>
                | None \<Rightarrow>
                    (case lookupIPAddr env host of
                       None \<Rightarrow> Inl LookupError
                     | Some ips \<Rightarrow>
                         if ips = [] then Inl NoAddresses
                         else (case pickIPAddr ips prefer of
                                 None \<Rightarrow> Inl PickPanic
                               | Some chosen \<Rightarrow>
                                   Inr \<lparr>IP = aIP chosen, Port = portNumber, Zone = aZone chosen\<rparr>)))))"

text \<open>What the dialer holds open: the packet connection (if it got that far), the local socket and
  the QUIC transport with its read goroutine.\<close>

record quicResources =
  rUdpOpen :: bool
  rCtrlOpen :: bool
  rTransportRunning :: bool

definition noResources :: quicResources where
  "noResources = \<lparr>rUdpOpen = False, rCtrlOpen = False, rTransportRunning = False\<rparr>"

definition ctrlIsOpen :: "tcpConn option \<Rightarrow> bool" where
  "ctrlIsOpen c = (case c of None \<Rightarrow> False | Some x \<Rightarrow> \<not> isClosed x)"

definition packetConn :: "UDPAddr \<Rightarrow> bool \<Rightarrow> socks5PacketConn" where
  "packetConn relay ctrl = \<lparr>udpOpen = True, udpSent = [], udpCloseErr = False, ctrlOpen = ctrl,
     ctrlCloseErr = False, relayAddr = relay, pcClosed = False\<rparr>"

definition resourcesOf :: "socks5PacketConn \<Rightarrow> bool \<Rightarrow> quicResources" where
  "resourcesOf pc running =
     \<lparr>rUdpOpen = udpOpen pc, rCtrlOpen = ctrlOpen pc, rTransportRunning = running\<rparr>"

definition newSOCKS5QUICDialer ::
  "netEnv \<Rightarrow> string \<Rightarrow> string \<Rightarrow> (s5_error + UDPAddr) \<times> quicResources" where
  "newSOCKS5QUICDialer env proxyURL addr =
     (case parseSOCKS5ProxyURL proxyURL of
        Inl e \<Rightarrow> (Inl e, noResources)
      | Inr (proxyAddr, auth) \<Rightarrow>
          (case listenUDP env of
             None \<Rightarrow> (Inl CreateUDPSocket, noResources)
           | Some localAddr \<Rightarrow>
               (case socks5UDPAssociate env proxyAddr auth (Some localAddr) of
                  (Inl e, ctrl) \<Rightarrow>
                    (Inl e, \<lparr>rUdpOpen = False, rCtrlOpen = ctrlIsOpen ctrl, rTransportRunning = False\<rparr>)
                | (Inr relay, ctrl) \<Rightarrow>
                    (let pc = packetConn relay (ctrlIsOpen ctrl) in
                     case resolveUDPAddr env addr (IP relay) of
                       Inl _ \<Rightarrow> (Inl ResolveTarget, resourcesOf (snd (Close pc)) False)
                     | Inr targetAddr \<Rightarrow>
                         if \<not> dialEarly env targetAddr
                         then (Inl QuicDialFailed, resourcesOf (snd (Close pc)) False)
                         else (Inr targetAddr, resourcesOf pc True)))))"

text \<open>The goroutine that runs once the context of the QUIC connection is done.\<close>

definition onConnDone :: "socks5PacketConn \<Rightarrow> quicResources" where
  "onConnDone pc = resourcesOf (snd (Close pc)) False"

section \<open>Running connections\<close>

lemmas io_defs = ret_def fail_def andThen_def conn_Write_def conn_ReadFull_def conn_SetDeadline_def

text \<open>A step keeps \<open>f\<close> when it never changes that part of the connection.\<close>

definition keeps :: "('s \<Rightarrow> 'v) \<Rightarrow> ('s, 'e, 'a) io \<Rightarrow> bool" where
  "keeps f m \<longleftrightarrow> (\<forall>s. f (snd (m s)) = f s)"

lemma keeps_ret [intro!, simp]: "keeps f (ret x)"
  by (simp add: keeps_def ret_def)

lemma keeps_fail [intro!, simp]: "keeps f (fail e)"
  by (simp add: keeps_def fail_def)

lemma keeps_andThen [intro!]:
  "keeps f m \<Longrightarrow> (\<And>x. keeps f (k x)) \<Longrightarrow> keeps f (andThen m k)"
  by (auto simp: keeps_def andThen_def split: prod.splits sum.splits) (metis snd_conv)+

lemma keeps_isClosed [intro!, simp]:
  "keeps isClosed (conn_Write e msg)" "keeps isClosed (conn_ReadFull e n)"
  "keeps isClosed (conn_SetDeadline e d)"
  by (simp_all add: keeps_def io_defs)

lemma keeps_deadline [intro!, simp]:
  "keeps deadline (conn_Write e msg)" "keeps deadline (conn_ReadFull e n)"
  by (simp_all add: keeps_def io_defs)

lemma keeps_socks5UsernamePasswordAuth:
  "keeps isClosed (socks5UsernamePasswordAuth a)"
  unfolding socks5UsernamePasswordAuth_def by auto

lemma keeps_socks5Handshake: "keeps isClosed (socks5Handshake a)"
  unfolding socks5Handshake_def Let_def
  by (auto simp: keeps_socks5UsernamePasswordAuth split: option.split)

lemma keeps_readBndAddr: "keeps isClosed (readBndAddr env t)"
  unfolding readBndAddr_def by (auto split: option.split)

lemma keeps_replaceUnspecified: "keeps isClosed (replaceUnspecified env p a)"
  unfolding replaceUnspecified_def Let_def by (auto split: option.split)

lemma keeps_associateOn: "keeps isClosed (associateOn env p a u)"
  unfolding associateOn_def
  by (auto intro: keeps_socks5Handshake keeps_readBndAddr keeps_replaceUnspecified)

lemma associateOn_success_clears_deadline:
  assumes "associateOn env p a u c = (Inr r, c')"
  shows "deadline c' = None"
proof -
  have last: "andThen (conn_SetDeadline e None) (\<lambda>_. ret x) s = (Inr r, t) \<Longrightarrow> deadline t = None" for e x s t
    by (auto simp: io_defs split: if_splits)
  have then_last: "(\<And>x s t. k x s = (Inr r, t) \<Longrightarrow> deadline t = None) \<Longrightarrow>
      andThen m k s = (Inr r, t) \<Longrightarrow> deadline t = None" for m k s t
    by (auto simp: andThen_def split: prod.splits sum.splits)
  show ?thesis
    using assms unfolding associateOn_def
    apply (elim then_last [rotated])
    apply (auto split: if_splits simp: fail_def elim!: then_last [rotated] last)
    done
qed

section \<open>Header codec\<close>

definition headerBytes :: "UDPAddr \<Rightarrow> bytes" where
  "headerBytes addr = [0x00, 0x00, 0x00] @ addrBytes (IP addr) (Port addr)"

text \<open>The addresses a UDP socket hands out: 4 or 16 bytes and a 16-bit port.\<close>

definition udp_addr_ok :: "UDPAddr \<Rightarrow> bool" where
  "udp_addr_ok a \<longleftrightarrow> (length (IP a) = 4 \<or> length (IP a) = 16) \<and> 0 \<le> Port a \<and> Port a < 65536"

text \<open>The shortest form of an address: four bytes for IPv4 and IPv4-mapped addresses.\<close>

definition normIP :: "ip \<Rightarrow> ip" where
  "normIP a = (case ip_To4 a of Some b \<Rightarrow> b | None \<Rightarrow> a)"

lemma normIP_Equal: "ip_Equal (normIP a) a"
  by (auto simp: normIP_def ip_To4_Equal split: option.split)

lemma length_normIP:
  "length a = 4 \<or> length a = 16 \<Longrightarrow> length (normIP a) = 4 \<or> length (normIP a) = 16"
  by (auto simp: normIP_def dest: ip_To4_length split: option.split)

lemma addrBytes_norm:
  assumes "length a = 4 \<or> length a = 16"
  shows "addrBytes a port =
    (if length (normIP a) = 4 then 0x01 else 0x04) # normIP a @ putUint16 (word_of_int port)"
  using assms
  by (auto simp: addrBytes_def normIP_def ip_To4_def ip_To16_def split: option.splits if_splits)

lemma length_headerBytes:
  assumes "udp_addr_ok a"
  shows "length (headerBytes a) = 6 + length (normIP (IP a))" "length (headerBytes a) \<le> maxSocks5UDPHeaderSize"
  using assms length_normIP [of "IP a"]
  by (auto simp: headerBytes_def addrBytes_norm udp_addr_ok_def maxSocks5UDPHeaderSize_def)

lemma copyInto_fits:
  "off + length src \<le> length dst \<Longrightarrow>
   copyInto dst off src = (take off dst @ src @ drop (off + length src) dst, length src)"
  by (simp add: copyInto_def Let_def min_absorb2)

lemma copyInto_append:
  "length src \<le> length ys \<Longrightarrow>
   copyInto (xs @ ys) (length xs) src = (xs @ src @ drop (length src) ys, length src)"
  by (simp add: copyInto_fits)

lemma encode_eq:
  assumes "udp_addr_ok a" and "length dst \<ge> maxSocks5UDPHeaderSize"
  shows "encodeSocks5UDPHeader dst a =
    Some (headerBytes a @ drop (length (headerBytes a)) dst, length (headerBytes a))"
proof -
  have l: "length (IP a) = 4 \<or> length (IP a) = 16" using assms(1) by (simp add: udp_addr_ok_def)
  obtain d0 d1 d2 d3 rest where dst: "dst = d0 # d1 # d2 # d3 # rest"
    using assms(2) by (auto simp: maxSocks5UDPHeaderSize_def neq_Nil_conv Suc_le_length_iff numeral_eq_Suc)
  let ?ip = "normIP (IP a)" and ?t = "if length (normIP (IP a)) = 4 then 0x01 else 0x04 :: u8"
  have len: "length ?ip + 2 \<le> length rest"
    using assms(2) length_normIP [OF l] by (auto simp: dst maxSocks5UDPHeaderSize_def)
  have c: "(case ip_To4 (IP a) of
        Some ip4 \<Rightarrow> copyInto ((dst[0 := 0, 1 := 0, 2 := 0])[3 := 0x01]) 4 ip4
      | None \<Rightarrow> copyInto ((dst[0 := 0, 1 := 0, 2 := 0])[3 := 0x04]) 4
          (case ip_To16 (IP a) of Some b \<Rightarrow> b | None \<Rightarrow> [])) =
      ([0, 0, 0, ?t] @ ?ip @ drop (length ?ip) rest, length ?ip)"
    using l len
    by (auto simp: dst copyInto_fits normIP_def ip_To4_def ip_To16_def numeral_eq_Suc split: if_splits)
  have "encodeSocks5UDPHeader dst a =
      Some (fst (copyInto ([0, 0, 0, ?t] @ ?ip @ drop (length ?ip) rest) (4 + length ?ip)
        (putUint16 (word_of_int (Port a)))), 6 + length ?ip)"
    using len unfolding encodeSocks5UDPHeader_def Let_def c by (simp add: dst)
  also have "fst (copyInto ([0, 0, 0, ?t] @ ?ip @ drop (length ?ip) rest) (4 + length ?ip)
        (putUint16 (word_of_int (Port a)))) = headerBytes a @ drop (6 + length ?ip) dst"
  proof -
    have off: "4 + length ?ip = length ([0, 0, 0, ?t] @ ?ip)" by simp
    have "fst (copyInto (([0, 0, 0, ?t] @ ?ip) @ drop (length ?ip) rest) (length ([0, 0, 0, ?t] @ ?ip))
        (putUint16 (word_of_int (Port a)))) =
        ([0, 0, 0, ?t] @ ?ip) @ putUint16 (word_of_int (Port a)) @ drop 2 (drop (length ?ip) rest)"
      using len by (subst copyInto_append) simp_all
    moreover have "drop (6 + length ?ip) dst = drop 2 (drop (length ?ip) rest)"
      by (simp add: dst numeral_eq_Suc)
    ultimately show ?thesis
      unfolding off append_assoc by (simp add: headerBytes_def addrBytes_norm [OF l])
  qed
  finally show ?thesis by (simp add: length_headerBytes [OF assms(1)])
qed

lemma decode_headerBytes:
  assumes "udp_addr_ok a"
  shows "decodeSocks5UDPHeader (headerBytes a @ p) =
    Inr (\<lparr>IP = normIP (IP a), Port = Port a, Zone = []\<rparr>, length (headerBytes a))"
proof -
  have l: "length (IP a) = 4 \<or> length (IP a) = 16" using assms by (simp add: udp_addr_ok_def)
  obtain hi lo where hl: "putUint16 (word_of_int (Port a)) = [hi, lo]" by (simp add: putUint16_def)
  have "getUint16 hi lo = word_of_int (Port a)"
    using hl getUint16_putUint16 [of "word_of_int (Port a)"] by (simp add: putUint16_def)
  then have port: "uint (getUint16 hi lo) = Port a"
    using assms by (simp add: udp_addr_ok_def unsigned_of_int take_bit_int_eq_self)
  from length_normIP [OF l] show ?thesis
  proof
    assume n: "length (normIP (IP a)) = 4"
    then have "(normIP (IP a) @ [hi, lo] @ p) ! 4 = hi" "(normIP (IP a) @ [hi, lo] @ p) ! 5 = lo"
      by (simp_all add: nth_append)
    with n show ?thesis
      by (simp add: decodeSocks5UDPHeader_def headerBytes_def addrBytes_norm [OF l] hl port)
  next
    assume n: "length (normIP (IP a)) = 16"
    then have "(normIP (IP a) @ [hi, lo] @ p) ! 16 = hi" "(normIP (IP a) @ [hi, lo] @ p) ! 17 = lo"
      by (simp_all add: nth_append)
    with n show ?thesis
      by (simp add: decodeSocks5UDPHeader_def headerBytes_def addrBytes_norm [OF l] hl port)
  qed
qed

section \<open>Receiving\<close>

text \<open>What ends a \<open>ReadFrom\<close> call: an error of the socket, or a datagram from the relay that decodes.\<close>

definition endsRead :: "UDPAddr \<Rightarrow> udpEvent \<Rightarrow> bool" where
  "endsRead relay e = (case e of
     UdpErr \<Rightarrow> True
   | Datagram d src \<Rightarrow>
       (case src of None \<Rightarrow> True | Some s \<Rightarrow> ip_Equal (IP s) (IP relay))
       \<and> (\<exists>r. decodeSocks5UDPHeader (take maxSocks5UDPPacketSize d) = Inr r))"

definition deliver :: "nat \<Rightarrow> udpEvent \<Rightarrow> s5_error + (bytes \<times> UDPAddr)" where
  "deliver plen e = (case e of
     UdpErr \<Rightarrow> Inl UdpReadFailed
   | Datagram d src \<Rightarrow>
       (case decodeSocks5UDPHeader (take maxSocks5UDPPacketSize d) of
          Inl _ \<Rightarrow> Inl UdpReadFailed
        | Inr (a, off) \<Rightarrow> Inr (take plen (drop off (take maxSocks5UDPPacketSize d)), a)))"

lemma ReadFrom_skip:
  "\<not> endsRead relay e \<Longrightarrow> ReadFrom relay plen (e # es) = ReadFrom relay plen es"
  by (cases e) (auto simp: endsRead_def Let_def split: option.splits sum.splits)

lemma ReadFrom_stop:
  "endsRead relay e \<Longrightarrow> ReadFrom relay plen (e # es) = Some (deliver plen e, es)"
  by (cases e) (auto simp: endsRead_def deliver_def Let_def split: option.splits sum.splits)

lemma ReadFrom_eq:
  "ReadFrom relay plen es =
     (case dropWhile (\<lambda>e. \<not> endsRead relay e) es of [] \<Rightarrow> None | e # r \<Rightarrow> Some (deliver plen e, r))"
  by (induction es) (auto simp: ReadFrom_skip ReadFrom_stop)

section \<open>Credentials\<close>

text \<open>How an RFC 1929 server reads the username/password message.\<close>

definition readAuthMessage :: "bytes \<Rightarrow> socks5Auth option" where
  "readAuthMessage m = (case m of
     v # ulen # rest \<Rightarrow>
       (case drop (unat ulen) rest of
          plen # pw \<Rightarrow>
            if length pw = unat plen
            then Some \<lparr>user = string_of_bytes (take (unat ulen) rest), passwd = string_of_bytes pw\<rparr>
            else None
        | [] \<Rightarrow> None)
   | _ \<Rightarrow> None)"

lemma readAuthMessage_authMessage:
  assumes "length (user a) \<le> 255" and "length (passwd a) \<le> 255"
  shows "readAuthMessage (authMessage a) = Some a"
proof -
  have u: "unat (of_nat n :: u8) = n" if "n \<le> 255" for n
    using that by (simp add: unat_of_nat)
  show ?thesis using u [OF assms(1)] u [OF assms(2)]
    by (simp add: authMessage_def readAuthMessage_def)
qed

section \<open>Properties\<close>

text \<open>C12: the tunnel is transparent. For every UDP address and every payload the code accepts,
  \<open>WriteTo\<close> never panics whatever the pooled buffer holds, reports the whole payload as written
  and sends to the relay one datagram that fits the buffer; decoding that datagram's header gives
  back the destination (in its shortest form) and the payload follows the header unchanged.\<close>

theorem WriteTo_roundtrip:
  assumes "udp_addr_ok a" and "length p \<le> 65513" and "length buf = 65535" and "udpOpen c"
  shows "\<exists>d off. WriteTo buf True p (UDPNetAddr a) c =
            Some (Inr (length p), c\<lparr>udpSent := udpSent c @ [(d, relayAddr c)]\<rparr>)
          \<and> decodeSocks5UDPHeader d = Inr (\<lparr>IP = normIP (IP a), Port = Port a, Zone = []\<rparr>, off)
          \<and> drop off d = p \<and> length d \<le> 65535"
proof -
  let ?h = "headerBytes a"
  have hl: "length ?h \<le> 22"
    using length_headerBytes(2) [OF assms(1)] by (simp add: maxSocks5UDPHeaderSize_def)
  have enc: "encodeSocks5UDPHeader buf a = Some (?h @ drop (length ?h) buf, length ?h)"
    using assms(1,3) by (intro encode_eq) (simp_all add: maxSocks5UDPHeaderSize_def)
  have cp: "copyInto (?h @ drop (length ?h) buf) (length ?h) p =
      (?h @ p @ drop (length p) (drop (length ?h) buf), length p)"
    using assms(2,3) hl by (intro copyInto_append) simp
  have "WriteTo buf True p (UDPNetAddr a) c =
      Some (Inr (length p), c\<lparr>udpSent := udpSent c @ [(?h @ p, relayAddr c)]\<rparr>)"
    using assms(2,4)
    by (simp add: WriteTo_def enc cp maxSocks5UDPPacketSize_def maxSocks5UDPHeaderSize_def)
  then show ?thesis
    using decode_headerBytes [OF assms(1), of p] assms(2) hl by auto
qed

theorem WriteTo_roundtrip_witness:
  "\<exists>d off. WriteTo (replicate 65535 7) True [1, 2, 3] (UDPNetAddr \<lparr>IP = [10, 0, 0, 1], Port = 443, Zone = []\<rparr>)
       (packetConn \<lparr>IP = [127, 0, 0, 1], Port = 1080, Zone = []\<rparr> True) =
     Some (Inr 3, (packetConn \<lparr>IP = [127, 0, 0, 1], Port = 1080, Zone = []\<rparr> True)
       \<lparr>udpSent := [(d, \<lparr>IP = [127, 0, 0, 1], Port = 1080, Zone = []\<rparr>)]\<rparr>)
     \<and> drop off d = [1, 2, 3]"
proof -
  let ?a = "\<lparr>IP = [10, 0, 0, 1], Port = 443, Zone = []\<rparr>"
  let ?c = "packetConn \<lparr>IP = [127, 0, 0, 1], Port = 1080, Zone = []\<rparr> True"
  have h: "udp_addr_ok ?a" "length [1, 2, 3 :: u8] \<le> 65513" "length (replicate 65535 (7 :: u8)) = 65535"
    "udpOpen ?c"
    by (simp_all add: udp_addr_ok_def packetConn_def)
  from WriteTo_roundtrip [OF h] show ?thesis by (auto simp: packetConn_def)
qed

text \<open>C14: nothing is injected and stray traffic is harmless. \<open>ReadFrom\<close> returns exactly the first
  event that is a socket error or a decodable datagram whose source address is the relay's,
  and skips every datagram before it; it blocks only while no such event has arrived. In
  particular a datagram from another host, or with a header it cannot decode, never ends the
  call, with a payload or with an error.\<close>

theorem ReadFrom_first_relayed:
  "ReadFrom relay plen es =
     (case dropWhile (\<lambda>e. \<not> endsRead relay e) es of
        [] \<Rightarrow> None
      | e # rest \<Rightarrow> Some (deliver plen e, rest))"
  by (rule ReadFrom_eq)

text \<open>C15: a datagram the relay sends for a source address is delivered with its payload and that
  address, however many foreign or malformed datagrams arrive before it, and is cut only by the
  size of the caller's buffer.\<close>

theorem ReadFrom_delivers:
  assumes "\<forall>e \<in> set junk. \<not> endsRead relay e" and "udp_addr_ok a"
    and "ip_Equal (IP src) (IP relay)" and "length (headerBytes a @ p) \<le> 65535"
  shows "ReadFrom relay plen (junk @ Datagram (headerBytes a @ p) (Some src) # es) =
    Some (Inr (take plen p, \<lparr>IP = normIP (IP a), Port = Port a, Zone = []\<rparr>), es)"
proof -
  have t: "take maxSocks5UDPPacketSize (headerBytes a @ p) = headerBytes a @ p"
    using assms(4) by (simp add: maxSocks5UDPPacketSize_def)
  have ends: "endsRead relay (Datagram (headerBytes a @ p) (Some src))"
    using assms(2,3) by (simp add: endsRead_def t decode_headerBytes del: take_append)
  have "dropWhile (\<lambda>e. \<not> endsRead relay e) (junk @ Datagram (headerBytes a @ p) (Some src) # es) =
      Datagram (headerBytes a @ p) (Some src) # es"
    using assms(1) ends by (simp add: dropWhile_append3)
  then show ?thesis
    using assms(2) by (simp add: ReadFrom_eq deliver_def t decode_headerBytes del: take_append)
qed

theorem ReadFrom_delivers_witness:
  "ReadFrom \<lparr>IP = [127, 0, 0, 1], Port = 1080, Zone = []\<rparr> 1500
     ([Datagram [1, 2, 3] (Some \<lparr>IP = [6, 6, 6, 6], Port = 1, Zone = []\<rparr>)]
      @ Datagram (headerBytes \<lparr>IP = [10, 0, 0, 1], Port = 443, Zone = []\<rparr> @ [9])
          (Some \<lparr>IP = [127, 0, 0, 1], Port = 5, Zone = []\<rparr>) # []) =
   Some (Inr ([9], \<lparr>IP = normIP [10, 0, 0, 1], Port = 443, Zone = []\<rparr>), [])"
proof -
  let ?r = "\<lparr>IP = [127, 0, 0, 1], Port = 1080, Zone = []\<rparr>"
  let ?a = "\<lparr>IP = [10, 0, 0, 1], Port = 443, Zone = []\<rparr>"
  let ?j = "[Datagram [1, 2, 3] (Some \<lparr>IP = [6, 6, 6, 6], Port = 1, Zone = []\<rparr>)]"
  have 1: "\<forall>e \<in> set ?j. \<not> endsRead ?r e" by (simp add: endsRead_def ip_Equal_def)
  have 2: "udp_addr_ok ?a" by (simp add: udp_addr_ok_def)
  have 3: "ip_Equal (IP \<lparr>IP = [127, 0, 0, 1], Port = 5, Zone = []\<rparr>) (IP ?r)" by (simp add: ip_Equal_def)
  have 4: "length (headerBytes ?a @ [9]) \<le> 65535"
    using length_headerBytes(2) [OF 2] by (simp add: maxSocks5UDPHeaderSize_def)
  from ReadFrom_delivers [OF 1 2 3 4, of 1500 "[]"] show ?thesis by simp
qed

text \<open>C16: credentials are sent whole or not at all. Either the code writes nothing because a
  credential is longer than its length byte can say, or the one message it writes is read back by
  an RFC 1929 server as exactly the configured username and password.\<close>

theorem auth_message_faithful:
  "outbox (snd (socks5UsernamePasswordAuth a c)) = outbox c
   \<or> (\<exists>m. outbox (snd (socks5UsernamePasswordAuth a c)) = outbox c @ [m] \<and> readAuthMessage m = Some a)"
  by (auto simp: socks5UsernamePasswordAuth_def io_defs readAuthMessage_authMessage not_less)

text \<open>C17: the handshake succeeds exactly when the proxy answers version 5 and either asks for no
  authentication, or asks for username/password while credentials of at most 255 bytes each are
  configured and its reply to them has status 0 (and the writes go through); in every other case
  it reports an error.\<close>

theorem socks5Handshake_succeeds_iff:
  "fst (socks5Handshake auth c) = Inr () \<longleftrightarrow>
     (\<exists>m rest. writesOk c \<ge> 1 \<and> inbox c = 0x05 # m # rest
        \<and> (m = 0x00 \<or> m = 0x02 \<and> (\<exists>a v rest'. auth = Some a \<and> length (user a) \<le> 255
              \<and> length (passwd a) \<le> 255 \<and> writesOk c \<ge> 2 \<and> rest = v # 0x00 # rest')))"
proof (cases "writesOk c = 0 \<or> length (inbox c) < 2")
  case True
  then show ?thesis by (auto simp: socks5Handshake_def io_defs Let_def)
next
  case False
  then obtain v m rest where i: "inbox c = v # m # rest"
    by (cases "inbox c"; cases "tl (inbox c)") auto
  have two: "length rest < 2 \<longleftrightarrow> \<not> (\<exists>x y r. rest = x # y # r)"
    by (cases rest; cases "tl rest") auto
  show ?thesis
    using False
    by (cases auth)
      (auto simp: socks5Handshake_def socks5UsernamePasswordAuth_def io_defs Let_def i two
        split: if_splits)
qed

text \<open>C19: the control connection is never leaked and never closed too early. When
  \<open>socks5UDPAssociate\<close> fails after the dial, the connection it dialed is closed; when it
  succeeds, the connection is open, and the negotiation deadline has been cleared.\<close>

theorem socks5UDPAssociate_control:
  assumes "dialTCP env proxyAddr = Some c" and "\<not> isClosed c"
  shows "\<exists>c'. snd (socks5UDPAssociate env proxyAddr auth addr) = Some c'
     \<and> (case fst (socks5UDPAssociate env proxyAddr auth addr) of
          Inl _ \<Rightarrow> isClosed c'
        | Inr _ \<Rightarrow> \<not> isClosed c' \<and> deadline c' = None)"
proof -
  obtain r c' where r: "associateOn env proxyAddr auth addr c = (r, c')" by (cases "associateOn env proxyAddr auth addr c")
  have "isClosed c' = isClosed c"
    using keeps_associateOn [of env proxyAddr auth addr] r unfolding keeps_def by (metis snd_conv)
  then show ?thesis
    using assms r associateOn_success_clears_deadline [of env proxyAddr auth addr c]
    by (cases r) (auto simp: socks5UDPAssociate_def conn_Close_def)
qed

definition exampleEnv :: netEnv where
  "exampleEnv = \<lparr>ctxDeadline = None, now = 0,
     dialTCP = (\<lambda>_. Some \<lparr>inbox = [5, 0, 5, 0, 0, 1, 0, 0, 0, 0, 4, 56], outbox = [], writesOk = 9,
       deadlinesOk = 9, deadline = None, isClosed = False\<rparr>),
     resolveIPAddr = (\<lambda>_. None), parseIP = (\<lambda>h. if h = ''127.0.0.1'' then Some [127, 0, 0, 1] else None),
     lookupPort = (\<lambda>_. Some 443), lookupIPAddr = (\<lambda>_. Some [\<lparr>aIP = [10, 0, 0, 1], aZone = []\<rparr>]),
     listenUDP = Some \<lparr>IP = replicate 16 0, Port = 5000, Zone = []\<rparr>, dialEarly = (\<lambda>_. True)\<rparr>"

theorem socks5UDPAssociate_control_witness:
  "\<exists>c'. snd (socks5UDPAssociate exampleEnv ''127.0.0.1:1080'' None None) = Some c' \<and> \<not> isClosed c'
     \<and> fst (socks5UDPAssociate exampleEnv ''127.0.0.1:1080'' None None) =
         Inr \<lparr>IP = [127, 0, 0, 1], Port = 1080, Zone = []\<rparr>"
proof -
  obtain c where c: "dialTCP exampleEnv ''127.0.0.1:1080'' = Some c" "\<not> isClosed c"
    by (simp add: exampleEnv_def)
  have r: "fst (socks5UDPAssociate exampleEnv ''127.0.0.1:1080'' None None) =
      Inr \<lparr>IP = [127, 0, 0, 1], Port = 1080, Zone = []\<rparr>"
    by code_simp
  from socks5UDPAssociate_control [OF c, of None None] show ?thesis unfolding r by auto
qed

text \<open>C21: the dialer leaks nothing. Whenever it reports an error, the local UDP socket and the
  TCP control connection are closed and no transport goroutine is left; when it succeeds
  everything is open and running, and once the QUIC connection ends everything is closed.\<close>

theorem quic_dialer_no_leak:
  assumes "\<forall>p c. dialTCP env p = Some c \<longrightarrow> \<not> isClosed c"
  shows "case newSOCKS5QUICDialer env proxyURL addr of
      (Inl _, res) \<Rightarrow> res = noResources
    | (Inr _, res) \<Rightarrow> res = \<lparr>rUdpOpen = True, rCtrlOpen = True, rTransportRunning = True\<rparr>
        \<and> (\<forall>relay ctrl. onConnDone (packetConn relay ctrl) = noResources)"
proof -
  have bad: "\<not> ctrlIsOpen x" if "socks5UDPAssociate env p a u = (Inl e, x)" for p a u e x
    using that by (auto simp: socks5UDPAssociate_def ctrlIsOpen_def conn_Close_def
        split: option.splits prod.splits sum.splits)
  have good: "ctrlIsOpen x" if "socks5UDPAssociate env p a u = (Inr r, x)" for p a u r x
  proof -
    from that obtain c c' where "dialTCP env p = Some c" "associateOn env p a u c = (Inr r, c')" "x = Some c'"
      by (auto simp: socks5UDPAssociate_def split: option.splits prod.splits sum.splits)
    then show ?thesis
      using assms keeps_associateOn [of env p a u] unfolding keeps_def ctrlIsOpen_def by (metis option.simps(5) snd_conv)
  qed
  have closed: "resourcesOf (snd (Close (packetConn r ctrl))) False = noResources" for r ctrl
    by (simp add: resourcesOf_def Close_def packetConn_def noResources_def Let_def)
  have opened: "resourcesOf (packetConn r ctrl) True =
      \<lparr>rUdpOpen = True, rCtrlOpen = ctrl, rTransportRunning = True\<rparr>" for r ctrl
    by (simp add: resourcesOf_def packetConn_def)
  have shut: "\<lparr>rUdpOpen = False, rCtrlOpen = False, rTransportRunning = False\<rparr> = noResources"
    by (simp add: noResources_def)
  show ?thesis
    unfolding newSOCKS5QUICDialer_def onConnDone_def Let_def closed opened
    by (auto simp: shut dest: bad good split: sum.split option.split prod.split)
qed

theorem quic_dialer_no_leak_witness:
  "case newSOCKS5QUICDialer exampleEnv ''socks5://127.0.0.1:1080'' ''example.com:443'' of
      (Inl _, res) \<Rightarrow> res = noResources
    | (Inr _, res) \<Rightarrow> rUdpOpen res \<and> rCtrlOpen res \<and> rTransportRunning res"
proof -
  have h: "\<forall>p c. dialTCP exampleEnv p = Some c \<longrightarrow> \<not> isClosed c" by (auto simp: exampleEnv_def)
  show ?thesis
    using quic_dialer_no_leak [OF h, of "''socks5://127.0.0.1:1080''" "''example.com:443''"]
    by (auto split: prod.splits sum.splits)
qed

text \<open>The target address matches the family of the relay whenever it can: if the resolver
  returns an address of the relay's family, the first such address is dialed, and otherwise the
  resolver's first answer; the choice is always one of the resolver's answers.\<close>

theorem pickIPAddr_family:
  assumes "ips \<noteq> []"
  shows "\<exists>c. pickIPAddr ips prefer = Some c \<and> c \<in> set ips
     \<and> (prefer = [] \<or> \<not> (\<exists>x \<in> set ips. (ip_To4 (aIP x) \<noteq> None) = (ip_To4 prefer \<noteq> None)) \<longrightarrow> c = hd ips)
     \<and> (prefer \<noteq> [] \<and> (\<exists>x \<in> set ips. (ip_To4 (aIP x) \<noteq> None) = (ip_To4 prefer \<noteq> None)) \<longrightarrow>
          (ip_To4 (aIP c) \<noteq> None) = (ip_To4 prefer \<noteq> None))"
proof -
  let ?P = "\<lambda>x. (ip_To4 (aIP x) \<noteq> None) = (ip_To4 prefer \<noteq> None)"
  from assms obtain x xs where ips: "ips = x # xs" by (cases ips) auto
  have some: "find ?P ips = Some c \<Longrightarrow> c \<in> set ips \<and> ?P c" for c
    by (metis (mono_tags, lifting) find_Some_iff nth_mem)
  have none: "find ?P ips = None \<longleftrightarrow> \<not> (\<exists>x \<in> set ips. ?P x)"
    by (auto simp: find_None_iff)
  show ?thesis
  proof (cases "prefer = [] \<or> find ?P ips = None")
    case True
    then show ?thesis using none by (auto simp: pickIPAddr_def ips)
  next
    case False
    then obtain c where c: "find ?P ips = Some c" by auto
    then have "pickIPAddr ips prefer = Some c" using False by (simp add: pickIPAddr_def ips)
    then show ?thesis using some [OF c] c none False by auto
  qed
qed

theorem pickIPAddr_family_witness:
  "\<exists>c. pickIPAddr [\<lparr>aIP = replicate 15 0 @ [1], aZone = []\<rparr>, \<lparr>aIP = [10, 0, 0, 1], aZone = []\<rparr>] [127, 0, 0, 1] = Some c
     \<and> ip_To4 (aIP c) \<noteq> None"
proof -
  have h: "[\<lparr>aIP = replicate 15 0 @ [1], aZone = []\<rparr>, \<lparr>aIP = [10, 0, 0, 1], aZone = []\<rparr>] \<noteq> []" by simp
  obtain c where c: "pickIPAddr [\<lparr>aIP = replicate 15 0 @ [1], aZone = []\<rparr>, \<lparr>aIP = [10, 0, 0, 1], aZone = []\<rparr>] [127, 0, 0, 1] = Some c"
    and fam: "(\<exists>x \<in> set [\<lparr>aIP = replicate 15 0 @ [1], aZone = []\<rparr>, \<lparr>aIP = [10, 0, 0, 1], aZone = []\<rparr>].
        (ip_To4 (aIP x) \<noteq> None) = (ip_To4 [127, 0, 0, 1] \<noteq> None)) \<longrightarrow>
      (ip_To4 (aIP c) \<noteq> None) = (ip_To4 [127, 0, 0, 1] \<noteq> None)"
    using pickIPAddr_family [OF h, of "[127, 0, 0, 1]"] by auto
  have "ip_To4 [127, 0, 0, 1] \<noteq> None" "ip_To4 [10, 0, 0, 1] \<noteq> None" by (simp_all add: ip_To4_def)
  with fam have "ip_To4 (aIP c) \<noteq> None" by auto
  with c show ?thesis by blast
qed

end
