(* ===== verification/ProfilesInternal.thy ===== *)
theory ProfilesInternal
  imports Profiles
begin

text \<open>
  The browser profiles of \<^verbatim>\<open>profiles/internal_browser_profiles.go\<close>, one definition per variable and one per
  \<open>SpecFactory\<close> it contains. A field the literal leaves out has its zero value. The constants of \<open>utls\<close> come from \<open>K\<close>;
  \<open>trustAnchors\<close> stands for the variable \<open>chrome152TrustAnchors\<close>, which the package computes once at start.
\<close>

definition Chrome_152_PSK_spec :: "utls \<Rightarrow> bytes \<Rightarrow> specFactory" where
  "Chrome_152_PSK_spec K trustAnchors seed =
     (case randomGREASESignatureScheme seed of
        None \<Rightarrow> Inl SpecPanic
      | Some grease \<Rightarrow> Inr
     \<lparr>CipherSuites =
       [GREASE_PLACEHOLDER K, cipherVal K TLS_AES_128_GCM_SHA256, cipherVal K TLS_AES_256_GCM_SHA384,
         cipherVal K TLS_CHACHA20_POLY1305_SHA256, cipherVal K TLS_ECDHE_ECDSA_WITH_AES_128_GCM_SHA256,
         cipherVal K TLS_ECDHE_RSA_WITH_AES_128_GCM_SHA256,
         cipherVal K TLS_ECDHE_ECDSA_WITH_AES_256_GCM_SHA384,
         cipherVal K TLS_ECDHE_RSA_WITH_AES_256_GCM_SHA384,
         cipherVal K TLS_ECDHE_ECDSA_WITH_CHACHA20_POLY1305_SHA256,
         cipherVal K TLS_ECDHE_RSA_WITH_CHACHA20_POLY1305_SHA256,
         cipherVal K TLS_ECDHE_RSA_WITH_AES_128_CBC_SHA, cipherVal K TLS_ECDHE_RSA_WITH_AES_256_CBC_SHA,
         cipherVal K TLS_RSA_WITH_AES_128_GCM_SHA256, cipherVal K TLS_RSA_WITH_AES_256_GCM_SHA384,
         cipherVal K TLS_RSA_WITH_AES_128_CBC_SHA, cipherVal K TLS_RSA_WITH_AES_256_CBC_SHA],
      CompressionMethods = [CompressionNone K],
      Extensions =
       [UtlsGREASEExtension,
        ApplicationSettingsExtensionNew [''h2''],
        SupportedVersionsExtension [GREASE_PLACEHOLDER K, versionVal K VersionTLS13,
          versionVal K VersionTLS12],
        SCTExtension,
        BoringGREASEECH,
        KeyShareExtension [\<lparr>Group = GREASE_PLACEHOLDER K, KSData = [0]\<rparr>,
          \<lparr>Group = groupVal K X25519MLKEM768, KSData = []\<rparr>,
          \<lparr>Group = groupVal K X25519, KSData = []\<rparr>],
        SignatureAlgorithmsExtension [grease, 0x0904, 0x0905, 0x0906, sigVal K ECDSAWithP256AndSHA256,
          sigVal K PSSWithSHA256, sigVal K PKCS1WithSHA256, sigVal K ECDSAWithP384AndSHA384,
          sigVal K PSSWithSHA384, sigVal K PKCS1WithSHA384, sigVal K PSSWithSHA512,
          sigVal K PKCS1WithSHA512],
        SupportedCurvesExtension [GREASE_PLACEHOLDER K, groupVal K X25519MLKEM768, groupVal K X25519,
          groupVal K CurveP256, groupVal K CurveP384],
        UtlsCompressCertExtension [certVal K CertCompressionBrotli],
        ExtendedMasterSecretExtension,
        SessionTicketExtension,
        SNIExtension,
        RenegotiationInfoExtension RenegotiateOnceAsClient,
        PSKKeyExchangeModesExtension [PskModeDHE K],
        SupportedPointsExtension [PointFormatUncompressed K],
        StatusRequestExtension,
        ALPNExtension [''h2'', ''http/1.1''],
        GenericExtension 0xca34 trustAnchors,
        UtlsGREASEExtension,
        UtlsPreSharedKeyExtension False],
      GetSessionID = None\<rparr>)"

definition Chrome_152_PSK :: "utls \<Rightarrow> bytes \<Rightarrow> ClientProfile" where
  "Chrome_152_PSK K trustAnchors = \<lparr>
     clientHelloId = FactoryHello \<lparr>Client = ''Chrome'', RandomExtensionOrder = False,
       Version = ''152_PSK'', SpecFactory = Chrome_152_PSK_spec K trustAnchors\<rparr>,
     headerPriority = None,
     settings = Some [(settingVal K SettingHeaderTableSize, 65536), (settingVal K SettingEnablePush, 0),
       (settingVal K SettingInitialWindowSize, 6291456), (settingVal K SettingMaxHeaderListSize, 262144)],
     settingsOrder = [settingVal K SettingHeaderTableSize, settingVal K SettingEnablePush,
       settingVal K SettingInitialWindowSize, settingVal K SettingMaxHeaderListSize],
     priorities = [],
     pseudoHeaderOrder = ['':method'', '':authority'', '':scheme'', '':path''],
     connectionFlow = 15663105,
     streamID = 0,
     allowHTTP = False,
     http3Settings = None,
     http3SettingsOrder = [],
     http3PriorityParam = 0,
     http3PseudoHeaderOrder = [],
     http3SendGreaseFrames = False\<rparr>"

definition Chrome_152_spec :: "utls \<Rightarrow> bytes \<Rightarrow> specFactory" where
  "Chrome_152_spec K trustAnchors seed =
     (case randomGREASESignatureScheme seed of
        None \<Rightarrow> Inl SpecPanic
      | Some grease \<Rightarrow> Inr
     \<lparr>CipherSuites =
       [GREASE_PLACEHOLDER K, cipherVal K TLS_AES_128_GCM_SHA256, cipherVal K TLS_AES_256_GCM_SHA384,
         cipherVal K TLS_CHACHA20_POLY1305_SHA256, cipherVal K TLS_ECDHE_ECDSA_WITH_AES_128_GCM_SHA256,
         cipherVal K TLS_ECDHE_RSA_WITH_AES_128_GCM_SHA256,
         cipherVal K TLS_ECDHE_ECDSA_WITH_AES_256_GCM_SHA384,
         cipherVal K TLS_ECDHE_RSA_WITH_AES_256_GCM_SHA384,
         cipherVal K TLS_ECDHE_ECDSA_WITH_CHACHA20_POLY1305_SHA256,
         cipherVal K TLS_ECDHE_RSA_WITH_CHACHA20_POLY1305_SHA256,
         cipherVal K TLS_ECDHE_RSA_WITH_AES_128_CBC_SHA, cipherVal K TLS_ECDHE_RSA_WITH_AES_256_CBC_SHA,
         cipherVal K TLS_RSA_WITH_AES_128_GCM_SHA256, cipherVal K TLS_RSA_WITH_AES_256_GCM_SHA384,
         cipherVal K TLS_RSA_WITH_AES_128_CBC_SHA, cipherVal K TLS_RSA_WITH_AES_256_CBC_SHA],
      CompressionMethods = [CompressionNone K],
      Extensions =
       [UtlsGREASEExtension,
        KeyShareExtension [\<lparr>Group = GREASE_PLACEHOLDER K, KSData = [0]\<rparr>,
          \<lparr>Group = groupVal K X25519MLKEM768, KSData = []\<rparr>,
          \<lparr>Group = groupVal K X25519, KSData = []\<rparr>],
        SNIExtension,
        ApplicationSettingsExtensionNew [''h2''],
        RenegotiationInfoExtension RenegotiateOnceAsClient,
        SupportedCurvesExtension [GREASE_PLACEHOLDER K, groupVal K X25519MLKEM768, groupVal K X25519,
          groupVal K CurveP256, groupVal K CurveP384],
        UtlsCompressCertExtension [certVal K CertCompressionBrotli],
        SessionTicketExtension,
        StatusRequestExtension,
        ExtendedMasterSecretExtension,
        SupportedVersionsExtension [GREASE_PLACEHOLDER K, versionVal K VersionTLS13,
          versionVal K VersionTLS12],
        SignatureAlgorithmsExtension [grease, 0x0904, 0x0905, 0x0906, sigVal K ECDSAWithP256AndSHA256,
          sigVal K PSSWithSHA256, sigVal K PKCS1WithSHA256, sigVal K ECDSAWithP384AndSHA384,
          sigVal K PSSWithSHA384, sigVal K PKCS1WithSHA384, sigVal K PSSWithSHA512,
          sigVal K PKCS1WithSHA512],
        SCTExtension,
        SupportedPointsExtension [PointFormatUncompressed K],
        BoringGREASEECH,
        ALPNExtension [''h2'', ''http/1.1''],
        PSKKeyExchangeModesExtension [PskModeDHE K],
        GenericExtension 0xca34 trustAnchors,
        UtlsGREASEExtension],
      GetSessionID = None\<rparr>)"

definition Chrome_152 :: "utls \<Rightarrow> bytes \<Rightarrow> ClientProfile" where
  "Chrome_152 K trustAnchors = \<lparr>
     clientHelloId = FactoryHello \<lparr>Client = ''Chrome'', RandomExtensionOrder = False,
       Version = ''152'', SpecFactory = Chrome_152_spec K trustAnchors\<rparr>,
     headerPriority = None,
     settings = Some [(settingVal K SettingHeaderTableSize, 65536), (settingVal K SettingEnablePush, 0),
       (settingVal K SettingInitialWindowSize, 6291456), (settingVal K SettingMaxHeaderListSize, 262144)],
     settingsOrder = [settingVal K SettingHeaderTableSize, settingVal K SettingEnablePush,
       settingVal K SettingInitialWindowSize, settingVal K SettingMaxHeaderListSize],
     priorities = [],
     pseudoHeaderOrder = ['':method'', '':authority'', '':scheme'', '':path''],
     connectionFlow = 15663105,
     streamID = 0,
     allowHTTP = False,
     http3Settings = None,
     http3SettingsOrder = [],
     http3PriorityParam = 0,
     http3PseudoHeaderOrder = [],
     http3SendGreaseFrames = False\<rparr>"

definition Chrome_150_PSK_spec :: "utls \<Rightarrow> specFactory" where
  "Chrome_150_PSK_spec K seed = Inr
     \<lparr>CipherSuites =
       [GREASE_PLACEHOLDER K, cipherVal K TLS_AES_128_GCM_SHA256, cipherVal K TLS_AES_256_GCM_SHA384,
         cipherVal K TLS_CHACHA20_POLY1305_SHA256, cipherVal K TLS_ECDHE_ECDSA_WITH_AES_128_GCM_SHA256,
         cipherVal K TLS_ECDHE_RSA_WITH_AES_128_GCM_SHA256,
         cipherVal K TLS_ECDHE_ECDSA_WITH_AES_256_GCM_SHA384,
         cipherVal K TLS_ECDHE_RSA_WITH_AES_256_GCM_SHA384,
         cipherVal K TLS_ECDHE_ECDSA_WITH_CHACHA20_POLY1305_SHA256,
         cipherVal K TLS_ECDHE_RSA_WITH_CHACHA20_POLY1305_SHA256,
         cipherVal K TLS_ECDHE_RSA_WITH_AES_128_CBC_SHA, cipherVal K TLS_ECDHE_RSA_WITH_AES_256_CBC_SHA,
         cipherVal K TLS_RSA_WITH_AES_128_GCM_SHA256, cipherVal K TLS_RSA_WITH_AES_256_GCM_SHA384,
         cipherVal K TLS_RSA_WITH_AES_128_CBC_SHA, cipherVal K TLS_RSA_WITH_AES_256_CBC_SHA],
      CompressionMethods = [CompressionNone K],
      Extensions =
       [UtlsGREASEExtension,
        ApplicationSettingsExtensionNew [''h2''],
        SupportedVersionsExtension [GREASE_PLACEHOLDER K, versionVal K VersionTLS13,
          versionVal K VersionTLS12],
        SCTExtension,
        BoringGREASEECH,
        KeyShareExtension [\<lparr>Group = GREASE_PLACEHOLDER K, KSData = [0]\<rparr>,
          \<lparr>Group = groupVal K X25519MLKEM768, KSData = []\<rparr>,
          \<lparr>Group = groupVal K X25519, KSData = []\<rparr>],
        SignatureAlgorithmsExtension [0x0904, 0x0905, 0x0906, sigVal K ECDSAWithP256AndSHA256,
          sigVal K PSSWithSHA256, sigVal K PKCS1WithSHA256, sigVal K ECDSAWithP384AndSHA384,
          sigVal K PSSWithSHA384, sigVal K PKCS1WithSHA384, sigVal K PSSWithSHA512,
          sigVal K PKCS1WithSHA512],
        SupportedCurvesExtension [GREASE_PLACEHOLDER K, groupVal K X25519MLKEM768, groupVal K X25519,
          groupVal K CurveP256, groupVal K CurveP384],
        UtlsCompressCertExtension [certVal K CertCompressionBrotli],
        ExtendedMasterSecretExtension,
        SessionTicketExtension,
        SNIExtension,
        RenegotiationInfoExtension RenegotiateOnceAsClient,
        PSKKeyExchangeModesExtension [PskModeDHE K],
        SupportedPointsExtension [PointFormatUncompressed K],
        StatusRequestExtension,
        ALPNExtension [''h2'', ''http/1.1''],
        UtlsGREASEExtension,
        UtlsPreSharedKeyExtension False],
      GetSessionID = None\<rparr>"

definition Chrome_150_PSK :: "utls \<Rightarrow> ClientProfile" where
  "Chrome_150_PSK K = \<lparr>
     clientHelloId = FactoryHello \<lparr>Client = ''Chrome'', RandomExtensionOrder = False,
       Version = ''150_PSK'', SpecFactory = Chrome_150_PSK_spec K\<rparr>,
     headerPriority = None,
     settings = Some [(settingVal K SettingHeaderTableSize, 65536), (settingVal K SettingEnablePush, 0),
       (settingVal K SettingInitialWindowSize, 6291456), (settingVal K SettingMaxHeaderListSize, 262144)],
     settingsOrder = [settingVal K SettingHeaderTableSize, settingVal K SettingEnablePush,
       settingVal K SettingInitialWindowSize, settingVal K SettingMaxHeaderListSize],
     priorities = [],
     pseudoHeaderOrder = ['':method'', '':authority'', '':scheme'', '':path''],
     connectionFlow = 15663105,
     streamID = 0,
     allowHTTP = False,
     http3Settings = None,
     http3SettingsOrder = [],
     http3PriorityParam = 0,
     http3PseudoHeaderOrder = [],
     http3SendGreaseFrames = False\<rparr>"

definition Chrome_150_spec :: "utls \<Rightarrow> specFactory" where
  "Chrome_150_spec K seed = Inr
     \<lparr>CipherSuites =
       [GREASE_PLACEHOLDER K, cipherVal K TLS_AES_128_GCM_SHA256, cipherVal K TLS_AES_256_GCM_SHA384,
         cipherVal K TLS_CHACHA20_POLY1305_SHA256, cipherVal K TLS_ECDHE_ECDSA_WITH_AES_128_GCM_SHA256,
         cipherVal K TLS_ECDHE_RSA_WITH_AES_128_GCM_SHA256,
         cipherVal K TLS_ECDHE_ECDSA_WITH_AES_256_GCM_SHA384,
         cipherVal K TLS_ECDHE_RSA_WITH_AES_256_GCM_SHA384,
         cipherVal K TLS_ECDHE_ECDSA_WITH_CHACHA20_POLY1305_SHA256,
         cipherVal K TLS_ECDHE_RSA_WITH_CHACHA20_POLY1305_SHA256,
         cipherVal K TLS_ECDHE_RSA_WITH_AES_128_CBC_SHA, cipherVal K TLS_ECDHE_RSA_WITH_AES_256_CBC_SHA,
         cipherVal K TLS_RSA_WITH_AES_128_GCM_SHA256, cipherVal K TLS_RSA_WITH_AES_256_GCM_SHA384,
         cipherVal K TLS_RSA_WITH_AES_128_CBC_SHA, cipherVal K TLS_RSA_WITH_AES_256_CBC_SHA],
      CompressionMethods = [CompressionNone K],
      Extensions =
       [UtlsGREASEExtension,
        KeyShareExtension [\<lparr>Group = GREASE_PLACEHOLDER K, KSData = [0]\<rparr>,
          \<lparr>Group = groupVal K X25519MLKEM768, KSData = []\<rparr>,
          \<lparr>Group = groupVal K X25519, KSData = []\<rparr>],
        SNIExtension,
        ApplicationSettingsExtensionNew [''h2''],
        RenegotiationInfoExtension RenegotiateOnceAsClient,
        SupportedCurvesExtension [GREASE_PLACEHOLDER K, groupVal K X25519MLKEM768, groupVal K X25519,
          groupVal K CurveP256, groupVal K CurveP384],
        UtlsCompressCertExtension [certVal K CertCompressionBrotli],
        SessionTicketExtension,
        StatusRequestExtension,
        ExtendedMasterSecretExtension,
        SupportedVersionsExtension [GREASE_PLACEHOLDER K, versionVal K VersionTLS13,
          versionVal K VersionTLS12],
        SignatureAlgorithmsExtension [0x0904, 0x0905, 0x0906, sigVal K ECDSAWithP256AndSHA256,
          sigVal K PSSWithSHA256, sigVal K PKCS1WithSHA256, sigVal K ECDSAWithP384AndSHA384,
          sigVal K PSSWithSHA384, sigVal K PKCS1WithSHA384, sigVal K PSSWithSHA512,
          sigVal K PKCS1WithSHA512],
        SCTExtension,
        SupportedPointsExtension [PointFormatUncompressed K],
        BoringGREASEECH,
        ALPNExtension [''h2'', ''http/1.1''],
        PSKKeyExchangeModesExtension [PskModeDHE K],
        UtlsGREASEExtension],
      GetSessionID = None\<rparr>"

definition Chrome_150 :: "utls \<Rightarrow> ClientProfile" where
  "Chrome_150 K = \<lparr>
     clientHelloId = FactoryHello \<lparr>Client = ''Chrome'', RandomExtensionOrder = False,
       Version = ''150'', SpecFactory = Chrome_150_spec K\<rparr>,
     headerPriority = None,
     settings = Some [(settingVal K SettingHeaderTableSize, 65536), (settingVal K SettingEnablePush, 0),
       (settingVal K SettingInitialWindowSize, 6291456), (settingVal K SettingMaxHeaderListSize, 262144)],
     settingsOrder = [settingVal K SettingHeaderTableSize, settingVal K SettingEnablePush,
       settingVal K SettingInitialWindowSize, settingVal K SettingMaxHeaderListSize],
     priorities = [],
     pseudoHeaderOrder = ['':method'', '':authority'', '':scheme'', '':path''],
     connectionFlow = 15663105,
     streamID = 0,
     allowHTTP = False,
     http3Settings = None,
     http3SettingsOrder = [],
     http3PriorityParam = 0,
     http3PseudoHeaderOrder = [],
     http3SendGreaseFrames = False\<rparr>"

definition Chrome_146_PSK_spec :: "utls \<Rightarrow> specFactory" where
  "Chrome_146_PSK_spec K seed = Inr
     \<lparr>CipherSuites =
       [GREASE_PLACEHOLDER K, cipherVal K TLS_AES_128_GCM_SHA256, cipherVal K TLS_AES_256_GCM_SHA384,
         cipherVal K TLS_CHACHA20_POLY1305_SHA256, cipherVal K TLS_ECDHE_ECDSA_WITH_AES_128_GCM_SHA256,
         cipherVal K TLS_ECDHE_RSA_WITH_AES_128_GCM_SHA256,
         cipherVal K TLS_ECDHE_ECDSA_WITH_AES_256_GCM_SHA384,
         cipherVal K TLS_ECDHE_RSA_WITH_AES_256_GCM_SHA384,
         cipherVal K TLS_ECDHE_ECDSA_WITH_CHACHA20_POLY1305_SHA256,
         cipherVal K TLS_ECDHE_RSA_WITH_CHACHA20_POLY1305_SHA256,
         cipherVal K TLS_ECDHE_RSA_WITH_AES_128_CBC_SHA, cipherVal K TLS_ECDHE_RSA_WITH_AES_256_CBC_SHA,
         cipherVal K TLS_RSA_WITH_AES_128_GCM_SHA256, cipherVal K TLS_RSA_WITH_AES_256_GCM_SHA384,
         cipherVal K TLS_RSA_WITH_AES_128_CBC_SHA, cipherVal K TLS_RSA_WITH_AES_256_CBC_SHA],
      CompressionMethods = [CompressionNone K],
      Extensions =
       [UtlsGREASEExtension,
        ApplicationSettingsExtensionNew [''h2''],
        SupportedVersionsExtension [GREASE_PLACEHOLDER K, versionVal K VersionTLS13,
          versionVal K VersionTLS12],
        SCTExtension,
        BoringGREASEECH,
        KeyShareExtension [\<lparr>Group = GREASE_PLACEHOLDER K, KSData = [0]\<rparr>,
          \<lparr>Group = groupVal K X25519MLKEM768, KSData = []\<rparr>,
          \<lparr>Group = groupVal K X25519, KSData = []\<rparr>],
        SignatureAlgorithmsExtension [sigVal K ECDSAWithP256AndSHA256, sigVal K PSSWithSHA256,
          sigVal K PKCS1WithSHA256, sigVal K ECDSAWithP384AndSHA384, sigVal K PSSWithSHA384,
          sigVal K PKCS1WithSHA384, sigVal K PSSWithSHA512, sigVal K PKCS1WithSHA512],
        SupportedCurvesExtension [GREASE_PLACEHOLDER K, groupVal K X25519MLKEM768, groupVal K X25519,
          groupVal K CurveP256, groupVal K CurveP384],
        UtlsCompressCertExtension [certVal K CertCompressionBrotli],
        ExtendedMasterSecretExtension,
        SessionTicketExtension,
        SNIExtension,
        RenegotiationInfoExtension RenegotiateOnceAsClient,
        PSKKeyExchangeModesExtension [PskModeDHE K],
        SupportedPointsExtension [PointFormatUncompressed K],
        StatusRequestExtension,
        ALPNExtension [''h2'', ''http/1.1''],
        GenericExtension 0xca34 [0x00, 0x00],
        UtlsGREASEExtension,
        UtlsPreSharedKeyExtension False],
      GetSessionID = None\<rparr>"

definition Chrome_146_PSK :: "utls \<Rightarrow> ClientProfile" where
  "Chrome_146_PSK K = \<lparr>
     clientHelloId = FactoryHello \<lparr>Client = ''Chrome'', RandomExtensionOrder = False,
       Version = ''146_PSK'', SpecFactory = Chrome_146_PSK_spec K\<rparr>,
     headerPriority = None,
     settings = Some [(settingVal K SettingHeaderTableSize, 65536), (settingVal K SettingEnablePush, 0),
       (settingVal K SettingInitialWindowSize, 6291456), (settingVal K SettingMaxHeaderListSize, 262144)],
     settingsOrder = [settingVal K SettingHeaderTableSize, settingVal K SettingEnablePush,
       settingVal K SettingInitialWindowSize, settingVal K SettingMaxHeaderListSize],
     priorities = [],
     pseudoHeaderOrder = ['':method'', '':authority'', '':scheme'', '':path''],
     connectionFlow = 15663105,
     streamID = 0,
     allowHTTP = False,
     http3Settings = None,
     http3SettingsOrder = [],
     http3PriorityParam = 0,
     http3PseudoHeaderOrder = [],
     http3SendGreaseFrames = False\<rparr>"

definition Chrome_146_spec :: "utls \<Rightarrow> specFactory" where
  "Chrome_146_spec K seed = Inr
     \<lparr>CipherSuites =
       [GREASE_PLACEHOLDER K, cipherVal K TLS_AES_128_GCM_SHA256, cipherVal K TLS_AES_256_GCM_SHA384,
         cipherVal K TLS_CHACHA20_POLY1305_SHA256, cipherVal K TLS_ECDHE_ECDSA_WITH_AES_128_GCM_SHA256,
         cipherVal K TLS_ECDHE_RSA_WITH_AES_128_GCM_SHA256,
         cipherVal K TLS_ECDHE_ECDSA_WITH_AES_256_GCM_SHA384,
         cipherVal K TLS_ECDHE_RSA_WITH_AES_256_GCM_SHA384,
         cipherVal K TLS_ECDHE_ECDSA_WITH_CHACHA20_POLY1305_SHA256,
         cipherVal K TLS_ECDHE_RSA_WITH_CHACHA20_POLY1305_SHA256,
         cipherVal K TLS_ECDHE_RSA_WITH_AES_128_CBC_SHA, cipherVal K TLS_ECDHE_RSA_WITH_AES_256_CBC_SHA,
         cipherVal K TLS_RSA_WITH_AES_128_GCM_SHA256, cipherVal K TLS_RSA_WITH_AES_256_GCM_SHA384,
         cipherVal K TLS_RSA_WITH_AES_128_CBC_SHA, cipherVal K TLS_RSA_WITH_AES_256_CBC_SHA],
      CompressionMethods = [CompressionNone K],
      Extensions =
       [UtlsGREASEExtension,
        KeyShareExtension [\<lparr>Group = GREASE_PLACEHOLDER K, KSData = [0]\<rparr>,
          \<lparr>Group = groupVal K X25519MLKEM768, KSData = []\<rparr>,
          \<lparr>Group = groupVal K X25519, KSData = []\<rparr>],
        SNIExtension,
        ApplicationSettingsExtensionNew [''h2''],
        RenegotiationInfoExtension RenegotiateOnceAsClient,
        SupportedCurvesExtension [GREASE_PLACEHOLDER K, groupVal K X25519MLKEM768, groupVal K X25519,
          groupVal K CurveP256, groupVal K CurveP384],
        UtlsCompressCertExtension [certVal K CertCompressionBrotli],
        SessionTicketExtension,
        StatusRequestExtension,
        ExtendedMasterSecretExtension,
        SupportedVersionsExtension [GREASE_PLACEHOLDER K, versionVal K VersionTLS13,
          versionVal K VersionTLS12],
        SignatureAlgorithmsExtension [sigVal K ECDSAWithP256AndSHA256, sigVal K PSSWithSHA256,
          sigVal K PKCS1WithSHA256, sigVal K ECDSAWithP384AndSHA384, sigVal K PSSWithSHA384,
          sigVal K PKCS1WithSHA384, sigVal K PSSWithSHA512, sigVal K PKCS1WithSHA512],
        SCTExtension,
        SupportedPointsExtension [PointFormatUncompressed K],
        BoringGREASEECH,
        ALPNExtension [''h2'', ''http/1.1''],
        PSKKeyExchangeModesExtension [PskModeDHE K],
        GenericExtension 0xca34 [0x00, 0x00],
        UtlsGREASEExtension],
      GetSessionID = None\<rparr>"

definition Chrome_146 :: "utls \<Rightarrow> ClientProfile" where
  "Chrome_146 K = \<lparr>
     clientHelloId = FactoryHello \<lparr>Client = ''Chrome'', RandomExtensionOrder = False,
       Version = ''146'', SpecFactory = Chrome_146_spec K\<rparr>,
     headerPriority = None,
     settings = Some [(settingVal K SettingHeaderTableSize, 65536), (settingVal K SettingEnablePush, 0),
       (settingVal K SettingInitialWindowSize, 6291456), (settingVal K SettingMaxHeaderListSize, 262144)],
     settingsOrder = [settingVal K SettingHeaderTableSize, settingVal K SettingEnablePush,
       settingVal K SettingInitialWindowSize, settingVal K SettingMaxHeaderListSize],
     priorities = [],
     pseudoHeaderOrder = ['':method'', '':authority'', '':scheme'', '':path''],
     connectionFlow = 15663105,
     streamID = 0,
     allowHTTP = False,
     http3Settings = None,
     http3SettingsOrder = [],
     http3PriorityParam = 0,
     http3PseudoHeaderOrder = [],
     http3SendGreaseFrames = False\<rparr>"

definition Chrome_144_PSK_spec :: "utls \<Rightarrow> specFactory" where
  "Chrome_144_PSK_spec K seed = Inr
     \<lparr>CipherSuites =
       [GREASE_PLACEHOLDER K, cipherVal K TLS_AES_128_GCM_SHA256, cipherVal K TLS_AES_256_GCM_SHA384,
         cipherVal K TLS_CHACHA20_POLY1305_SHA256, cipherVal K TLS_ECDHE_ECDSA_WITH_AES_128_GCM_SHA256,
         cipherVal K TLS_ECDHE_RSA_WITH_AES_128_GCM_SHA256,
         cipherVal K TLS_ECDHE_ECDSA_WITH_AES_256_GCM_SHA384,
         cipherVal K TLS_ECDHE_RSA_WITH_AES_256_GCM_SHA384,
         cipherVal K TLS_ECDHE_ECDSA_WITH_CHACHA20_POLY1305_SHA256,
         cipherVal K TLS_ECDHE_RSA_WITH_CHACHA20_POLY1305_SHA256,
         cipherVal K TLS_ECDHE_RSA_WITH_AES_128_CBC_SHA, cipherVal K TLS_ECDHE_RSA_WITH_AES_256_CBC_SHA,
         cipherVal K TLS_RSA_WITH_AES_128_GCM_SHA256, cipherVal K TLS_RSA_WITH_AES_256_GCM_SHA384,
         cipherVal K TLS_RSA_WITH_AES_128_CBC_SHA, cipherVal K TLS_RSA_WITH_AES_256_CBC_SHA],
      CompressionMethods = [CompressionNone K],
      Extensions =
       [UtlsGREASEExtension,
        ApplicationSettingsExtensionNew [''h2''],
        SupportedVersionsExtension [GREASE_PLACEHOLDER K, versionVal K VersionTLS13,
          versionVal K VersionTLS12],
        SCTExtension,
        BoringGREASEECH,
        KeyShareExtension [\<lparr>Group = GREASE_PLACEHOLDER K, KSData = [0]\<rparr>,
          \<lparr>Group = groupVal K X25519MLKEM768, KSData = []\<rparr>,
          \<lparr>Group = groupVal K X25519, KSData = []\<rparr>],
        SignatureAlgorithmsExtension [sigVal K ECDSAWithP256AndSHA256, sigVal K PSSWithSHA256,
          sigVal K PKCS1WithSHA256, sigVal K ECDSAWithP384AndSHA384, sigVal K PSSWithSHA384,
          sigVal K PKCS1WithSHA384, sigVal K PSSWithSHA512, sigVal K PKCS1WithSHA512],
        SupportedCurvesExtension [GREASE_PLACEHOLDER K, groupVal K X25519MLKEM768, groupVal K X25519,
          groupVal K CurveP256, groupVal K CurveP384],
        UtlsCompressCertExtension [certVal K CertCompressionBrotli],
        ExtendedMasterSecretExtension,
        SessionTicketExtension,
        SNIExtension,
        RenegotiationInfoExtension RenegotiateOnceAsClient,
        PSKKeyExchangeModesExtension [PskModeDHE K],
        SupportedPointsExtension [PointFormatUncompressed K],
        StatusRequestExtension,
        ALPNExtension [''h2'', ''http/1.1''],
        UtlsGREASEExtension,
        UtlsPreSharedKeyExtension True],
      GetSessionID = None\<rparr>"

definition Chrome_144_PSK :: "utls \<Rightarrow> ClientProfile" where
  "Chrome_144_PSK K = \<lparr>
     clientHelloId = FactoryHello \<lparr>Client = ''Chrome'', RandomExtensionOrder = False,
       Version = ''144'', SpecFactory = Chrome_144_PSK_spec K\<rparr>,
     headerPriority = None,
     settings = Some [(settingVal K SettingHeaderTableSize, 65536), (settingVal K SettingEnablePush, 0),
       (settingVal K SettingInitialWindowSize, 6291456), (settingVal K SettingMaxHeaderListSize, 262144)],
     settingsOrder = [settingVal K SettingHeaderTableSize, settingVal K SettingEnablePush,
       settingVal K SettingInitialWindowSize, settingVal K SettingMaxHeaderListSize],
     priorities = [],
     pseudoHeaderOrder = ['':method'', '':authority'', '':scheme'', '':path''],
     connectionFlow = 15663105,
     streamID = 0,
     allowHTTP = False,
     http3Settings = Some [(1, 65536), (7, 100)],
     http3SettingsOrder = [1, 0x6, 7, 0x33],
     http3PriorityParam = 984832,
     http3PseudoHeaderOrder = ['':method'', '':authority'', '':scheme'', '':path''],
     http3SendGreaseFrames = True\<rparr>"

definition Chrome_144_spec :: "utls \<Rightarrow> specFactory" where
  "Chrome_144_spec K seed = Inr
     \<lparr>CipherSuites =
       [GREASE_PLACEHOLDER K, cipherVal K TLS_AES_128_GCM_SHA256, cipherVal K TLS_AES_256_GCM_SHA384,
         cipherVal K TLS_CHACHA20_POLY1305_SHA256, cipherVal K TLS_ECDHE_ECDSA_WITH_AES_128_GCM_SHA256,
         cipherVal K TLS_ECDHE_RSA_WITH_AES_128_GCM_SHA256,
         cipherVal K TLS_ECDHE_ECDSA_WITH_AES_256_GCM_SHA384,
         cipherVal K TLS_ECDHE_RSA_WITH_AES_256_GCM_SHA384,
         cipherVal K TLS_ECDHE_ECDSA_WITH_CHACHA20_POLY1305_SHA256,
         cipherVal K TLS_ECDHE_RSA_WITH_CHACHA20_POLY1305_SHA256,
         cipherVal K TLS_ECDHE_RSA_WITH_AES_128_CBC_SHA, cipherVal K TLS_ECDHE_RSA_WITH_AES_256_CBC_SHA,
         cipherVal K TLS_RSA_WITH_AES_128_GCM_SHA256, cipherVal K TLS_RSA_WITH_AES_256_GCM_SHA384,
         cipherVal K TLS_RSA_WITH_AES_128_CBC_SHA, cipherVal K TLS_RSA_WITH_AES_256_CBC_SHA],
      CompressionMethods = [CompressionNone K],
      Extensions =
       [UtlsGREASEExtension,
        KeyShareExtension [\<lparr>Group = GREASE_PLACEHOLDER K, KSData = [0]\<rparr>,
          \<lparr>Group = groupVal K X25519MLKEM768, KSData = []\<rparr>,
          \<lparr>Group = groupVal K X25519, KSData = []\<rparr>],
        SNIExtension,
        ApplicationSettingsExtensionNew [''h2''],
        RenegotiationInfoExtension RenegotiateOnceAsClient,
        SupportedCurvesExtension [GREASE_PLACEHOLDER K, groupVal K X25519MLKEM768, groupVal K X25519,
          groupVal K CurveP256, groupVal K CurveP384],
        UtlsCompressCertExtension [certVal K CertCompressionBrotli],
        SessionTicketExtension,
        StatusRequestExtension,
        ExtendedMasterSecretExtension,
        SupportedVersionsExtension [GREASE_PLACEHOLDER K, versionVal K VersionTLS13,
          versionVal K VersionTLS12],
        SignatureAlgorithmsExtension [sigVal K ECDSAWithP256AndSHA256, sigVal K PSSWithSHA256,
          sigVal K PKCS1WithSHA256, sigVal K ECDSAWithP384AndSHA384, sigVal K PSSWithSHA384,
          sigVal K PKCS1WithSHA384, sigVal K PSSWithSHA512, sigVal K PKCS1WithSHA512],
        SCTExtension,
        SupportedPointsExtension [PointFormatUncompressed K],
        BoringGREASEECH,
        ALPNExtension [''h2'', ''http/1.1''],
        PSKKeyExchangeModesExtension [PskModeDHE K],
        UtlsGREASEExtension],
      GetSessionID = None\<rparr>"

definition Chrome_144 :: "utls \<Rightarrow> ClientProfile" where
  "Chrome_144 K = \<lparr>
     clientHelloId = FactoryHello \<lparr>Client = ''Chrome'', RandomExtensionOrder = False,
       Version = ''144'', SpecFactory = Chrome_144_spec K\<rparr>,
     headerPriority = None,
     settings = Some [(settingVal K SettingHeaderTableSize, 65536), (settingVal K SettingEnablePush, 0),
       (settingVal K SettingInitialWindowSize, 6291456), (settingVal K SettingMaxHeaderListSize, 262144)],
     settingsOrder = [settingVal K SettingHeaderTableSize, settingVal K SettingEnablePush,
       settingVal K SettingInitialWindowSize, settingVal K SettingMaxHeaderListSize],
     priorities = [],
     pseudoHeaderOrder = ['':method'', '':authority'', '':scheme'', '':path''],
     connectionFlow = 15663105,
     streamID = 0,
     allowHTTP = False,
     http3Settings = Some [(1, 65536), (7, 100)],
     http3SettingsOrder = [1, 0x6, 7, 0x33],
     http3PriorityParam = 984832,
     http3PseudoHeaderOrder = ['':method'', '':authority'', '':scheme'', '':path''],
     http3SendGreaseFrames = True\<rparr>"

definition Chrome_133_PSK_spec :: "utls \<Rightarrow> specFactory" where
  "Chrome_133_PSK_spec K seed = Inr
     \<lparr>CipherSuites =
       [GREASE_PLACEHOLDER K, cipherVal K TLS_AES_128_GCM_SHA256, cipherVal K TLS_AES_256_GCM_SHA384,
         cipherVal K TLS_CHACHA20_POLY1305_SHA256, cipherVal K TLS_ECDHE_ECDSA_WITH_AES_128_GCM_SHA256,
         cipherVal K TLS_ECDHE_RSA_WITH_AES_128_GCM_SHA256,
         cipherVal K TLS_ECDHE_ECDSA_WITH_AES_256_GCM_SHA384,
         cipherVal K TLS_ECDHE_RSA_WITH_AES_256_GCM_SHA384,
         cipherVal K TLS_ECDHE_ECDSA_WITH_CHACHA20_POLY1305_SHA256,
         cipherVal K TLS_ECDHE_RSA_WITH_CHACHA20_POLY1305_SHA256,
         cipherVal K TLS_ECDHE_RSA_WITH_AES_128_CBC_SHA, cipherVal K TLS_ECDHE_RSA_WITH_AES_256_CBC_SHA,
         cipherVal K TLS_RSA_WITH_AES_128_GCM_SHA256, cipherVal K TLS_RSA_WITH_AES_256_GCM_SHA384,
         cipherVal K TLS_RSA_WITH_AES_128_CBC_SHA, cipherVal K TLS_RSA_WITH_AES_256_CBC_SHA],
      CompressionMethods = [CompressionNone K],
      Extensions =
       [UtlsGREASEExtension,
        SCTExtension,
        SNIExtension,
        BoringGREASEECH,
        RenegotiationInfoExtension RenegotiateOnceAsClient,
        ExtendedMasterSecretExtension,
        StatusRequestExtension,
        SupportedPointsExtension [PointFormatUncompressed K],
        SessionTicketExtension,
        ApplicationSettingsExtensionNew [''h3'', ''h2''],
        KeyShareExtension [\<lparr>Group = GREASE_PLACEHOLDER K, KSData = [0]\<rparr>,
          \<lparr>Group = groupVal K X25519MLKEM768, KSData = []\<rparr>,
          \<lparr>Group = groupVal K X25519, KSData = []\<rparr>],
        SignatureAlgorithmsExtension [sigVal K ECDSAWithP256AndSHA256, sigVal K PSSWithSHA256,
          sigVal K PKCS1WithSHA256, sigVal K ECDSAWithP384AndSHA384, sigVal K PSSWithSHA384,
          sigVal K PKCS1WithSHA384, sigVal K PSSWithSHA512, sigVal K PKCS1WithSHA512],
        SupportedCurvesExtension [GREASE_PLACEHOLDER K, groupVal K X25519MLKEM768, groupVal K X25519,
          groupVal K CurveP256, groupVal K CurveP384],
        ALPNExtension [''h3'', ''h2'', ''http/1.1''],
        SupportedVersionsExtension [GREASE_PLACEHOLDER K, versionVal K VersionTLS13,
          versionVal K VersionTLS12],
        PSKKeyExchangeModesExtension [PskModeDHE K],
        UtlsCompressCertExtension [certVal K CertCompressionBrotli],
        UtlsGREASEExtension,
        UtlsPreSharedKeyExtension False],
      GetSessionID = None\<rparr>"

definition Chrome_133_PSK :: "utls \<Rightarrow> ClientProfile" where
  "Chrome_133_PSK K = \<lparr>
     clientHelloId = FactoryHello \<lparr>Client = ''Chrome'', RandomExtensionOrder = False,
       Version = ''133'', SpecFactory = Chrome_133_PSK_spec K\<rparr>,
     headerPriority = None,
     settings = Some [(settingVal K SettingHeaderTableSize, 65536), (settingVal K SettingEnablePush, 0),
       (settingVal K SettingInitialWindowSize, 6291456), (settingVal K SettingMaxHeaderListSize, 262144)],
     settingsOrder = [settingVal K SettingHeaderTableSize, settingVal K SettingEnablePush,
       settingVal K SettingInitialWindowSize, settingVal K SettingMaxHeaderListSize],
     priorities = [],
     pseudoHeaderOrder = ['':method'', '':authority'', '':scheme'', '':path''],
     connectionFlow = 15663105,
     streamID = 0,
     allowHTTP = False,
     http3Settings = None,
     http3SettingsOrder = [],
     http3PriorityParam = 0,
     http3PseudoHeaderOrder = [],
     http3SendGreaseFrames = False\<rparr>"

definition Chrome_133_spec :: "utls \<Rightarrow> specFactory" where
  "Chrome_133_spec K seed = Inr
     \<lparr>CipherSuites =
       [GREASE_PLACEHOLDER K, cipherVal K TLS_AES_128_GCM_SHA256, cipherVal K TLS_AES_256_GCM_SHA384,
         cipherVal K TLS_CHACHA20_POLY1305_SHA256, cipherVal K TLS_ECDHE_ECDSA_WITH_AES_128_GCM_SHA256,
         cipherVal K TLS_ECDHE_RSA_WITH_AES_128_GCM_SHA256,
         cipherVal K TLS_ECDHE_ECDSA_WITH_AES_256_GCM_SHA384,
         cipherVal K TLS_ECDHE_RSA_WITH_AES_256_GCM_SHA384,
         cipherVal K TLS_ECDHE_ECDSA_WITH_CHACHA20_POLY1305_SHA256,
         cipherVal K TLS_ECDHE_RSA_WITH_CHACHA20_POLY1305_SHA256,
         cipherVal K TLS_ECDHE_RSA_WITH_AES_128_CBC_SHA, cipherVal K TLS_ECDHE_RSA_WITH_AES_256_CBC_SHA,
         cipherVal K TLS_RSA_WITH_AES_128_GCM_SHA256, cipherVal K TLS_RSA_WITH_AES_256_GCM_SHA384,
         cipherVal K TLS_RSA_WITH_AES_128_CBC_SHA, cipherVal K TLS_RSA_WITH_AES_256_CBC_SHA],
      CompressionMethods = [CompressionNone K],
      Extensions =
       [UtlsGREASEExtension,
        SessionTicketExtension,
        SignatureAlgorithmsExtension [sigVal K ECDSAWithP256AndSHA256, sigVal K PSSWithSHA256,
          sigVal K PKCS1WithSHA256, sigVal K ECDSAWithP384AndSHA384, sigVal K PSSWithSHA384,
          sigVal K PKCS1WithSHA384, sigVal K PSSWithSHA512, sigVal K PKCS1WithSHA512],
        ApplicationSettingsExtensionNew [''h3'', ''h2''],
        KeyShareExtension [\<lparr>Group = GREASE_PLACEHOLDER K, KSData = [0]\<rparr>,
          \<lparr>Group = groupVal K X25519MLKEM768, KSData = []\<rparr>,
          \<lparr>Group = groupVal K X25519, KSData = []\<rparr>],
        SCTExtension,
        SupportedPointsExtension [PointFormatUncompressed K],
        SupportedVersionsExtension [GREASE_PLACEHOLDER K, versionVal K VersionTLS13,
          versionVal K VersionTLS12],
        StatusRequestExtension,
        ALPNExtension [''h3'', ''h2'', ''http/1.1''],
        SNIExtension,
        BoringGREASEECH,
        UtlsCompressCertExtension [certVal K CertCompressionBrotli],
        SupportedCurvesExtension [GREASE_PLACEHOLDER K, groupVal K X25519MLKEM768, groupVal K X25519,
          groupVal K CurveP256, groupVal K CurveP384],
        PSKKeyExchangeModesExtension [PskModeDHE K],
        ExtendedMasterSecretExtension,
        RenegotiationInfoExtension RenegotiateOnceAsClient,
        UtlsGREASEExtension],
      GetSessionID = None\<rparr>"

definition Chrome_133 :: "utls \<Rightarrow> ClientProfile" where
  "Chrome_133 K = \<lparr>
     clientHelloId = FactoryHello \<lparr>Client = ''Chrome'', RandomExtensionOrder = False,
       Version = ''133'', SpecFactory = Chrome_133_spec K\<rparr>,
     headerPriority = None,
     settings = Some [(settingVal K SettingHeaderTableSize, 65536), (settingVal K SettingEnablePush, 0),
       (settingVal K SettingInitialWindowSize, 6291456), (settingVal K SettingMaxHeaderListSize, 262144)],
     settingsOrder = [settingVal K SettingHeaderTableSize, settingVal K SettingEnablePush,
       settingVal K SettingInitialWindowSize, settingVal K SettingMaxHeaderListSize],
     priorities = [],
     pseudoHeaderOrder = ['':method'', '':authority'', '':scheme'', '':path''],
     connectionFlow = 15663105,
     streamID = 0,
     allowHTTP = False,
     http3Settings = None,
     http3SettingsOrder = [],
     http3PriorityParam = 0,
     http3PseudoHeaderOrder = [],
     http3SendGreaseFrames = False\<rparr>"

definition Chrome_117_spec :: "utls \<Rightarrow> specFactory" where
  "Chrome_117_spec K seed = Inr
     \<lparr>CipherSuites =
       [GREASE_PLACEHOLDER K, cipherVal K TLS_AES_128_GCM_SHA256, cipherVal K TLS_AES_256_GCM_SHA384,
         cipherVal K TLS_CHACHA20_POLY1305_SHA256, cipherVal K TLS_ECDHE_ECDSA_WITH_AES_128_GCM_SHA256,
         cipherVal K TLS_ECDHE_RSA_WITH_AES_128_GCM_SHA256,
         cipherVal K TLS_ECDHE_ECDSA_WITH_AES_256_GCM_SHA384,
         cipherVal K TLS_ECDHE_RSA_WITH_AES_256_GCM_SHA384,
         cipherVal K TLS_ECDHE_ECDSA_WITH_CHACHA20_POLY1305_SHA256,
         cipherVal K TLS_ECDHE_RSA_WITH_CHACHA20_POLY1305_SHA256,
         cipherVal K TLS_ECDHE_RSA_WITH_AES_128_CBC_SHA, cipherVal K TLS_ECDHE_RSA_WITH_AES_256_CBC_SHA,
         cipherVal K TLS_RSA_WITH_AES_128_GCM_SHA256, cipherVal K TLS_RSA_WITH_AES_256_GCM_SHA384,
         cipherVal K TLS_RSA_WITH_AES_128_CBC_SHA, cipherVal K TLS_RSA_WITH_AES_256_CBC_SHA],
      CompressionMethods = [CompressionNone K],
      Extensions =
       [UtlsGREASEExtension,
        PSKKeyExchangeModesExtension [PskModeDHE K],
        SNIExtension,
        ALPNExtension [''h2'', ''http/1.1''],
        SignatureAlgorithmsExtension [sigVal K ECDSAWithP256AndSHA256, sigVal K PSSWithSHA256,
          sigVal K PKCS1WithSHA256, sigVal K ECDSAWithP384AndSHA384, sigVal K PSSWithSHA384,
          sigVal K PKCS1WithSHA384, sigVal K PSSWithSHA512, sigVal K PKCS1WithSHA512],
        SupportedVersionsExtension [GREASE_PLACEHOLDER K, versionVal K VersionTLS13,
          versionVal K VersionTLS12],
        ApplicationSettingsExtension [''h2''],
        SupportedCurvesExtension [GREASE_PLACEHOLDER K, groupVal K X25519, groupVal K CurveP256,
          groupVal K CurveP384],
        ExtendedMasterSecretExtension,
        SessionTicketExtension,
        UtlsCompressCertExtension [certVal K CertCompressionBrotli],
        SCTExtension,
        StatusRequestExtension,
        KeyShareExtension [\<lparr>Group = GREASE_PLACEHOLDER K, KSData = [0]\<rparr>,
          \<lparr>Group = groupVal K X25519, KSData = []\<rparr>],
        RenegotiationInfoExtension RenegotiateOnceAsClient,
        SupportedPointsExtension [PointFormatUncompressed K],
        UtlsGREASEExtension,
        UtlsPaddingExtension BoringPaddingStyle False],
      GetSessionID = None\<rparr>"

definition Chrome_117 :: "utls \<Rightarrow> ClientProfile" where
  "Chrome_117 K = \<lparr>
     clientHelloId = FactoryHello \<lparr>Client = ''Chrome'', RandomExtensionOrder = False,
       Version = ''117'', SpecFactory = Chrome_117_spec K\<rparr>,
     headerPriority = None,
     settings = Some [(settingVal K SettingHeaderTableSize, 65536), (settingVal K SettingEnablePush, 0),
       (settingVal K SettingInitialWindowSize, 6291456), (settingVal K SettingMaxHeaderListSize, 262144)],
     settingsOrder = [settingVal K SettingHeaderTableSize, settingVal K SettingEnablePush,
       settingVal K SettingInitialWindowSize, settingVal K SettingMaxHeaderListSize],
     priorities = [],
     pseudoHeaderOrder = ['':method'', '':authority'', '':scheme'', '':path''],
     connectionFlow = 15663105,
     streamID = 0,
     allowHTTP = False,
     http3Settings = None,
     http3SettingsOrder = [],
     http3PriorityParam = 0,
     http3PseudoHeaderOrder = [],
     http3SendGreaseFrames = False\<rparr>"

definition Chrome_124_spec :: "utls \<Rightarrow> specFactory" where
  "Chrome_124_spec K seed = Inr
     \<lparr>CipherSuites =
       [GREASE_PLACEHOLDER K, cipherVal K TLS_AES_128_GCM_SHA256, cipherVal K TLS_AES_256_GCM_SHA384,
         cipherVal K TLS_CHACHA20_POLY1305_SHA256, cipherVal K TLS_ECDHE_ECDSA_WITH_AES_128_GCM_SHA256,
         cipherVal K TLS_ECDHE_RSA_WITH_AES_128_GCM_SHA256,
         cipherVal K TLS_ECDHE_ECDSA_WITH_AES_256_GCM_SHA384,
         cipherVal K TLS_ECDHE_RSA_WITH_AES_256_GCM_SHA384,
         cipherVal K TLS_ECDHE_ECDSA_WITH_CHACHA20_POLY1305,
         cipherVal K TLS_ECDHE_RSA_WITH_CHACHA20_POLY1305, cipherVal K TLS_ECDHE_RSA_WITH_AES_128_CBC_SHA,
         cipherVal K TLS_ECDHE_RSA_WITH_AES_256_CBC_SHA, cipherVal K TLS_RSA_WITH_AES_128_GCM_SHA256,
         cipherVal K TLS_RSA_WITH_AES_256_GCM_SHA384, cipherVal K TLS_RSA_WITH_AES_128_CBC_SHA,
         cipherVal K TLS_RSA_WITH_AES_256_CBC_SHA],
      CompressionMethods = [CompressionNone K],
      Extensions =
       [UtlsGREASEExtension,
        UtlsCompressCertExtension [certVal K CertCompressionBrotli],
        SCTExtension,
        ExtendedMasterSecretExtension,
        ApplicationSettingsExtension [''h2''],
        ALPNExtension [''h2'', ''http/1.1''],
        SupportedVersionsExtension [GREASE_PLACEHOLDER K, versionVal K VersionTLS13,
          versionVal K VersionTLS12],
        SignatureAlgorithmsExtension [sigVal K ECDSAWithP256AndSHA256, sigVal K PSSWithSHA256,
          sigVal K PKCS1WithSHA256, sigVal K ECDSAWithP384AndSHA384, sigVal K PSSWithSHA384,
          sigVal K PKCS1WithSHA384, sigVal K PSSWithSHA512, sigVal K PKCS1WithSHA512],
        SupportedPointsExtension [PointFormatUncompressed K],
        SNIExtension,
        SessionTicketExtension,
        SupportedCurvesExtension [GREASE_PLACEHOLDER K, groupVal K X25519Kyber768Draft00, groupVal K X25519,
          groupVal K CurveP256, groupVal K CurveP384],
        BoringGREASEECH,
        StatusRequestExtension,
        RenegotiationInfoExtension RenegotiateOnceAsClient,
        PSKKeyExchangeModesExtension [PskModeDHE K],
        KeyShareExtension [\<lparr>Group = GREASE_PLACEHOLDER K, KSData = [0]\<rparr>,
          \<lparr>Group = groupVal K X25519Kyber768Draft00, KSData = []\<rparr>,
          \<lparr>Group = groupVal K X25519, KSData = []\<rparr>],
        UtlsGREASEExtension],
      GetSessionID = None\<rparr>"

definition Chrome_124 :: "utls \<Rightarrow> ClientProfile" where
  "Chrome_124 K = \<lparr>
     clientHelloId = FactoryHello \<lparr>Client = ''Chrome'', RandomExtensionOrder = False,
       Version = ''124'', SpecFactory = Chrome_124_spec K\<rparr>,
     headerPriority = None,
     settings = Some [(settingVal K SettingHeaderTableSize, 65536), (settingVal K SettingEnablePush, 0),
       (settingVal K SettingInitialWindowSize, 6291456), (settingVal K SettingMaxHeaderListSize, 262144)],
     settingsOrder = [settingVal K SettingHeaderTableSize, settingVal K SettingEnablePush,
       settingVal K SettingInitialWindowSize, settingVal K SettingMaxHeaderListSize],
     priorities = [],
     pseudoHeaderOrder = ['':method'', '':authority'', '':scheme'', '':path''],
     connectionFlow = 15663105,
     streamID = 0,
     allowHTTP = False,
     http3Settings = None,
     http3SettingsOrder = [],
     http3PriorityParam = 0,
     http3PseudoHeaderOrder = [],
     http3SendGreaseFrames = False\<rparr>"

definition Chrome_120_spec :: "utls \<Rightarrow> specFactory" where
  "Chrome_120_spec K seed = Inr
     \<lparr>CipherSuites =
       [GREASE_PLACEHOLDER K, cipherVal K TLS_AES_128_GCM_SHA256, cipherVal K TLS_AES_256_GCM_SHA384,
         cipherVal K TLS_CHACHA20_POLY1305_SHA256, cipherVal K TLS_ECDHE_ECDSA_WITH_AES_128_GCM_SHA256,
         cipherVal K TLS_ECDHE_RSA_WITH_AES_128_GCM_SHA256,
         cipherVal K TLS_ECDHE_ECDSA_WITH_AES_256_GCM_SHA384,
         cipherVal K TLS_ECDHE_RSA_WITH_AES_256_GCM_SHA384,
         cipherVal K TLS_ECDHE_ECDSA_WITH_CHACHA20_POLY1305,
         cipherVal K TLS_ECDHE_RSA_WITH_CHACHA20_POLY1305, cipherVal K TLS_ECDHE_RSA_WITH_AES_128_CBC_SHA,
         cipherVal K TLS_ECDHE_RSA_WITH_AES_256_CBC_SHA, cipherVal K TLS_RSA_WITH_AES_128_GCM_SHA256,
         cipherVal K TLS_RSA_WITH_AES_256_GCM_SHA384, cipherVal K TLS_RSA_WITH_AES_128_CBC_SHA,
         cipherVal K TLS_RSA_WITH_AES_256_CBC_SHA],
      CompressionMethods = [CompressionNone K],
      Extensions =
       [UtlsGREASEExtension,
        SNIExtension,
        PSKKeyExchangeModesExtension [PskModeDHE K],
        SupportedVersionsExtension [GREASE_PLACEHOLDER K, versionVal K VersionTLS13,
          versionVal K VersionTLS12],
        StatusRequestExtension,
        ExtendedMasterSecretExtension,
        SessionTicketExtension,
        SignatureAlgorithmsExtension [sigVal K ECDSAWithP256AndSHA256, sigVal K PSSWithSHA256,
          sigVal K PKCS1WithSHA256, sigVal K ECDSAWithP384AndSHA384, sigVal K PSSWithSHA384,
          sigVal K PKCS1WithSHA384, sigVal K PSSWithSHA512, sigVal K PKCS1WithSHA512],
        RenegotiationInfoExtension RenegotiateOnceAsClient,
        ALPNExtension [''h2'', ''http/1.1''],
        BoringGREASEECH,
        SCTExtension,
        KeyShareExtension [\<lparr>Group = GREASE_PLACEHOLDER K, KSData = [0]\<rparr>,
          \<lparr>Group = groupVal K X25519, KSData = []\<rparr>],
        SupportedCurvesExtension [GREASE_PLACEHOLDER K, groupVal K X25519, groupVal K CurveP256,
          groupVal K CurveP384],
        SupportedPointsExtension [PointFormatUncompressed K],
        ApplicationSettingsExtension [''h2''],
        UtlsCompressCertExtension [certVal K CertCompressionBrotli],
        UtlsGREASEExtension],
      GetSessionID = None\<rparr>"

definition Chrome_120 :: "utls \<Rightarrow> ClientProfile" where
  "Chrome_120 K = \<lparr>
     clientHelloId = FactoryHello \<lparr>Client = ''Chrome'', RandomExtensionOrder = False,
       Version = ''120'', SpecFactory = Chrome_120_spec K\<rparr>,
     headerPriority = None,
     settings = Some [(settingVal K SettingHeaderTableSize, 65536), (settingVal K SettingEnablePush, 0),
       (settingVal K SettingInitialWindowSize, 6291456), (settingVal K SettingMaxHeaderListSize, 262144)],
     settingsOrder = [settingVal K SettingHeaderTableSize, settingVal K SettingEnablePush,
       settingVal K SettingInitialWindowSize, settingVal K SettingMaxHeaderListSize],
     priorities = [],
     pseudoHeaderOrder = ['':method'', '':authority'', '':scheme'', '':path''],
     connectionFlow = 15663105,
     streamID = 0,
     allowHTTP = False,
     http3Settings = None,
     http3SettingsOrder = [],
     http3PriorityParam = 0,
     http3PseudoHeaderOrder = [],
     http3SendGreaseFrames = False\<rparr>"

definition Chrome_112 :: "utls \<Rightarrow> ClientProfile" where
  "Chrome_112 K = \<lparr>
     clientHelloId = BuiltinHello HelloChrome_112,
     headerPriority = None,
     settings = Some [(settingVal K SettingHeaderTableSize, 65536), (settingVal K SettingEnablePush, 0),
       (settingVal K SettingMaxConcurrentStreams, 1000), (settingVal K SettingInitialWindowSize, 6291456),
       (settingVal K SettingMaxHeaderListSize, 262144)],
     settingsOrder = [settingVal K SettingHeaderTableSize, settingVal K SettingEnablePush,
       settingVal K SettingMaxConcurrentStreams, settingVal K SettingInitialWindowSize,
       settingVal K SettingMaxHeaderListSize],
     priorities = [],
     pseudoHeaderOrder = ['':method'', '':authority'', '':scheme'', '':path''],
     connectionFlow = 15663105,
     streamID = 0,
     allowHTTP = False,
     http3Settings = None,
     http3SettingsOrder = [],
     http3PriorityParam = 0,
     http3PseudoHeaderOrder = [],
     http3SendGreaseFrames = False\<rparr>"

definition Chrome_116_PSK :: "utls \<Rightarrow> ClientProfile" where
  "Chrome_116_PSK K = \<lparr>
     clientHelloId = BuiltinHello HelloChrome_112_PSK,
     headerPriority = None,
     settings = Some [(settingVal K SettingHeaderTableSize, 65536), (settingVal K SettingEnablePush, 0),
       (settingVal K SettingMaxConcurrentStreams, 1000), (settingVal K SettingInitialWindowSize, 6291456),
       (settingVal K SettingMaxHeaderListSize, 262144)],
     settingsOrder = [settingVal K SettingHeaderTableSize, settingVal K SettingEnablePush,
       settingVal K SettingMaxConcurrentStreams, settingVal K SettingInitialWindowSize,
       settingVal K SettingMaxHeaderListSize],
     priorities = [],
     pseudoHeaderOrder = ['':method'', '':authority'', '':scheme'', '':path''],
     connectionFlow = 15663105,
     streamID = 0,
     allowHTTP = False,
     http3Settings = None,
     http3SettingsOrder = [],
     http3PriorityParam = 0,
     http3PseudoHeaderOrder = [],
     http3SendGreaseFrames = False\<rparr>"

definition Chrome_116_PSK_PQ :: "utls \<Rightarrow> ClientProfile" where
  "Chrome_116_PSK_PQ K = \<lparr>
     clientHelloId = BuiltinHello HelloChrome_115_PQ_PSK,
     headerPriority = None,
     settings = Some [(settingVal K SettingHeaderTableSize, 65536), (settingVal K SettingEnablePush, 0),
       (settingVal K SettingMaxConcurrentStreams, 1000), (settingVal K SettingInitialWindowSize, 6291456),
       (settingVal K SettingMaxHeaderListSize, 262144)],
     settingsOrder = [settingVal K SettingHeaderTableSize, settingVal K SettingEnablePush,
       settingVal K SettingMaxConcurrentStreams, settingVal K SettingInitialWindowSize,
       settingVal K SettingMaxHeaderListSize],
     priorities = [],
     pseudoHeaderOrder = ['':method'', '':authority'', '':scheme'', '':path''],
     connectionFlow = 15663105,
     streamID = 0,
     allowHTTP = False,
     http3Settings = None,
     http3SettingsOrder = [],
     http3PriorityParam = 0,
     http3PseudoHeaderOrder = [],
     http3SendGreaseFrames = False\<rparr>"

definition Chrome_111 :: "utls \<Rightarrow> ClientProfile" where
  "Chrome_111 K = \<lparr>
     clientHelloId = BuiltinHello HelloChrome_111,
     headerPriority = None,
     settings = Some [(settingVal K SettingHeaderTableSize, 65536), (settingVal K SettingEnablePush, 0),
       (settingVal K SettingMaxConcurrentStreams, 1000), (settingVal K SettingInitialWindowSize, 6291456),
       (settingVal K SettingMaxHeaderListSize, 262144)],
     settingsOrder = [settingVal K SettingHeaderTableSize, settingVal K SettingEnablePush,
       settingVal K SettingMaxConcurrentStreams, settingVal K SettingInitialWindowSize,
       settingVal K SettingMaxHeaderListSize],
     priorities = [],
     pseudoHeaderOrder = ['':method'', '':authority'', '':scheme'', '':path''],
     connectionFlow = 15663105,
     streamID = 0,
     allowHTTP = False,
     http3Settings = None,
     http3SettingsOrder = [],
     http3PriorityParam = 0,
     http3PseudoHeaderOrder = [],
     http3SendGreaseFrames = False\<rparr>"

definition Chrome_110 :: "utls \<Rightarrow> ClientProfile" where
  "Chrome_110 K = \<lparr>
     clientHelloId = BuiltinHello HelloChrome_110,
     headerPriority = None,
     settings = Some [(settingVal K SettingHeaderTableSize, 65536), (settingVal K SettingEnablePush, 0),
       (settingVal K SettingMaxConcurrentStreams, 1000), (settingVal K SettingInitialWindowSize, 6291456),
       (settingVal K SettingMaxHeaderListSize, 262144)],
     settingsOrder = [settingVal K SettingHeaderTableSize, settingVal K SettingEnablePush,
       settingVal K SettingMaxConcurrentStreams, settingVal K SettingInitialWindowSize,
       settingVal K SettingMaxHeaderListSize],
     priorities = [],
     pseudoHeaderOrder = ['':method'', '':authority'', '':scheme'', '':path''],
     connectionFlow = 15663105,
     streamID = 0,
     allowHTTP = False,
     http3Settings = None,
     http3SettingsOrder = [],
     http3PriorityParam = 0,
     http3PseudoHeaderOrder = [],
     http3SendGreaseFrames = False\<rparr>"

definition Chrome_109 :: "utls \<Rightarrow> ClientProfile" where
  "Chrome_109 K = \<lparr>
     clientHelloId = BuiltinHello HelloChrome_109,
     headerPriority = None,
     settings = Some [(settingVal K SettingHeaderTableSize, 65536), (settingVal K SettingEnablePush, 0),
       (settingVal K SettingMaxConcurrentStreams, 1000), (settingVal K SettingInitialWindowSize, 6291456),
       (settingVal K SettingMaxHeaderListSize, 262144)],
     settingsOrder = [settingVal K SettingHeaderTableSize, settingVal K SettingEnablePush,
       settingVal K SettingMaxConcurrentStreams, settingVal K SettingInitialWindowSize,
       settingVal K SettingMaxHeaderListSize],
     priorities = [],
     pseudoHeaderOrder = ['':method'', '':authority'', '':scheme'', '':path''],
     connectionFlow = 15663105,
     streamID = 0,
     allowHTTP = False,
     http3Settings = None,
     http3SettingsOrder = [],
     http3PriorityParam = 0,
     http3PseudoHeaderOrder = [],
     http3SendGreaseFrames = False\<rparr>"

definition Chrome_108 :: "utls \<Rightarrow> ClientProfile" where
  "Chrome_108 K = \<lparr>
     clientHelloId = BuiltinHello HelloChrome_108,
     headerPriority = None,
     settings = Some [(settingVal K SettingHeaderTableSize, 65536), (settingVal K SettingEnablePush, 0),
       (settingVal K SettingMaxConcurrentStreams, 1000), (settingVal K SettingInitialWindowSize, 6291456),
       (settingVal K SettingMaxHeaderListSize, 262144)],
     settingsOrder = [settingVal K SettingHeaderTableSize, settingVal K SettingEnablePush,
       settingVal K SettingMaxConcurrentStreams, settingVal K SettingInitialWindowSize,
       settingVal K SettingMaxHeaderListSize],
     priorities = [],
     pseudoHeaderOrder = ['':method'', '':authority'', '':scheme'', '':path''],
     connectionFlow = 15663105,
     streamID = 0,
     allowHTTP = False,
     http3Settings = None,
     http3SettingsOrder = [],
     http3PriorityParam = 0,
     http3PseudoHeaderOrder = [],
     http3SendGreaseFrames = False\<rparr>"

definition Chrome_107 :: "utls \<Rightarrow> ClientProfile" where
  "Chrome_107 K = \<lparr>
     clientHelloId = BuiltinHello HelloChrome_107,
     headerPriority = None,
     settings = Some [(settingVal K SettingHeaderTableSize, 65536), (settingVal K SettingEnablePush, 0),
       (settingVal K SettingMaxConcurrentStreams, 1000), (settingVal K SettingInitialWindowSize, 6291456),
       (settingVal K SettingMaxHeaderListSize, 262144)],
     settingsOrder = [settingVal K SettingHeaderTableSize, settingVal K SettingEnablePush,
       settingVal K SettingMaxConcurrentStreams, settingVal K SettingInitialWindowSize,
       settingVal K SettingMaxHeaderListSize],
     priorities = [],
     pseudoHeaderOrder = ['':method'', '':authority'', '':scheme'', '':path''],
     connectionFlow = 15663105,
     streamID = 0,
     allowHTTP = False,
     http3Settings = None,
     http3SettingsOrder = [],
     http3PriorityParam = 0,
     http3PseudoHeaderOrder = [],
     http3SendGreaseFrames = False\<rparr>"

definition Chrome_106 :: "utls \<Rightarrow> ClientProfile" where
  "Chrome_106 K = \<lparr>
     clientHelloId = BuiltinHello HelloChrome_106,
     headerPriority = None,
     settings = Some [(settingVal K SettingHeaderTableSize, 65536), (settingVal K SettingEnablePush, 0),
       (settingVal K SettingMaxConcurrentStreams, 1000), (settingVal K SettingInitialWindowSize, 6291456),
       (settingVal K SettingMaxHeaderListSize, 262144)],
     settingsOrder = [settingVal K SettingHeaderTableSize, settingVal K SettingEnablePush,
       settingVal K SettingMaxConcurrentStreams, settingVal K SettingInitialWindowSize,
       settingVal K SettingMaxHeaderListSize],
     priorities = [],
     pseudoHeaderOrder = ['':method'', '':authority'', '':scheme'', '':path''],
     connectionFlow = 15663105,
     streamID = 0,
     allowHTTP = False,
     http3Settings = None,
     http3SettingsOrder = [],
     http3PriorityParam = 0,
     http3PseudoHeaderOrder = [],
     http3SendGreaseFrames = False\<rparr>"

definition Chrome_105 :: "utls \<Rightarrow> ClientProfile" where
  "Chrome_105 K = \<lparr>
     clientHelloId = BuiltinHello HelloChrome_105,
     headerPriority = None,
     settings = Some [(settingVal K SettingHeaderTableSize, 65536),
       (settingVal K SettingMaxConcurrentStreams, 1000), (settingVal K SettingInitialWindowSize, 6291456),
       (settingVal K SettingMaxHeaderListSize, 262144)],
     settingsOrder = [settingVal K SettingHeaderTableSize, settingVal K SettingMaxConcurrentStreams,
       settingVal K SettingInitialWindowSize, settingVal K SettingMaxHeaderListSize],
     priorities = [],
     pseudoHeaderOrder = ['':method'', '':authority'', '':scheme'', '':path''],
     connectionFlow = 15663105,
     streamID = 0,
     allowHTTP = False,
     http3Settings = None,
     http3SettingsOrder = [],
     http3PriorityParam = 0,
     http3PseudoHeaderOrder = [],
     http3SendGreaseFrames = False\<rparr>"

definition Chrome_104 :: "utls \<Rightarrow> ClientProfile" where
  "Chrome_104 K = \<lparr>
     clientHelloId = BuiltinHello HelloChrome_104,
     headerPriority = None,
     settings = Some [(settingVal K SettingHeaderTableSize, 65536),
       (settingVal K SettingMaxConcurrentStreams, 1000), (settingVal K SettingInitialWindowSize, 6291456),
       (settingVal K SettingMaxHeaderListSize, 262144)],
     settingsOrder = [settingVal K SettingHeaderTableSize, settingVal K SettingMaxConcurrentStreams,
       settingVal K SettingInitialWindowSize, settingVal K SettingMaxHeaderListSize],
     priorities = [],
     pseudoHeaderOrder = ['':method'', '':authority'', '':scheme'', '':path''],
     connectionFlow = 15663105,
     streamID = 0,
     allowHTTP = False,
     http3Settings = None,
     http3SettingsOrder = [],
     http3PriorityParam = 0,
     http3PseudoHeaderOrder = [],
     http3SendGreaseFrames = False\<rparr>"

definition Chrome_103 :: "utls \<Rightarrow> ClientProfile" where
  "Chrome_103 K = \<lparr>
     clientHelloId = BuiltinHello HelloChrome_103,
     headerPriority = None,
     settings = Some [(settingVal K SettingHeaderTableSize, 65536),
       (settingVal K SettingMaxConcurrentStreams, 1000), (settingVal K SettingInitialWindowSize, 6291456),
       (settingVal K SettingMaxHeaderListSize, 262144)],
     settingsOrder = [settingVal K SettingHeaderTableSize, settingVal K SettingMaxConcurrentStreams,
       settingVal K SettingInitialWindowSize, settingVal K SettingMaxHeaderListSize],
     priorities = [],
     pseudoHeaderOrder = ['':method'', '':authority'', '':scheme'', '':path''],
     connectionFlow = 15663105,
     streamID = 0,
     allowHTTP = False,
     http3Settings = None,
     http3SettingsOrder = [],
     http3PriorityParam = 0,
     http3PseudoHeaderOrder = [],
     http3SendGreaseFrames = False\<rparr>"

definition Safari_15_6_1 :: "utls \<Rightarrow> ClientProfile" where
  "Safari_15_6_1 K = \<lparr>
     clientHelloId = BuiltinHello HelloSafari_15_6_1,
     headerPriority = None,
     settings = Some [(settingVal K SettingInitialWindowSize, 4194304),
       (settingVal K SettingMaxConcurrentStreams, 100)],
     settingsOrder = [settingVal K SettingInitialWindowSize, settingVal K SettingMaxConcurrentStreams],
     priorities = [],
     pseudoHeaderOrder = ['':method'', '':scheme'', '':path'', '':authority''],
     connectionFlow = 10485760,
     streamID = 0,
     allowHTTP = False,
     http3Settings = None,
     http3SettingsOrder = [],
     http3PriorityParam = 0,
     http3PseudoHeaderOrder = [],
     http3SendGreaseFrames = False\<rparr>"

definition Safari_16_0 :: "utls \<Rightarrow> ClientProfile" where
  "Safari_16_0 K = \<lparr>
     clientHelloId = BuiltinHello HelloSafari_16_0,
     headerPriority = None,
     settings = Some [(settingVal K SettingInitialWindowSize, 4194304),
       (settingVal K SettingMaxConcurrentStreams, 100)],
     settingsOrder = [settingVal K SettingInitialWindowSize, settingVal K SettingMaxConcurrentStreams],
     priorities = [],
     pseudoHeaderOrder = ['':method'', '':scheme'', '':path'', '':authority''],
     connectionFlow = 10485760,
     streamID = 0,
     allowHTTP = False,
     http3Settings = None,
     http3SettingsOrder = [],
     http3PriorityParam = 0,
     http3PseudoHeaderOrder = [],
     http3SendGreaseFrames = False\<rparr>"

definition Safari_Ipad_15_6 :: "utls \<Rightarrow> ClientProfile" where
  "Safari_Ipad_15_6 K = \<lparr>
     clientHelloId = BuiltinHello HelloIPad_15_6,
     headerPriority = None,
     settings = Some [(settingVal K SettingInitialWindowSize, 2097152),
       (settingVal K SettingMaxConcurrentStreams, 100)],
     settingsOrder = [settingVal K SettingInitialWindowSize, settingVal K SettingMaxConcurrentStreams],
     priorities = [],
     pseudoHeaderOrder = ['':method'', '':scheme'', '':path'', '':authority''],
     connectionFlow = 10485760,
     streamID = 0,
     allowHTTP = False,
     http3Settings = None,
     http3SettingsOrder = [],
     http3PriorityParam = 0,
     http3PseudoHeaderOrder = [],
     http3SendGreaseFrames = False\<rparr>"

definition Safari_IOS_17_0_spec :: "utls \<Rightarrow> specFactory" where
  "Safari_IOS_17_0_spec K seed = Inr
     \<lparr>CipherSuites =
       [GREASE_PLACEHOLDER K, cipherVal K TLS_AES_128_GCM_SHA256, cipherVal K TLS_AES_256_GCM_SHA384,
         cipherVal K TLS_CHACHA20_POLY1305_SHA256, cipherVal K TLS_ECDHE_ECDSA_WITH_AES_256_GCM_SHA384,
         cipherVal K TLS_ECDHE_ECDSA_WITH_AES_128_GCM_SHA256,
         cipherVal K TLS_ECDHE_ECDSA_WITH_CHACHA20_POLY1305_SHA256,
         cipherVal K TLS_ECDHE_RSA_WITH_AES_256_GCM_SHA384,
         cipherVal K TLS_ECDHE_RSA_WITH_AES_128_GCM_SHA256,
         cipherVal K TLS_ECDHE_RSA_WITH_CHACHA20_POLY1305_SHA256,
         cipherVal K TLS_ECDHE_ECDSA_WITH_AES_256_CBC_SHA, cipherVal K TLS_ECDHE_ECDSA_WITH_AES_128_CBC_SHA,
         cipherVal K TLS_ECDHE_RSA_WITH_AES_256_CBC_SHA, cipherVal K TLS_ECDHE_RSA_WITH_AES_128_CBC_SHA,
         cipherVal K TLS_RSA_WITH_AES_256_GCM_SHA384, cipherVal K TLS_RSA_WITH_AES_128_GCM_SHA256,
         cipherVal K TLS_RSA_WITH_AES_256_CBC_SHA, cipherVal K TLS_RSA_WITH_AES_128_CBC_SHA,
         cipherVal K TLS_ECDHE_ECDSA_WITH_3DES_EDE_CBC_SHA, cipherVal K TLS_ECDHE_RSA_WITH_3DES_EDE_CBC_SHA,
         cipherVal K TLS_RSA_WITH_3DES_EDE_CBC_SHA],
      CompressionMethods = [CompressionNone K],
      Extensions =
       [UtlsGREASEExtension,
        SNIExtension,
        ExtendedMasterSecretExtension,
        RenegotiationInfoExtension RenegotiateOnceAsClient,
        SupportedCurvesExtension [GREASE_PLACEHOLDER K, groupVal K X25519, groupVal K CurveP256,
          groupVal K CurveP384, groupVal K CurveP521],
        SupportedPointsExtension [PointFormatUncompressed K],
        ALPNExtension [''h2'', ''http/1.1''],
        StatusRequestExtension,
        SignatureAlgorithmsExtension [sigVal K ECDSAWithP256AndSHA256, sigVal K PSSWithSHA256,
          sigVal K PKCS1WithSHA256, sigVal K ECDSAWithP384AndSHA384, sigVal K ECDSAWithSHA1,
          sigVal K PSSWithSHA384, sigVal K PSSWithSHA384, sigVal K PKCS1WithSHA384, sigVal K PSSWithSHA512,
          sigVal K PKCS1WithSHA512, sigVal K PKCS1WithSHA1],
        SCTExtension,
        KeyShareExtension [\<lparr>Group = GREASE_PLACEHOLDER K, KSData = [0]\<rparr>,
          \<lparr>Group = groupVal K X25519, KSData = []\<rparr>],
        PSKKeyExchangeModesExtension [PskModeDHE K],
        SupportedVersionsExtension [GREASE_PLACEHOLDER K, versionVal K VersionTLS13,
          versionVal K VersionTLS12, versionVal K VersionTLS11, versionVal K VersionTLS10],
        UtlsCompressCertExtension [certVal K CertCompressionZlib],
        UtlsGREASEExtension,
        UtlsPaddingExtension BoringPaddingStyle False],
      GetSessionID = None\<rparr>"

definition Safari_IOS_17_0 :: "utls \<Rightarrow> ClientProfile" where
  "Safari_IOS_17_0 K = \<lparr>
     clientHelloId = FactoryHello \<lparr>Client = ''iOS'', RandomExtensionOrder = False,
       Version = ''17.0'', SpecFactory = Safari_IOS_17_0_spec K\<rparr>,
     headerPriority = None,
     settings = Some [(settingVal K SettingEnablePush, 0), (settingVal K SettingInitialWindowSize, 2097152),
       (settingVal K SettingMaxConcurrentStreams, 100)],
     settingsOrder = [settingVal K SettingEnablePush, settingVal K SettingInitialWindowSize,
       settingVal K SettingMaxConcurrentStreams],
     priorities = [],
     pseudoHeaderOrder = ['':method'', '':scheme'', '':path'', '':authority''],
     connectionFlow = 10485760,
     streamID = 0,
     allowHTTP = False,
     http3Settings = None,
     http3SettingsOrder = [],
     http3PriorityParam = 0,
     http3PseudoHeaderOrder = [],
     http3SendGreaseFrames = False\<rparr>"

definition Safari_IOS_26_0_spec :: "utls \<Rightarrow> specFactory" where
  "Safari_IOS_26_0_spec K seed = Inr
     \<lparr>CipherSuites =
       [GREASE_PLACEHOLDER K, cipherVal K TLS_AES_256_GCM_SHA384, cipherVal K TLS_CHACHA20_POLY1305_SHA256,
         cipherVal K TLS_AES_128_GCM_SHA256, cipherVal K TLS_ECDHE_ECDSA_WITH_AES_256_GCM_SHA384,
         cipherVal K TLS_ECDHE_ECDSA_WITH_AES_128_GCM_SHA256,
         cipherVal K TLS_ECDHE_ECDSA_WITH_CHACHA20_POLY1305_SHA256,
         cipherVal K TLS_ECDHE_RSA_WITH_AES_256_GCM_SHA384,
         cipherVal K TLS_ECDHE_RSA_WITH_AES_128_GCM_SHA256,
         cipherVal K TLS_ECDHE_RSA_WITH_CHACHA20_POLY1305_SHA256,
         cipherVal K TLS_ECDHE_ECDSA_WITH_AES_256_CBC_SHA, cipherVal K TLS_ECDHE_ECDSA_WITH_AES_128_CBC_SHA,
         cipherVal K TLS_ECDHE_RSA_WITH_AES_256_CBC_SHA, cipherVal K TLS_ECDHE_RSA_WITH_AES_128_CBC_SHA,
         cipherVal K TLS_RSA_WITH_AES_256_GCM_SHA384, cipherVal K TLS_RSA_WITH_AES_128_GCM_SHA256,
         cipherVal K TLS_RSA_WITH_AES_256_CBC_SHA, cipherVal K TLS_RSA_WITH_AES_128_CBC_SHA,
         cipherVal K TLS_ECDHE_ECDSA_WITH_3DES_EDE_CBC_SHA, cipherVal K TLS_ECDHE_RSA_WITH_3DES_EDE_CBC_SHA,
         cipherVal K TLS_RSA_WITH_3DES_EDE_CBC_SHA],
      CompressionMethods = [CompressionNone K],
      Extensions =
       [UtlsGREASEExtension,
        SNIExtension,
        ExtendedMasterSecretExtension,
        RenegotiationInfoExtension RenegotiateOnceAsClient,
        SupportedCurvesExtension [GREASE_PLACEHOLDER K, groupVal K X25519MLKEM768, groupVal K X25519,
          groupVal K CurveP256, groupVal K CurveP384, groupVal K CurveP521],
        SupportedPointsExtension [PointFormatUncompressed K],
        ALPNExtension [''h2'', ''http/1.1''],
        StatusRequestExtension,
        SignatureAlgorithmsExtension [sigVal K ECDSAWithP256AndSHA256, sigVal K PSSWithSHA256,
          sigVal K PKCS1WithSHA256, sigVal K ECDSAWithP384AndSHA384, sigVal K PSSWithSHA384,
          sigVal K PSSWithSHA384, sigVal K PKCS1WithSHA384, sigVal K PSSWithSHA512,
          sigVal K PKCS1WithSHA512, sigVal K PKCS1WithSHA1],
        SCTExtension,
        KeyShareExtension [\<lparr>Group = GREASE_PLACEHOLDER K, KSData = [0]\<rparr>,
          \<lparr>Group = groupVal K X25519MLKEM768, KSData = []\<rparr>,
          \<lparr>Group = groupVal K X25519, KSData = []\<rparr>],
        PSKKeyExchangeModesExtension [PskModeDHE K],
        SupportedVersionsExtension [GREASE_PLACEHOLDER K, versionVal K VersionTLS13,
          versionVal K VersionTLS12],
        UtlsCompressCertExtension [certVal K CertCompressionZlib],
        UtlsGREASEExtension],
      GetSessionID = None\<rparr>"

definition Safari_IOS_26_0 :: "utls \<Rightarrow> ClientProfile" where
  "Safari_IOS_26_0 K = \<lparr>
     clientHelloId = FactoryHello \<lparr>Client = ''iOS'', RandomExtensionOrder = False,
       Version = ''26.0'', SpecFactory = Safari_IOS_26_0_spec K\<rparr>,
     headerPriority = None,
     settings = Some [(settingVal K SettingEnablePush, 0), (settingVal K SettingMaxConcurrentStreams, 100),
       (settingVal K SettingInitialWindowSize, 2097152), (settingVal K SettingNoRFC7540Priorities, 1)],
     settingsOrder = [settingVal K SettingEnablePush, settingVal K SettingMaxConcurrentStreams,
       settingVal K SettingInitialWindowSize, settingVal K SettingNoRFC7540Priorities],
     priorities = [],
     pseudoHeaderOrder = ['':method'', '':scheme'', '':authority'', '':path''],
     connectionFlow = 10420225,
     streamID = 0,
     allowHTTP = False,
     http3Settings = None,
     http3SettingsOrder = [],
     http3PriorityParam = 0,
     http3PseudoHeaderOrder = [],
     http3SendGreaseFrames = False\<rparr>"

definition Safari_IOS_18_5_spec :: "utls \<Rightarrow> specFactory" where
  "Safari_IOS_18_5_spec K seed = Inr
     \<lparr>CipherSuites =
       [GREASE_PLACEHOLDER K, cipherVal K TLS_AES_128_GCM_SHA256, cipherVal K TLS_AES_256_GCM_SHA384,
         cipherVal K TLS_CHACHA20_POLY1305_SHA256, cipherVal K TLS_ECDHE_ECDSA_WITH_AES_256_GCM_SHA384,
         cipherVal K TLS_ECDHE_ECDSA_WITH_AES_128_GCM_SHA256,
         cipherVal K TLS_ECDHE_ECDSA_WITH_CHACHA20_POLY1305_SHA256,
         cipherVal K TLS_ECDHE_RSA_WITH_AES_256_GCM_SHA384,
         cipherVal K TLS_ECDHE_RSA_WITH_AES_128_GCM_SHA256,
         cipherVal K TLS_ECDHE_RSA_WITH_CHACHA20_POLY1305_SHA256,
         cipherVal K TLS_ECDHE_ECDSA_WITH_AES_256_CBC_SHA, cipherVal K TLS_ECDHE_ECDSA_WITH_AES_128_CBC_SHA,
         cipherVal K TLS_ECDHE_RSA_WITH_AES_256_CBC_SHA, cipherVal K TLS_ECDHE_RSA_WITH_AES_128_CBC_SHA,
         cipherVal K TLS_RSA_WITH_AES_256_GCM_SHA384, cipherVal K TLS_RSA_WITH_AES_128_GCM_SHA256,
         cipherVal K TLS_RSA_WITH_AES_256_CBC_SHA, cipherVal K TLS_RSA_WITH_AES_128_CBC_SHA,
         cipherVal K TLS_ECDHE_ECDSA_WITH_3DES_EDE_CBC_SHA, cipherVal K TLS_ECDHE_RSA_WITH_3DES_EDE_CBC_SHA,
         cipherVal K TLS_RSA_WITH_3DES_EDE_CBC_SHA],
      CompressionMethods = [CompressionNone K],
      Extensions =
       [UtlsGREASEExtension,
        SNIExtension,
        ExtendedMasterSecretExtension,
        RenegotiationInfoExtension RenegotiateOnceAsClient,
        SupportedCurvesExtension [GREASE_PLACEHOLDER K, groupVal K X25519, groupVal K CurveP256,
          groupVal K CurveP384, groupVal K CurveP521],
        SupportedPointsExtension [PointFormatUncompressed K],
        ALPNExtension [''h2'', ''http/1.1''],
        StatusRequestExtension,
        SignatureAlgorithmsExtension [sigVal K ECDSAWithP256AndSHA256, sigVal K PSSWithSHA256,
          sigVal K PKCS1WithSHA256, sigVal K ECDSAWithP384AndSHA384, sigVal K PSSWithSHA384,
          sigVal K PSSWithSHA384, sigVal K PKCS1WithSHA384, sigVal K PSSWithSHA512,
          sigVal K PKCS1WithSHA512, sigVal K PKCS1WithSHA1],
        SCTExtension,
        KeyShareExtension [\<lparr>Group = GREASE_PLACEHOLDER K, KSData = [0]\<rparr>,
          \<lparr>Group = groupVal K X25519, KSData = []\<rparr>],
        PSKKeyExchangeModesExtension [PskModeDHE K],
        SupportedVersionsExtension [GREASE_PLACEHOLDER K, versionVal K VersionTLS13,
          versionVal K VersionTLS12, versionVal K VersionTLS11, versionVal K VersionTLS10],
        UtlsCompressCertExtension [certVal K CertCompressionZlib],
        UtlsGREASEExtension,
        UtlsPaddingExtension BoringPaddingStyle False],
      GetSessionID = None\<rparr>"

definition Safari_IOS_18_5 :: "utls \<Rightarrow> ClientProfile" where
  "Safari_IOS_18_5 K = \<lparr>
     clientHelloId = FactoryHello \<lparr>Client = ''iOS'', RandomExtensionOrder = False,
       Version = ''18.5'', SpecFactory = Safari_IOS_18_5_spec K\<rparr>,
     headerPriority = Some \<lparr>StreamDep = 0, Exclusive = False, Weight = 255\<rparr>,
     settings = Some [(settingVal K SettingEnablePush, 0), (settingVal K SettingMaxConcurrentStreams, 100),
       (settingVal K SettingInitialWindowSize, 2097152), (settingVal K SettingNoRFC7540Priorities, 1)],
     settingsOrder = [settingVal K SettingEnablePush, settingVal K SettingMaxConcurrentStreams,
       settingVal K SettingInitialWindowSize, settingVal K SettingNoRFC7540Priorities],
     priorities = [],
     pseudoHeaderOrder = ['':method'', '':scheme'', '':authority'', '':path''],
     connectionFlow = 10420225,
     streamID = 0,
     allowHTTP = False,
     http3Settings = None,
     http3SettingsOrder = [],
     http3PriorityParam = 0,
     http3PseudoHeaderOrder = [],
     http3SendGreaseFrames = False\<rparr>"

definition Safari_IOS_18_0_spec :: "utls \<Rightarrow> specFactory" where
  "Safari_IOS_18_0_spec K seed = Inr
     \<lparr>CipherSuites =
       [GREASE_PLACEHOLDER K, cipherVal K TLS_AES_128_GCM_SHA256, cipherVal K TLS_AES_256_GCM_SHA384,
         cipherVal K TLS_CHACHA20_POLY1305_SHA256, cipherVal K TLS_ECDHE_ECDSA_WITH_AES_256_GCM_SHA384,
         cipherVal K TLS_ECDHE_ECDSA_WITH_AES_128_GCM_SHA256,
         cipherVal K TLS_ECDHE_ECDSA_WITH_CHACHA20_POLY1305_SHA256,
         cipherVal K TLS_ECDHE_RSA_WITH_AES_256_GCM_SHA384,
         cipherVal K TLS_ECDHE_RSA_WITH_AES_128_GCM_SHA256,
         cipherVal K TLS_ECDHE_RSA_WITH_CHACHA20_POLY1305_SHA256,
         cipherVal K TLS_ECDHE_ECDSA_WITH_AES_256_CBC_SHA, cipherVal K TLS_ECDHE_ECDSA_WITH_AES_128_CBC_SHA,
         cipherVal K TLS_ECDHE_RSA_WITH_AES_256_CBC_SHA, cipherVal K TLS_ECDHE_RSA_WITH_AES_128_CBC_SHA,
         cipherVal K TLS_RSA_WITH_AES_256_GCM_SHA384, cipherVal K TLS_RSA_WITH_AES_128_GCM_SHA256,
         cipherVal K TLS_RSA_WITH_AES_256_CBC_SHA, cipherVal K TLS_RSA_WITH_AES_128_CBC_SHA,
         cipherVal K TLS_ECDHE_ECDSA_WITH_3DES_EDE_CBC_SHA, cipherVal K TLS_ECDHE_RSA_WITH_3DES_EDE_CBC_SHA,
         cipherVal K TLS_RSA_WITH_3DES_EDE_CBC_SHA],
      CompressionMethods = [CompressionNone K],
      Extensions =
       [UtlsGREASEExtension,
        SNIExtension,
        ExtendedMasterSecretExtension,
        RenegotiationInfoExtension RenegotiateOnceAsClient,
        SupportedCurvesExtension [GREASE_PLACEHOLDER K, groupVal K X25519, groupVal K CurveP256,
          groupVal K CurveP384, groupVal K CurveP521],
        SupportedPointsExtension [PointFormatUncompressed K],
        ALPNExtension [''h2'', ''http/1.1''],
        StatusRequestExtension,
        SignatureAlgorithmsExtension [sigVal K ECDSAWithP256AndSHA256, sigVal K PSSWithSHA256,
          sigVal K PKCS1WithSHA256, sigVal K ECDSAWithP384AndSHA384, sigVal K ECDSAWithSHA1,
          sigVal K PSSWithSHA384, sigVal K PSSWithSHA384, sigVal K PKCS1WithSHA384, sigVal K PSSWithSHA512,
          sigVal K PKCS1WithSHA512, sigVal K PKCS1WithSHA1],
        SCTExtension,
        KeyShareExtension [\<lparr>Group = GREASE_PLACEHOLDER K, KSData = [0]\<rparr>,
          \<lparr>Group = groupVal K X25519, KSData = []\<rparr>],
        PSKKeyExchangeModesExtension [PskModeDHE K],
        SupportedVersionsExtension [GREASE_PLACEHOLDER K, versionVal K VersionTLS13,
          versionVal K VersionTLS12, versionVal K VersionTLS11, versionVal K VersionTLS10],
        UtlsCompressCertExtension [certVal K CertCompressionZlib],
        UtlsGREASEExtension,
        UtlsPaddingExtension BoringPaddingStyle False],
      GetSessionID = None\<rparr>"

definition Safari_IOS_18_0 :: "utls \<Rightarrow> ClientProfile" where
  "Safari_IOS_18_0 K = \<lparr>
     clientHelloId = FactoryHello \<lparr>Client = ''iOS'', RandomExtensionOrder = False,
       Version = ''18.0'', SpecFactory = Safari_IOS_18_0_spec K\<rparr>,
     headerPriority = None,
     settings = Some [(settingVal K SettingEnablePush, 0), (settingVal K SettingMaxConcurrentStreams, 100),
       (settingVal K SettingInitialWindowSize, 2097152), (0x8, 1), (0x9, 1)],
     settingsOrder = [settingVal K SettingEnablePush, settingVal K SettingMaxConcurrentStreams,
       settingVal K SettingInitialWindowSize, 0x8, 0x9],
     priorities = [],
     pseudoHeaderOrder = ['':method'', '':scheme'', '':authority'', '':path''],
     connectionFlow = 10420225,
     streamID = 0,
     allowHTTP = False,
     http3Settings = None,
     http3SettingsOrder = [],
     http3PriorityParam = 0,
     http3PseudoHeaderOrder = [],
     http3SendGreaseFrames = False\<rparr>"

definition Safari_IOS_16_0 :: "utls \<Rightarrow> ClientProfile" where
  "Safari_IOS_16_0 K = \<lparr>
     clientHelloId = BuiltinHello HelloIOS_16_0,
     headerPriority = None,
     settings = Some [(settingVal K SettingInitialWindowSize, 2097152),
       (settingVal K SettingMaxConcurrentStreams, 100)],
     settingsOrder = [settingVal K SettingInitialWindowSize, settingVal K SettingMaxConcurrentStreams],
     priorities = [],
     pseudoHeaderOrder = ['':method'', '':scheme'', '':path'', '':authority''],
     connectionFlow = 10485760,
     streamID = 0,
     allowHTTP = False,
     http3Settings = None,
     http3SettingsOrder = [],
     http3PriorityParam = 0,
     http3PseudoHeaderOrder = [],
     http3SendGreaseFrames = False\<rparr>"

definition Safari_IOS_15_5 :: "utls \<Rightarrow> ClientProfile" where
  "Safari_IOS_15_5 K = \<lparr>
     clientHelloId = BuiltinHello HelloIOS_15_5,
     headerPriority = None,
     settings = Some [(settingVal K SettingInitialWindowSize, 2097152),
       (settingVal K SettingMaxConcurrentStreams, 100)],
     settingsOrder = [settingVal K SettingInitialWindowSize, settingVal K SettingMaxConcurrentStreams],
     priorities = [],
     pseudoHeaderOrder = ['':method'', '':scheme'', '':path'', '':authority''],
     connectionFlow = 10485760,
     streamID = 0,
     allowHTTP = False,
     http3Settings = None,
     http3SettingsOrder = [],
     http3PriorityParam = 0,
     http3PseudoHeaderOrder = [],
     http3SendGreaseFrames = False\<rparr>"

definition Safari_IOS_15_6 :: "utls \<Rightarrow> ClientProfile" where
  "Safari_IOS_15_6 K = \<lparr>
     clientHelloId = BuiltinHello HelloIOS_15_6,
     headerPriority = None,
     settings = Some [(settingVal K SettingInitialWindowSize, 2097152),
       (settingVal K SettingMaxConcurrentStreams, 100)],
     settingsOrder = [settingVal K SettingInitialWindowSize, settingVal K SettingMaxConcurrentStreams],
     priorities = [],
     pseudoHeaderOrder = ['':method'', '':scheme'', '':path'', '':authority''],
     connectionFlow = 10485760,
     streamID = 0,
     allowHTTP = False,
     http3Settings = None,
     http3SettingsOrder = [],
     http3PriorityParam = 0,
     http3PseudoHeaderOrder = [],
     http3SendGreaseFrames = False\<rparr>"

definition Firefox_117_spec :: "utls \<Rightarrow> specFactory" where
  "Firefox_117_spec K seed = Inr
     \<lparr>CipherSuites =
       [cipherVal K TLS_AES_128_GCM_SHA256, cipherVal K TLS_CHACHA20_POLY1305_SHA256,
         cipherVal K TLS_AES_256_GCM_SHA384, cipherVal K TLS_ECDHE_ECDSA_WITH_AES_128_GCM_SHA256,
         cipherVal K TLS_ECDHE_RSA_WITH_AES_128_GCM_SHA256,
         cipherVal K TLS_ECDHE_ECDSA_WITH_CHACHA20_POLY1305_SHA256,
         cipherVal K TLS_ECDHE_RSA_WITH_CHACHA20_POLY1305_SHA256,
         cipherVal K TLS_ECDHE_ECDSA_WITH_AES_256_GCM_SHA384,
         cipherVal K TLS_ECDHE_RSA_WITH_AES_256_GCM_SHA384,
         cipherVal K TLS_ECDHE_ECDSA_WITH_AES_256_CBC_SHA, cipherVal K TLS_ECDHE_ECDSA_WITH_AES_128_CBC_SHA,
         cipherVal K TLS_ECDHE_RSA_WITH_AES_128_CBC_SHA, cipherVal K TLS_ECDHE_RSA_WITH_AES_256_CBC_SHA,
         cipherVal K TLS_RSA_WITH_AES_128_GCM_SHA256, cipherVal K TLS_RSA_WITH_AES_256_GCM_SHA384,
         cipherVal K TLS_RSA_WITH_AES_128_CBC_SHA, cipherVal K TLS_RSA_WITH_AES_256_CBC_SHA],
      CompressionMethods = [CompressionNone K],
      Extensions =
       [SNIExtension,
        ExtendedMasterSecretExtension,
        RenegotiationInfoExtension RenegotiateOnceAsClient,
        SupportedCurvesExtension [groupVal K X25519, groupVal K CurveP256, groupVal K CurveP384,
          groupVal K CurveP521, groupVal K FAKEFFDHE2048, groupVal K FAKEFFDHE3072],
        SupportedPointsExtension [PointFormatUncompressed K],
        SessionTicketExtension,
        ALPNExtension [''h2'', ''http/1.1''],
        StatusRequestExtension,
        DelegatedCredentialsExtension [sigVal K ECDSAWithP256AndSHA256, sigVal K ECDSAWithP384AndSHA384,
          sigVal K ECDSAWithP521AndSHA512, sigVal K ECDSAWithSHA1],
        KeyShareExtension [\<lparr>Group = groupVal K X25519, KSData = []\<rparr>,
          \<lparr>Group = groupVal K CurveP256, KSData = []\<rparr>],
        SupportedVersionsExtension [versionVal K VersionTLS13, versionVal K VersionTLS12],
        SignatureAlgorithmsExtension [sigVal K ECDSAWithP256AndSHA256, sigVal K ECDSAWithP384AndSHA384,
          sigVal K ECDSAWithP521AndSHA512, sigVal K PSSWithSHA256, sigVal K PSSWithSHA384,
          sigVal K PSSWithSHA512, sigVal K PKCS1WithSHA256, sigVal K PKCS1WithSHA384,
          sigVal K PKCS1WithSHA512, sigVal K ECDSAWithSHA1, sigVal K PKCS1WithSHA1],
        PSKKeyExchangeModesExtension [PskModeDHE K],
        FakeRecordSizeLimitExtension 0x4001,
        UtlsPaddingExtension BoringPaddingStyle False],
      GetSessionID = None\<rparr>"

definition Firefox_117 :: "utls \<Rightarrow> ClientProfile" where
  "Firefox_117 K = \<lparr>
     clientHelloId = FactoryHello \<lparr>Client = ''Firefox'', RandomExtensionOrder = False,
       Version = ''117'', SpecFactory = Firefox_117_spec K\<rparr>,
     headerPriority = Some \<lparr>StreamDep = 13, Exclusive = False, Weight = 41\<rparr>,
     settings = Some [(settingVal K SettingHeaderTableSize, 65536),
       (settingVal K SettingInitialWindowSize, 131072), (settingVal K SettingMaxFrameSize, 16384)],
     settingsOrder = [settingVal K SettingHeaderTableSize, settingVal K SettingInitialWindowSize,
       settingVal K SettingMaxFrameSize],
     priorities = [\<lparr>StreamID = 3, PrioParam = \<lparr>StreamDep = 0, Exclusive = False,
       Weight = 200\<rparr>\<rparr>, \<lparr>StreamID = 5, PrioParam = \<lparr>StreamDep = 0,
       Exclusive = False, Weight = 100\<rparr>\<rparr>, \<lparr>StreamID = 7,
       PrioParam = \<lparr>StreamDep = 0, Exclusive = False, Weight = 0\<rparr>\<rparr>,
       \<lparr>StreamID = 9, PrioParam = \<lparr>StreamDep = 7, Exclusive = False,
       Weight = 0\<rparr>\<rparr>, \<lparr>StreamID = 11, PrioParam = \<lparr>StreamDep = 3,
       Exclusive = False, Weight = 0\<rparr>\<rparr>, \<lparr>StreamID = 13,
       PrioParam = \<lparr>StreamDep = 0, Exclusive = False, Weight = 240\<rparr>\<rparr>],
     pseudoHeaderOrder = ['':method'', '':path'', '':authority'', '':scheme''],
     connectionFlow = 12517377,
     streamID = 0,
     allowHTTP = False,
     http3Settings = None,
     http3SettingsOrder = [],
     http3PriorityParam = 0,
     http3PseudoHeaderOrder = [],
     http3SendGreaseFrames = False\<rparr>"

definition Firefox_110 :: "utls \<Rightarrow> ClientProfile" where
  "Firefox_110 K = \<lparr>
     clientHelloId = BuiltinHello HelloFirefox_110,
     headerPriority = Some \<lparr>StreamDep = 13, Exclusive = False, Weight = 41\<rparr>,
     settings = Some [(settingVal K SettingHeaderTableSize, 65536),
       (settingVal K SettingInitialWindowSize, 131072), (settingVal K SettingMaxFrameSize, 16384)],
     settingsOrder = [settingVal K SettingHeaderTableSize, settingVal K SettingInitialWindowSize,
       settingVal K SettingMaxFrameSize],
     priorities = [\<lparr>StreamID = 3, PrioParam = \<lparr>StreamDep = 0, Exclusive = False,
       Weight = 200\<rparr>\<rparr>, \<lparr>StreamID = 5, PrioParam = \<lparr>StreamDep = 0,
       Exclusive = False, Weight = 100\<rparr>\<rparr>, \<lparr>StreamID = 7,
       PrioParam = \<lparr>StreamDep = 0, Exclusive = False, Weight = 0\<rparr>\<rparr>,
       \<lparr>StreamID = 9, PrioParam = \<lparr>StreamDep = 7, Exclusive = False,
       Weight = 0\<rparr>\<rparr>, \<lparr>StreamID = 11, PrioParam = \<lparr>StreamDep = 3,
       Exclusive = False, Weight = 0\<rparr>\<rparr>, \<lparr>StreamID = 13,
       PrioParam = \<lparr>StreamDep = 0, Exclusive = False, Weight = 240\<rparr>\<rparr>],
     pseudoHeaderOrder = ['':method'', '':path'', '':authority'', '':scheme''],
     connectionFlow = 12517377,
     streamID = 0,
     allowHTTP = False,
     http3Settings = None,
     http3SettingsOrder = [],
     http3PriorityParam = 0,
     http3PseudoHeaderOrder = [],
     http3SendGreaseFrames = False\<rparr>"

definition Firefox_108 :: "utls \<Rightarrow> ClientProfile" where
  "Firefox_108 K = \<lparr>
     clientHelloId = BuiltinHello HelloFirefox_108,
     headerPriority = Some \<lparr>StreamDep = 13, Exclusive = False, Weight = 41\<rparr>,
     settings = Some [(settingVal K SettingHeaderTableSize, 65536),
       (settingVal K SettingInitialWindowSize, 131072), (settingVal K SettingMaxFrameSize, 16384)],
     settingsOrder = [settingVal K SettingHeaderTableSize, settingVal K SettingInitialWindowSize,
       settingVal K SettingMaxFrameSize],
     priorities = [\<lparr>StreamID = 3, PrioParam = \<lparr>StreamDep = 0, Exclusive = False,
       Weight = 200\<rparr>\<rparr>, \<lparr>StreamID = 5, PrioParam = \<lparr>StreamDep = 0,
       Exclusive = False, Weight = 100\<rparr>\<rparr>, \<lparr>StreamID = 7,
       PrioParam = \<lparr>StreamDep = 0, Exclusive = False, Weight = 0\<rparr>\<rparr>,
       \<lparr>StreamID = 9, PrioParam = \<lparr>StreamDep = 7, Exclusive = False,
       Weight = 0\<rparr>\<rparr>, \<lparr>StreamID = 11, PrioParam = \<lparr>StreamDep = 3,
       Exclusive = False, Weight = 0\<rparr>\<rparr>, \<lparr>StreamID = 13,
       PrioParam = \<lparr>StreamDep = 0, Exclusive = False, Weight = 240\<rparr>\<rparr>],
     pseudoHeaderOrder = ['':method'', '':path'', '':authority'', '':scheme''],
     connectionFlow = 12517377,
     streamID = 0,
     allowHTTP = False,
     http3Settings = None,
     http3SettingsOrder = [],
     http3PriorityParam = 0,
     http3PseudoHeaderOrder = [],
     http3SendGreaseFrames = False\<rparr>"

definition Firefox_106 :: "utls \<Rightarrow> ClientProfile" where
  "Firefox_106 K = \<lparr>
     clientHelloId = BuiltinHello HelloFirefox_106,
     headerPriority = Some \<lparr>StreamDep = 13, Exclusive = False, Weight = 41\<rparr>,
     settings = Some [(settingVal K SettingHeaderTableSize, 65536),
       (settingVal K SettingInitialWindowSize, 131072), (settingVal K SettingMaxFrameSize, 16384)],
     settingsOrder = [settingVal K SettingHeaderTableSize, settingVal K SettingInitialWindowSize,
       settingVal K SettingMaxFrameSize],
     priorities = [\<lparr>StreamID = 3, PrioParam = \<lparr>StreamDep = 0, Exclusive = False,
       Weight = 200\<rparr>\<rparr>, \<lparr>StreamID = 5, PrioParam = \<lparr>StreamDep = 0,
       Exclusive = False, Weight = 100\<rparr>\<rparr>, \<lparr>StreamID = 7,
       PrioParam = \<lparr>StreamDep = 0, Exclusive = False, Weight = 0\<rparr>\<rparr>,
       \<lparr>StreamID = 9, PrioParam = \<lparr>StreamDep = 7, Exclusive = False,
       Weight = 0\<rparr>\<rparr>, \<lparr>StreamID = 11, PrioParam = \<lparr>StreamDep = 3,
       Exclusive = False, Weight = 0\<rparr>\<rparr>, \<lparr>StreamID = 13,
       PrioParam = \<lparr>StreamDep = 0, Exclusive = False, Weight = 240\<rparr>\<rparr>],
     pseudoHeaderOrder = ['':method'', '':path'', '':authority'', '':scheme''],
     connectionFlow = 12517377,
     streamID = 0,
     allowHTTP = False,
     http3Settings = None,
     http3SettingsOrder = [],
     http3PriorityParam = 0,
     http3PseudoHeaderOrder = [],
     http3SendGreaseFrames = False\<rparr>"

definition Firefox_105 :: "utls \<Rightarrow> ClientProfile" where
  "Firefox_105 K = \<lparr>
     clientHelloId = BuiltinHello HelloFirefox_105,
     headerPriority = Some \<lparr>StreamDep = 13, Exclusive = False, Weight = 41\<rparr>,
     settings = Some [(settingVal K SettingHeaderTableSize, 65536),
       (settingVal K SettingInitialWindowSize, 131072), (settingVal K SettingMaxFrameSize, 16384)],
     settingsOrder = [settingVal K SettingHeaderTableSize, settingVal K SettingInitialWindowSize,
       settingVal K SettingMaxFrameSize],
     priorities = [\<lparr>StreamID = 3, PrioParam = \<lparr>StreamDep = 0, Exclusive = False,
       Weight = 200\<rparr>\<rparr>, \<lparr>StreamID = 5, PrioParam = \<lparr>StreamDep = 0,
       Exclusive = False, Weight = 100\<rparr>\<rparr>, \<lparr>StreamID = 7,
       PrioParam = \<lparr>StreamDep = 0, Exclusive = False, Weight = 0\<rparr>\<rparr>,
       \<lparr>StreamID = 9, PrioParam = \<lparr>StreamDep = 7, Exclusive = False,
       Weight = 0\<rparr>\<rparr>, \<lparr>StreamID = 11, PrioParam = \<lparr>StreamDep = 3,
       Exclusive = False, Weight = 0\<rparr>\<rparr>, \<lparr>StreamID = 13,
       PrioParam = \<lparr>StreamDep = 0, Exclusive = False, Weight = 240\<rparr>\<rparr>],
     pseudoHeaderOrder = ['':method'', '':path'', '':authority'', '':scheme''],
     connectionFlow = 12517377,
     streamID = 0,
     allowHTTP = False,
     http3Settings = None,
     http3SettingsOrder = [],
     http3PriorityParam = 0,
     http3PseudoHeaderOrder = [],
     http3SendGreaseFrames = False\<rparr>"

definition Firefox_104 :: "utls \<Rightarrow> ClientProfile" where
  "Firefox_104 K = \<lparr>
     clientHelloId = BuiltinHello HelloFirefox_104,
     headerPriority = Some \<lparr>StreamDep = 13, Exclusive = False, Weight = 41\<rparr>,
     settings = Some [(settingVal K SettingHeaderTableSize, 65536),
       (settingVal K SettingInitialWindowSize, 131072), (settingVal K SettingMaxFrameSize, 16384)],
     settingsOrder = [settingVal K SettingHeaderTableSize, settingVal K SettingInitialWindowSize,
       settingVal K SettingMaxFrameSize],
     priorities = [\<lparr>StreamID = 3, PrioParam = \<lparr>StreamDep = 0, Exclusive = False,
       Weight = 200\<rparr>\<rparr>, \<lparr>StreamID = 5, PrioParam = \<lparr>StreamDep = 0,
       Exclusive = False, Weight = 100\<rparr>\<rparr>, \<lparr>StreamID = 7,
       PrioParam = \<lparr>StreamDep = 0, Exclusive = False, Weight = 0\<rparr>\<rparr>,
       \<lparr>StreamID = 9, PrioParam = \<lparr>StreamDep = 7, Exclusive = False,
       Weight = 0\<rparr>\<rparr>, \<lparr>StreamID = 11, PrioParam = \<lparr>StreamDep = 3,
       Exclusive = False, Weight = 0\<rparr>\<rparr>, \<lparr>StreamID = 13,
       PrioParam = \<lparr>StreamDep = 0, Exclusive = False, Weight = 240\<rparr>\<rparr>],
     pseudoHeaderOrder = ['':method'', '':path'', '':authority'', '':scheme''],
     connectionFlow = 12517377,
     streamID = 0,
     allowHTTP = False,
     http3Settings = None,
     http3SettingsOrder = [],
     http3PriorityParam = 0,
     http3PseudoHeaderOrder = [],
     http3SendGreaseFrames = False\<rparr>"

definition Firefox_102 :: "utls \<Rightarrow> ClientProfile" where
  "Firefox_102 K = \<lparr>
     clientHelloId = BuiltinHello HelloFirefox_102,
     headerPriority = Some \<lparr>StreamDep = 13, Exclusive = False, Weight = 41\<rparr>,
     settings = Some [(settingVal K SettingHeaderTableSize, 65536),
       (settingVal K SettingInitialWindowSize, 131072), (settingVal K SettingMaxFrameSize, 16384)],
     settingsOrder = [settingVal K SettingHeaderTableSize, settingVal K SettingInitialWindowSize,
       settingVal K SettingMaxFrameSize],
     priorities = [\<lparr>StreamID = 3, PrioParam = \<lparr>StreamDep = 0, Exclusive = False,
       Weight = 200\<rparr>\<rparr>, \<lparr>StreamID = 5, PrioParam = \<lparr>StreamDep = 0,
       Exclusive = False, Weight = 100\<rparr>\<rparr>, \<lparr>StreamID = 7,
       PrioParam = \<lparr>StreamDep = 0, Exclusive = False, Weight = 0\<rparr>\<rparr>,
       \<lparr>StreamID = 9, PrioParam = \<lparr>StreamDep = 7, Exclusive = False,
       Weight = 0\<rparr>\<rparr>, \<lparr>StreamID = 11, PrioParam = \<lparr>StreamDep = 3,
       Exclusive = False, Weight = 0\<rparr>\<rparr>, \<lparr>StreamID = 13,
       PrioParam = \<lparr>StreamDep = 0, Exclusive = False, Weight = 240\<rparr>\<rparr>],
     pseudoHeaderOrder = ['':method'', '':path'', '':authority'', '':scheme''],
     connectionFlow = 12517377,
     streamID = 0,
     allowHTTP = False,
     http3Settings = None,
     http3SettingsOrder = [],
     http3PriorityParam = 0,
     http3PseudoHeaderOrder = [],
     http3SendGreaseFrames = False\<rparr>"

definition Opera_90 :: "utls \<Rightarrow> ClientProfile" where
  "Opera_90 K = \<lparr>
     clientHelloId = BuiltinHello HelloOpera_90,
     headerPriority = None,
     settings = Some [(settingVal K SettingHeaderTableSize, 65536),
       (settingVal K SettingMaxConcurrentStreams, 1000), (settingVal K SettingInitialWindowSize, 6291456),
       (settingVal K SettingMaxHeaderListSize, 262144)],
     settingsOrder = [settingVal K SettingHeaderTableSize, settingVal K SettingMaxConcurrentStreams,
       settingVal K SettingInitialWindowSize, settingVal K SettingMaxHeaderListSize],
     priorities = [],
     pseudoHeaderOrder = ['':method'', '':authority'', '':scheme'', '':path''],
     connectionFlow = 15663105,
     streamID = 0,
     allowHTTP = False,
     http3Settings = None,
     http3SettingsOrder = [],
     http3PriorityParam = 0,
     http3PseudoHeaderOrder = [],
     http3SendGreaseFrames = False\<rparr>"

definition Opera_91 :: "utls \<Rightarrow> ClientProfile" where
  "Opera_91 K = \<lparr>
     clientHelloId = BuiltinHello HelloOpera_91,
     headerPriority = None,
     settings = Some [(settingVal K SettingHeaderTableSize, 65536),
       (settingVal K SettingMaxConcurrentStreams, 1000), (settingVal K SettingInitialWindowSize, 6291456),
       (settingVal K SettingMaxHeaderListSize, 262144)],
     settingsOrder = [settingVal K SettingHeaderTableSize, settingVal K SettingMaxConcurrentStreams,
       settingVal K SettingInitialWindowSize, settingVal K SettingMaxHeaderListSize],
     priorities = [],
     pseudoHeaderOrder = ['':method'', '':authority'', '':scheme'', '':path''],
     connectionFlow = 15663105,
     streamID = 0,
     allowHTTP = False,
     http3Settings = None,
     http3SettingsOrder = [],
     http3PriorityParam = 0,
     http3PseudoHeaderOrder = [],
     http3SendGreaseFrames = False\<rparr>"

definition Opera_89 :: "utls \<Rightarrow> ClientProfile" where
  "Opera_89 K = \<lparr>
     clientHelloId = BuiltinHello HelloOpera_89,
     headerPriority = None,
     settings = Some [(settingVal K SettingHeaderTableSize, 65536),
       (settingVal K SettingMaxConcurrentStreams, 1000), (settingVal K SettingInitialWindowSize, 6291456),
       (settingVal K SettingMaxHeaderListSize, 262144)],
     settingsOrder = [settingVal K SettingHeaderTableSize, settingVal K SettingMaxConcurrentStreams,
       settingVal K SettingInitialWindowSize, settingVal K SettingMaxHeaderListSize],
     priorities = [],
     pseudoHeaderOrder = ['':method'', '':authority'', '':scheme'', '':path''],
     connectionFlow = 15663105,
     streamID = 0,
     allowHTTP = False,
     http3Settings = None,
     http3SettingsOrder = [],
     http3PriorityParam = 0,
     http3PseudoHeaderOrder = [],
     http3SendGreaseFrames = False\<rparr>"

definition Brave_146_spec :: "utls \<Rightarrow> specFactory" where
  "Brave_146_spec K seed = Inr
     \<lparr>CipherSuites =
       [GREASE_PLACEHOLDER K, cipherVal K TLS_AES_128_GCM_SHA256, cipherVal K TLS_AES_256_GCM_SHA384,
         cipherVal K TLS_CHACHA20_POLY1305_SHA256, cipherVal K TLS_ECDHE_ECDSA_WITH_AES_128_GCM_SHA256,
         cipherVal K TLS_ECDHE_RSA_WITH_AES_128_GCM_SHA256,
         cipherVal K TLS_ECDHE_ECDSA_WITH_AES_256_GCM_SHA384,
         cipherVal K TLS_ECDHE_RSA_WITH_AES_256_GCM_SHA384,
         cipherVal K TLS_ECDHE_ECDSA_WITH_CHACHA20_POLY1305_SHA256,
         cipherVal K TLS_ECDHE_RSA_WITH_CHACHA20_POLY1305_SHA256,
         cipherVal K TLS_ECDHE_RSA_WITH_AES_128_CBC_SHA, cipherVal K TLS_ECDHE_RSA_WITH_AES_256_CBC_SHA,
         cipherVal K TLS_RSA_WITH_AES_128_GCM_SHA256, cipherVal K TLS_RSA_WITH_AES_256_GCM_SHA384,
         cipherVal K TLS_RSA_WITH_AES_128_CBC_SHA, cipherVal K TLS_RSA_WITH_AES_256_CBC_SHA],
      CompressionMethods = [CompressionNone K],
      Extensions =
       [UtlsGREASEExtension,
        SessionTicketExtension,
        SupportedVersionsExtension [GREASE_PLACEHOLDER K, versionVal K VersionTLS13,
          versionVal K VersionTLS12],
        PSKKeyExchangeModesExtension [PskModeDHE K],
        RenegotiationInfoExtension RenegotiateOnceAsClient,
        ALPNExtension [''h2'', ''http/1.1''],
        SupportedCurvesExtension [GREASE_PLACEHOLDER K, groupVal K X25519MLKEM768, groupVal K X25519,
          groupVal K CurveP256, groupVal K CurveP384],
        ExtendedMasterSecretExtension,
        BoringGREASEECH,
        SNIExtension,
        KeyShareExtension [\<lparr>Group = GREASE_PLACEHOLDER K, KSData = [0]\<rparr>,
          \<lparr>Group = groupVal K X25519MLKEM768, KSData = []\<rparr>,
          \<lparr>Group = groupVal K X25519, KSData = []\<rparr>],
        UtlsCompressCertExtension [certVal K CertCompressionBrotli],
        ApplicationSettingsExtensionNew [''h2''],
        SCTExtension,
        SignatureAlgorithmsExtension [sigVal K ECDSAWithP256AndSHA256, sigVal K PSSWithSHA256,
          sigVal K PKCS1WithSHA256, sigVal K ECDSAWithP384AndSHA384, sigVal K PSSWithSHA384,
          sigVal K PKCS1WithSHA384, sigVal K PSSWithSHA512, sigVal K PKCS1WithSHA512],
        SupportedPointsExtension [PointFormatUncompressed K],
        StatusRequestExtension,
        UtlsGREASEExtension],
      GetSessionID = None\<rparr>"

definition Brave_146 :: "utls \<Rightarrow> ClientProfile" where
  "Brave_146 K = \<lparr>
     clientHelloId = FactoryHello \<lparr>Client = ''Brave'', RandomExtensionOrder = True,
       Version = ''146'', SpecFactory = Brave_146_spec K\<rparr>,
     headerPriority = Some \<lparr>StreamDep = 0, Exclusive = True, Weight = 255\<rparr>,
     settings = Some [(settingVal K SettingHeaderTableSize, 65536), (settingVal K SettingEnablePush, 0),
       (settingVal K SettingInitialWindowSize, 6291456), (settingVal K SettingMaxHeaderListSize, 262144)],
     settingsOrder = [settingVal K SettingHeaderTableSize, settingVal K SettingEnablePush,
       settingVal K SettingInitialWindowSize, settingVal K SettingMaxHeaderListSize],
     priorities = [],
     pseudoHeaderOrder = ['':method'', '':authority'', '':scheme'', '':path''],
     connectionFlow = 15663105,
     streamID = 0,
     allowHTTP = False,
     http3Settings = None,
     http3SettingsOrder = [],
     http3PriorityParam = 0,
     http3PseudoHeaderOrder = [],
     http3SendGreaseFrames = False\<rparr>"

definition Brave_146_PSK_spec :: "utls \<Rightarrow> specFactory" where
  "Brave_146_PSK_spec K seed = Inr
     \<lparr>CipherSuites =
       [GREASE_PLACEHOLDER K, cipherVal K TLS_AES_128_GCM_SHA256, cipherVal K TLS_AES_256_GCM_SHA384,
         cipherVal K TLS_CHACHA20_POLY1305_SHA256, cipherVal K TLS_ECDHE_ECDSA_WITH_AES_128_GCM_SHA256,
         cipherVal K TLS_ECDHE_RSA_WITH_AES_128_GCM_SHA256,
         cipherVal K TLS_ECDHE_ECDSA_WITH_AES_256_GCM_SHA384,
         cipherVal K TLS_ECDHE_RSA_WITH_AES_256_GCM_SHA384,
         cipherVal K TLS_ECDHE_ECDSA_WITH_CHACHA20_POLY1305_SHA256,
         cipherVal K TLS_ECDHE_RSA_WITH_CHACHA20_POLY1305_SHA256,
         cipherVal K TLS_ECDHE_RSA_WITH_AES_128_CBC_SHA, cipherVal K TLS_ECDHE_RSA_WITH_AES_256_CBC_SHA,
         cipherVal K TLS_RSA_WITH_AES_128_GCM_SHA256, cipherVal K TLS_RSA_WITH_AES_256_GCM_SHA384,
         cipherVal K TLS_RSA_WITH_AES_128_CBC_SHA, cipherVal K TLS_RSA_WITH_AES_256_CBC_SHA],
      CompressionMethods = [CompressionNone K],
      Extensions =
       [UtlsGREASEExtension,
        SessionTicketExtension,
        SupportedVersionsExtension [GREASE_PLACEHOLDER K, versionVal K VersionTLS13,
          versionVal K VersionTLS12],
        PSKKeyExchangeModesExtension [PskModeDHE K],
        RenegotiationInfoExtension RenegotiateOnceAsClient,
        ALPNExtension [''h2'', ''http/1.1''],
        SupportedCurvesExtension [GREASE_PLACEHOLDER K, groupVal K X25519MLKEM768, groupVal K X25519,
          groupVal K CurveP256, groupVal K CurveP384],
        ExtendedMasterSecretExtension,
        BoringGREASEECH,
        SNIExtension,
        KeyShareExtension [\<lparr>Group = GREASE_PLACEHOLDER K, KSData = [0]\<rparr>,
          \<lparr>Group = groupVal K X25519MLKEM768, KSData = []\<rparr>,
          \<lparr>Group = groupVal K X25519, KSData = []\<rparr>],
        UtlsCompressCertExtension [certVal K CertCompressionBrotli],
        ApplicationSettingsExtensionNew [''h2''],
        SCTExtension,
        SignatureAlgorithmsExtension [sigVal K ECDSAWithP256AndSHA256, sigVal K PSSWithSHA256,
          sigVal K PKCS1WithSHA256, sigVal K ECDSAWithP384AndSHA384, sigVal K PSSWithSHA384,
          sigVal K PKCS1WithSHA384, sigVal K PSSWithSHA512, sigVal K PKCS1WithSHA512],
        SupportedPointsExtension [PointFormatUncompressed K],
        StatusRequestExtension,
        UtlsGREASEExtension,
        UtlsPreSharedKeyExtension False],
      GetSessionID = None\<rparr>"

definition Brave_146_PSK :: "utls \<Rightarrow> ClientProfile" where
  "Brave_146_PSK K = \<lparr>
     clientHelloId = FactoryHello \<lparr>Client = ''Brave'', RandomExtensionOrder = True,
       Version = ''146_PSK'', SpecFactory = Brave_146_PSK_spec K\<rparr>,
     headerPriority = Some \<lparr>StreamDep = 0, Exclusive = True, Weight = 255\<rparr>,
     settings = Some [(settingVal K SettingHeaderTableSize, 65536), (settingVal K SettingEnablePush, 0),
       (settingVal K SettingInitialWindowSize, 6291456), (settingVal K SettingMaxHeaderListSize, 262144)],
     settingsOrder = [settingVal K SettingHeaderTableSize, settingVal K SettingEnablePush,
       settingVal K SettingInitialWindowSize, settingVal K SettingMaxHeaderListSize],
     priorities = [],
     pseudoHeaderOrder = ['':method'', '':authority'', '':scheme'', '':path''],
     connectionFlow = 15663105,
     streamID = 0,
     allowHTTP = False,
     http3Settings = None,
     http3SettingsOrder = [],
     http3PriorityParam = 0,
     http3PseudoHeaderOrder = [],
     http3SendGreaseFrames = False\<rparr>"

end
