(* ===== verification/ProfilesContributed.thy ===== *)
theory ProfilesContributed
  imports Profiles
begin

text \<open>
  The browser profiles of \<^verbatim>\<open>profiles/contributed_browser_profiles.go\<close>, one definition per variable and one per
  \<open>SpecFactory\<close> it contains.
\<close>

definition Firefox_148_spec :: "utls \<Rightarrow> specFactory" where
  "Firefox_148_spec K seed = Inr
     \<lparr>CipherSuites =
       [cipherVal K TLS_AES_128_GCM_SHA256, cipherVal K TLS_CHACHA20_POLY1305_SHA256,
         cipherVal K TLS_AES_256_GCM_SHA384, cipherVal K TLS_ECDHE_ECDSA_WITH_AES_128_GCM_SHA256,
         cipherVal K TLS_ECDHE_RSA_WITH_AES_128_GCM_SHA256,
         cipherVal K TLS_ECDHE_ECDSA_WITH_CHACHA20_POLY1305_SHA256,
         cipherVal K TLS_ECDHE_RSA_WITH_CHACHA20_POLY1305_SHA256,
         cipherVal K TLS_ECDHE_ECDSA_WITH_AES_256_GCM_SHA384,
         cipherVal K TLS_ECDHE_RSA_WITH_AES_256_GCM_SHA384,
         cipherVal K TLS_ECDHE_ECDSA_WITH_AES_256_CBC_SHA, cipherVal K TLS_ECDHE_ECDSA_WITH_AES_128_CBC_SHA,
         cipherVal K TLS_ECDHE_RSA_WITH_AES_128_CBC_SHA, cipherVal K TLS_ECDHE_RSA_WITH_AES_256_CBC_SHA,
         0x0033, 0x0039, cipherVal K TLS_RSA_WITH_AES_128_GCM_SHA256,
         cipherVal K TLS_RSA_WITH_AES_256_GCM_SHA384, cipherVal K TLS_RSA_WITH_AES_128_CBC_SHA,
         cipherVal K TLS_RSA_WITH_AES_256_CBC_SHA],
      CompressionMethods = [CompressionNone K],
      Extensions =
       [SNIExtension,
        ExtendedMasterSecretExtension,
        RenegotiationInfoExtension RenegotiateOnceAsClient,
        SupportedCurvesExtension [groupVal K X25519MLKEM768, groupVal K X25519, groupVal K CurveP256,
          groupVal K CurveP384, groupVal K CurveP521, groupVal K FAKEFFDHE2048, groupVal K FAKEFFDHE3072],
        SupportedPointsExtension [PointFormatUncompressed K],
        SessionTicketExtension,
        ALPNExtension [''h2'', ''http/1.1''],
        StatusRequestExtension,
        DelegatedCredentialsExtension [sigVal K ECDSAWithP256AndSHA256, sigVal K ECDSAWithP384AndSHA384,
          sigVal K ECDSAWithP521AndSHA512, sigVal K ECDSAWithSHA1],
        SCTExtension,
        KeyShareExtension [\<lparr>Group = groupVal K X25519MLKEM768, KSData = []\<rparr>,
          \<lparr>Group = groupVal K X25519, KSData = []\<rparr>,
          \<lparr>Group = groupVal K CurveP256, KSData = []\<rparr>],
        SupportedVersionsExtension [versionVal K VersionTLS13, versionVal K VersionTLS12],
        SignatureAlgorithmsExtension [sigVal K ECDSAWithP256AndSHA256, sigVal K ECDSAWithP384AndSHA384,
          sigVal K ECDSAWithP521AndSHA512, sigVal K PSSWithSHA256, sigVal K PSSWithSHA384,
          sigVal K PSSWithSHA512, sigVal K PKCS1WithSHA256, sigVal K PKCS1WithSHA384,
          sigVal K PKCS1WithSHA512, sigVal K ECDSAWithSHA1, sigVal K PKCS1WithSHA1],
        PSKKeyExchangeModesExtension [PskModeDHE K],
        FakeRecordSizeLimitExtension 0x4001,
        UtlsCompressCertExtension [certVal K CertCompressionZlib, certVal K CertCompressionBrotli,
          certVal K CertCompressionZstd],
        GREASEEncryptedClientHelloExtension
          [\<lparr>KdfId = hpkeVal K HKDF_SHA256, AeadId = hpkeVal K AEAD_AES_128_GCM\<rparr>,
          \<lparr>KdfId = hpkeVal K HKDF_SHA256, AeadId = hpkeVal K AEAD_AES_256_GCM\<rparr>,
          \<lparr>KdfId = hpkeVal K HKDF_SHA256, AeadId = hpkeVal K AEAD_CHACHA20_POLY1305\<rparr>] [128,
          223]],
      GetSessionID = None\<rparr>"

definition Firefox_148 :: "utls \<Rightarrow> ClientProfile" where
  "Firefox_148 K = \<lparr>
     clientHelloId = FactoryHello \<lparr>Client = ''Firefox'', RandomExtensionOrder = False,
       Version = ''148'', SpecFactory = Firefox_148_spec K\<rparr>,
     headerPriority = Some \<lparr>StreamDep = 0, Exclusive = False, Weight = 41\<rparr>,
     settings = Some [(settingVal K SettingHeaderTableSize, 65536), (settingVal K SettingEnablePush, 0),
       (settingVal K SettingInitialWindowSize, 131072), (settingVal K SettingMaxFrameSize, 16384)],
     settingsOrder = [settingVal K SettingHeaderTableSize, settingVal K SettingEnablePush,
       settingVal K SettingInitialWindowSize, settingVal K SettingMaxFrameSize],
     priorities = [],
     pseudoHeaderOrder = ['':method'', '':path'', '':authority'', '':scheme''],
     connectionFlow = 12517377,
     streamID = 0,
     allowHTTP = False,
     http3Settings = Some [(1, 65536), (7, 20), (727725890, 0), (16765559, 1), (0x33, 1), (8, 1)],
     http3SettingsOrder = [1, 7, 727725890, 16765559, 0x33, 8],
     http3PriorityParam = 0,
     http3PseudoHeaderOrder = ['':method'', '':scheme'', '':authority'', '':path''],
     http3SendGreaseFrames = True\<rparr>"

definition Firefox_147_spec :: "utls \<Rightarrow> specFactory" where
  "Firefox_147_spec K seed = Inr
     \<lparr>CipherSuites =
       [cipherVal K TLS_AES_128_GCM_SHA256, cipherVal K TLS_CHACHA20_POLY1305_SHA256,
         cipherVal K TLS_AES_256_GCM_SHA384, cipherVal K TLS_ECDHE_ECDSA_WITH_AES_128_GCM_SHA256,
         cipherVal K TLS_ECDHE_RSA_WITH_AES_128_GCM_SHA256,
         cipherVal K TLS_ECDHE_ECDSA_WITH_CHACHA20_POLY1305_SHA256,
         cipherVal K TLS_ECDHE_RSA_WITH_CHACHA20_POLY1305_SHA256,
         cipherVal K TLS_ECDHE_ECDSA_WITH_AES_256_GCM_SHA384,
         cipherVal K TLS_ECDHE_RSA_WITH_AES_256_GCM_SHA384,
         cipherVal K TLS_ECDHE_ECDSA_WITH_AES_256_CBC_SHA, cipherVal K TLS_ECDHE_ECDSA_WITH_AES_128_CBC_SHA,
         cipherVal K TLS_ECDHE_RSA_WITH_AES_128_CBC_SHA, cipherVal K TLS_ECDHE_RSA_WITH_AES_256_CBC_SHA,
         cipherVal K TLS_RSA_WITH_AES_128_GCM_SHA256, cipherVal K TLS_RSA_WITH_AES_256_GCM_SHA384,
         cipherVal K TLS_RSA_WITH_AES_128_CBC_SHA, cipherVal K TLS_RSA_WITH_AES_256_CBC_SHA],
      CompressionMethods = [CompressionNone K],
      Extensions =
       [SNIExtension,
        ExtendedMasterSecretExtension,
        RenegotiationInfoExtension RenegotiateOnceAsClient,
        SupportedCurvesExtension [groupVal K X25519MLKEM768, groupVal K X25519, groupVal K CurveP256,
          groupVal K CurveP384, groupVal K CurveP521, groupVal K FAKEFFDHE2048, groupVal K FAKEFFDHE3072],
        SupportedPointsExtension [PointFormatUncompressed K],
        SessionTicketExtension,
        ALPNExtension [''h2'', ''http/1.1''],
        StatusRequestExtension,
        DelegatedCredentialsExtension [sigVal K ECDSAWithP256AndSHA256, sigVal K ECDSAWithP384AndSHA384,
          sigVal K ECDSAWithP521AndSHA512],
        SCTExtension,
        KeyShareExtension [\<lparr>Group = groupVal K X25519MLKEM768, KSData = []\<rparr>,
          \<lparr>Group = groupVal K X25519, KSData = []\<rparr>,
          \<lparr>Group = groupVal K CurveP256, KSData = []\<rparr>],
        SupportedVersionsExtension [versionVal K VersionTLS13, versionVal K VersionTLS12],
        SignatureAlgorithmsExtension [sigVal K ECDSAWithP256AndSHA256, sigVal K ECDSAWithP384AndSHA384,
          sigVal K ECDSAWithP521AndSHA512, sigVal K PSSWithSHA256, sigVal K PSSWithSHA384,
          sigVal K PSSWithSHA512, sigVal K PKCS1WithSHA256, sigVal K PKCS1WithSHA384,
          sigVal K PKCS1WithSHA512, sigVal K PKCS1WithSHA1],
        PSKKeyExchangeModesExtension [PskModeDHE K],
        FakeRecordSizeLimitExtension 0x4001,
        UtlsCompressCertExtension [certVal K CertCompressionZlib, certVal K CertCompressionBrotli,
          certVal K CertCompressionZstd],
        GREASEEncryptedClientHelloExtension
          [\<lparr>KdfId = hpkeVal K HKDF_SHA256, AeadId = hpkeVal K AEAD_AES_128_GCM\<rparr>,
          \<lparr>KdfId = hpkeVal K HKDF_SHA256, AeadId = hpkeVal K AEAD_AES_256_GCM\<rparr>,
          \<lparr>KdfId = hpkeVal K HKDF_SHA256, AeadId = hpkeVal K AEAD_CHACHA20_POLY1305\<rparr>] [128,
          223]],
      GetSessionID = None\<rparr>"

definition Firefox_147 :: "utls \<Rightarrow> ClientProfile" where
  "Firefox_147 K = \<lparr>
     clientHelloId = FactoryHello \<lparr>Client = ''Firefox'', RandomExtensionOrder = False,
       Version = ''147'', SpecFactory = Firefox_147_spec K\<rparr>,
     headerPriority = Some \<lparr>StreamDep = 0, Exclusive = False, Weight = 41\<rparr>,
     settings = Some [(settingVal K SettingHeaderTableSize, 65536), (settingVal K SettingEnablePush, 0),
       (settingVal K SettingInitialWindowSize, 131072), (settingVal K SettingMaxFrameSize, 16384)],
     settingsOrder = [settingVal K SettingHeaderTableSize, settingVal K SettingEnablePush,
       settingVal K SettingInitialWindowSize, settingVal K SettingMaxFrameSize],
     priorities = [],
     pseudoHeaderOrder = ['':method'', '':path'', '':authority'', '':scheme''],
     connectionFlow = 12517377,
     streamID = 0,
     allowHTTP = False,
     http3Settings = Some [(1, 65536), (7, 20), (727725890, 0), (16765559, 1), (0x33, 1), (8, 1)],
     http3SettingsOrder = [1, 7, 727725890, 16765559, 0x33, 8],
     http3PriorityParam = 0,
     http3PseudoHeaderOrder = ['':method'', '':scheme'', '':authority'', '':path''],
     http3SendGreaseFrames = True\<rparr>"

definition Firefox_147_PSK_spec :: "utls \<Rightarrow> specFactory" where
  "Firefox_147_PSK_spec K seed = Inr
     \<lparr>CipherSuites =
       [cipherVal K TLS_AES_128_GCM_SHA256, cipherVal K TLS_CHACHA20_POLY1305_SHA256,
         cipherVal K TLS_AES_256_GCM_SHA384, cipherVal K TLS_ECDHE_ECDSA_WITH_AES_128_GCM_SHA256,
         cipherVal K TLS_ECDHE_RSA_WITH_AES_128_GCM_SHA256,
         cipherVal K TLS_ECDHE_ECDSA_WITH_CHACHA20_POLY1305_SHA256,
         cipherVal K TLS_ECDHE_RSA_WITH_CHACHA20_POLY1305_SHA256,
         cipherVal K TLS_ECDHE_ECDSA_WITH_AES_256_GCM_SHA384,
         cipherVal K TLS_ECDHE_RSA_WITH_AES_256_GCM_SHA384,
         cipherVal K TLS_ECDHE_ECDSA_WITH_AES_256_CBC_SHA, cipherVal K TLS_ECDHE_ECDSA_WITH_AES_128_CBC_SHA,
         cipherVal K TLS_ECDHE_RSA_WITH_AES_128_CBC_SHA, cipherVal K TLS_ECDHE_RSA_WITH_AES_256_CBC_SHA,
         cipherVal K TLS_RSA_WITH_AES_128_GCM_SHA256, cipherVal K TLS_RSA_WITH_AES_256_GCM_SHA384,
         cipherVal K TLS_RSA_WITH_AES_128_CBC_SHA, cipherVal K TLS_RSA_WITH_AES_256_CBC_SHA],
      CompressionMethods = [CompressionNone K],
      Extensions =
       [SNIExtension,
        ExtendedMasterSecretExtension,
        RenegotiationInfoExtension RenegotiateOnceAsClient,
        SupportedCurvesExtension [groupVal K X25519MLKEM768, groupVal K X25519, groupVal K CurveP256,
          groupVal K CurveP384, groupVal K CurveP521, groupVal K FAKEFFDHE2048, groupVal K FAKEFFDHE3072],
        SupportedPointsExtension [PointFormatUncompressed K],
        ALPNExtension [''h2'', ''http/1.1''],
        StatusRequestExtension,
        DelegatedCredentialsExtension [sigVal K ECDSAWithP256AndSHA256, sigVal K ECDSAWithP384AndSHA384,
          sigVal K ECDSAWithP521AndSHA512],
        KeyShareExtension [\<lparr>Group = groupVal K X25519MLKEM768, KSData = []\<rparr>,
          \<lparr>Group = groupVal K X25519, KSData = []\<rparr>],
        SupportedVersionsExtension [versionVal K VersionTLS13, versionVal K VersionTLS12],
        SignatureAlgorithmsExtension [sigVal K ECDSAWithP256AndSHA256, sigVal K ECDSAWithP384AndSHA384,
          sigVal K ECDSAWithP521AndSHA512, sigVal K PSSWithSHA256, sigVal K PSSWithSHA384,
          sigVal K PSSWithSHA512, sigVal K PKCS1WithSHA256, sigVal K PKCS1WithSHA384,
          sigVal K PKCS1WithSHA512, sigVal K PKCS1WithSHA1],
        PSKKeyExchangeModesExtension [PskModeDHE K],
        FakeRecordSizeLimitExtension 0x4001,
        UtlsCompressCertExtension [certVal K CertCompressionZlib, certVal K CertCompressionBrotli,
          certVal K CertCompressionZstd],
        GREASEEncryptedClientHelloExtension
          [\<lparr>KdfId = hpkeVal K HKDF_SHA256, AeadId = hpkeVal K AEAD_AES_128_GCM\<rparr>,
          \<lparr>KdfId = hpkeVal K HKDF_SHA256, AeadId = hpkeVal K AEAD_AES_256_GCM\<rparr>,
          \<lparr>KdfId = hpkeVal K HKDF_SHA256, AeadId = hpkeVal K AEAD_CHACHA20_POLY1305\<rparr>] [128,
          223],
        UtlsPreSharedKeyExtension True],
      GetSessionID = None\<rparr>"

definition Firefox_147_PSK :: "utls \<Rightarrow> ClientProfile" where
  "Firefox_147_PSK K = \<lparr>
     clientHelloId = FactoryHello \<lparr>Client = ''Firefox'', RandomExtensionOrder = False,
       Version = ''147'', SpecFactory = Firefox_147_PSK_spec K\<rparr>,
     headerPriority = Some \<lparr>StreamDep = 0, Exclusive = False, Weight = 41\<rparr>,
     settings = Some [(settingVal K SettingHeaderTableSize, 65536), (settingVal K SettingEnablePush, 0),
       (settingVal K SettingInitialWindowSize, 131072), (settingVal K SettingMaxFrameSize, 16384)],
     settingsOrder = [settingVal K SettingHeaderTableSize, settingVal K SettingEnablePush,
       settingVal K SettingInitialWindowSize, settingVal K SettingMaxFrameSize],
     priorities = [],
     pseudoHeaderOrder = ['':method'', '':path'', '':authority'', '':scheme''],
     connectionFlow = 12517377,
     streamID = 0,
     allowHTTP = False,
     http3Settings = Some [(1, 65536), (7, 20), (727725890, 0), (16765559, 1), (0x33, 1), (8, 1)],
     http3SettingsOrder = [1, 7, 727725890, 16765559, 0x33, 8],
     http3PriorityParam = 0,
     http3PseudoHeaderOrder = ['':method'', '':scheme'', '':authority'', '':path''],
     http3SendGreaseFrames = True\<rparr>"

definition Firefox_146_PSK_spec :: "utls \<Rightarrow> specFactory" where
  "Firefox_146_PSK_spec K seed = Inr
     \<lparr>CipherSuites =
       [cipherVal K TLS_AES_128_GCM_SHA256, cipherVal K TLS_CHACHA20_POLY1305_SHA256,
         cipherVal K TLS_AES_256_GCM_SHA384, cipherVal K TLS_ECDHE_ECDSA_WITH_AES_128_GCM_SHA256,
         cipherVal K TLS_ECDHE_RSA_WITH_AES_128_GCM_SHA256,
         cipherVal K TLS_ECDHE_ECDSA_WITH_CHACHA20_POLY1305_SHA256,
         cipherVal K TLS_ECDHE_RSA_WITH_CHACHA20_POLY1305_SHA256,
         cipherVal K TLS_ECDHE_ECDSA_WITH_AES_256_GCM_SHA384,
         cipherVal K TLS_ECDHE_RSA_WITH_AES_256_GCM_SHA384,
         cipherVal K TLS_ECDHE_ECDSA_WITH_AES_256_CBC_SHA, cipherVal K TLS_ECDHE_ECDSA_WITH_AES_128_CBC_SHA,
         cipherVal K TLS_ECDHE_RSA_WITH_AES_128_CBC_SHA, cipherVal K TLS_ECDHE_RSA_WITH_AES_256_CBC_SHA,
         cipherVal K TLS_RSA_WITH_AES_128_GCM_SHA256, cipherVal K TLS_RSA_WITH_AES_256_GCM_SHA384,
         cipherVal K TLS_RSA_WITH_AES_128_CBC_SHA, cipherVal K TLS_RSA_WITH_AES_256_CBC_SHA],
      CompressionMethods = [CompressionNone K],
      Extensions =
       [SNIExtension,
        ExtendedMasterSecretExtension,
        RenegotiationInfoExtension RenegotiateOnceAsClient,
        SupportedCurvesExtension [groupVal K X25519MLKEM768, groupVal K X25519, groupVal K CurveP256,
          groupVal K CurveP384, groupVal K CurveP521, groupVal K FAKEFFDHE2048, groupVal K FAKEFFDHE3072],
        SupportedPointsExtension [PointFormatUncompressed K],
        ALPNExtension [''h2'', ''http/1.1''],
        StatusRequestExtension,
        DelegatedCredentialsExtension [sigVal K ECDSAWithP256AndSHA256, sigVal K ECDSAWithP384AndSHA384,
          sigVal K ECDSAWithP521AndSHA512, sigVal K ECDSAWithSHA1],
        SCTExtension,
        KeyShareExtension [\<lparr>Group = groupVal K X25519MLKEM768, KSData = []\<rparr>,
          \<lparr>Group = groupVal K X25519, KSData = []\<rparr>,
          \<lparr>Group = groupVal K CurveP256, KSData = []\<rparr>],
        SupportedVersionsExtension [versionVal K VersionTLS13, versionVal K VersionTLS12],
        SignatureAlgorithmsExtension [sigVal K ECDSAWithP256AndSHA256, sigVal K ECDSAWithP384AndSHA384,
          sigVal K ECDSAWithP521AndSHA512, sigVal K PSSWithSHA256, sigVal K PSSWithSHA384,
          sigVal K PSSWithSHA512, sigVal K PKCS1WithSHA256, sigVal K PKCS1WithSHA384,
          sigVal K PKCS1WithSHA512, sigVal K ECDSAWithSHA1, sigVal K PKCS1WithSHA1],
        PSKKeyExchangeModesExtension [PskModeDHE K],
        FakeRecordSizeLimitExtension 0x4001,
        UtlsCompressCertExtension [certVal K CertCompressionZlib, certVal K CertCompressionBrotli,
          certVal K CertCompressionZstd],
        GREASEEncryptedClientHelloExtension
          [\<lparr>KdfId = hpkeVal K HKDF_SHA256, AeadId = hpkeVal K AEAD_AES_128_GCM\<rparr>,
          \<lparr>KdfId = hpkeVal K HKDF_SHA256, AeadId = hpkeVal K AEAD_AES_256_GCM\<rparr>,
          \<lparr>KdfId = hpkeVal K HKDF_SHA256, AeadId = hpkeVal K AEAD_CHACHA20_POLY1305\<rparr>] [128,
          223],
        UtlsPreSharedKeyExtension True],
      GetSessionID = None\<rparr>"

definition Firefox_146_PSK :: "utls \<Rightarrow> ClientProfile" where
  "Firefox_146_PSK K = \<lparr>
     clientHelloId = FactoryHello \<lparr>Client = ''Firefox'', RandomExtensionOrder = False,
       Version = ''146'', SpecFactory = Firefox_146_PSK_spec K\<rparr>,
     headerPriority = Some \<lparr>StreamDep = 0, Exclusive = False, Weight = 41\<rparr>,
     settings = Some [(settingVal K SettingHeaderTableSize, 65536), (settingVal K SettingEnablePush, 0),
       (settingVal K SettingInitialWindowSize, 131072), (settingVal K SettingMaxFrameSize, 16384)],
     settingsOrder = [settingVal K SettingHeaderTableSize, settingVal K SettingEnablePush,
       settingVal K SettingInitialWindowSize, settingVal K SettingMaxFrameSize],
     priorities = [],
     pseudoHeaderOrder = ['':method'', '':path'', '':authority'', '':scheme''],
     connectionFlow = 12517377,
     streamID = 0,
     allowHTTP = False,
     http3Settings = None,
     http3SettingsOrder = [],
     http3PriorityParam = 0,
     http3PseudoHeaderOrder = [],
     http3SendGreaseFrames = False\<rparr>"

definition Firefox_135_spec :: "utls \<Rightarrow> specFactory" where
  "Firefox_135_spec K seed = Inr
     \<lparr>CipherSuites =
       [cipherVal K TLS_AES_128_GCM_SHA256, cipherVal K TLS_CHACHA20_POLY1305_SHA256,
         cipherVal K TLS_AES_256_GCM_SHA384, cipherVal K TLS_ECDHE_ECDSA_WITH_AES_128_GCM_SHA256,
         cipherVal K TLS_ECDHE_RSA_WITH_AES_128_GCM_SHA256,
         cipherVal K TLS_ECDHE_ECDSA_WITH_CHACHA20_POLY1305_SHA256,
         cipherVal K TLS_ECDHE_RSA_WITH_CHACHA20_POLY1305_SHA256,
         cipherVal K TLS_ECDHE_ECDSA_WITH_AES_256_GCM_SHA384,
         cipherVal K TLS_ECDHE_RSA_WITH_AES_256_GCM_SHA384,
         cipherVal K TLS_ECDHE_ECDSA_WITH_AES_256_CBC_SHA, cipherVal K TLS_ECDHE_ECDSA_WITH_AES_128_CBC_SHA,
         cipherVal K TLS_ECDHE_RSA_WITH_AES_128_CBC_SHA, cipherVal K TLS_ECDHE_RSA_WITH_AES_256_CBC_SHA,
         cipherVal K TLS_RSA_WITH_AES_128_GCM_SHA256, cipherVal K TLS_RSA_WITH_AES_256_GCM_SHA384,
         cipherVal K TLS_RSA_WITH_AES_128_CBC_SHA, cipherVal K TLS_RSA_WITH_AES_256_CBC_SHA],
      CompressionMethods = [CompressionNone K],
      Extensions =
       [SNIExtension,
        ExtendedMasterSecretExtension,
        RenegotiationInfoExtension RenegotiateOnceAsClient,
        SupportedCurvesExtension [groupVal K X25519MLKEM768, groupVal K X25519, groupVal K CurveP256,
          groupVal K CurveP384, groupVal K CurveP521, groupVal K FAKEFFDHE2048, groupVal K FAKEFFDHE3072],
        SupportedPointsExtension [PointFormatUncompressed K],
        ALPNExtension [''h2'', ''http/1.1''],
        StatusRequestExtension,
        DelegatedCredentialsExtension [sigVal K ECDSAWithP256AndSHA256, sigVal K ECDSAWithP384AndSHA384,
          sigVal K ECDSAWithP521AndSHA512, sigVal K ECDSAWithSHA1],
        SCTExtension,
        KeyShareExtension [\<lparr>Group = groupVal K X25519MLKEM768, KSData = []\<rparr>,
          \<lparr>Group = groupVal K X25519, KSData = []\<rparr>,
          \<lparr>Group = groupVal K CurveP256, KSData = []\<rparr>],
        SupportedVersionsExtension [versionVal K VersionTLS13, versionVal K VersionTLS12],
        SignatureAlgorithmsExtension [sigVal K ECDSAWithP256AndSHA256, sigVal K ECDSAWithP384AndSHA384,
          sigVal K ECDSAWithP521AndSHA512, sigVal K PSSWithSHA256, sigVal K PSSWithSHA384,
          sigVal K PSSWithSHA512, sigVal K PKCS1WithSHA256, sigVal K PKCS1WithSHA384,
          sigVal K PKCS1WithSHA512, sigVal K ECDSAWithSHA1, sigVal K PKCS1WithSHA1],
        FakeRecordSizeLimitExtension 0x4001,
        UtlsCompressCertExtension [certVal K CertCompressionZlib, certVal K CertCompressionBrotli,
          certVal K CertCompressionZstd],
        GREASEEncryptedClientHelloExtension
          [\<lparr>KdfId = hpkeVal K HKDF_SHA256, AeadId = hpkeVal K AEAD_AES_128_GCM\<rparr>,
          \<lparr>KdfId = hpkeVal K HKDF_SHA256, AeadId = hpkeVal K AEAD_AES_256_GCM\<rparr>,
          \<lparr>KdfId = hpkeVal K HKDF_SHA256, AeadId = hpkeVal K AEAD_CHACHA20_POLY1305\<rparr>] [128,
          223]],
      GetSessionID = None\<rparr>"

definition Firefox_135 :: "utls \<Rightarrow> ClientProfile" where
  "Firefox_135 K = \<lparr>
     clientHelloId = FactoryHello \<lparr>Client = ''Firefox'', RandomExtensionOrder = False,
       Version = ''135'', SpecFactory = Firefox_135_spec K\<rparr>,
     headerPriority = None,
     settings = Some [(settingVal K SettingHeaderTableSize, 65536), (settingVal K SettingEnablePush, 0),
       (settingVal K SettingInitialWindowSize, 131072), (settingVal K SettingMaxFrameSize, 16384)],
     settingsOrder = [settingVal K SettingHeaderTableSize, settingVal K SettingEnablePush,
       settingVal K SettingInitialWindowSize, settingVal K SettingMaxFrameSize],
     priorities = [],
     pseudoHeaderOrder = ['':method'', '':path'', '':authority'', '':scheme''],
     connectionFlow = 12517377,
     streamID = 0,
     allowHTTP = False,
     http3Settings = None,
     http3SettingsOrder = [],
     http3PriorityParam = 0,
     http3PseudoHeaderOrder = [],
     http3SendGreaseFrames = False\<rparr>"

definition Firefox_133_spec :: "utls \<Rightarrow> specFactory" where
  "Firefox_133_spec K seed = Inr
     \<lparr>CipherSuites =
       [cipherVal K TLS_AES_128_GCM_SHA256, cipherVal K TLS_CHACHA20_POLY1305_SHA256,
         cipherVal K TLS_AES_256_GCM_SHA384, cipherVal K TLS_ECDHE_ECDSA_WITH_AES_128_GCM_SHA256,
         cipherVal K TLS_ECDHE_RSA_WITH_AES_128_GCM_SHA256,
         cipherVal K TLS_ECDHE_ECDSA_WITH_CHACHA20_POLY1305_SHA256,
         cipherVal K TLS_ECDHE_RSA_WITH_CHACHA20_POLY1305_SHA256,
         cipherVal K TLS_ECDHE_ECDSA_WITH_AES_256_GCM_SHA384,
         cipherVal K TLS_ECDHE_RSA_WITH_AES_256_GCM_SHA384,
         cipherVal K TLS_ECDHE_ECDSA_WITH_AES_256_CBC_SHA, cipherVal K TLS_ECDHE_ECDSA_WITH_AES_128_CBC_SHA,
         cipherVal K TLS_ECDHE_RSA_WITH_AES_128_CBC_SHA, cipherVal K TLS_ECDHE_RSA_WITH_AES_256_CBC_SHA,
         cipherVal K TLS_RSA_WITH_AES_128_GCM_SHA256, cipherVal K TLS_RSA_WITH_AES_256_GCM_SHA384,
         cipherVal K TLS_RSA_WITH_AES_128_CBC_SHA, cipherVal K TLS_RSA_WITH_AES_256_CBC_SHA],
      CompressionMethods = [CompressionNone K],
      Extensions =
       [SNIExtension,
        ExtendedMasterSecretExtension,
        RenegotiationInfoExtension RenegotiateOnceAsClient,
        SupportedCurvesExtension [groupVal K X25519MLKEM768, groupVal K X25519, groupVal K CurveP256,
          groupVal K CurveP384, groupVal K CurveP521, groupVal K FAKEFFDHE2048, groupVal K FAKEFFDHE3072],
        SupportedPointsExtension [PointFormatUncompressed K],
        ALPNExtension [''h2'', ''http/1.1''],
        StatusRequestExtension,
        DelegatedCredentialsExtension [sigVal K ECDSAWithP256AndSHA256, sigVal K ECDSAWithP384AndSHA384,
          sigVal K ECDSAWithP521AndSHA512, sigVal K ECDSAWithSHA1],
        KeyShareExtension [\<lparr>Group = groupVal K X25519MLKEM768, KSData = []\<rparr>,
          \<lparr>Group = groupVal K X25519, KSData = []\<rparr>,
          \<lparr>Group = groupVal K CurveP256, KSData = []\<rparr>],
        SupportedVersionsExtension [versionVal K VersionTLS13, versionVal K VersionTLS12],
        SignatureAlgorithmsExtension [sigVal K ECDSAWithP256AndSHA256, sigVal K ECDSAWithP384AndSHA384,
          sigVal K ECDSAWithP521AndSHA512, sigVal K PSSWithSHA256, sigVal K PSSWithSHA384,
          sigVal K PSSWithSHA512, sigVal K PKCS1WithSHA256, sigVal K PKCS1WithSHA384,
          sigVal K PKCS1WithSHA512, sigVal K ECDSAWithSHA1, sigVal K PKCS1WithSHA1],
        FakeRecordSizeLimitExtension 0x4001,
        UtlsCompressCertExtension [certVal K CertCompressionZlib, certVal K CertCompressionBrotli,
          certVal K CertCompressionZstd],
        GREASEEncryptedClientHelloExtension
          [\<lparr>KdfId = hpkeVal K HKDF_SHA256, AeadId = hpkeVal K AEAD_AES_128_GCM\<rparr>,
          \<lparr>KdfId = hpkeVal K HKDF_SHA256, AeadId = hpkeVal K AEAD_AES_256_GCM\<rparr>,
          \<lparr>KdfId = hpkeVal K HKDF_SHA256, AeadId = hpkeVal K AEAD_CHACHA20_POLY1305\<rparr>] [128,
          223]],
      GetSessionID = None\<rparr>"

definition Firefox_133 :: "utls \<Rightarrow> ClientProfile" where
  "Firefox_133 K = \<lparr>
     clientHelloId = FactoryHello \<lparr>Client = ''Firefox'', RandomExtensionOrder = False,
       Version = ''133'', SpecFactory = Firefox_133_spec K\<rparr>,
     headerPriority = None,
     settings = Some [(settingVal K SettingHeaderTableSize, 65536), (settingVal K SettingEnablePush, 0),
       (settingVal K SettingInitialWindowSize, 131072), (settingVal K SettingMaxFrameSize, 16384)],
     settingsOrder = [settingVal K SettingHeaderTableSize, settingVal K SettingEnablePush,
       settingVal K SettingInitialWindowSize, settingVal K SettingMaxFrameSize],
     priorities = [],
     pseudoHeaderOrder = ['':method'', '':path'', '':authority'', '':scheme''],
     connectionFlow = 12517377,
     streamID = 0,
     allowHTTP = False,
     http3Settings = None,
     http3SettingsOrder = [],
     http3PriorityParam = 0,
     http3PseudoHeaderOrder = [],
     http3SendGreaseFrames = False\<rparr>"

definition Chrome_130_PSK_spec :: "utls \<Rightarrow> specFactory" where
  "Chrome_130_PSK_spec K seed = Inr
     \<lparr>CipherSuites =
       [GREASE_PLACEHOLDER K, cipherVal K TLS_AES_128_GCM_SHA256, cipherVal K TLS_AES_256_GCM_SHA384,
         cipherVal K TLS_CHACHA20_POLY1305_SHA256, cipherVal K TLS_ECDHE_ECDSA_WITH_AES_128_GCM_SHA256,
         cipherVal K TLS_ECDHE_RSA_WITH_AES_128_GCM_SHA256,
         cipherVal K TLS_ECDHE_ECDSA_WITH_AES_256_GCM_SHA384,
         cipherVal K TLS_ECDHE_RSA_WITH_AES_256_GCM_SHA384,
         cipherVal K TLS_ECDHE_ECDSA_WITH_CHACHA20_POLY1305_SHA256,
         cipherVal K TLS_ECDHE_RSA_WITH_CHACHA20_POLY1305_SHA256,
         cipherVal K TLS_ECDHE_RSA_WITH_AES_128_CBC_SHA, cipherVal K TLS_ECDHE_RSA_WITH_AES_256_CBC_SHA,
         cipherVal K TLS_RSA_WITH_AES_128_GCM_SHA256, cipherVal K TLS_RSA_WITH_AES_256_GCM_SHA384,
         cipherVal K TLS_RSA_WITH_AES_128_CBC_SHA, cipherVal K TLS_RSA_WITH_AES_256_CBC_SHA],
      CompressionMethods = [CompressionNone K],
      Extensions =
       [UtlsGREASEExtension,
        SignatureAlgorithmsExtension [sigVal K ECDSAWithP256AndSHA256, sigVal K PSSWithSHA256,
          sigVal K PKCS1WithSHA256, sigVal K ECDSAWithP384AndSHA384, sigVal K PSSWithSHA384,
          sigVal K PKCS1WithSHA384, sigVal K PSSWithSHA512, sigVal K PKCS1WithSHA512],
        BoringGREASEECH,
        RenegotiationInfoExtension RenegotiateOnceAsClient,
        SCTExtension,
        UtlsCompressCertExtension [certVal K CertCompressionBrotli],
        ALPNExtension [''h2'', ''http/1.1''],
        StatusRequestExtension,
        SupportedCurvesExtension [GREASE_PLACEHOLDER K, groupVal K X25519, groupVal K CurveP256,
          groupVal K CurveP384],
        ApplicationSettingsExtension [''h2''],
        SupportedPointsExtension [PointFormatUncompressed K],
        KeyShareExtension [\<lparr>Group = GREASE_PLACEHOLDER K, KSData = [0]\<rparr>,
          \<lparr>Group = groupVal K X25519, KSData = []\<rparr>],
        SessionTicketExtension,
        SupportedVersionsExtension [GREASE_PLACEHOLDER K, versionVal K VersionTLS13,
          versionVal K VersionTLS12],
        PSKKeyExchangeModesExtension [PskModeDHE K],
        SNIExtension,
        ExtendedMasterSecretExtension,
        UtlsGREASEExtension,
        UtlsPreSharedKeyExtension False],
      GetSessionID = None\<rparr>"

definition Chrome_130_PSK :: "utls \<Rightarrow> ClientProfile" where
  "Chrome_130_PSK K = \<lparr>
     clientHelloId = FactoryHello \<lparr>Client = ''Chrome'', RandomExtensionOrder = False,
       Version = ''130'', SpecFactory = Chrome_130_PSK_spec K\<rparr>,
     headerPriority = None,
     settings = Some [(settingVal K SettingHeaderTableSize, 65536), (settingVal K SettingEnablePush, 0),
       (settingVal K SettingInitialWindowSize, 6291456), (settingVal K SettingMaxHeaderListSize, 262144)],
     settingsOrder = [settingVal K SettingHeaderTableSize, settingVal K SettingEnablePush,
       settingVal K SettingInitialWindowSize, settingVal K SettingMaxHeaderListSize],
     priorities = [],
     pseudoHeaderOrder = ['':method'', '':authority'', '':scheme'', '':path''],
     connectionFlow = 15663105,
     streamID = 0,
     allowHTTP = False,
     http3Settings = None,
     http3SettingsOrder = [],
     http3PriorityParam = 0,
     http3PseudoHeaderOrder = [],
     http3SendGreaseFrames = False\<rparr>"

definition Chrome_131_PSK_spec :: "utls \<Rightarrow> specFactory" where
  "Chrome_131_PSK_spec K seed = Inr
     \<lparr>CipherSuites =
       [GREASE_PLACEHOLDER K, cipherVal K TLS_AES_128_GCM_SHA256, cipherVal K TLS_AES_256_GCM_SHA384,
         cipherVal K TLS_CHACHA20_POLY1305_SHA256, cipherVal K TLS_ECDHE_ECDSA_WITH_AES_128_GCM_SHA256,
         cipherVal K TLS_ECDHE_RSA_WITH_AES_128_GCM_SHA256,
         cipherVal K TLS_ECDHE_ECDSA_WITH_AES_256_GCM_SHA384,
         cipherVal K TLS_ECDHE_RSA_WITH_AES_256_GCM_SHA384,
         cipherVal K TLS_ECDHE_ECDSA_WITH_CHACHA20_POLY1305_SHA256,
         cipherVal K TLS_ECDHE_RSA_WITH_CHACHA20_POLY1305_SHA256,
         cipherVal K TLS_ECDHE_RSA_WITH_AES_128_CBC_SHA, cipherVal K TLS_ECDHE_RSA_WITH_AES_256_CBC_SHA,
         cipherVal K TLS_RSA_WITH_AES_128_GCM_SHA256, cipherVal K TLS_RSA_WITH_AES_256_GCM_SHA384,
         cipherVal K TLS_RSA_WITH_AES_128_CBC_SHA, cipherVal K TLS_RSA_WITH_AES_256_CBC_SHA],
      CompressionMethods = [CompressionNone K],
      Extensions =
       [UtlsGREASEExtension,
        SignatureAlgorithmsExtension [sigVal K ECDSAWithP256AndSHA256, sigVal K PSSWithSHA256,
          sigVal K PKCS1WithSHA256, sigVal K ECDSAWithP384AndSHA384, sigVal K PSSWithSHA384,
          sigVal K PKCS1WithSHA384, sigVal K PSSWithSHA512, sigVal K PKCS1WithSHA512],
        BoringGREASEECH,
        RenegotiationInfoExtension RenegotiateOnceAsClient,
        SCTExtension,
        UtlsCompressCertExtension [certVal K CertCompressionBrotli],
        ALPNExtension [''h2'', ''http/1.1''],
        StatusRequestExtension,
        SupportedCurvesExtension [GREASE_PLACEHOLDER K, groupVal K X25519MLKEM768, groupVal K X25519,
          groupVal K CurveP256, groupVal K CurveP384],
        ApplicationSettingsExtension [''h2''],
        SupportedPointsExtension [PointFormatUncompressed K],
        KeyShareExtension [\<lparr>Group = GREASE_PLACEHOLDER K, KSData = [0]\<rparr>,
          \<lparr>Group = groupVal K X25519MLKEM768, KSData = []\<rparr>,
          \<lparr>Group = groupVal K X25519, KSData = []\<rparr>],
        SessionTicketExtension,
        SupportedVersionsExtension [GREASE_PLACEHOLDER K, versionVal K VersionTLS13,
          versionVal K VersionTLS12],
        PSKKeyExchangeModesExtension [PskModeDHE K],
        SNIExtension,
        ExtendedMasterSecretExtension,
        UtlsGREASEExtension,
        UtlsPreSharedKeyExtension False],
      GetSessionID = None\<rparr>"

definition Chrome_131_PSK :: "utls \<Rightarrow> ClientProfile" where
  "Chrome_131_PSK K = \<lparr>
     clientHelloId = FactoryHello \<lparr>Client = ''Chrome'', RandomExtensionOrder = False,
       Version = ''131'', SpecFactory = Chrome_131_PSK_spec K\<rparr>,
     headerPriority = None,
     settings = Some [(settingVal K SettingHeaderTableSize, 65536), (settingVal K SettingEnablePush, 0),
       (settingVal K SettingInitialWindowSize, 6291456), (settingVal K SettingMaxHeaderListSize, 262144)],
     settingsOrder = [settingVal K SettingHeaderTableSize, settingVal K SettingEnablePush,
       settingVal K SettingInitialWindowSize, settingVal K SettingMaxHeaderListSize],
     priorities = [],
     pseudoHeaderOrder = ['':method'', '':authority'', '':scheme'', '':path''],
     connectionFlow = 15663105,
     streamID = 0,
     allowHTTP = False,
     http3Settings = None,
     http3SettingsOrder = [],
     http3PriorityParam = 0,
     http3PseudoHeaderOrder = [],
     http3SendGreaseFrames = False\<rparr>"

definition Chrome_131_spec :: "utls \<Rightarrow> specFactory" where
  "Chrome_131_spec K seed = Inr
     \<lparr>CipherSuites =
       [GREASE_PLACEHOLDER K, cipherVal K TLS_AES_128_GCM_SHA256, cipherVal K TLS_AES_256_GCM_SHA384,
         cipherVal K TLS_CHACHA20_POLY1305_SHA256, cipherVal K TLS_ECDHE_ECDSA_WITH_AES_128_GCM_SHA256,
         cipherVal K TLS_ECDHE_RSA_WITH_AES_128_GCM_SHA256,
         cipherVal K TLS_ECDHE_ECDSA_WITH_AES_256_GCM_SHA384,
         cipherVal K TLS_ECDHE_RSA_WITH_AES_256_GCM_SHA384,
         cipherVal K TLS_ECDHE_ECDSA_WITH_CHACHA20_POLY1305_SHA256,
         cipherVal K TLS_ECDHE_RSA_WITH_CHACHA20_POLY1305_SHA256,
         cipherVal K TLS_ECDHE_RSA_WITH_AES_128_CBC_SHA, cipherVal K TLS_ECDHE_RSA_WITH_AES_256_CBC_SHA,
         cipherVal K TLS_RSA_WITH_AES_128_GCM_SHA256, cipherVal K TLS_RSA_WITH_AES_256_GCM_SHA384,
         cipherVal K TLS_RSA_WITH_AES_128_CBC_SHA, cipherVal K TLS_RSA_WITH_AES_256_CBC_SHA],
      CompressionMethods = [CompressionNone K],
      Extensions =
       [UtlsGREASEExtension,
        SignatureAlgorithmsExtension [sigVal K ECDSAWithP256AndSHA256, sigVal K PSSWithSHA256,
          sigVal K PKCS1WithSHA256, sigVal K ECDSAWithP384AndSHA384, sigVal K PSSWithSHA384,
          sigVal K PKCS1WithSHA384, sigVal K PSSWithSHA512, sigVal K PKCS1WithSHA512],
        BoringGREASEECH,
        RenegotiationInfoExtension RenegotiateOnceAsClient,
        SCTExtension,
        UtlsCompressCertExtension [certVal K CertCompressionBrotli],
        ALPNExtension [''h2'', ''http/1.1''],
        StatusRequestExtension,
        SupportedCurvesExtension [GREASE_PLACEHOLDER K, groupVal K X25519MLKEM768, groupVal K X25519,
          groupVal K CurveP256, groupVal K CurveP384],
        ApplicationSettingsExtension [''h2''],
        SupportedPointsExtension [PointFormatUncompressed K],
        KeyShareExtension [\<lparr>Group = GREASE_PLACEHOLDER K, KSData = [0]\<rparr>,
          \<lparr>Group = groupVal K X25519MLKEM768, KSData = []\<rparr>,
          \<lparr>Group = groupVal K X25519, KSData = []\<rparr>],
        SessionTicketExtension,
        SupportedVersionsExtension [GREASE_PLACEHOLDER K, versionVal K VersionTLS13,
          versionVal K VersionTLS12],
        PSKKeyExchangeModesExtension [PskModeDHE K],
        SNIExtension,
        ExtendedMasterSecretExtension,
        UtlsGREASEExtension],
      GetSessionID = None\<rparr>"

definition Chrome_131 :: "utls \<Rightarrow> ClientProfile" where
  "Chrome_131 K = \<lparr>
     clientHelloId = FactoryHello \<lparr>Client = ''Chrome'', RandomExtensionOrder = False,
       Version = ''131'', SpecFactory = Chrome_131_spec K\<rparr>,
     headerPriority = None,
     settings = Some [(settingVal K SettingHeaderTableSize, 65536), (settingVal K SettingEnablePush, 0),
       (settingVal K SettingInitialWindowSize, 6291456), (settingVal K SettingMaxHeaderListSize, 262144)],
     settingsOrder = [settingVal K SettingHeaderTableSize, settingVal K SettingEnablePush,
       settingVal K SettingInitialWindowSize, settingVal K SettingMaxHeaderListSize],
     priorities = [],
     pseudoHeaderOrder = ['':method'', '':authority'', '':scheme'', '':path''],
     connectionFlow = 15663105,
     streamID = 0,
     allowHTTP = False,
     http3Settings = None,
     http3SettingsOrder = [],
     http3PriorityParam = 0,
     http3PseudoHeaderOrder = [],
     http3SendGreaseFrames = False\<rparr>"

definition Firefox_132_spec :: "utls \<Rightarrow> specFactory" where
  "Firefox_132_spec K seed = Inr
     \<lparr>CipherSuites =
       [cipherVal K TLS_AES_128_GCM_SHA256, cipherVal K TLS_CHACHA20_POLY1305_SHA256,
         cipherVal K TLS_AES_256_GCM_SHA384, cipherVal K TLS_ECDHE_ECDSA_WITH_AES_128_GCM_SHA256,
         cipherVal K TLS_ECDHE_RSA_WITH_AES_128_GCM_SHA256,
         cipherVal K TLS_ECDHE_ECDSA_WITH_CHACHA20_POLY1305_SHA256,
         cipherVal K TLS_ECDHE_RSA_WITH_CHACHA20_POLY1305_SHA256,
         cipherVal K TLS_ECDHE_ECDSA_WITH_AES_256_GCM_SHA384,
         cipherVal K TLS_ECDHE_RSA_WITH_AES_256_GCM_SHA384,
         cipherVal K TLS_ECDHE_ECDSA_WITH_AES_256_CBC_SHA, cipherVal K TLS_ECDHE_ECDSA_WITH_AES_128_CBC_SHA,
         cipherVal K TLS_ECDHE_RSA_WITH_AES_128_CBC_SHA, cipherVal K TLS_ECDHE_RSA_WITH_AES_256_CBC_SHA,
         cipherVal K TLS_RSA_WITH_AES_128_GCM_SHA256, cipherVal K TLS_RSA_WITH_AES_256_GCM_SHA384,
         cipherVal K TLS_RSA_WITH_AES_128_CBC_SHA, cipherVal K TLS_RSA_WITH_AES_256_CBC_SHA],
      CompressionMethods = [CompressionNone K],
      Extensions =
       [SNIExtension,
        ExtendedMasterSecretExtension,
        RenegotiationInfoExtension RenegotiateOnceAsClient,
        SupportedCurvesExtension [groupVal K X25519MLKEM768, groupVal K X25519, groupVal K CurveP256,
          groupVal K CurveP384, groupVal K CurveP521, groupVal K FAKEFFDHE2048, groupVal K FAKEFFDHE3072],
        SupportedPointsExtension [PointFormatUncompressed K],
        ALPNExtension [''h2'', ''http/1.1''],
        StatusRequestExtension,
        DelegatedCredentialsExtension [sigVal K ECDSAWithP256AndSHA256, sigVal K ECDSAWithP384AndSHA384,
          sigVal K ECDSAWithP521AndSHA512, sigVal K ECDSAWithSHA1],
        KeyShareExtension [\<lparr>Group = groupVal K X25519MLKEM768, KSData = []\<rparr>,
          \<lparr>Group = groupVal K X25519, KSData = []\<rparr>,
          \<lparr>Group = groupVal K CurveP256, KSData = []\<rparr>],
        SupportedVersionsExtension [versionVal K VersionTLS13, versionVal K VersionTLS12],
        SignatureAlgorithmsExtension [sigVal K ECDSAWithP256AndSHA256, sigVal K ECDSAWithP384AndSHA384,
          sigVal K ECDSAWithP521AndSHA512, sigVal K PSSWithSHA256, sigVal K PSSWithSHA384,
          sigVal K PSSWithSHA512, sigVal K PKCS1WithSHA256, sigVal K PKCS1WithSHA384,
          sigVal K PKCS1WithSHA512, sigVal K ECDSAWithSHA1, sigVal K PKCS1WithSHA1],
        FakeRecordSizeLimitExtension 0x4001,
        UtlsCompressCertExtension [certVal K CertCompressionZlib, certVal K CertCompressionBrotli,
          certVal K CertCompressionZstd],
        GREASEEncryptedClientHelloExtension
          [\<lparr>KdfId = hpkeVal K HKDF_SHA256, AeadId = hpkeVal K AEAD_AES_128_GCM\<rparr>,
          \<lparr>KdfId = hpkeVal K HKDF_SHA256, AeadId = hpkeVal K AEAD_AES_256_GCM\<rparr>,
          \<lparr>KdfId = hpkeVal K HKDF_SHA256, AeadId = hpkeVal K AEAD_CHACHA20_POLY1305\<rparr>] [128,
          223]],
      GetSessionID = None\<rparr>"

definition Firefox_132 :: "utls \<Rightarrow> ClientProfile" where
  "Firefox_132 K = \<lparr>
     clientHelloId = FactoryHello \<lparr>Client = ''Firefox'', RandomExtensionOrder = False,
       Version = ''132'', SpecFactory = Firefox_132_spec K\<rparr>,
     headerPriority = None,
     settings = Some [(settingVal K SettingHeaderTableSize, 65536), (settingVal K SettingEnablePush, 0),
       (settingVal K SettingInitialWindowSize, 131072), (settingVal K SettingMaxFrameSize, 16384),
       (settingVal K SettingNoRFC7540Priorities, 1)],
     settingsOrder = [settingVal K SettingHeaderTableSize, settingVal K SettingEnablePush,
       settingVal K SettingInitialWindowSize, settingVal K SettingMaxFrameSize,
       settingVal K SettingNoRFC7540Priorities],
     priorities = [],
     pseudoHeaderOrder = ['':method'', '':path'', '':authority'', '':scheme''],
     connectionFlow = 12517377,
     streamID = 0,
     allowHTTP = False,
     http3Settings = None,
     http3SettingsOrder = [],
     http3PriorityParam = 0,
     http3PseudoHeaderOrder = [],
     http3SendGreaseFrames = False\<rparr>"

definition Firefox_123_spec :: "utls \<Rightarrow> specFactory" where
  "Firefox_123_spec K seed = Inr
     \<lparr>CipherSuites =
       [cipherVal K TLS_AES_128_GCM_SHA256, cipherVal K TLS_CHACHA20_POLY1305_SHA256,
         cipherVal K TLS_AES_256_GCM_SHA384, cipherVal K TLS_ECDHE_ECDSA_WITH_AES_128_GCM_SHA256,
         cipherVal K TLS_ECDHE_RSA_WITH_AES_128_GCM_SHA256,
         cipherVal K TLS_ECDHE_ECDSA_WITH_CHACHA20_POLY1305_SHA256,
         cipherVal K TLS_ECDHE_RSA_WITH_CHACHA20_POLY1305_SHA256,
         cipherVal K TLS_ECDHE_ECDSA_WITH_AES_256_GCM_SHA384,
         cipherVal K TLS_ECDHE_RSA_WITH_AES_256_GCM_SHA384,
         cipherVal K TLS_ECDHE_ECDSA_WITH_AES_256_CBC_SHA, cipherVal K TLS_ECDHE_ECDSA_WITH_AES_128_CBC_SHA,
         cipherVal K TLS_ECDHE_RSA_WITH_AES_128_CBC_SHA, cipherVal K TLS_ECDHE_RSA_WITH_AES_256_CBC_SHA,
         cipherVal K TLS_RSA_WITH_AES_128_GCM_SHA256, cipherVal K TLS_RSA_WITH_AES_256_GCM_SHA384,
         cipherVal K TLS_RSA_WITH_AES_128_CBC_SHA, cipherVal K TLS_RSA_WITH_AES_256_CBC_SHA],
      CompressionMethods = [CompressionNone K],
      Extensions =
       [SNIExtension,
        ExtendedMasterSecretExtension,
        RenegotiationInfoExtension RenegotiateOnceAsClient,
        SupportedCurvesExtension [groupVal K X25519, groupVal K CurveP256, groupVal K CurveP384,
          groupVal K CurveP521, groupVal K FAKEFFDHE2048, groupVal K FAKEFFDHE3072],
        SupportedPointsExtension [PointFormatUncompressed K],
        SessionTicketExtension,
        ALPNExtension [''h2'', ''http/1.1''],
        StatusRequestExtension,
        DelegatedCredentialsExtension [sigVal K ECDSAWithP256AndSHA256, sigVal K ECDSAWithP384AndSHA384,
          sigVal K ECDSAWithP521AndSHA512, sigVal K ECDSAWithSHA1],
        KeyShareExtension [\<lparr>Group = groupVal K X25519, KSData = []\<rparr>,
          \<lparr>Group = groupVal K CurveP256, KSData = []\<rparr>],
        SupportedVersionsExtension [versionVal K VersionTLS13, versionVal K VersionTLS12],
        SignatureAlgorithmsExtension [sigVal K ECDSAWithP256AndSHA256, sigVal K ECDSAWithP384AndSHA384,
          sigVal K ECDSAWithP521AndSHA512, sigVal K PSSWithSHA256, sigVal K PSSWithSHA384,
          sigVal K PSSWithSHA512, sigVal K PKCS1WithSHA256, sigVal K PKCS1WithSHA384,
          sigVal K PKCS1WithSHA512, sigVal K ECDSAWithSHA1, sigVal K PKCS1WithSHA1],
        PSKKeyExchangeModesExtension [PskModeDHE K],
        FakeRecordSizeLimitExtension 0x4001,
        BoringGREASEECH],
      GetSessionID = None\<rparr>"

definition Firefox_123 :: "utls \<Rightarrow> ClientProfile" where
  "Firefox_123 K = \<lparr>
     clientHelloId = FactoryHello \<lparr>Client = ''Firefox'', RandomExtensionOrder = False,
       Version = ''123'', SpecFactory = Firefox_123_spec K\<rparr>,
     headerPriority = Some \<lparr>StreamDep = 13, Exclusive = False, Weight = 41\<rparr>,
     settings = Some [(settingVal K SettingHeaderTableSize, 65536),
       (settingVal K SettingInitialWindowSize, 131072), (settingVal K SettingMaxFrameSize, 16384)],
     settingsOrder = [settingVal K SettingHeaderTableSize, settingVal K SettingInitialWindowSize,
       settingVal K SettingMaxFrameSize],
     priorities = [\<lparr>StreamID = 3, PrioParam = \<lparr>StreamDep = 0, Exclusive = False,
       Weight = 200\<rparr>\<rparr>, \<lparr>StreamID = 5, PrioParam = \<lparr>StreamDep = 0,
       Exclusive = False, Weight = 100\<rparr>\<rparr>, \<lparr>StreamID = 7,
       PrioParam = \<lparr>StreamDep = 0, Exclusive = False, Weight = 0\<rparr>\<rparr>,
       \<lparr>StreamID = 9, PrioParam = \<lparr>StreamDep = 7, Exclusive = False,
       Weight = 0\<rparr>\<rparr>, \<lparr>StreamID = 11, PrioParam = \<lparr>StreamDep = 3,
       Exclusive = False, Weight = 0\<rparr>\<rparr>, \<lparr>StreamID = 13,
       PrioParam = \<lparr>StreamDep = 0, Exclusive = False, Weight = 240\<rparr>\<rparr>],
     pseudoHeaderOrder = ['':method'', '':path'', '':authority'', '':scheme''],
     connectionFlow = 12517377,
     streamID = 0,
     allowHTTP = False,
     http3Settings = None,
     http3SettingsOrder = [],
     http3PriorityParam = 0,
     http3PseudoHeaderOrder = [],
     http3SendGreaseFrames = False\<rparr>"

definition Firefox_120_spec :: "utls \<Rightarrow> specFactory" where
  "Firefox_120_spec K seed = Inr
     \<lparr>CipherSuites =
       [cipherVal K TLS_AES_128_GCM_SHA256, cipherVal K TLS_CHACHA20_POLY1305_SHA256,
         cipherVal K TLS_AES_256_GCM_SHA384, cipherVal K TLS_ECDHE_ECDSA_WITH_AES_128_GCM_SHA256,
         cipherVal K TLS_ECDHE_RSA_WITH_AES_128_GCM_SHA256,
         cipherVal K TLS_ECDHE_ECDSA_WITH_CHACHA20_POLY1305_SHA256,
         cipherVal K TLS_ECDHE_RSA_WITH_CHACHA20_POLY1305_SHA256,
         cipherVal K TLS_ECDHE_ECDSA_WITH_AES_256_GCM_SHA384,
         cipherVal K TLS_ECDHE_RSA_WITH_AES_256_GCM_SHA384,
         cipherVal K TLS_ECDHE_ECDSA_WITH_AES_256_CBC_SHA, cipherVal K TLS_ECDHE_ECDSA_WITH_AES_128_CBC_SHA,
         cipherVal K TLS_ECDHE_RSA_WITH_AES_128_CBC_SHA, cipherVal K TLS_ECDHE_RSA_WITH_AES_256_CBC_SHA,
         cipherVal K TLS_RSA_WITH_AES_128_GCM_SHA256, cipherVal K TLS_RSA_WITH_AES_256_GCM_SHA384,
         cipherVal K TLS_RSA_WITH_AES_128_CBC_SHA, cipherVal K TLS_RSA_WITH_AES_256_CBC_SHA],
      CompressionMethods = [CompressionNone K],
      Extensions =
       [SNIExtension,
        ExtendedMasterSecretExtension,
        RenegotiationInfoExtension RenegotiateOnceAsClient,
        SupportedCurvesExtension [groupVal K X25519, groupVal K CurveP256, groupVal K CurveP384,
          groupVal K CurveP521, groupVal K FAKEFFDHE2048, groupVal K FAKEFFDHE3072],
        SupportedPointsExtension [PointFormatUncompressed K],
        ALPNExtension [''h2'', ''http/1.1''],
        StatusRequestExtension,
        DelegatedCredentialsExtension [sigVal K ECDSAWithP256AndSHA256, sigVal K ECDSAWithP384AndSHA384,
          sigVal K ECDSAWithP521AndSHA512, sigVal K ECDSAWithSHA1],
        KeyShareExtension [\<lparr>Group = groupVal K X25519, KSData = []\<rparr>,
          \<lparr>Group = groupVal K CurveP256, KSData = []\<rparr>],
        SupportedVersionsExtension [versionVal K VersionTLS13, versionVal K VersionTLS12],
        SignatureAlgorithmsExtension [sigVal K ECDSAWithP256AndSHA256, sigVal K ECDSAWithP384AndSHA384,
          sigVal K ECDSAWithP521AndSHA512, sigVal K PSSWithSHA256, sigVal K PSSWithSHA384,
          sigVal K PSSWithSHA512, sigVal K PKCS1WithSHA256, sigVal K PKCS1WithSHA384,
          sigVal K PKCS1WithSHA512, sigVal K ECDSAWithSHA1, sigVal K PKCS1WithSHA1],
        FakeRecordSizeLimitExtension 0x4001,
        BoringGREASEECH],
      GetSessionID = None\<rparr>"

definition Firefox_120 :: "utls \<Rightarrow> ClientProfile" where
  "Firefox_120 K = \<lparr>
     clientHelloId = FactoryHello \<lparr>Client = ''Firefox'', RandomExtensionOrder = False,
       Version = ''120'', SpecFactory = Firefox_120_spec K\<rparr>,
     headerPriority = Some \<lparr>StreamDep = 13, Exclusive = False, Weight = 41\<rparr>,
     settings = Some [(settingVal K SettingHeaderTableSize, 65536),
       (settingVal K SettingInitialWindowSize, 131072), (settingVal K SettingMaxFrameSize, 16384)],
     settingsOrder = [settingVal K SettingHeaderTableSize, settingVal K SettingInitialWindowSize,
       settingVal K SettingMaxFrameSize],
     priorities = [\<lparr>StreamID = 3, PrioParam = \<lparr>StreamDep = 0, Exclusive = False,
       Weight = 200\<rparr>\<rparr>, \<lparr>StreamID = 5, PrioParam = \<lparr>StreamDep = 0,
       Exclusive = False, Weight = 100\<rparr>\<rparr>, \<lparr>StreamID = 7,
       PrioParam = \<lparr>StreamDep = 0, Exclusive = False, Weight = 0\<rparr>\<rparr>,
       \<lparr>StreamID = 9, PrioParam = \<lparr>StreamDep = 7, Exclusive = False,
       Weight = 0\<rparr>\<rparr>, \<lparr>StreamID = 11, PrioParam = \<lparr>StreamDep = 3,
       Exclusive = False, Weight = 0\<rparr>\<rparr>, \<lparr>StreamID = 13,
       PrioParam = \<lparr>StreamDep = 0, Exclusive = False, Weight = 240\<rparr>\<rparr>],
     pseudoHeaderOrder = ['':method'', '':path'', '':authority'', '':scheme''],
     connectionFlow = 12517377,
     streamID = 0,
     allowHTTP = False,
     http3Settings = None,
     http3SettingsOrder = [],
     http3PriorityParam = 0,
     http3PseudoHeaderOrder = [],
     http3SendGreaseFrames = False\<rparr>"

end
