(* ===== verification/ProfilesCustom.thy ===== *)
theory ProfilesCustom
  imports Profiles
begin

text \<open>
  The application profiles of \<^verbatim>\<open>profiles/contributed_custom_profiles.go\<close> and \<^verbatim>\<open>profiles/internal_custom_profiles.go\<close>,
  one definition per variable and one per \<open>SpecFactory\<close> it contains. The factories of three \<open>OkHttp\<close> profiles call
  \<open>GetClientHelloSpec\<close> of a fourth, so they take \<open>ToSpec\<close> of \<open>utls\<close> as an argument.
\<close>

definition ZalandoAndroidMobile_spec :: "utls \<Rightarrow> specFactory" where
  "ZalandoAndroidMobile_spec K seed = Inr
     \<lparr>CipherSuites =
       [cipherVal K TLS_AES_128_GCM_SHA256, cipherVal K TLS_AES_256_GCM_SHA384,
         cipherVal K TLS_CHACHA20_POLY1305_SHA256, cipherVal K TLS_ECDHE_ECDSA_WITH_AES_128_GCM_SHA256,
         cipherVal K TLS_ECDHE_ECDSA_WITH_AES_256_GCM_SHA384,
         cipherVal K TLS_ECDHE_ECDSA_WITH_CHACHA20_POLY1305,
         cipherVal K TLS_ECDHE_RSA_WITH_AES_128_GCM_SHA256,
         cipherVal K TLS_ECDHE_RSA_WITH_AES_256_GCM_SHA384,
         cipherVal K TLS_ECDHE_RSA_WITH_CHACHA20_POLY1305, cipherVal K TLS_ECDHE_RSA_WITH_AES_128_CBC_SHA,
         cipherVal K TLS_ECDHE_RSA_WITH_AES_256_CBC_SHA, cipherVal K TLS_RSA_WITH_AES_128_GCM_SHA256,
         cipherVal K TLS_RSA_WITH_AES_256_GCM_SHA384, cipherVal K TLS_RSA_WITH_AES_128_CBC_SHA,
         cipherVal K TLS_RSA_WITH_AES_256_CBC_SHA],
      CompressionMethods = [CompressionNone K],
      Extensions =
       [SNIExtension,
        ExtendedMasterSecretExtension,
        RenegotiationInfoExtension RenegotiateOnceAsClient,
        SupportedCurvesExtension [groupVal K X25519, groupVal K CurveP256, groupVal K CurveP384],
        SupportedPointsExtension [PointFormatUncompressed K],
        SessionTicketExtension,
        ALPNExtension [''h2'', ''http/1.1''],
        StatusRequestExtension,
        SignatureAlgorithmsExtension [sigVal K ECDSAWithP256AndSHA256, sigVal K PSSWithSHA256,
          sigVal K PKCS1WithSHA256, sigVal K ECDSAWithP384AndSHA384, sigVal K PSSWithSHA384,
          sigVal K PKCS1WithSHA384, sigVal K PSSWithSHA512, sigVal K PKCS1WithSHA512,
          sigVal K PKCS1WithSHA1],
        SCTExtension,
        KeyShareExtension [\<lparr>Group = groupVal K X25519, KSData = []\<rparr>],
        PSKKeyExchangeModesExtension [PskModeDHE K],
        SupportedVersionsExtension [versionVal K VersionTLS13, versionVal K VersionTLS12],
        UtlsPaddingExtension BoringPaddingStyle False],
      GetSessionID = None\<rparr>"

definition ZalandoAndroidMobile :: "utls \<Rightarrow> ClientProfile" where
  "ZalandoAndroidMobile K = \<lparr>
     clientHelloId = FactoryHello \<lparr>Client = ''ZalandoAndroidCustom'', RandomExtensionOrder = False,
       Version = ''1'', SpecFactory = ZalandoAndroidMobile_spec K\<rparr>,
     headerPriority = None,
     settings = Some [(settingVal K SettingHeaderTableSize, 4096),
       (settingVal K SettingMaxConcurrentStreams, 0xffffffff),
       (settingVal K SettingInitialWindowSize, 16777216), (settingVal K SettingMaxFrameSize, 16384),
       (settingVal K SettingMaxHeaderListSize, 0xffffffff)],
     settingsOrder = [settingVal K SettingHeaderTableSize, settingVal K SettingMaxConcurrentStreams,
       settingVal K SettingInitialWindowSize, settingVal K SettingMaxFrameSize,
       settingVal K SettingMaxHeaderListSize],
     priorities = [],
     pseudoHeaderOrder = ['':method'', '':path'', '':authority'', '':scheme''],
     connectionFlow = 15663105,
     streamID = 0,
     allowHTTP = False,
     http3Settings = None,
     http3SettingsOrder = [],
     http3PriorityParam = 0,
     http3PseudoHeaderOrder = [],
     http3SendGreaseFrames = False\<rparr>"

definition ZalandoIosMobile_spec :: "utls \<Rightarrow> specFactory" where
  "ZalandoIosMobile_spec K seed = Inr
     \<lparr>CipherSuites =
       [GREASE_PLACEHOLDER K, cipherVal K TLS_AES_128_GCM_SHA256, cipherVal K TLS_AES_256_GCM_SHA384,
         cipherVal K TLS_CHACHA20_POLY1305_SHA256, cipherVal K TLS_ECDHE_ECDSA_WITH_AES_256_GCM_SHA384,
         cipherVal K TLS_ECDHE_ECDSA_WITH_AES_128_GCM_SHA256,
         cipherVal K TLS_ECDHE_ECDSA_WITH_CHACHA20_POLY1305_SHA256,
         cipherVal K TLS_ECDHE_RSA_WITH_AES_256_GCM_SHA384,
         cipherVal K TLS_ECDHE_RSA_WITH_AES_128_GCM_SHA256,
         cipherVal K TLS_ECDHE_RSA_WITH_CHACHA20_POLY1305_SHA256,
         cipherVal K TLS_ECDHE_ECDSA_WITH_AES_256_CBC_SHA, cipherVal K TLS_ECDHE_ECDSA_WITH_AES_128_CBC_SHA,
         cipherVal K TLS_ECDHE_RSA_WITH_AES_256_CBC_SHA, cipherVal K TLS_ECDHE_RSA_WITH_AES_128_CBC_SHA],
      CompressionMethods = [CompressionNone K],
      Extensions =
       [UtlsGREASEExtension,
        SNIExtension,
        ExtendedMasterSecretExtension,
        RenegotiationInfoExtension RenegotiateOnceAsClient,
        SupportedCurvesExtension [GREASE_PLACEHOLDER K, groupVal K X25519, groupVal K CurveP256,
          groupVal K CurveP384, groupVal K CurveP521],
        SupportedPointsExtension [PointFormatUncompressed K],
        ALPNExtension [''h2'', ''http/1.1''],
        StatusRequestExtension,
        SignatureAlgorithmsExtension [sigVal K ECDSAWithP256AndSHA256, sigVal K PSSWithSHA256,
          sigVal K PKCS1WithSHA256, sigVal K ECDSAWithP384AndSHA384, sigVal K ECDSAWithSHA1,
          sigVal K PSSWithSHA384, sigVal K PSSWithSHA384, sigVal K PKCS1WithSHA384, sigVal K PSSWithSHA512,
          sigVal K PKCS1WithSHA512, sigVal K PKCS1WithSHA1],
        SCTExtension,
        KeyShareExtension [\<lparr>Group = GREASE_PLACEHOLDER K, KSData = [0]\<rparr>,
          \<lparr>Group = groupVal K X25519, KSData = []\<rparr>],
        PSKKeyExchangeModesExtension [PskModeDHE K],
        SupportedVersionsExtension [GREASE_PLACEHOLDER K, versionVal K VersionTLS13,
          versionVal K VersionTLS12],
        UtlsCompressCertExtension [certVal K CertCompressionZlib],
        UtlsGREASEExtension,
        UtlsPaddingExtension BoringPaddingStyle False],
      GetSessionID = None\<rparr>"

definition ZalandoIosMobile :: "utls \<Rightarrow> ClientProfile" where
  "ZalandoIosMobile K = \<lparr>
     clientHelloId = FactoryHello \<lparr>Client = ''ZalandoIosCustom'', RandomExtensionOrder = False,
       Version = ''1'', SpecFactory = ZalandoIosMobile_spec K\<rparr>,
     headerPriority = None,
     settings = Some [(settingVal K SettingHeaderTableSize, 4096),
       (settingVal K SettingMaxConcurrentStreams, 100), (settingVal K SettingInitialWindowSize, 2097152),
       (settingVal K SettingMaxFrameSize, 16384), (settingVal K SettingMaxHeaderListSize, 0xffffffff)],
     settingsOrder = [settingVal K SettingHeaderTableSize, settingVal K SettingMaxConcurrentStreams,
       settingVal K SettingInitialWindowSize, settingVal K SettingMaxFrameSize,
       settingVal K SettingMaxHeaderListSize],
     priorities = [],
     pseudoHeaderOrder = ['':method'', '':path'', '':authority'', '':scheme''],
     connectionFlow = 15663105,
     streamID = 0,
     allowHTTP = False,
     http3Settings = None,
     http3SettingsOrder = [],
     http3PriorityParam = 0,
     http3PseudoHeaderOrder = [],
     http3SendGreaseFrames = False\<rparr>"

definition NikeIosMobile_spec :: "utls \<Rightarrow> specFactory" where
  "NikeIosMobile_spec K seed = Inr
     \<lparr>CipherSuites =
       [GREASE_PLACEHOLDER K, cipherVal K TLS_AES_128_GCM_SHA256, cipherVal K TLS_AES_256_GCM_SHA384,
         cipherVal K TLS_CHACHA20_POLY1305_SHA256, cipherVal K TLS_ECDHE_ECDSA_WITH_AES_256_GCM_SHA384,
         cipherVal K TLS_ECDHE_ECDSA_WITH_AES_128_GCM_SHA256,
         cipherVal K TLS_ECDHE_ECDSA_WITH_CHACHA20_POLY1305_SHA256,
         cipherVal K TLS_ECDHE_RSA_WITH_AES_256_GCM_SHA384,
         cipherVal K TLS_ECDHE_RSA_WITH_AES_128_GCM_SHA256,
         cipherVal K TLS_ECDHE_RSA_WITH_CHACHA20_POLY1305_SHA256,
         cipherVal K TLS_ECDHE_ECDSA_WITH_AES_256_CBC_SHA, cipherVal K TLS_ECDHE_ECDSA_WITH_AES_128_CBC_SHA,
         cipherVal K TLS_ECDHE_RSA_WITH_AES_256_CBC_SHA, cipherVal K TLS_ECDHE_RSA_WITH_AES_128_CBC_SHA],
      CompressionMethods = [CompressionNone K],
      Extensions =
       [UtlsGREASEExtension,
        SNIExtension,
        ExtendedMasterSecretExtension,
        RenegotiationInfoExtension RenegotiateOnceAsClient,
        SupportedCurvesExtension [GREASE_PLACEHOLDER K, groupVal K X25519, groupVal K CurveP256,
          groupVal K CurveP384, groupVal K CurveP521],
        SupportedPointsExtension [PointFormatUncompressed K],
        ALPNExtension [''h2'', ''http/1.1''],
        StatusRequestExtension,
        SignatureAlgorithmsExtension [sigVal K ECDSAWithP256AndSHA256, sigVal K PSSWithSHA256,
          sigVal K PKCS1WithSHA256, sigVal K ECDSAWithP384AndSHA384, sigVal K ECDSAWithSHA1,
          sigVal K PSSWithSHA384, sigVal K PSSWithSHA384, sigVal K PKCS1WithSHA384, sigVal K PSSWithSHA512,
          sigVal K PKCS1WithSHA512, sigVal K PKCS1WithSHA1],
        SCTExtension,
        KeyShareExtension [\<lparr>Group = GREASE_PLACEHOLDER K, KSData = [0]\<rparr>,
          \<lparr>Group = groupVal K X25519, KSData = []\<rparr>],
        PSKKeyExchangeModesExtension [PskModeDHE K],
        SupportedVersionsExtension [GREASE_PLACEHOLDER K, versionVal K VersionTLS13,
          versionVal K VersionTLS12],
        UtlsCompressCertExtension [certVal K CertCompressionZlib],
        UtlsGREASEExtension,
        UtlsPaddingExtension BoringPaddingStyle False],
      GetSessionID = None\<rparr>"

definition NikeIosMobile :: "utls \<Rightarrow> ClientProfile" where
  "NikeIosMobile K = \<lparr>
     clientHelloId = FactoryHello \<lparr>Client = ''NikeIosCustom'', RandomExtensionOrder = False,
       Version = ''1'', SpecFactory = NikeIosMobile_spec K\<rparr>,
     headerPriority = None,
     settings = Some [(settingVal K SettingHeaderTableSize, 4096),
       (settingVal K SettingMaxConcurrentStreams, 100), (settingVal K SettingInitialWindowSize, 2097152),
       (settingVal K SettingMaxFrameSize, 16384), (settingVal K SettingMaxHeaderListSize, 0xffffffff)],
     settingsOrder = [settingVal K SettingHeaderTableSize, settingVal K SettingMaxConcurrentStreams,
       settingVal K SettingInitialWindowSize, settingVal K SettingMaxFrameSize,
       settingVal K SettingMaxHeaderListSize],
     priorities = [],
     pseudoHeaderOrder = ['':method'', '':scheme'', '':path'', '':authority''],
     connectionFlow = 15663105,
     streamID = 0,
     allowHTTP = False,
     http3Settings = None,
     http3SettingsOrder = [],
     http3PriorityParam = 0,
     http3PseudoHeaderOrder = [],
     http3SendGreaseFrames = False\<rparr>"

definition NikeAndroidMobile_spec :: "utls \<Rightarrow> specFactory" where
  "NikeAndroidMobile_spec K seed = Inr
     \<lparr>CipherSuites =
       [cipherVal K TLS_AES_128_GCM_SHA256, cipherVal K TLS_AES_256_GCM_SHA384,
         cipherVal K TLS_CHACHA20_POLY1305_SHA256, cipherVal K TLS_ECDHE_ECDSA_WITH_AES_128_GCM_SHA256,
         cipherVal K TLS_ECDHE_ECDSA_WITH_AES_256_GCM_SHA384,
         cipherVal K TLS_ECDHE_ECDSA_WITH_CHACHA20_POLY1305_SHA256,
         cipherVal K TLS_ECDHE_RSA_WITH_AES_128_GCM_SHA256,
         cipherVal K TLS_ECDHE_RSA_WITH_AES_256_GCM_SHA384,
         cipherVal K TLS_ECDHE_RSA_WITH_CHACHA20_POLY1305_SHA256,
         cipherVal K TLS_ECDHE_RSA_WITH_AES_128_CBC_SHA, cipherVal K TLS_ECDHE_RSA_WITH_AES_256_CBC_SHA,
         cipherVal K TLS_RSA_WITH_AES_128_GCM_SHA256, cipherVal K TLS_RSA_WITH_AES_256_GCM_SHA384,
         cipherVal K TLS_RSA_WITH_AES_128_CBC_SHA, cipherVal K TLS_RSA_WITH_AES_256_CBC_SHA],
      CompressionMethods = [CompressionNone K],
      Extensions =
       [SNIExtension,
        ExtendedMasterSecretExtension,
        RenegotiationInfoExtension RenegotiateOnceAsClient,
        SupportedCurvesExtension [groupVal K X25519, groupVal K CurveP256, groupVal K CurveP384],
        SupportedPointsExtension [PointFormatUncompressed K],
        SessionTicketExtension,
        ALPNExtension [''h2'', ''http/1.1''],
        StatusRequestExtension,
        SignatureAlgorithmsExtension [sigVal K ECDSAWithP256AndSHA256, sigVal K PSSWithSHA256,
          sigVal K PKCS1WithSHA256, sigVal K ECDSAWithP384AndSHA384, sigVal K PSSWithSHA384,
          sigVal K PKCS1WithSHA384, sigVal K PSSWithSHA512, sigVal K PKCS1WithSHA512,
          sigVal K PKCS1WithSHA1],
        KeyShareExtension [\<lparr>Group = GREASE_PLACEHOLDER K, KSData = [0]\<rparr>,
          \<lparr>Group = groupVal K X25519, KSData = []\<rparr>],
        PSKKeyExchangeModesExtension [PskModeDHE K],
        SupportedVersionsExtension [versionVal K VersionTLS13, versionVal K VersionTLS12],
        UtlsPaddingExtension BoringPaddingStyle False],
      GetSessionID = None\<rparr>"

definition NikeAndroidMobile :: "utls \<Rightarrow> ClientProfile" where
  "NikeAndroidMobile K = \<lparr>
     clientHelloId = FactoryHello \<lparr>Client = ''NikeAndroidCustom'', RandomExtensionOrder = False,
       Version = ''1'', SpecFactory = NikeAndroidMobile_spec K\<rparr>,
     headerPriority = None,
     settings = Some [(settingVal K SettingHeaderTableSize, 4096),
       (settingVal K SettingMaxConcurrentStreams, 0xffffffff),
       (settingVal K SettingInitialWindowSize, 16777216), (settingVal K SettingMaxFrameSize, 16384),
       (settingVal K SettingMaxHeaderListSize, 0xffffffff)],
     settingsOrder = [settingVal K SettingHeaderTableSize, settingVal K SettingMaxConcurrentStreams,
       settingVal K SettingInitialWindowSize, settingVal K SettingMaxFrameSize,
       settingVal K SettingMaxHeaderListSize],
     priorities = [],
     pseudoHeaderOrder = ['':method'', '':path'', '':authority'', '':scheme''],
     connectionFlow = 15663105,
     streamID = 0,
     allowHTTP = False,
     http3Settings = None,
     http3SettingsOrder = [],
     http3PriorityParam = 0,
     http3PseudoHeaderOrder = [],
     http3SendGreaseFrames = False\<rparr>"

definition CloudflareCustom_spec :: "utls \<Rightarrow> specFactory" where
  "CloudflareCustom_spec K seed = Inr
     \<lparr>CipherSuites =
       [cipherVal K TLS_ECDHE_RSA_WITH_AES_128_CBC_SHA, cipherVal K TLS_ECDHE_RSA_WITH_AES_256_CBC_SHA,
         cipherVal K TLS_ECDHE_ECDSA_WITH_AES_128_CBC_SHA, cipherVal K TLS_ECDHE_ECDSA_WITH_AES_256_CBC_SHA,
         cipherVal K FAKE_TLS_EMPTY_RENEGOTIATION_INFO_SCSV],
      CompressionMethods = [CompressionNone K],
      Extensions =
       [SNIExtension,
        SupportedPointsExtension [PointFormatUncompressed K, 1, 2],
        SupportedCurvesExtension [0x0017],
        SessionTicketExtension,
        ALPNExtension [''http/1.1''],
        GenericExtension 22 [],
        ExtendedMasterSecretExtension,
        SignatureAlgorithmsExtension [sigVal K ECDSAWithP256AndSHA256, sigVal K ECDSAWithP384AndSHA384,
          sigVal K ECDSAWithP521AndSHA512, 0x0807, 0x0808, 0x0809, 0x080a, 0x080b, sigVal K PSSWithSHA256,
          sigVal K PSSWithSHA384, sigVal K PSSWithSHA512, sigVal K PKCS1WithSHA256,
          sigVal K PKCS1WithSHA384, sigVal K PKCS1WithSHA512, 0x0303, 0x0203, 0x0301, 0x0201, 0x0302,
          0x0202, 0x0402, 0x0502, 0x0602]],
      GetSessionID = None\<rparr>"

definition CloudflareCustom :: "utls \<Rightarrow> ClientProfile" where
  "CloudflareCustom K = \<lparr>
     clientHelloId = FactoryHello \<lparr>Client = ''CloudflareCustom'', RandomExtensionOrder = False,
       Version = ''1'', SpecFactory = CloudflareCustom_spec K\<rparr>,
     headerPriority = None,
     settings = Some [(settingVal K SettingHeaderTableSize, 4096),
       (settingVal K SettingMaxConcurrentStreams, 0xffffffff),
       (settingVal K SettingInitialWindowSize, 16777216), (settingVal K SettingMaxFrameSize, 16384),
       (settingVal K SettingMaxHeaderListSize, 0xffffffff)],
     settingsOrder = [settingVal K SettingHeaderTableSize, settingVal K SettingMaxConcurrentStreams,
       settingVal K SettingInitialWindowSize, settingVal K SettingMaxFrameSize,
       settingVal K SettingMaxHeaderListSize],
     priorities = [],
     pseudoHeaderOrder = ['':method'', '':path'', '':authority'', '':scheme''],
     connectionFlow = 15663105,
     streamID = 0,
     allowHTTP = False,
     http3Settings = None,
     http3SettingsOrder = [],
     http3PriorityParam = 0,
     http3PseudoHeaderOrder = [],
     http3SendGreaseFrames = False\<rparr>"

definition MMSIos_spec :: "utls \<Rightarrow> specFactory" where
  "MMSIos_spec K seed = Inr
     \<lparr>CipherSuites =
       [0x1303, 0x1301, 0x1302, 0xcca9, 0xcca8, 0xc02b, 0xc02f, 0xc02c, 0xc030, 0xc009, 0xc013, 0xc00a,
         0xc014, 0x009c, 0x009d, 0x002f, 0x0035, 0x000a],
      CompressionMethods = [CompressionNone K],
      Extensions =
       [SNIExtension,
        ExtendedMasterSecretExtension,
        RenegotiationInfoExtension RenegotiateOnceAsClient,
        SupportedCurvesExtension [0x001d, 0x0017, 0x0018],
        SupportedPointsExtension [PointFormatUncompressed K],
        SessionTicketExtension,
        SignatureAlgorithmsExtension [0x0403, 0x0804, 0x0401, 0x0503, 0x0805, 0x0501, 0x0806, 0x0601,
          0x0201],
        KeyShareExtension [\<lparr>Group = groupVal K X25519, KSData = []\<rparr>],
        PSKKeyExchangeModesExtension [PskModeDHE K],
        SupportedVersionsExtension [versionVal K VersionTLS13, versionVal K VersionTLS12]],
      GetSessionID = None\<rparr>"

definition MMSIos :: "utls \<Rightarrow> ClientProfile" where
  "MMSIos K = \<lparr>
     clientHelloId = FactoryHello \<lparr>Client = ''MMSIos'', RandomExtensionOrder = False,
       Version = ''1'', SpecFactory = MMSIos_spec K\<rparr>,
     headerPriority = None,
     settings = Some [(settingVal K SettingHeaderTableSize, 4096), (settingVal K SettingEnablePush, 1),
       (settingVal K SettingMaxConcurrentStreams, 100), (settingVal K SettingInitialWindowSize, 2097152),
       (settingVal K SettingMaxFrameSize, 16384), (settingVal K SettingMaxHeaderListSize, 0xffffffff)],
     settingsOrder = [settingVal K SettingHeaderTableSize, settingVal K SettingEnablePush,
       settingVal K SettingMaxConcurrentStreams, settingVal K SettingInitialWindowSize,
       settingVal K SettingMaxFrameSize, settingVal K SettingMaxHeaderListSize],
     priorities = [],
     pseudoHeaderOrder = ['':method'', '':scheme'', '':path'', '':authority''],
     connectionFlow = 15663105,
     streamID = 0,
     allowHTTP = False,
     http3Settings = None,
     http3SettingsOrder = [],
     http3PriorityParam = 0,
     http3PseudoHeaderOrder = [],
     http3SendGreaseFrames = False\<rparr>"

definition MeshIos_spec :: "utls \<Rightarrow> specFactory" where
  "MeshIos_spec K seed = Inr
     \<lparr>CipherSuites =
       [GREASE_PLACEHOLDER K, 0x1301, 0x1302, 0x1303, 0xc02c, 0xc02b, 0xcca9, 0xc030, 0xc02f, 0xcca8,
         0xc00a, 0xc009, 0xc014, 0xc013],
      CompressionMethods = [CompressionNone K],
      Extensions =
       [UtlsGREASEExtension,
        SNIExtension,
        ExtendedMasterSecretExtension,
        RenegotiationInfoExtension RenegotiateOnceAsClient,
        SupportedCurvesExtension [GREASE_PLACEHOLDER K, 0x001d, 0x0017, 0x0018, 0x0019],
        SupportedPointsExtension [PointFormatUncompressed K],
        ALPNExtension [''h2'', ''http/1.1''],
        StatusRequestExtension,
        SignatureAlgorithmsExtension [0x0403, 0x0804, 0x0401, 0x0503, 0x0203, 0x0805, 0x0805, 0x0501,
          0x0806, 0x0601, 0x0201],
        SCTExtension,
        KeyShareExtension [\<lparr>Group = GREASE_PLACEHOLDER K, KSData = [0]\<rparr>,
          \<lparr>Group = groupVal K X25519, KSData = []\<rparr>],
        PSKKeyExchangeModesExtension [PskModeDHE K],
        SupportedVersionsExtension [GREASE_PLACEHOLDER K, versionVal K VersionTLS13,
          versionVal K VersionTLS12],
        UtlsCompressCertExtension [certVal K CertCompressionZlib],
        UtlsGREASEExtension,
        UtlsPaddingExtension BoringPaddingStyle False],
      GetSessionID = None\<rparr>"

definition MeshIos :: "utls \<Rightarrow> ClientProfile" where
  "MeshIos K = \<lparr>
     clientHelloId = FactoryHello \<lparr>Client = ''MeshIos'', RandomExtensionOrder = False,
       Version = ''1'', SpecFactory = MeshIos_spec K\<rparr>,
     headerPriority = None,
     settings = Some [(settingVal K SettingHeaderTableSize, 4096), (settingVal K SettingEnablePush, 1),
       (settingVal K SettingMaxConcurrentStreams, 100), (settingVal K SettingInitialWindowSize, 2097152),
       (settingVal K SettingMaxFrameSize, 16384), (settingVal K SettingMaxHeaderListSize, 0xffffffff)],
     settingsOrder = [settingVal K SettingHeaderTableSize, settingVal K SettingEnablePush,
       settingVal K SettingMaxConcurrentStreams, settingVal K SettingInitialWindowSize,
       settingVal K SettingMaxFrameSize, settingVal K SettingMaxHeaderListSize],
     priorities = [],
     pseudoHeaderOrder = ['':method'', '':scheme'', '':path'', '':authority''],
     connectionFlow = 15663105,
     streamID = 0,
     allowHTTP = False,
     http3Settings = None,
     http3SettingsOrder = [],
     http3PriorityParam = 0,
     http3PseudoHeaderOrder = [],
     http3SendGreaseFrames = False\<rparr>"

definition MeshAndroid_spec :: "utls \<Rightarrow> specFactory" where
  "MeshAndroid_spec K seed = Inr
     \<lparr>CipherSuites =
       [GREASE_PLACEHOLDER K, cipherVal K TLS_AES_128_GCM_SHA256, cipherVal K TLS_AES_256_GCM_SHA384,
         cipherVal K TLS_CHACHA20_POLY1305_SHA256, cipherVal K TLS_ECDHE_ECDSA_WITH_AES_128_GCM_SHA256,
         cipherVal K TLS_ECDHE_RSA_WITH_AES_128_GCM_SHA256,
         cipherVal K TLS_ECDHE_ECDSA_WITH_AES_256_GCM_SHA384,
         cipherVal K TLS_ECDHE_RSA_WITH_AES_256_GCM_SHA384,
         cipherVal K TLS_ECDHE_ECDSA_WITH_CHACHA20_POLY1305_SHA256,
         cipherVal K TLS_ECDHE_RSA_WITH_CHACHA20_POLY1305_SHA256,
         cipherVal K TLS_ECDHE_RSA_WITH_AES_128_CBC_SHA, cipherVal K TLS_ECDHE_RSA_WITH_AES_256_CBC_SHA,
         cipherVal K TLS_RSA_WITH_AES_128_GCM_SHA256, cipherVal K TLS_RSA_WITH_AES_256_GCM_SHA384,
         cipherVal K TLS_RSA_WITH_AES_128_CBC_SHA, cipherVal K TLS_RSA_WITH_AES_256_CBC_SHA],
      CompressionMethods = [CompressionNone K],
      Extensions =
       [UtlsGREASEExtension,
        SNIExtension,
        ExtendedMasterSecretExtension,
        RenegotiationInfoExtension RenegotiateOnceAsClient,
        SupportedCurvesExtension [GREASE_PLACEHOLDER K, groupVal K X25519, groupVal K CurveP256,
          groupVal K CurveP384],
        SupportedPointsExtension [PointFormatUncompressed K],
        SessionTicketExtension,
        ALPNExtension [''h2'', ''http/1.1''],
        StatusRequestExtension,
        SignatureAlgorithmsExtension [sigVal K ECDSAWithP256AndSHA256, sigVal K PSSWithSHA256,
          sigVal K PKCS1WithSHA256, sigVal K ECDSAWithP384AndSHA384, sigVal K PSSWithSHA384,
          sigVal K PKCS1WithSHA384, sigVal K PSSWithSHA512, sigVal K PKCS1WithSHA512],
        SCTExtension,
        KeyShareExtension [\<lparr>Group = GREASE_PLACEHOLDER K, KSData = [0]\<rparr>,
          \<lparr>Group = groupVal K X25519, KSData = []\<rparr>],
        PSKKeyExchangeModesExtension [PskModeDHE K],
        SupportedVersionsExtension [GREASE_PLACEHOLDER K, versionVal K VersionTLS13,
          versionVal K VersionTLS12],
        UtlsCompressCertExtension [certVal K CertCompressionBrotli],
        ApplicationSettingsExtension [],
        UtlsGREASEExtension,
        UtlsPaddingExtension BoringPaddingStyle False],
      GetSessionID = None\<rparr>"

definition MeshAndroid :: "utls \<Rightarrow> ClientProfile" where
  "MeshAndroid K = \<lparr>
     clientHelloId = FactoryHello \<lparr>Client = ''MeshAndroid'', RandomExtensionOrder = False,
       Version = ''1'', SpecFactory = MeshAndroid_spec K\<rparr>,
     headerPriority = None,
     settings = Some [(settingVal K SettingHeaderTableSize, 65536),
       (settingVal K SettingMaxConcurrentStreams, 1000), (settingVal K SettingInitialWindowSize, 6291456),
       (settingVal K SettingMaxHeaderListSize, 262144)],
     settingsOrder = [settingVal K SettingHeaderTableSize, settingVal K SettingMaxConcurrentStreams,
       settingVal K SettingInitialWindowSize, settingVal K SettingMaxHeaderListSize],
     priorities = [],
     pseudoHeaderOrder = ['':method'', '':authority'', '':scheme'', '':path''],
     connectionFlow = 15663105,
     streamID = 0,
     allowHTTP = False,
     http3Settings = None,
     http3SettingsOrder = [],
     http3PriorityParam = 0,
     http3PseudoHeaderOrder = [],
     http3SendGreaseFrames = False\<rparr>"

definition MeshIos2_spec :: "utls \<Rightarrow> specFactory" where
  "MeshIos2_spec K seed = Inr
     \<lparr>CipherSuites =
       [GREASE_PLACEHOLDER K, cipherVal K TLS_AES_128_GCM_SHA256, cipherVal K TLS_AES_256_GCM_SHA384,
         cipherVal K TLS_CHACHA20_POLY1305_SHA256, cipherVal K TLS_ECDHE_ECDSA_WITH_AES_256_GCM_SHA384,
         cipherVal K TLS_ECDHE_ECDSA_WITH_AES_128_GCM_SHA256,
         cipherVal K TLS_ECDHE_ECDSA_WITH_CHACHA20_POLY1305_SHA256,
         cipherVal K TLS_ECDHE_RSA_WITH_AES_256_GCM_SHA384,
         cipherVal K TLS_ECDHE_RSA_WITH_AES_128_GCM_SHA256,
         cipherVal K TLS_ECDHE_RSA_WITH_CHACHA20_POLY1305_SHA256,
         cipherVal K DISABLED_TLS_ECDHE_ECDSA_WITH_AES_256_CBC_SHA384,
         cipherVal K TLS_ECDHE_ECDSA_WITH_AES_128_CBC_SHA256,
         cipherVal K TLS_ECDHE_ECDSA_WITH_AES_256_CBC_SHA, cipherVal K TLS_ECDHE_ECDSA_WITH_AES_128_CBC_SHA,
         cipherVal K DISABLED_TLS_ECDHE_RSA_WITH_AES_256_CBC_SHA384,
         cipherVal K TLS_ECDHE_RSA_WITH_AES_128_CBC_SHA256, cipherVal K TLS_ECDHE_RSA_WITH_AES_256_CBC_SHA,
         cipherVal K TLS_ECDHE_RSA_WITH_AES_128_CBC_SHA],
      CompressionMethods = [CompressionNone K],
      Extensions =
       [UtlsGREASEExtension,
        SNIExtension,
        ExtendedMasterSecretExtension,
        RenegotiationInfoExtension RenegotiateOnceAsClient,
        SupportedCurvesExtension [GREASE_PLACEHOLDER K, groupVal K X25519, groupVal K CurveP256,
          groupVal K CurveP384, groupVal K CurveP521],
        SupportedPointsExtension [PointFormatUncompressed K],
        ALPNExtension [''h2'', ''http/1.1''],
        StatusRequestExtension,
        SignatureAlgorithmsExtension [sigVal K ECDSAWithP256AndSHA256, sigVal K PSSWithSHA256,
          sigVal K PKCS1WithSHA256, sigVal K ECDSAWithP384AndSHA384, sigVal K ECDSAWithSHA1,
          sigVal K PSSWithSHA384, sigVal K PSSWithSHA384, sigVal K PKCS1WithSHA384, sigVal K PSSWithSHA512,
          sigVal K PKCS1WithSHA512, sigVal K PKCS1WithSHA1],
        SCTExtension,
        KeyShareExtension [\<lparr>Group = GREASE_PLACEHOLDER K, KSData = [0]\<rparr>,
          \<lparr>Group = groupVal K X25519, KSData = []\<rparr>],
        PSKKeyExchangeModesExtension [PskModeDHE K],
        SupportedVersionsExtension [GREASE_PLACEHOLDER K, versionVal K VersionTLS13,
          versionVal K VersionTLS12],
        UtlsCompressCertExtension [certVal K CertCompressionZlib],
        UtlsGREASEExtension,
        UtlsPaddingExtension BoringPaddingStyle False],
      GetSessionID = None\<rparr>"

definition MeshIos2 :: "utls \<Rightarrow> ClientProfile" where
  "MeshIos2 K = \<lparr>
     clientHelloId = FactoryHello \<lparr>Client = ''MeshIos2'', RandomExtensionOrder = False,
       Version = ''1'', SpecFactory = MeshIos2_spec K\<rparr>,
     headerPriority = None,
     settings = Some [(settingVal K SettingHeaderTableSize, 4096),
       (settingVal K SettingMaxConcurrentStreams, 100), (settingVal K SettingInitialWindowSize, 2097152)],
     settingsOrder = [settingVal K SettingHeaderTableSize, settingVal K SettingMaxConcurrentStreams,
       settingVal K SettingInitialWindowSize],
     priorities = [],
     pseudoHeaderOrder = ['':method'', '':authority'', '':scheme'', '':path''],
     connectionFlow = 15663105,
     streamID = 0,
     allowHTTP = False,
     http3Settings = None,
     http3SettingsOrder = [],
     http3PriorityParam = 0,
     http3PseudoHeaderOrder = [],
     http3SendGreaseFrames = False\<rparr>"

definition MeshAndroid2_spec :: "utls \<Rightarrow> specFactory" where
  "MeshAndroid2_spec K seed = Inr
     \<lparr>CipherSuites =
       [cipherVal K TLS_ECDHE_ECDSA_WITH_AES_128_GCM_SHA256,
         cipherVal K TLS_ECDHE_ECDSA_WITH_AES_256_GCM_SHA384,
         cipherVal K TLS_ECDHE_ECDSA_WITH_CHACHA20_POLY1305_SHA256,
         cipherVal K TLS_ECDHE_RSA_WITH_AES_128_GCM_SHA256,
         cipherVal K TLS_ECDHE_RSA_WITH_AES_256_GCM_SHA384,
         cipherVal K TLS_ECDHE_RSA_WITH_CHACHA20_POLY1305_SHA256,
         cipherVal K TLS_ECDHE_ECDSA_WITH_AES_128_CBC_SHA, cipherVal K TLS_ECDHE_ECDSA_WITH_AES_256_CBC_SHA,
         cipherVal K TLS_ECDHE_RSA_WITH_AES_128_CBC_SHA, cipherVal K TLS_ECDHE_RSA_WITH_AES_256_CBC_SHA,
         cipherVal K TLS_RSA_WITH_AES_128_GCM_SHA256, cipherVal K TLS_RSA_WITH_AES_256_GCM_SHA384,
         cipherVal K TLS_RSA_WITH_AES_128_CBC_SHA, cipherVal K TLS_RSA_WITH_AES_256_CBC_SHA],
      CompressionMethods = [CompressionNone K],
      Extensions =
       [RenegotiationInfoExtension RenegotiateOnceAsClient,
        SNIExtension,
        ExtendedMasterSecretExtension,
        SessionTicketExtension,
        SignatureAlgorithmsExtension [sigVal K ECDSAWithP256AndSHA256, sigVal K PSSWithSHA256,
          sigVal K PKCS1WithSHA256, sigVal K ECDSAWithP384AndSHA384, sigVal K PSSWithSHA384,
          sigVal K PKCS1WithSHA384, sigVal K PSSWithSHA512, sigVal K PKCS1WithSHA512,
          sigVal K PKCS1WithSHA1],
        StatusRequestExtension,
        ALPNExtension [''http/1.1''],
        SupportedPointsExtension [PointFormatUncompressed K],
        SupportedCurvesExtension [groupVal K X25519, groupVal K CurveP256, groupVal K CurveP384]],
      GetSessionID = None\<rparr>"

definition MeshAndroid2 :: "utls \<Rightarrow> ClientProfile" where
  "MeshAndroid2 K = \<lparr>
     clientHelloId = FactoryHello \<lparr>Client = ''MeshAndroid2'', RandomExtensionOrder = False,
       Version = ''1'', SpecFactory = MeshAndroid2_spec K\<rparr>,
     headerPriority = None,
     settings = Some [(settingVal K SettingHeaderTableSize, 65536),
       (settingVal K SettingMaxConcurrentStreams, 1000), (settingVal K SettingInitialWindowSize, 6291456),
       (settingVal K SettingMaxHeaderListSize, 262144)],
     settingsOrder = [settingVal K SettingHeaderTableSize, settingVal K SettingMaxConcurrentStreams,
       settingVal K SettingInitialWindowSize, settingVal K SettingMaxHeaderListSize],
     priorities = [],
     pseudoHeaderOrder = ['':method'', '':authority'', '':scheme'', '':path''],
     connectionFlow = 15663105,
     streamID = 0,
     allowHTTP = False,
     http3Settings = None,
     http3SettingsOrder = [],
     http3PriorityParam = 0,
     http3PseudoHeaderOrder = [],
     http3SendGreaseFrames = False\<rparr>"

definition ConfirmedIos_spec :: "utls \<Rightarrow> specFactory" where
  "ConfirmedIos_spec K seed = Inr
     \<lparr>CipherSuites =
       [GREASE_PLACEHOLDER K, cipherVal K TLS_AES_128_GCM_SHA256, cipherVal K TLS_AES_256_GCM_SHA384,
         cipherVal K TLS_CHACHA20_POLY1305_SHA256, cipherVal K TLS_ECDHE_ECDSA_WITH_AES_256_GCM_SHA384,
         cipherVal K TLS_ECDHE_ECDSA_WITH_AES_128_GCM_SHA256,
         cipherVal K TLS_ECDHE_ECDSA_WITH_CHACHA20_POLY1305_SHA256,
         cipherVal K TLS_ECDHE_RSA_WITH_AES_256_GCM_SHA384,
         cipherVal K TLS_ECDHE_RSA_WITH_AES_128_GCM_SHA256,
         cipherVal K TLS_ECDHE_RSA_WITH_CHACHA20_POLY1305_SHA256,
         cipherVal K TLS_ECDHE_ECDSA_WITH_AES_256_CBC_SHA, cipherVal K TLS_ECDHE_ECDSA_WITH_AES_128_CBC_SHA,
         cipherVal K TLS_ECDHE_RSA_WITH_AES_256_CBC_SHA, cipherVal K TLS_ECDHE_RSA_WITH_AES_128_CBC_SHA],
      CompressionMethods = [CompressionNone K],
      Extensions =
       [UtlsGREASEExtension,
        SNIExtension,
        ExtendedMasterSecretExtension,
        RenegotiationInfoExtension RenegotiateOnceAsClient,
        SupportedCurvesExtension [GREASE_PLACEHOLDER K, groupVal K X25519, groupVal K CurveP256,
          groupVal K CurveP384, groupVal K CurveP521],
        SupportedPointsExtension [PointFormatUncompressed K],
        ALPNExtension [''h2'', ''http/1.1''],
        StatusRequestExtension,
        SignatureAlgorithmsExtension [sigVal K ECDSAWithP256AndSHA256, sigVal K PSSWithSHA256,
          sigVal K PKCS1WithSHA256, sigVal K ECDSAWithP384AndSHA384, sigVal K ECDSAWithSHA1,
          sigVal K PSSWithSHA384, sigVal K PSSWithSHA384, sigVal K PKCS1WithSHA384, sigVal K PSSWithSHA512,
          sigVal K PKCS1WithSHA512, sigVal K PKCS1WithSHA1],
        SCTExtension,
        KeyShareExtension [\<lparr>Group = GREASE_PLACEHOLDER K, KSData = [0]\<rparr>,
          \<lparr>Group = groupVal K X25519, KSData = []\<rparr>],
        PSKKeyExchangeModesExtension [PskModeDHE K],
        SupportedVersionsExtension [GREASE_PLACEHOLDER K, versionVal K VersionTLS13,
          versionVal K VersionTLS12],
        UtlsCompressCertExtension [certVal K CertCompressionZlib],
        UtlsGREASEExtension,
        UtlsPaddingExtension BoringPaddingStyle False],
      GetSessionID = None\<rparr>"

definition ConfirmedIos :: "utls \<Rightarrow> ClientProfile" where
  "ConfirmedIos K = \<lparr>
     clientHelloId = FactoryHello \<lparr>Client = ''ConfirmedIos'', RandomExtensionOrder = False,
       Version = ''1'', SpecFactory = ConfirmedIos_spec K\<rparr>,
     headerPriority = None,
     settings = Some [(settingVal K SettingHeaderTableSize, 4096), (settingVal K SettingEnablePush, 1),
       (settingVal K SettingMaxConcurrentStreams, 100), (settingVal K SettingInitialWindowSize, 2097152),
       (settingVal K SettingMaxFrameSize, 16384), (settingVal K SettingMaxHeaderListSize, 0xffffffff)],
     settingsOrder = [settingVal K SettingHeaderTableSize, settingVal K SettingEnablePush,
       settingVal K SettingMaxConcurrentStreams, settingVal K SettingInitialWindowSize,
       settingVal K SettingMaxFrameSize, settingVal K SettingMaxHeaderListSize],
     priorities = [],
     pseudoHeaderOrder = ['':method'', '':scheme'', '':path'', '':authority''],
     connectionFlow = 15663105,
     streamID = 0,
     allowHTTP = False,
     http3Settings = None,
     http3SettingsOrder = [],
     http3PriorityParam = 0,
     http3PseudoHeaderOrder = [],
     http3SendGreaseFrames = False\<rparr>"

definition ConfirmedAndroid_spec :: "utls \<Rightarrow> specFactory" where
  "ConfirmedAndroid_spec K seed = Inr
     \<lparr>CipherSuites =
       [cipherVal K TLS_ECDHE_ECDSA_WITH_AES_128_GCM_SHA256,
         cipherVal K TLS_ECDHE_ECDSA_WITH_AES_256_GCM_SHA384,
         cipherVal K TLS_ECDHE_ECDSA_WITH_CHACHA20_POLY1305_SHA256,
         cipherVal K TLS_ECDHE_RSA_WITH_AES_128_GCM_SHA256,
         cipherVal K TLS_ECDHE_RSA_WITH_AES_256_GCM_SHA384,
         cipherVal K TLS_ECDHE_RSA_WITH_CHACHA20_POLY1305_SHA256,
         cipherVal K TLS_ECDHE_RSA_WITH_AES_128_CBC_SHA, cipherVal K TLS_ECDHE_RSA_WITH_AES_256_CBC_SHA,
         cipherVal K TLS_RSA_WITH_AES_128_GCM_SHA256, cipherVal K TLS_RSA_WITH_AES_256_GCM_SHA384,
         cipherVal K TLS_RSA_WITH_AES_128_CBC_SHA, cipherVal K TLS_RSA_WITH_AES_256_CBC_SHA],
      CompressionMethods = [CompressionNone K],
      Extensions =
       [RenegotiationInfoExtension RenegotiateNever,
        SNIExtension,
        ExtendedMasterSecretExtension,
        SessionTicketExtension,
        SignatureAlgorithmsExtension [sigVal K ECDSAWithP256AndSHA256, 0x0804, sigVal K PKCS1WithSHA256,
          sigVal K ECDSAWithP384AndSHA384, 0x0805, sigVal K PKCS1WithSHA384, 0x0806, 0x0601,
          sigVal K PKCS1WithSHA1],
        StatusRequestExtension,
        ALPNExtension [''h2'', ''http/1.1''],
        SupportedPointsExtension [PointFormatUncompressed K],
        SupportedCurvesExtension [groupVal K X25519, groupVal K CurveP256, groupVal K CurveP384]],
      GetSessionID = None\<rparr>"

definition ConfirmedAndroid :: "utls \<Rightarrow> ClientProfile" where
  "ConfirmedAndroid K = \<lparr>
     clientHelloId = FactoryHello \<lparr>Client = ''ConfirmedAndroid'', RandomExtensionOrder = False,
       Version = ''1'', SpecFactory = ConfirmedAndroid_spec K\<rparr>,
     headerPriority = Some \<lparr>StreamDep = 0, Exclusive = False, Weight = 0\<rparr>,
     settings = Some [(settingVal K SettingInitialWindowSize, 16777216)],
     settingsOrder = [settingVal K SettingInitialWindowSize],
     priorities = [],
     pseudoHeaderOrder = ['':method'', '':path'', '':authority'', '':scheme''],
     connectionFlow = 16711681,
     streamID = 0,
     allowHTTP = False,
     http3Settings = None,
     http3SettingsOrder = [],
     http3PriorityParam = 0,
     http3PseudoHeaderOrder = [],
     http3SendGreaseFrames = False\<rparr>"

definition ConfirmedAndroid2_spec :: "utls \<Rightarrow> specFactory" where
  "ConfirmedAndroid2_spec K seed = Inr
     \<lparr>CipherSuites =
       [cipherVal K TLS_ECDHE_ECDSA_WITH_AES_128_GCM_SHA256,
         cipherVal K TLS_ECDHE_ECDSA_WITH_AES_256_GCM_SHA384,
         cipherVal K TLS_ECDHE_ECDSA_WITH_CHACHA20_POLY1305_SHA256,
         cipherVal K TLS_ECDHE_RSA_WITH_AES_128_GCM_SHA256,
         cipherVal K TLS_ECDHE_RSA_WITH_AES_256_GCM_SHA384,
         cipherVal K TLS_ECDHE_RSA_WITH_CHACHA20_POLY1305_SHA256,
         cipherVal K TLS_ECDHE_RSA_WITH_AES_128_CBC_SHA, cipherVal K TLS_ECDHE_RSA_WITH_AES_256_CBC_SHA,
         cipherVal K TLS_RSA_WITH_AES_128_GCM_SHA256, cipherVal K TLS_RSA_WITH_AES_256_GCM_SHA384,
         cipherVal K TLS_RSA_WITH_AES_128_CBC_SHA, cipherVal K TLS_RSA_WITH_AES_256_CBC_SHA],
      CompressionMethods = [CompressionNone K],
      Extensions =
       [RenegotiationInfoExtension RenegotiateNever,
        SNIExtension,
        ExtendedMasterSecretExtension,
        SessionTicketExtension,
        SignatureAlgorithmsExtension [sigVal K ECDSAWithP256AndSHA256, 0x0804, sigVal K PKCS1WithSHA256,
          sigVal K ECDSAWithP384AndSHA384, 0x0805, sigVal K PKCS1WithSHA384, 0x0806, 0x0601,
          sigVal K PKCS1WithSHA1],
        StatusRequestExtension,
        ALPNExtension [''h2'', ''http/1.1''],
        SupportedPointsExtension [PointFormatUncompressed K],
        SupportedCurvesExtension [groupVal K X25519, groupVal K CurveP256, groupVal K CurveP384],
        UtlsPaddingExtension BoringPaddingStyle True],
      GetSessionID = None\<rparr>"

definition ConfirmedAndroid2 :: "utls \<Rightarrow> ClientProfile" where
  "ConfirmedAndroid2 K = \<lparr>
     clientHelloId = FactoryHello \<lparr>Client = ''ConfirmedAndroid2'', RandomExtensionOrder = False,
       Version = ''1'', SpecFactory = ConfirmedAndroid2_spec K\<rparr>,
     headerPriority = None,
     settings = Some [(settingVal K SettingInitialWindowSize, 16777216)],
     settingsOrder = [settingVal K SettingInitialWindowSize],
     priorities = [],
     pseudoHeaderOrder = ['':method'', '':path'', '':authority'', '':scheme''],
     connectionFlow = 16711681,
     streamID = 0,
     allowHTTP = False,
     http3Settings = None,
     http3SettingsOrder = [],
     http3PriorityParam = 0,
     http3PseudoHeaderOrder = [],
     http3SendGreaseFrames = False\<rparr>"

definition Okhttp4Android10_spec :: "utls \<Rightarrow> specFactory" where
  "Okhttp4Android10_spec K seed = Inr
     \<lparr>CipherSuites =
       [cipherVal K TLS_AES_128_GCM_SHA256, cipherVal K TLS_AES_256_GCM_SHA384,
         cipherVal K TLS_CHACHA20_POLY1305_SHA256, cipherVal K TLS_ECDHE_ECDSA_WITH_AES_128_GCM_SHA256,
         cipherVal K TLS_ECDHE_ECDSA_WITH_AES_256_GCM_SHA384,
         cipherVal K TLS_ECDHE_ECDSA_WITH_CHACHA20_POLY1305_SHA256,
         cipherVal K TLS_ECDHE_RSA_WITH_AES_128_GCM_SHA256,
         cipherVal K TLS_ECDHE_RSA_WITH_AES_256_GCM_SHA384,
         cipherVal K TLS_ECDHE_RSA_WITH_CHACHA20_POLY1305_SHA256,
         cipherVal K TLS_ECDHE_RSA_WITH_AES_128_CBC_SHA, cipherVal K TLS_ECDHE_RSA_WITH_AES_256_CBC_SHA,
         cipherVal K TLS_RSA_WITH_AES_128_GCM_SHA256, cipherVal K TLS_RSA_WITH_AES_256_GCM_SHA384,
         cipherVal K TLS_RSA_WITH_AES_128_CBC_SHA, cipherVal K TLS_RSA_WITH_AES_256_CBC_SHA],
      CompressionMethods = [CompressionNone K],
      Extensions =
       [SNIExtension,
        ExtendedMasterSecretExtension,
        RenegotiationInfoExtension RenegotiateNever,
        SupportedCurvesExtension [groupVal K X25519, groupVal K CurveP256, groupVal K CurveP384],
        SupportedPointsExtension [PointFormatUncompressed K],
        SessionTicketExtension,
        ALPNExtension [''h2'', ''http/1.1''],
        StatusRequestExtension,
        SignatureAlgorithmsExtension [sigVal K ECDSAWithP256AndSHA256, sigVal K PSSWithSHA256,
          sigVal K PKCS1WithSHA256, sigVal K ECDSAWithP384AndSHA384, sigVal K PSSWithSHA384,
          sigVal K PKCS1WithSHA384, sigVal K PSSWithSHA512, sigVal K PKCS1WithSHA512,
          sigVal K PKCS1WithSHA1],
        KeyShareExtension [\<lparr>Group = groupVal K X25519, KSData = []\<rparr>],
        PSKKeyExchangeModesExtension [PskModeDHE K],
        SupportedVersionsExtension [versionVal K VersionTLS13, versionVal K VersionTLS12],
        UtlsPaddingExtension BoringPaddingStyle False],
      GetSessionID = None\<rparr>"

definition Okhttp4Android10 :: "utls \<Rightarrow> ClientProfile" where
  "Okhttp4Android10 K = \<lparr>
     clientHelloId = FactoryHello \<lparr>Client = ''OkHttp4Android10'', RandomExtensionOrder = False,
       Version = ''4.10.0'', SpecFactory = Okhttp4Android10_spec K\<rparr>,
     headerPriority = Some \<lparr>StreamDep = 0, Exclusive = False, Weight = 0\<rparr>,
     settings = Some [(settingVal K SettingInitialWindowSize, 16777216)],
     settingsOrder = [settingVal K SettingInitialWindowSize],
     priorities = [],
     pseudoHeaderOrder = ['':method'', '':path'', '':authority'', '':scheme''],
     connectionFlow = 16711681,
     streamID = 0,
     allowHTTP = False,
     http3Settings = None,
     http3SettingsOrder = [],
     http3PriorityParam = 0,
     http3PseudoHeaderOrder = [],
     http3SendGreaseFrames = False\<rparr>"

definition Okhttp4Android13 :: "(ClientHelloID \<Rightarrow> specFactory) \<Rightarrow> utls \<Rightarrow> ClientProfile" where
  "Okhttp4Android13 ToSpec K = \<lparr>
     clientHelloId = FactoryHello \<lparr>Client = ''OkHttp4Android13'', RandomExtensionOrder = False,
       Version = ''4.10.0'', SpecFactory = GetClientHelloSpec ToSpec (Okhttp4Android10 K)\<rparr>,
     headerPriority = Some \<lparr>StreamDep = 0, Exclusive = False, Weight = 0\<rparr>,
     settings = Some [(settingVal K SettingInitialWindowSize, 16777216)],
     settingsOrder = [settingVal K SettingInitialWindowSize],
     priorities = [],
     pseudoHeaderOrder = ['':method'', '':path'', '':authority'', '':scheme''],
     connectionFlow = 16711681,
     streamID = 0,
     allowHTTP = False,
     http3Settings = None,
     http3SettingsOrder = [],
     http3PriorityParam = 0,
     http3PseudoHeaderOrder = [],
     http3SendGreaseFrames = False\<rparr>"

definition Okhttp4Android12 :: "(ClientHelloID \<Rightarrow> specFactory) \<Rightarrow> utls \<Rightarrow> ClientProfile" where
  "Okhttp4Android12 ToSpec K = \<lparr>
     clientHelloId = FactoryHello \<lparr>Client = ''OkHttp4Android12'', RandomExtensionOrder = False,
       Version = ''4.10.0'', SpecFactory = GetClientHelloSpec ToSpec (Okhttp4Android10 K)\<rparr>,
     headerPriority = Some \<lparr>StreamDep = 0, Exclusive = False, Weight = 0\<rparr>,
     settings = Some [(settingVal K SettingInitialWindowSize, 16777216)],
     settingsOrder = [settingVal K SettingInitialWindowSize],
     priorities = [],
     pseudoHeaderOrder = ['':method'', '':path'', '':authority'', '':scheme''],
     connectionFlow = 16711681,
     streamID = 0,
     allowHTTP = False,
     http3Settings = None,
     http3SettingsOrder = [],
     http3PriorityParam = 0,
     http3PseudoHeaderOrder = [],
     http3SendGreaseFrames = False\<rparr>"

definition Okhttp4Android11 :: "(ClientHelloID \<Rightarrow> specFactory) \<Rightarrow> utls \<Rightarrow> ClientProfile" where
  "Okhttp4Android11 ToSpec K = \<lparr>
     clientHelloId = FactoryHello \<lparr>Client = ''OkHttp4Android11'', RandomExtensionOrder = False,
       Version = ''4.10.0'', SpecFactory = GetClientHelloSpec ToSpec (Okhttp4Android10 K)\<rparr>,
     headerPriority = Some \<lparr>StreamDep = 0, Exclusive = False, Weight = 0\<rparr>,
     settings = Some [(settingVal K SettingInitialWindowSize, 16777216)],
     settingsOrder = [settingVal K SettingInitialWindowSize],
     priorities = [],
     pseudoHeaderOrder = ['':method'', '':path'', '':authority'', '':scheme''],
     connectionFlow = 16711681,
     streamID = 0,
     allowHTTP = False,
     http3Settings = None,
     http3SettingsOrder = [],
     http3PriorityParam = 0,
     http3PseudoHeaderOrder = [],
     http3SendGreaseFrames = False\<rparr>"

definition Okhttp4Android9_spec :: "utls \<Rightarrow> specFactory" where
  "Okhttp4Android9_spec K seed = Inr
     \<lparr>CipherSuites =
       [cipherVal K TLS_ECDHE_ECDSA_WITH_AES_128_GCM_SHA256,
         cipherVal K TLS_ECDHE_ECDSA_WITH_AES_256_GCM_SHA384,
         cipherVal K TLS_ECDHE_ECDSA_WITH_CHACHA20_POLY1305_SHA256,
         cipherVal K TLS_ECDHE_RSA_WITH_AES_128_GCM_SHA256,
         cipherVal K TLS_ECDHE_RSA_WITH_AES_256_GCM_SHA384,
         cipherVal K TLS_ECDHE_RSA_WITH_CHACHA20_POLY1305_SHA256,
         cipherVal K TLS_ECDHE_RSA_WITH_AES_128_CBC_SHA, cipherVal K TLS_ECDHE_RSA_WITH_AES_256_CBC_SHA,
         cipherVal K TLS_RSA_WITH_AES_128_GCM_SHA256, cipherVal K TLS_RSA_WITH_AES_256_GCM_SHA384,
         cipherVal K TLS_RSA_WITH_AES_128_CBC_SHA, cipherVal K TLS_RSA_WITH_AES_256_CBC_SHA],
      CompressionMethods = [CompressionNone K],
      Extensions =
       [RenegotiationInfoExtension RenegotiateNever,
        SNIExtension,
        ExtendedMasterSecretExtension,
        SessionTicketExtension,
        SignatureAlgorithmsExtension [sigVal K ECDSAWithP256AndSHA256, sigVal K PSSWithSHA256,
          sigVal K PKCS1WithSHA256, sigVal K ECDSAWithP384AndSHA384, sigVal K PSSWithSHA384,
          sigVal K PKCS1WithSHA384, sigVal K PSSWithSHA512, sigVal K PKCS1WithSHA512,
          sigVal K PKCS1WithSHA1],
        StatusRequestExtension,
        ALPNExtension [''h2'', ''http/1.1''],
        SupportedPointsExtension [PointFormatUncompressed K],
        SupportedCurvesExtension [groupVal K X25519, groupVal K CurveP256, groupVal K CurveP384],
        UtlsPaddingExtension BoringPaddingStyle False],
      GetSessionID = None\<rparr>"

definition Okhttp4Android9 :: "utls \<Rightarrow> ClientProfile" where
  "Okhttp4Android9 K = \<lparr>
     clientHelloId = FactoryHello \<lparr>Client = ''OkHttp4Android9'', RandomExtensionOrder = False,
       Version = ''4.10.0'', SpecFactory = Okhttp4Android9_spec K\<rparr>,
     headerPriority = Some \<lparr>StreamDep = 0, Exclusive = False, Weight = 0\<rparr>,
     settings = Some [(settingVal K SettingInitialWindowSize, 16777216)],
     settingsOrder = [settingVal K SettingInitialWindowSize],
     priorities = [],
     pseudoHeaderOrder = ['':method'', '':path'', '':authority'', '':scheme''],
     connectionFlow = 16711681,
     streamID = 0,
     allowHTTP = False,
     http3Settings = None,
     http3SettingsOrder = [],
     http3PriorityParam = 0,
     http3PseudoHeaderOrder = [],
     http3SendGreaseFrames = False\<rparr>"

definition Okhttp4Android8_spec :: "utls \<Rightarrow> specFactory" where
  "Okhttp4Android8_spec K seed = Inr
     \<lparr>CipherSuites =
       [cipherVal K TLS_ECDHE_ECDSA_WITH_AES_128_GCM_SHA256,
         cipherVal K TLS_ECDHE_ECDSA_WITH_AES_256_GCM_SHA384,
         cipherVal K TLS_ECDHE_ECDSA_WITH_CHACHA20_POLY1305_SHA256,
         cipherVal K TLS_ECDHE_RSA_WITH_AES_128_GCM_SHA256,
         cipherVal K TLS_ECDHE_RSA_WITH_AES_256_GCM_SHA384,
         cipherVal K TLS_ECDHE_RSA_WITH_CHACHA20_POLY1305_SHA256,
         cipherVal K TLS_ECDHE_RSA_WITH_AES_128_CBC_SHA, cipherVal K TLS_ECDHE_RSA_WITH_AES_256_CBC_SHA,
         cipherVal K TLS_RSA_WITH_AES_128_GCM_SHA256, cipherVal K TLS_RSA_WITH_AES_256_GCM_SHA384,
         cipherVal K TLS_RSA_WITH_AES_128_CBC_SHA, cipherVal K TLS_RSA_WITH_AES_256_CBC_SHA],
      CompressionMethods = [CompressionNone K],
      Extensions =
       [RenegotiationInfoExtension RenegotiateNever,
        SNIExtension,
        ExtendedMasterSecretExtension,
        SessionTicketExtension,
        SignatureAlgorithmsExtension [sigVal K ECDSAWithP256AndSHA256, sigVal K PKCS1WithSHA256,
          sigVal K ECDSAWithP384AndSHA384, sigVal K PKCS1WithSHA384, sigVal K ECDSAWithP521AndSHA512,
          sigVal K PKCS1WithSHA512, sigVal K PKCS1WithSHA1],
        StatusRequestExtension,
        ALPNExtension [''h2'', ''http/1.1''],
        SupportedPointsExtension [PointFormatUncompressed K],
        SupportedCurvesExtension [groupVal K X25519, groupVal K CurveP256, groupVal K CurveP384],
        UtlsPaddingExtension BoringPaddingStyle False],
      GetSessionID = None\<rparr>"

definition Okhttp4Android8 :: "utls \<Rightarrow> ClientProfile" where
  "Okhttp4Android8 K = \<lparr>
     clientHelloId = FactoryHello \<lparr>Client = ''OkHttp4Android8'', RandomExtensionOrder = False,
       Version = ''4.10.0'', SpecFactory = Okhttp4Android8_spec K\<rparr>,
     headerPriority = Some \<lparr>StreamDep = 0, Exclusive = False, Weight = 0\<rparr>,
     settings = Some [(settingVal K SettingInitialWindowSize, 16777216)],
     settingsOrder = [settingVal K SettingInitialWindowSize],
     priorities = [],
     pseudoHeaderOrder = ['':method'', '':path'', '':authority'', '':scheme''],
     connectionFlow = 16711681,
     streamID = 0,
     allowHTTP = False,
     http3Settings = None,
     http3SettingsOrder = [],
     http3PriorityParam = 0,
     http3PseudoHeaderOrder = [],
     http3SendGreaseFrames = False\<rparr>"

definition Okhttp4Android7_spec :: "utls \<Rightarrow> specFactory" where
  "Okhttp4Android7_spec K seed = Inr
     \<lparr>CipherSuites =
       [cipherVal K TLS_ECDHE_ECDSA_WITH_AES_128_GCM_SHA256,
         cipherVal K TLS_ECDHE_ECDSA_WITH_AES_256_GCM_SHA384,
         cipherVal K TLS_ECDHE_ECDSA_WITH_CHACHA20_POLY1305_SHA256,
         cipherVal K TLS_ECDHE_RSA_WITH_AES_128_GCM_SHA256,
         cipherVal K TLS_ECDHE_RSA_WITH_AES_256_GCM_SHA384,
         cipherVal K TLS_ECDHE_RSA_WITH_CHACHA20_POLY1305_SHA256,
         cipherVal K TLS_ECDHE_RSA_WITH_AES_128_CBC_SHA, cipherVal K TLS_ECDHE_RSA_WITH_AES_256_CBC_SHA,
         cipherVal K TLS_RSA_WITH_AES_128_GCM_SHA256, cipherVal K TLS_RSA_WITH_AES_256_GCM_SHA384,
         cipherVal K TLS_RSA_WITH_AES_128_CBC_SHA, cipherVal K TLS_RSA_WITH_AES_256_CBC_SHA],
      CompressionMethods = [CompressionNone K],
      Extensions =
       [RenegotiationInfoExtension RenegotiateNever,
        SNIExtension,
        ExtendedMasterSecretExtension,
        SessionTicketExtension,
        SignatureAlgorithmsExtension [sigVal K PKCS1WithSHA512, sigVal K ECDSAWithP521AndSHA512,
          sigVal K PKCS1WithSHA384, sigVal K ECDSAWithP384AndSHA384, sigVal K PKCS1WithSHA256,
          sigVal K ECDSAWithP256AndSHA256, 0x0301, 0x0303, sigVal K PKCS1WithSHA1, sigVal K ECDSAWithSHA1],
        ALPNExtension [''h2'', ''http/1.1''],
        SupportedPointsExtension [PointFormatUncompressed K],
        SupportedCurvesExtension [groupVal K CurveP256, groupVal K CurveP384, groupVal K CurveP521],
        UtlsPaddingExtension BoringPaddingStyle False],
      GetSessionID = None\<rparr>"

definition Okhttp4Android7 :: "utls \<Rightarrow> ClientProfile" where
  "Okhttp4Android7 K = \<lparr>
     clientHelloId = FactoryHello \<lparr>Client = ''OkHttp4Android7'', RandomExtensionOrder = False,
       Version = ''4.10.0'', SpecFactory = Okhttp4Android7_spec K\<rparr>,
     headerPriority = Some \<lparr>StreamDep = 0, Exclusive = False, Weight = 0\<rparr>,
     settings = Some [(settingVal K SettingInitialWindowSize, 16777216)],
     settingsOrder = [settingVal K SettingInitialWindowSize],
     priorities = [],
     pseudoHeaderOrder = ['':method'', '':path'', '':authority'', '':scheme''],
     connectionFlow = 16711681,
     streamID = 0,
     allowHTTP = False,
     http3Settings = None,
     http3SettingsOrder = [],
     http3PriorityParam = 0,
     http3PseudoHeaderOrder = [],
     http3SendGreaseFrames = False\<rparr>"

definition getMMSClientProfile2_spec :: "utls \<Rightarrow> specFactory" where
  "getMMSClientProfile2_spec K seed = Inr
     \<lparr>CipherSuites =
       [0x1301, 0x1302, 0x1303, 0xc02b, 0xc02f, 0xc02c, 0xc030, 0xcca9, 0xcca8, 0xc009, 0xc013, 0xc00a,
         0xc014, 0x009c, 0x009d, 0x002f, 0x0035, 0x000a],
      CompressionMethods = [CompressionNone K],
      Extensions =
       [SNIExtension,
        ExtendedMasterSecretExtension,
        RenegotiationInfoExtension RenegotiateOnceAsClient,
        SupportedCurvesExtension [0x001d, 0x0017, 0x0018],
        SupportedPointsExtension [PointFormatUncompressed K],
        SessionTicketExtension,
        SignatureAlgorithmsExtension [0x0403, 0x0804, 0x0401, 0x0503, 0x0805, 0x0501, 0x0806, 0x0601,
          0x0201],
        KeyShareExtension [\<lparr>Group = groupVal K X25519, KSData = []\<rparr>],
        PSKKeyExchangeModesExtension [PskModeDHE K],
        SupportedVersionsExtension [versionVal K VersionTLS13, versionVal K VersionTLS12]],
      GetSessionID = None\<rparr>"

definition getMMSClientProfile2 :: "utls \<Rightarrow> ClientProfile" where
  "getMMSClientProfile2 K = NewClientProfile
     (FactoryHello \<lparr>Client = ''MMSIos'', RandomExtensionOrder = False, Version = ''2'',
       SpecFactory = getMMSClientProfile2_spec K\<rparr>)
     (Some [(settingVal K SettingHeaderTableSize, 4096), (settingVal K SettingEnablePush, 1),
       (settingVal K SettingMaxConcurrentStreams, 100), (settingVal K SettingInitialWindowSize, 2097152),
       (settingVal K SettingMaxFrameSize, 16384), (settingVal K SettingMaxHeaderListSize, 0xffffffff)])
     [settingVal K SettingHeaderTableSize, settingVal K SettingEnablePush,
       settingVal K SettingMaxConcurrentStreams, settingVal K SettingInitialWindowSize,
       settingVal K SettingMaxFrameSize, settingVal K SettingMaxHeaderListSize]
     ['':method'', '':scheme'', '':path'', '':authority'']
     15663105 [] None 0 False None [] 0 [] False"

definition MMSIos2 :: "utls \<Rightarrow> ClientProfile" where
  "MMSIos2 K = getMMSClientProfile2 K"

definition getMMSClientProfile3_spec :: "utls \<Rightarrow> specFactory" where
  "getMMSClientProfile3_spec K seed = Inr
     \<lparr>CipherSuites =
       [GREASE_PLACEHOLDER K, 0x1301, 0x1302, 0x1303, 0xc02c, 0xc02b, 0xcca9, 0xc030, 0xc02f, 0xcca8,
         0xc00a, 0xc009, 0xc014, 0xc013],
      CompressionMethods = [CompressionNone K],
      Extensions =
       [UtlsGREASEExtension,
        SNIExtension,
        ExtendedMasterSecretExtension,
        RenegotiationInfoExtension RenegotiateOnceAsClient,
        SupportedCurvesExtension [GREASE_PLACEHOLDER K, 0x001d, 0x0017, 0x0018, 0x0019],
        SupportedPointsExtension [PointFormatUncompressed K],
        ALPNExtension [''h2'', ''http/1.1''],
        StatusRequestExtension,
        SignatureAlgorithmsExtension [0x0403, 0x0804, 0x0401, 0x0503, 0x0203, 0x0805, 0x0501, 0x0806,
          0x0601, 0x0201],
        SCTExtension,
        KeyShareExtension [\<lparr>Group = GREASE_PLACEHOLDER K, KSData = [0]\<rparr>,
          \<lparr>Group = groupVal K X25519, KSData = []\<rparr>],
        PSKKeyExchangeModesExtension [PskModeDHE K],
        SupportedVersionsExtension [GREASE_PLACEHOLDER K, versionVal K VersionTLS13,
          versionVal K VersionTLS12],
        UtlsCompressCertExtension [certVal K CertCompressionZlib],
        UtlsGREASEExtension,
        UtlsPaddingExtension BoringPaddingStyle False],
      GetSessionID = None\<rparr>"

definition getMMSClientProfile3 :: "utls \<Rightarrow> ClientProfile" where
  "getMMSClientProfile3 K = NewClientProfile
     (FactoryHello \<lparr>Client = ''MMSIos'', RandomExtensionOrder = False, Version = ''3'',
       SpecFactory = getMMSClientProfile3_spec K\<rparr>)
     (Some [(settingVal K SettingHeaderTableSize, 4096), (settingVal K SettingEnablePush, 1),
       (settingVal K SettingMaxConcurrentStreams, 100), (settingVal K SettingInitialWindowSize, 2097152),
       (settingVal K SettingMaxFrameSize, 16384), (settingVal K SettingMaxHeaderListSize, 0xffffffff)])
     [settingVal K SettingHeaderTableSize, settingVal K SettingEnablePush,
       settingVal K SettingMaxConcurrentStreams, settingVal K SettingInitialWindowSize,
       settingVal K SettingMaxFrameSize, settingVal K SettingMaxHeaderListSize]
     ['':method'', '':scheme'', '':path'', '':authority'']
     15663105 [] None 0 False None [] 0 [] False"

definition MMSIos3 :: "utls \<Rightarrow> ClientProfile" where
  "MMSIos3 K = getMMSClientProfile3 K"

end
