(* ===== verification/ProfileTable.thy ===== *)
theory ProfileTable
  imports ProfilesInternal ProfilesContributed ProfilesCustom RoundTripper
begin

text \<open>
  The table of profiles of \<^verbatim>\<open>profiles/profiles.go\<close>, and what holds of every profile in it: which fields are
  consistent, and what a ClientHello built from one of them looks like.
\<close>

definition DefaultClientProfile :: "utls \<Rightarrow> ClientProfile" where
  "DefaultClientProfile K = Chrome_150 K"

definition MappedTLSClients ::
  "(ClientHelloID \<Rightarrow> specFactory) \<Rightarrow> utls \<Rightarrow> bytes \<Rightarrow> (string \<times> ClientProfile) list" where
  "MappedTLSClients ToSpec K trustAnchors =
     [(''chrome_103'', Chrome_103 K),
      (''chrome_104'', Chrome_104 K),
      (''chrome_105'', Chrome_105 K),
      (''chrome_106'', Chrome_106 K),
      (''chrome_107'', Chrome_107 K),
      (''chrome_108'', Chrome_108 K),
      (''chrome_109'', Chrome_109 K),
      (''chrome_110'', Chrome_110 K),
      (''chrome_111'', Chrome_111 K),
      (''chrome_112'', Chrome_112 K),
      (''chrome_116_PSK'', Chrome_116_PSK K),
      (''chrome_116_PSK_PQ'', Chrome_116_PSK_PQ K),
      (''chrome_117'', Chrome_117 K),
      (''chrome_120'', Chrome_120 K),
      (''chrome_124'', Chrome_124 K),
      (''chrome_130_PSK'', Chrome_130_PSK K),
      (''chrome_131'', Chrome_131 K),
      (''chrome_131_PSK'', Chrome_131_PSK K),
      (''chrome_133'', Chrome_133 K),
      (''chrome_133_PSK'', Chrome_133_PSK K),
      (''chrome_144'', Chrome_144 K),
      (''chrome_144_PSK'', Chrome_144_PSK K),
      (''chrome_146'', Chrome_146 K),
      (''chrome_146_PSK'', Chrome_146_PSK K),
      (''chrome_150'', Chrome_150 K),
      (''chrome_150_PSK'', Chrome_150_PSK K),
      (''chrome_152'', Chrome_152 K trustAnchors),
      (''chrome_152_PSK'', Chrome_152_PSK K trustAnchors),
      (''brave_146'', Brave_146 K),
      (''brave_146_PSK'', Brave_146_PSK K),
      (''safari_15_6_1'', Safari_15_6_1 K),
      (''safari_16_0'', Safari_16_0 K),
      (''safari_ipad_15_6'', Safari_Ipad_15_6 K),
      (''safari_ios_15_5'', Safari_IOS_15_5 K),
      (''safari_ios_15_6'', Safari_IOS_15_6 K),
      (''safari_ios_16_0'', Safari_IOS_16_0 K),
      (''safari_ios_17_0'', Safari_IOS_17_0 K),
      (''safari_ios_18_0'', Safari_IOS_18_0 K),
      (''safari_ios_18_5'', Safari_IOS_18_5 K),
      (''safari_ios_26_0'', Safari_IOS_26_0 K),
      (''firefox_102'', Firefox_102 K),
      (''firefox_104'', Firefox_104 K),
      (''firefox_105'', Firefox_105 K),
      (''firefox_106'', Firefox_106 K),
      (''firefox_108'', Firefox_108 K),
      (''firefox_110'', Firefox_110 K),
      (''firefox_117'', Firefox_117 K),
      (''firefox_120'', Firefox_120 K),
      (''firefox_123'', Firefox_123 K),
      (''firefox_132'', Firefox_132 K),
      (''firefox_133'', Firefox_133 K),
      (''firefox_135'', Firefox_135 K),
      (''firefox_146_PSK'', Firefox_146_PSK K),
      (''firefox_147'', Firefox_147 K),
      (''firefox_147_PSK'', Firefox_147_PSK K),
      (''firefox_148'', Firefox_148 K),
      (''opera_89'', Opera_89 K),
      (''opera_90'', Opera_90 K),
      (''opera_91'', Opera_91 K),
      (''zalando_android_mobile'', ZalandoAndroidMobile K),
      (''zalando_ios_mobile'', ZalandoIosMobile K),
      (''nike_ios_mobile'', NikeIosMobile K),
      (''nike_android_mobile'', NikeAndroidMobile K),
      (''cloudscraper'', CloudflareCustom K),
      (''mms_ios'', MMSIos K),
      (''mms_ios_1'', MMSIos K),
      (''mms_ios_2'', MMSIos2 K),
      (''mms_ios_3'', MMSIos3 K),
      (''mesh_ios'', MeshIos K),
      (''mesh_ios_1'', MeshIos K),
      (''mesh_ios_2'', MeshIos2 K),
      (''mesh_android'', MeshAndroid K),
      (''mesh_android_1'', MeshAndroid K),
      (''mesh_android_2'', MeshAndroid2 K),
      (''confirmed_ios'', ConfirmedIos K),
      (''confirmed_android'', ConfirmedAndroid K),
      (''okhttp4_android_7'', Okhttp4Android7 K),
      (''okhttp4_android_8'', Okhttp4Android8 K),
      (''okhttp4_android_9'', Okhttp4Android9 K),
      (''okhttp4_android_10'', Okhttp4Android10 K),
      (''okhttp4_android_11'', Okhttp4Android11 ToSpec K),
      (''okhttp4_android_12'', Okhttp4Android12 ToSpec K),
      (''okhttp4_android_13'', Okhttp4Android13 ToSpec K)]"

section \<open>What a ClientHello contains\<close>

text \<open>The number an extension is sent under; the GREASE extensions get theirs at random.\<close>

fun extType :: "utls \<Rightarrow> TLSExtension \<Rightarrow> u16 option" where
  "extType K UtlsGREASEExtension = None"
| "extType K SNIExtension = Some (extVal K ExtensionServerName)"
| "extType K StatusRequestExtension = Some (extVal K ExtensionStatusRequest)"
| "extType K SCTExtension = Some (extVal K ExtensionSCT)"
| "extType K ExtendedMasterSecretExtension = Some (extVal K ExtensionExtendedMasterSecret)"
| "extType K SessionTicketExtension = Some (extVal K ExtensionSessionTicket)"
| "extType K CookieExtension = Some (extVal K ExtensionCookie)"
| "extType K NPNExtension = Some (extVal K ExtensionNextProtoNeg)"
| "extType K (UtlsPreSharedKeyExtension _) = Some (extVal K ExtensionPreSharedKey)"
| "extType K BoringGREASEECH = Some (extVal K ExtensionECH)"
| "extType K (UtlsPaddingExtension _ _) = Some (extVal K ExtensionPadding)"
| "extType K (RenegotiationInfoExtension _) = Some (extVal K ExtensionRenegotiationInfo)"
| "extType K (PSKKeyExchangeModesExtension _) = Some (extVal K ExtensionPSKModes)"
| "extType K (SupportedPointsExtension _) = Some (extVal K ExtensionSupportedPoints)"
| "extType K (SupportedCurvesExtension _) = Some (extVal K ExtensionSupportedCurves)"
| "extType K (SupportedVersionsExtension _) = Some (extVal K ExtensionSupportedVersions)"
| "extType K (SignatureAlgorithmsExtension _) = Some (extVal K ExtensionSignatureAlgorithms)"
| "extType K (DelegatedCredentialsExtension _) = Some (extVal K ExtensionDelegatedCredentials)"
| "extType K (KeyShareExtension _) = Some (extVal K ExtensionKeyShare)"
| "extType K (ALPNExtension _) = Some (extVal K ExtensionALPN)"
| "extType K (ApplicationSettingsExtension _) = Some (extVal K ExtensionALPSOld)"
| "extType K (ApplicationSettingsExtensionNew _) = Some (extVal K ExtensionALPS)"
| "extType K (UtlsCompressCertExtension _) = Some (extVal K ExtensionCompressCertificate)"
| "extType K (FakeRecordSizeLimitExtension _) = Some (extVal K ExtensionRecordSizeLimit)"
| "extType K (GenericExtension n _) = Some n"
| "extType K (GREASEEncryptedClientHelloExtension _ _) = Some (extVal K ExtensionECH)"

fun keyGroups :: "TLSExtension list \<Rightarrow> u16 list" where
  "keyGroups [] = []"
| "keyGroups (KeyShareExtension ks # es) = map Group ks @ keyGroups es"
| "keyGroups (e # es) = keyGroups es"

fun offeredGroups :: "TLSExtension list \<Rightarrow> u16 list" where
  "offeredGroups [] = []"
| "offeredGroups (SupportedCurvesExtension gs # es) = gs @ offeredGroups es"
| "offeredGroups (e # es) = offeredGroups es"

fun offeredVersions :: "TLSExtension list \<Rightarrow> u16 list" where
  "offeredVersions [] = []"
| "offeredVersions (SupportedVersionsExtension vs # es) = vs @ offeredVersions es"
| "offeredVersions (e # es) = offeredVersions es"

fun isPsk :: "TLSExtension \<Rightarrow> bool" where
  "isPsk (UtlsPreSharedKeyExtension _) = True"
| "isPsk _ = False"

text \<open>The rules of RFC 8446 a ClientHello has to obey: no extension twice, \<open>pre_shared_key\<close> only at the end, and
  TLS 1.3 offered exactly when there are key shares and a cipher suite for it.\<close>

definition wellformedHello :: "utls \<Rightarrow> ClientHelloSpec \<Rightarrow> bool" where
  "wellformedHello K spec \<longleftrightarrow>
     distinct (List.map_filter (extType K) (Extensions spec)) \<and>
     list_all (\<lambda>e. \<not> isPsk e) (butlast (Extensions spec)) \<and>
     (List.member (offeredVersions (Extensions spec)) (versionVal K VersionTLS13) \<longleftrightarrow> keyGroups (Extensions spec) \<noteq> []) \<and>
     (List.member (offeredVersions (Extensions spec)) (versionVal K VersionTLS13) \<longleftrightarrow>
      List.member (CipherSuites spec) (cipherVal K TLS_AES_128_GCM_SHA256))"

text \<open>Every key share is for a group that is offered.\<close>

definition sharesOffered :: "ClientHelloSpec \<Rightarrow> bool" where
  "sharesOffered spec \<longleftrightarrow> list_all (List.member (offeredGroups (Extensions spec))) (keyGroups (Extensions spec))"

lemmas hello_checks = wellformedHello_def sharesOffered_def ianaUtls_def

lemmas profile_defs =
  Chrome_152_PSK_def Chrome_152_def Chrome_150_PSK_def Chrome_150_def Chrome_146_PSK_def Chrome_146_def
  Chrome_144_PSK_def Chrome_144_def Chrome_133_PSK_def Chrome_133_def Chrome_117_def Chrome_124_def
  Chrome_120_def Chrome_112_def Chrome_116_PSK_def Chrome_116_PSK_PQ_def Chrome_111_def Chrome_110_def
  Chrome_109_def Chrome_108_def Chrome_107_def Chrome_106_def Chrome_105_def Chrome_104_def Chrome_103_def
  Safari_15_6_1_def Safari_16_0_def Safari_Ipad_15_6_def Safari_IOS_17_0_def Safari_IOS_26_0_def
  Safari_IOS_18_5_def Safari_IOS_18_0_def Safari_IOS_16_0_def Safari_IOS_15_5_def Safari_IOS_15_6_def
  Firefox_117_def Firefox_110_def Firefox_108_def Firefox_106_def Firefox_105_def Firefox_104_def
  Firefox_102_def Opera_90_def Opera_91_def Opera_89_def Brave_146_def Brave_146_PSK_def Firefox_148_def
  Firefox_147_def Firefox_147_PSK_def Firefox_146_PSK_def Firefox_135_def Firefox_133_def
  Chrome_130_PSK_def Chrome_131_PSK_def Chrome_131_def Firefox_132_def Firefox_123_def Firefox_120_def
  ZalandoAndroidMobile_def ZalandoIosMobile_def NikeIosMobile_def NikeAndroidMobile_def
  CloudflareCustom_def MMSIos_def MeshIos_def MeshAndroid_def MeshIos2_def MeshAndroid2_def
  ConfirmedIos_def ConfirmedAndroid_def ConfirmedAndroid2_def Okhttp4Android10_def Okhttp4Android13_def
  Okhttp4Android12_def Okhttp4Android11_def Okhttp4Android9_def Okhttp4Android8_def Okhttp4Android7_def
  MMSIos2_def getMMSClientProfile2_def MMSIos3_def getMMSClientProfile3_def

lemmas spec_defs =
  Chrome_152_PSK_spec_def Chrome_152_spec_def Chrome_150_PSK_spec_def Chrome_150_spec_def
  Chrome_146_PSK_spec_def Chrome_146_spec_def Chrome_144_PSK_spec_def Chrome_144_spec_def
  Chrome_133_PSK_spec_def Chrome_133_spec_def Chrome_117_spec_def Chrome_124_spec_def Chrome_120_spec_def
  Safari_IOS_17_0_spec_def Safari_IOS_26_0_spec_def Safari_IOS_18_5_spec_def Safari_IOS_18_0_spec_def
  Firefox_117_spec_def Brave_146_spec_def Brave_146_PSK_spec_def Firefox_148_spec_def Firefox_147_spec_def
  Firefox_147_PSK_spec_def Firefox_146_PSK_spec_def Firefox_135_spec_def Firefox_133_spec_def
  Chrome_130_PSK_spec_def Chrome_131_PSK_spec_def Chrome_131_spec_def Firefox_132_spec_def
  Firefox_123_spec_def Firefox_120_spec_def ZalandoAndroidMobile_spec_def ZalandoIosMobile_spec_def
  NikeIosMobile_spec_def NikeAndroidMobile_spec_def CloudflareCustom_spec_def MMSIos_spec_def
  MeshIos_spec_def MeshAndroid_spec_def MeshIos2_spec_def MeshAndroid2_spec_def ConfirmedIos_spec_def
  ConfirmedAndroid_spec_def ConfirmedAndroid2_spec_def Okhttp4Android10_spec_def Okhttp4Android9_spec_def
  Okhttp4Android8_spec_def Okhttp4Android7_spec_def getMMSClientProfile2_spec_def
  getMMSClientProfile3_spec_def

lemma list_set_cases:
  assumes "x \<in> set (y # ys)"
  obtains "x = y" | "x \<in> set ys"
  using assms by auto

text \<open>A ClientHello of a profile that brings its own factory, whatever the random source delivers. Only a failing
  source makes a factory fail.\<close>

definition everySpec :: "(ClientHelloSpec \<Rightarrow> bool) \<Rightarrow> ClientHelloIDFields \<Rightarrow> bool" where
  "everySpec P f \<longleftrightarrow> (\<forall>seed. case SpecFactory f seed of Inl _ \<Rightarrow> seed = None | Inr spec \<Rightarrow> P spec)"

text \<open>The ClientHello of a built-in identifier comes from \<^verbatim>\<open>utls\<close>, and nothing is said of it.\<close>

definition everyHello :: "(ClientHelloSpec \<Rightarrow> bool) \<Rightarrow> ClientProfile \<Rightarrow> bool" where
  "everyHello P p \<longleftrightarrow> (case clientHelloId p of BuiltinHello _ \<Rightarrow> True | FactoryHello f \<Rightarrow> everySpec P f)"

lemma random_None: "randomGREASESignatureScheme seed = None \<Longrightarrow> seed = None"
  by (auto simp: randomGREASESignatureScheme_def Let_def split: option.splits)

text \<open>Every setting has its place in the order, and the order names nothing twice; the pseudo headers are the four of a request.\<close>

definition settingsComplete :: "ClientProfile \<Rightarrow> bool" where
  "settingsComplete p \<longleftrightarrow>
     distinct (settingsOrder p) \<and> set (settingsOrder p) = fst ` set (entries (settings p)) \<and>
     distinct (map fst (entries (settings p))) \<and>
     distinct (pseudoHeaderOrder p) \<and> set (pseudoHeaderOrder p) = {'':method'', '':authority'', '':scheme'', '':path''}"

definition http3Complete :: "ClientProfile \<Rightarrow> bool" where
  "http3Complete p \<longleftrightarrow>
     distinct (http3SettingsOrder p) \<and> fst ` set (entries (http3Settings p)) \<subseteq> set (http3SettingsOrder p) \<and>
     (\<forall>k \<in> set (http3SettingsOrder p). unat k < 2 ^ 32) \<and>
     (http3PriorityParam p > 0 \<longrightarrow> http3SettingsOrder p \<noteq> [])"

lemmas table_defs = profile_defs GetClientHelloSpec_def NewClientProfile_def

text \<open>The profiles of the table in four groups, on which the checks are evaluated.\<close>

definition chromeProfiles :: "utls \<Rightarrow> bytes \<Rightarrow> ClientProfile list" where
  "chromeProfiles K ta =
     [Chrome_103 K, Chrome_104 K, Chrome_105 K, Chrome_106 K, Chrome_107 K, Chrome_108 K, Chrome_109 K,
      Chrome_110 K, Chrome_111 K, Chrome_112 K, Chrome_116_PSK K, Chrome_116_PSK_PQ K, Chrome_117 K,
      Chrome_120 K, Chrome_124 K, Chrome_130_PSK K, Chrome_131 K, Chrome_131_PSK K, Chrome_133 K,
      Chrome_133_PSK K, Chrome_144 K, Chrome_144_PSK K, Chrome_146 K, Chrome_146_PSK K, Chrome_150 K,
      Chrome_150_PSK K, Chrome_152 K ta, Chrome_152_PSK K ta, Brave_146 K, Brave_146_PSK K, Opera_89 K,
      Opera_90 K, Opera_91 K]"

definition safariProfiles :: "utls \<Rightarrow> ClientProfile list" where
  "safariProfiles K =
     [Safari_15_6_1 K, Safari_16_0 K, Safari_Ipad_15_6 K, Safari_IOS_15_5 K, Safari_IOS_15_6 K,
      Safari_IOS_16_0 K, Safari_IOS_17_0 K, Safari_IOS_18_0 K, Safari_IOS_18_5 K, Safari_IOS_26_0 K]"

definition firefoxProfiles :: "utls \<Rightarrow> ClientProfile list" where
  "firefoxProfiles K =
     [Firefox_102 K, Firefox_104 K, Firefox_105 K, Firefox_106 K, Firefox_108 K, Firefox_110 K,
      Firefox_117 K, Firefox_120 K, Firefox_123 K, Firefox_132 K, Firefox_133 K, Firefox_135 K,
      Firefox_146_PSK K, Firefox_147 K, Firefox_147_PSK K, Firefox_148 K]"

definition customProfiles :: "(ClientHelloID \<Rightarrow> specFactory) \<Rightarrow> utls \<Rightarrow> ClientProfile list" where
  "customProfiles ToSpec K =
     [ZalandoAndroidMobile K, ZalandoIosMobile K, NikeIosMobile K, NikeAndroidMobile K,
      CloudflareCustom K, MMSIos K, MMSIos2 K, MMSIos3 K, MeshIos K, MeshIos2 K, MeshAndroid K,
      MeshAndroid2 K, ConfirmedIos K, ConfirmedAndroid K, Okhttp4Android7 K, Okhttp4Android8 K,
      Okhttp4Android9 K, Okhttp4Android10 K, Okhttp4Android11 ToSpec K, Okhttp4Android12 ToSpec K,
      Okhttp4Android13 ToSpec K]"

lemmas group_defs = chromeProfiles_def safariProfiles_def firefoxProfiles_def customProfiles_def

lemma table_groups:
  assumes "(n, p) \<in> set (MappedTLSClients ToSpec K ta)"
  shows "p \<in> set (chromeProfiles K ta) \<union> set (safariProfiles K) \<union> set (firefoxProfiles K) \<union> set (customProfiles ToSpec K)"
  using assms unfolding MappedTLSClients_def group_defs by (elim list_set_cases) simp_all

lemma settingsComplete_eval:
  "settingsComplete p \<longleftrightarrow>
     distinct (settingsOrder p) \<and> list_all (List.member (map fst (entries (settings p)))) (settingsOrder p) \<and>
     list_all (List.member (settingsOrder p)) (map fst (entries (settings p))) \<and> distinct (map fst (entries (settings p))) \<and>
     distinct (pseudoHeaderOrder p) \<and>
     list_all (List.member ['':method'', '':authority'', '':scheme'', '':path'']) (pseudoHeaderOrder p) \<and>
     list_all (List.member (pseudoHeaderOrder p)) ['':method'', '':authority'', '':scheme'', '':path'']"
  unfolding settingsComplete_def list_all_iff List.member_iff by auto

lemma http3Complete_eval:
  "http3Complete p \<longleftrightarrow>
     distinct (http3SettingsOrder p) \<and> list_all (List.member (http3SettingsOrder p)) (map fst (entries (http3Settings p))) \<and>
     list_all (\<lambda>k. unat k < 2 ^ 32) (http3SettingsOrder p) \<and>
     (http3PriorityParam p > 0 \<longrightarrow> http3SettingsOrder p \<noteq> [])"
  unfolding http3Complete_def list_all_iff List.member_iff by auto

lemmas settings_checks = table_defs settingsComplete_eval entries_def

lemma chrome_settings: "settingVal K = ianaSetting \<Longrightarrow> list_all settingsComplete (chromeProfiles K ta)"
  by (simp add: chromeProfiles_def settings_checks)

lemma safari_settings: "settingVal K = ianaSetting \<Longrightarrow> list_all settingsComplete (safariProfiles K)"
  by (simp add: safariProfiles_def settings_checks)

lemma firefox_settings: "settingVal K = ianaSetting \<Longrightarrow> list_all settingsComplete (firefoxProfiles K)"
  by (simp add: firefoxProfiles_def settings_checks)

lemma custom_settings: "settingVal K = ianaSetting \<Longrightarrow> list_all settingsComplete (customProfiles ToSpec K)"
  by (simp add: customProfiles_def settings_checks)

lemmas http3_checks = table_defs http3Complete_eval entries_def

lemma chrome_http3: "list_all http3Complete (chromeProfiles K ta)"
  by (simp add: chromeProfiles_def http3_checks)

lemma safari_http3: "list_all http3Complete (safariProfiles K)"
  by (simp add: safariProfiles_def http3_checks)

lemma firefox_http3: "list_all http3Complete (firefoxProfiles K)"
  by (simp add: firefoxProfiles_def http3_checks)

lemma custom_http3: "list_all http3Complete (customProfiles ToSpec K)"
  by (simp add: customProfiles_def http3_checks)

lemmas hello_eval = table_defs everyHello_def everySpec_def spec_defs hello_checks random_None

lemma chrome_hello: "list_all (everyHello (wellformedHello ianaUtls)) (chromeProfiles ianaUtls ta)"
  by (simp add: chromeProfiles_def hello_eval split: option.splits)

lemma safari_hello: "list_all (everyHello (wellformedHello ianaUtls)) (safariProfiles ianaUtls)"
  by (simp add: safariProfiles_def hello_eval split: option.splits)

lemma firefox_hello: "list_all (everyHello (wellformedHello ianaUtls)) (firefoxProfiles ianaUtls)"
  by (simp add: firefoxProfiles_def hello_eval split: option.splits)

lemma custom_hello:
  "\<forall>f. ToSpec (FactoryHello f) = SpecFactory f \<Longrightarrow>
   list_all (everyHello (wellformedHello ianaUtls)) (customProfiles ToSpec ianaUtls)"
  by (simp add: customProfiles_def hello_eval split: option.splits)

lemma chrome_shares: "list_all (everyHello sharesOffered) (chromeProfiles ianaUtls ta)"
  by (simp add: chromeProfiles_def hello_eval split: option.splits)

lemma safari_shares: "list_all (everyHello sharesOffered) (safariProfiles ianaUtls)"
  by (simp add: safariProfiles_def hello_eval split: option.splits)

lemma firefox_shares: "list_all (everyHello sharesOffered) (firefoxProfiles ianaUtls)"
  by (simp add: firefoxProfiles_def hello_eval split: option.splits)

lemma custom_shares:
  "\<forall>f. ToSpec (FactoryHello f) = SpecFactory f \<Longrightarrow>
   list_all (everyHello sharesOffered) (filter (\<lambda>p. p \<noteq> NikeAndroidMobile ianaUtls) (customProfiles ToSpec ianaUtls))"
  by (simp add: customProfiles_def hello_eval split: option.splits)

text \<open>The map the round tripper rebuilds in the order of the profile is the profile's map.\<close>

lemma mapGet_fold:
  "map_of (fold (\<lambda>id m. case mapGet sets id of Some v \<Rightarrow> mapPut id v m | None \<Rightarrow> m) order m) k =
     (if k \<in> set order \<and> mapGet sets k \<noteq> None then mapGet sets k else map_of m k)"
  by (induction order arbitrary: m) (auto split: option.splits)

lemma mapGet_getHttp3Settings:
  assumes "fst ` set (entries (rt_http3Settings rt)) \<subseteq> set (rt_http3SettingsOrder rt)"
  shows "mapGet (getHttp3Settings rt) k = mapGet (rt_http3Settings rt) k"
proof -
  have "k \<in> set (rt_http3SettingsOrder rt)" if "mapGet (rt_http3Settings rt) k \<noteq> None"
    using that assms by (force simp: mapGet_def dest: map_of_SomeD)
  moreover have "mapGet (rt_http3Settings rt) k = None" if "entries (rt_http3Settings rt) = []"
    using that by (simp add: mapGet_def)
  ultimately show ?thesis
    by (cases "mapGet (rt_http3Settings rt) k")
      (auto simp: getHttp3Settings_def mapGet_def [of "Some _"] mapGet_def [of None] entries_def [of "Some _"]
        entries_def [of None] mapGet_fold)
qed

lemma http3_fields_new:
  assumes "rt = fst (newRoundTripper H resumption lru args storage)"
  shows "rt_http3Settings rt = http3Settings (a_clientProfile args)"
    "rt_http3SettingsOrder rt = http3SettingsOrder (a_clientProfile args)"
    "rt_http3PriorityParam rt = http3PriorityParam (a_clientProfile args)"
  using assms by (simp_all add: newRoundTripper_def profile_getters Let_def split: prod.splits)

lemma keys_mapGet: "fst ` set (entries m) = {k. mapGet m k \<noteq> None}"
  unfolding mapGet_def dom_def [symmetric] by (rule dom_map_of_conv_image_fst [symmetric])

section \<open>Properties\<close>

text \<open>C8: every shipped profile builds legal ClientHellos. For each identifier of the table whose profile brings its own
  factory, the factory returns a specification unless the random source fails, and no extension
  occurs twice in it, \<open>pre_shared_key\<close> is last when it is there, and TLS 1.3 is offered exactly when
  key shares and a TLS 1.3 cipher suite are. \<open>ToSpec\<close> of \<open>utls\<close> runs the factory of an identifier that has one.\<close>

theorem profile_hellos_wellformed:
  assumes "(n, p) \<in> set (MappedTLSClients ToSpec ianaUtls ta)"
    and "\<forall>f. ToSpec (FactoryHello f) = SpecFactory f"
  shows "everyHello (wellformedHello ianaUtls) p"
  using table_groups [OF assms(1)] chrome_hello [of ta] safari_hello firefox_hello custom_hello [OF assms(2)]
  by (auto simp: list_all_iff)

theorem profile_hellos_wellformed_witness:
  "everyHello (wellformedHello ianaUtls) (Okhttp4Android13 (\<lambda>h. case h of FactoryHello f \<Rightarrow> SpecFactory f) ianaUtls)"
  by (rule profile_hellos_wellformed [of "''okhttp4_android_13''" _ "\<lambda>h. case h of FactoryHello f \<Rightarrow> SpecFactory f" "[]"])
    (simp_all add: MappedTLSClients_def)

text \<open>C26: one profile sends a key share for a group it does not offer. Take a profile of the table that brings its own
  factory (27 of the 83 identifiers name a built-in hello of \<^verbatim>\<open>utls\<close> instead, of which nothing is said). The factory fails only
  if the random source fails, and in every ClientHello it builds each key share is for a group of
  \<open>supported_groups\<close>, as RFC 8446 demands, except for \<open>NikeAndroidMobile\<close>: each of its hellos sends a share for a GREASE group that
  its groups do not contain.\<close>

theorem key_shares_offered_except_nike:
  assumes "(n, p) \<in> set (MappedTLSClients ToSpec ianaUtls ta)" and "clientHelloId p = FactoryHello f"
    and "\<forall>f. ToSpec (FactoryHello f) = SpecFactory f"
  shows "everySpec (\<lambda>spec. sharesOffered spec \<longleftrightarrow> p \<noteq> NikeAndroidMobile ianaUtls) f"
proof (cases "p = NikeAndroidMobile ianaUtls")
  case True
  then show ?thesis using assms(2)
    by (auto simp: NikeAndroidMobile_def NikeAndroidMobile_spec_def everySpec_def hello_checks)
next
  case False
  then have "everyHello sharesOffered p"
    using table_groups [OF assms(1)] chrome_shares [of ta] safari_shares firefox_shares custom_shares [OF assms(3)]
    by (auto simp: list_all_iff)
  then show ?thesis using assms(2) False by (simp add: everyHello_def)
qed

theorem key_shares_offered_except_nike_witness:
  "(\<exists>f. clientHelloId (Firefox_148 ianaUtls) = FactoryHello f \<and> everySpec sharesOffered f) \<and>
   (\<exists>f. clientHelloId (NikeAndroidMobile ianaUtls) = FactoryHello f \<and> everySpec (\<lambda>spec. \<not> sharesOffered spec) f)"
proof -
  let ?T = "\<lambda>h. case h of FactoryHello f \<Rightarrow> SpecFactory f"
  obtain f g where f: "clientHelloId (Firefox_148 ianaUtls) = FactoryHello f"
    and g: "clientHelloId (NikeAndroidMobile ianaUtls) = FactoryHello g"
    by (simp add: Firefox_148_def NikeAndroidMobile_def)
  have "Firefox_148 ianaUtls \<noteq> NikeAndroidMobile ianaUtls" by (simp add: Firefox_148_def NikeAndroidMobile_def)
  then have "everySpec sharesOffered f"
    using key_shares_offered_except_nike [of "''firefox_148''" _ ?T "[]", OF _ f] by (simp add: MappedTLSClients_def)
  moreover have "everySpec (\<lambda>spec. \<not> sharesOffered spec) g"
    using key_shares_offered_except_nike [of "''nike_android_mobile''" _ ?T "[]", OF _ g] by (simp add: MappedTLSClients_def)
  ultimately show ?thesis using f g by blast
qed

text \<open>C24: the HTTP/2 frames of every shipped profile are determined by it. Its order names each of its settings once
  and nothing else, and the pseudo headers of a request once each.\<close>

theorem profile_settings_complete:
  assumes "(n, p) \<in> set (MappedTLSClients ToSpec K ta)" and "settingVal K = ianaSetting"
  shows "settingsComplete p"
  using table_groups [OF assms(1)] chrome_settings [OF assms(2), of ta] safari_settings [OF assms(2)]
    firefox_settings [OF assms(2)] custom_settings [OF assms(2), of ToSpec]
  by (auto simp: list_all_iff)

theorem profile_settings_complete_witness:
  "settingsComplete (Chrome_150 ianaUtls)"
  by (rule profile_settings_complete [of "''chrome_150''" _ "\<lambda>_ _. Inl SpecPanic" ianaUtls "[]"])
    (simp_all add: MappedTLSClients_def ianaUtls_def)

text \<open>C9: a client with a shipped profile sends the HTTP/3 settings of the profile. Every HTTP/3 transport that its round
  tripper builds keeps the order of the profile, names every setting it has, none twice, and gives the
  settings of the profile their values.\<close>

theorem profile_http3_transport:
  assumes "(n, p) \<in> set (MappedTLSClients ToSpec K ta)" and "a_clientProfile args = p"
    and "rt = fst (newRoundTripper H resumption lru args storage)"
    and "buildHTTP3Transport pf (rtHttp3Config rt) = Inr t" and "greaseN pf < 9000000000"
  shows "distinct (t3_AdditionalSettingsOrder t) \<and>
    fst ` set (entries (t3_AdditionalSettings t)) \<subseteq> set (t3_AdditionalSettingsOrder t) \<and>
    take (length (http3SettingsOrder p)) (t3_AdditionalSettingsOrder t) = http3SettingsOrder p \<and>
    (\<forall>k \<in> set (http3SettingsOrder p). mapGet (t3_AdditionalSettings t) k = mapGet (http3Settings p) k)"
proof -
  have h3: "http3Complete p"
    using table_groups [OF assms(1)] chrome_http3 [of K ta] safari_http3 [of K] firefox_http3 [of K] custom_http3 [of ToSpec K]
    by (auto simp: list_all_iff)
  note f = http3_fields_new [OF assms(3), unfolded assms(2)]
  let ?cfg = "rtHttp3Config rt"
  have same: "mapGet (getHttp3Settings rt) = mapGet (http3Settings p)"
    using h3 mapGet_getHttp3Settings [of rt] by (auto simp: f http3Complete_def fun_eq_iff)
  have cfg: "c3_http3SettingsOrder ?cfg = http3SettingsOrder p" "c3_http3PriorityParam ?cfg = http3PriorityParam p"
    "mapGet (c3_http3Settings ?cfg) = mapGet (http3Settings p)"
    by (simp_all add: rtHttp3Config_def f same)
  have keys: "fst ` set (entries (c3_http3Settings ?cfg)) \<subseteq> set (http3SettingsOrder p)"
    using h3 by (simp add: keys_mapGet cfg http3Complete_def)
  note t = buildHTTP3Transport_settings [OF assms(4)]
  show ?thesis
  proof (cases "http3PriorityParam p > 0")
    case True
    with h3 h3_order_complete [OF t _ assms(5)] keys show ?thesis by (auto simp: cfg http3Complete_def)
  next
    case False
    then show ?thesis using t h3 keys by (auto simp: h3Settings_def cfg http3Complete_def)
  qed
qed

lemma h3_chrome_144_builds:
  "\<exists>t. buildHTTP3Transport samplePlatform
     (rtHttp3Config (fst (newRoundTripper memHpkp False 0 (sampleArgs\<lparr>a_clientProfile := Chrome_144 K\<rparr>) []))) = Inr t"
  by (simp add: buildHTTP3Transport_def h3Dial_def h3MaxResponseHeaderBytes_def rtHttp3Config_def newRoundTripper_def
      sampleArgs_def Let_def split: prod.splits)

theorem profile_http3_transport_witness:
  "\<exists>t. buildHTTP3Transport samplePlatform
     (rtHttp3Config (fst (newRoundTripper memHpkp False 0 (sampleArgs\<lparr>a_clientProfile := Chrome_144 ianaUtls\<rparr>) []))) = Inr t \<and>
     mapGet (t3_AdditionalSettings t) 7 = Some 100 \<and> take 4 (t3_AdditionalSettingsOrder t) = [1, 6, 7, 0x33]"
proof -
  let ?args = "sampleArgs\<lparr>a_clientProfile := Chrome_144 ianaUtls\<rparr>"
  from h3_chrome_144_builds obtain t where
    t: "buildHTTP3Transport samplePlatform (rtHttp3Config (fst (newRoundTripper memHpkp False 0 ?args []))) = Inr t" by blast
  have m: "(''chrome_144'', Chrome_144 ianaUtls) \<in> set (MappedTLSClients (\<lambda>_ _. Inl SpecPanic) ianaUtls [])"
    by (simp add: MappedTLSClients_def)
  have p: "http3SettingsOrder (Chrome_144 ianaUtls) = [1, 6, 7, 0x33]" "mapGet (http3Settings (Chrome_144 ianaUtls)) 7 = Some 100"
    by (simp_all add: Chrome_144_def mapGet_def entries_def)
  have g: "greaseN samplePlatform < 9000000000" by (simp add: samplePlatform_def)
  from profile_http3_transport [OF m _ refl t g] p t show ?thesis by (auto simp: eval_nat_numeral)
qed

end
