(* ===== verification/Spec2Isabelle.thy ===== *)
theory Spec2Isabelle
  imports Cffi CookieJar Socks5Udp Bandwidth Logging ProfileTable
begin

text \<open>
  A verification library for \<^verbatim>\<open>tls-client\<close>, an HTTP client for Go that imitates the TLS, HTTP/2 and HTTP/3 fingerprints
  of browsers. All file names are relative to \<^verbatim>\<open>src/\<close>.

  \<^bold>\<open>The program.\<close> A caller builds a client (\<^verbatim>\<open>client.go\<close>) from options (\<^verbatim>\<open>client_options.go\<close>). The client chooses a dialer,
  direct or through a proxy (\<^verbatim>\<open>connect.go\<close>), and a round tripper (\<^verbatim>\<open>roundtripper.go\<close>) made for a profile (\<^verbatim>\<open>profiles/\<close>). For
  the first request to an address the round tripper dials TLS, checks the pins (\<^verbatim>\<open>pinner.go\<close>), looks at the negotiated protocol,
  builds and caches a transport for it and stashes the connection for that transport to pick up. With racing enabled
  the protocol racer (\<^verbatim>\<open>racer.go\<close>) tries HTTP/3 and HTTP/2 at once and remembers the winner. HTTP/3 behind a proxy goes through a
  SOCKS5 UDP tunnel (\<^verbatim>\<open>socks5_udp.go\<close>). Profiles are literals, or are built from a JA3 string (\<^verbatim>\<open>ja3.go\<close>, \<^verbatim>\<open>mapper.go\<close>).
  The foreign interface (\<^verbatim>\<open>cffi_src/\<close>, \<^verbatim>\<open>cffi_dist/main.go\<close>) keeps clients in sessions and serves callers in other languages.

  \<^bold>\<open>The theories\<close>, in the order in which they build on each other:
  \<^item> \<open>Prelude\<close>: the integer types, the collections \<open>inv_intros\<close> and others, strings, bytes, decimal and hexadecimal numbers.
  \<^item> \<open>GoNet\<close>: what the sources use of \<^verbatim>\<open>net\<close> and \<^verbatim>\<open>net/url\<close>: addresses, host and port, URLs.
  \<^item> \<open>ExtData\<close>: \<^verbatim>\<open>utils.go\<close>, \<^verbatim>\<open>profiles/grease.go\<close>, \<^verbatim>\<open>profiles/extension_data.go\<close>. Random draws are arguments. Lemmas: the
    form and bounds of GREASE values; rebuilding a trust anchors payload permutes its records.
  \<^item> \<open>Bandwidth\<close>, \<open>Logging\<close>, \<open>CookieJar\<close>: \<^verbatim>\<open>bandwidth/\<close>, \<^verbatim>\<open>logger.go\<close>, \<^verbatim>\<open>jar.go\<close>. Lemmas: counters are sums of the traffic; the jar
    refines a table of names and never holds a name twice.
  \<^item> \<open>Socks5Udp\<close>: \<^verbatim>\<open>socks5_udp.go\<close>: the handshake, authentication, UDP association, the codec of datagrams, the packet
    connection. Lemmas: round trips, exact success conditions, nothing stays open after an error.
  \<^item> \<open>Profiles\<close>: the data of \<^verbatim>\<open>utls\<close> and \<^verbatim>\<open>fhttp\<close> that profiles are made of, and the type of \<^verbatim>\<open>profiles/profiles.go\<close>.
    \<open>ProfilesInternal\<close>, \<open>ProfilesContributed\<close>, \<open>ProfilesCustom\<close>: every profile literal of the repository. \<open>ProfileTable\<close>: the
    table of identifiers, and what holds of every profile in it.
  \<^item> \<open>Ja3\<close>: \<^verbatim>\<open>mapper.go\<close> and \<^verbatim>\<open>ja3.go\<close>. Lemmas: a printed JA3 string is read back exactly; the exact condition of a panic.
  \<^item> \<open>Pinner\<close>: \<^verbatim>\<open>pinner.go\<close> over the storage of the package \<^verbatim>\<open>hpkp\<close>, which is process wide and given by its documented laws.
  \<^item> \<open>Transports\<close>: the HTTP/3 transport and the options shared by all transports.
  \<^item> \<open>ConnectDialer\<close>: \<^verbatim>\<open>connect.go\<close>.
  \<^item> \<open>RoundTripper\<close>: \<^verbatim>\<open>roundtripper.go\<close>. Transports are heap cells with pointers, since the code compares them by identity; the
    maps of cached transports, kinds and stashed connections are explicit. Lemmas: the invariant of the maps over every
    history of requests, which connections leak, and the ways in which the maps can disagree.
  \<^item> \<open>Racer\<close>: \<^verbatim>\<open>racer.go\<close> and \<open>RoundTrip\<close>. The racer uses the round tripper through a locale (\<open>transport_source\<close>) that is
    interpreted on it: asking for a transport refines the relation \<open>acquires\<close> on the maps. Concurrent requests are a step relation whose
    steps are the sections of the code that hold a lock, with the racer that the round tripper holds; it also has the HTTP/3
    transports of single attempts. The name under which a transport of \<^verbatim>\<open>fhttp\<close> dials for a request is the argument
    \<open>dialName\<close>: what holds only when it is the address the transport is cached for says so.
  \<^item> \<open>Client\<close>: \<^verbatim>\<open>client.go\<close>, \<^verbatim>\<open>client_options.go\<close>, \<^verbatim>\<open>websocket.go\<close>, \<^verbatim>\<open>websocket_options.go\<close>. Lemmas: the invariant of a client under
    every operation; hooks, errors and panics of a request.
  \<^item> \<open>Cffi\<close>: \<^verbatim>\<open>cffi_src/\<close> and \<^verbatim>\<open>cffi_dist/main.go\<close>. Lemmas: the memory handed out over every history of calls, streaming to
    files, sessions.
  \<^item> This theory: the properties of the client put together.

  \<^bold>\<open>How code becomes definitions.\<close> A struct is a record, an enumeration or an interface with known implementations a
  datatype, a function returns its result and the changed state. Errors are values of a sum type with one
  constructor per kind of error; the value \<open>Panicked\<close> or an error constructor named \<open>Panic\<close> is a Go panic, \<open>Blocked\<close> is a call
  that never returns. Integers are words of their width where they can overflow. A Go map is a function or an
  association list whose order means nothing, with \<^const>\<open>None\<close> for nil where the code distinguishes it. Code outside the
  repository (\<^verbatim>\<open>utls\<close>, \<^verbatim>\<open>fhttp\<close>, \<^verbatim>\<open>quic-go\<close>, \<^verbatim>\<open>hpkp\<close>, the network, the clock, randomness, JSON, files) is an argument of the
  definitions that use it. The constants of \<^verbatim>\<open>utls\<close> are a record \<open>utls\<close>; statements that need values use those of IANA.

  \<^bold>\<open>Loops.\<close> Loops over data are structural recursions or have a measure. The only loop without a bound of its own, streaming a
  body to a file, is a partial function, and its theorem says for which block sizes it ends. There is no fuel.

  \<^bold>\<open>Not modelled.\<close> The programs under \<^verbatim>\<open>example/\<close>, the tests, the callers in other languages under \<^verbatim>\<open>cffi_dist/\<close>; log
  lines; the parts of a request that \<^verbatim>\<open>net/http.Client\<close> and the transports of \<^verbatim>\<open>fhttp\<close> and \<^verbatim>\<open>quic-go\<close> do (redirects,
  framing, congestion), which are arguments; the cancellation of contexts and the length of sleeps; closing idle
  connections, which only forwards to those transports; the text of JSON; what a post-response hook does to the response behind its pointer,
  and buffers too large to allocate.
\<close>

section \<open>Properties of the composed client\<close>

text \<open>C1: a client with a proxy never uses HTTP/3 around it. Build a client with any options, let any history of
  \<open>SetProxy\<close> and the other setters run that does not panic, and then any interleaving of concurrent requests, raced or
  not, under whatever names the transports dial: if the client reports a proxy, every HTTP/3 transport there
  is, cached or built for a single attempt of a race, dials through exactly that proxy, and the proxy is a SOCKS5 one.\<close>

theorem client_http3_stays_proxied:
  assumes "NewHttpClient env profile logger options storage = (Inr c0, storage0)"
    and "applyOps env ops (c0, storage0) = Some (c, storage')"
    and "steps dialName es (startMachine (cl_Transport c)) m"
    and "GetProxy c \<noteq> []" and "t3 \<in> http3Transports m"
  shows "t3_Dial t3 = Some (GetProxy c) \<and>
    (\<exists>u. url_Parse (GetProxy c) = Inr u \<and> (Scheme u = ''socks5'' \<or> Scheme u = ''socks5h''))"
proof -
  have inv: "client_inv c" by (rule client_inv_applyOps [OF client_inv_New [OF assms(1)] assms(2)])
  then have "machine_inv (startMachine (cl_Transport c))" by (simp add: client_inv_def machine_inv_start)
  note m = machine_inv_steps [OF assms(3) this]
  have "rt_proxyURL (m_rt m) = GetProxy c" using m inv by (simp add: startMachine_def client_inv_def)
  then have "h3Dial (GetProxy c) = Inr (t3_Dial t3)" using m machine_inv_http3 [of m t3] assms(5) by simp
  from h3Dial_cases [OF this] assms(4) show ?thesis by blast
qed

text \<open>A racing client behind a SOCKS5 proxy, and its first attempt over HTTP/3.\<close>

lemma socks_client_sample:
  "\<exists>c0 s0 pr t3. NewHttpClient sampleClientEnv sampleProfile None [WithProxyUrl ''socks5://p:1080'', WithProtocolRacing] [] = (Inr c0, s0) \<and>
     GetProxy c0 = ''socks5://p:1080'' \<and> races (sampleReq ''https'') (cl_Transport c0) = Some pr \<and>
     buildHTTP3Transport samplePlatform (getHTTP3Config pr) = Inr t3"
proof -
  have u: "url_Parse ''socks5://p:1080'' = Inr (emptyURL\<lparr>Scheme := ''socks5'', Host := ''p:1080''\<rparr>)" by code_simp
  have x: "extractProxyScheme ''socks5://p:1080'' = ''socks5''" by code_simp
  have h: "h3Dial ''socks5://p:1080'' = Inr (Some ''socks5://p:1080'')" by code_simp
  have "\<exists>d. newConnectDialer f ''socks5://p:1080'' t a nd h = Inr d" for f t a nd h
    by (simp add: newConnectDialer_def u handleSocks5ProxyDialer_def Let_def emptyURL_def)
  then obtain d where d: "newConnectDialer (ce_fromURL sampleClientEnv) ''socks5://p:1080'' (sint (30 * second)) None
      \<lparr>dialerToken = 0, DialTimeout = 0, LocalAddr = None\<rparr> (Some []) = Inr d" by blast
  have s: "toLower (Scheme (reqURL (sampleReq ''https''))) = ''https''"
    by (simp add: sampleReq_def toLower_def lowerChar_def)
  from d show ?thesis
    by (auto simp: NewHttpClient_def defaultConfig_def WithProxyUrl_def WithProtocolRacing_def validateConfig_def
        validateProxyConfig_def x buildFromConfig_def chooseDialer_def GetProxy_def buildTransport_def
        newRoundTripper_def rtArgsOf_def races_def s newProtocolRacer_def getHTTP3Config_def
        buildHTTP3Transport_def h h3Settings_def h3MaxResponseHeaderBytes_def sampleProfile_def Let_def split: prod.splits)
qed

theorem client_http3_stays_proxied_witness:
  "\<exists>(c0 :: nat httpClient) s0 c s (e :: ((string \<times> Header) list, string) event) m t3.
     NewHttpClient sampleClientEnv sampleProfile None [WithProxyUrl ''socks5://p:1080'', WithProtocolRacing] [] = (Inr c0, s0) \<and>
     applyOps sampleClientEnv [OpSetFollowRedirect True] (c0, s0) = Some (c, s) \<and>
     steps getDialTLSAddr [e] (startMachine (cl_Transport c)) m \<and> t3 \<in> http3Transports m \<and>
     t3_Dial t3 = Some ''socks5://p:1080''"
proof -
  from socks_client_sample obtain c0 :: "nat httpClient" and s0 pr t3
    where n: "NewHttpClient sampleClientEnv sampleProfile None [WithProxyUrl ''socks5://p:1080'', WithProtocolRacing] [] = (Inr c0, s0)"
      and p: "GetProxy c0 = ''socks5://p:1080''" and r: "races (sampleReq ''https'') (cl_Transport c0) = Some pr"
      and b: "buildHTTP3Transport samplePlatform (getHTTP3Config pr) = Inr t3" by blast
  let ?c = "SetFollowRedirect True c0" and ?e = "Attempt3 samplePlatform (sampleReq ''https'') :: ((string \<times> Header) list, string) event"
  have o: "applyOps sampleClientEnv [OpSetFollowRedirect True] (c0, s0) = Some (?c, s0)" by (simp add: applyOps_def)
  have g: "GetProxy ?c = ''socks5://p:1080''" "cl_Transport ?c = cl_Transport c0"
    using p by (simp_all add: SetFollowRedirect_def applyFollowRedirect_def GetProxy_def Let_def split: option.splits)
  let ?start = "startMachine (cl_Transport ?c)"
  let ?m = "?start\<lparr>attempts := insert (sampleReq ''https'', t3) (attempts ?start)\<rparr>"
  have "step getDialTLSAddr ?e ?start ?m" by (rule step.attempted [OF _ b]) (simp add: startMachine_def g r)
  from steps.more [OF steps.none this] have st: "steps getDialTLSAddr [?e] ?start ?m" by simp
  have h: "t3 \<in> http3Transports ?m" by (simp add: http3Transports_def)
  have "t3_Dial t3 = Some ''socks5://p:1080''" using client_http3_stays_proxied [OF n o st _ h] g by simp
  with n o st h show ?thesis by blast
qed

end
